(* ===== verification/Prelude.thy ===== *)
theory Prelude
  imports Main "HOL-Library.Word" "HOL-Library.Multiset" "HOL-Library.Char_ord" "HOL-Library.List_Lexorder" "HOL-Library.Product_Lexorder"
begin

text \<open>
  Shared vocabulary of the development: the result type of a fallible Go function, the
  generic facts on lists and options that the components use, and the contract of a
  component that moves through states by steps (\<open>stepper\<close>), whose interpretations
  give each component its invariants over every run of its operations.
\<close>

section \<open>Results of fallible operations\<close>

text \<open>A Go pair \<open>(T, error)\<close>: \<open>Inl e\<close> is a non-nil error, \<open>Inr x\<close> a value.\<close>

type_synonym ('e, 'a) result = "'e + 'a"

definition is_ok :: "('e, 'a) result \<Rightarrow> bool" where
  "is_ok r = (case r of Inl _ \<Rightarrow> False | Inr _ \<Rightarrow> True)"

lemma is_ok_simps [simp]: "is_ok (Inr x)" "\<not> is_ok (Inl e)"
  by (simp_all add: is_ok_def)

lemma is_okE: "is_ok r \<Longrightarrow> (\<And>x. r = Inr x \<Longrightarrow> P) \<Longrightarrow> P"
  by (cases r) auto

text \<open>
  The shape \<open>x, err := f(); if err != nil { return err }\<close>, a guard that returns an
  error, and a lookup that reports one.
\<close>

definition and_then :: "('e, 'a) result \<Rightarrow> ('a \<Rightarrow> ('e, 'b) result) \<Rightarrow> ('e, 'b) result" where
  "and_then r f = (case r of Inl e \<Rightarrow> Inl e | Inr x \<Rightarrow> f x)"

definition ensure :: "'e \<Rightarrow> bool \<Rightarrow> ('e, unit) result" where
  "ensure e b = (if b then Inr () else Inl e)"

definition require :: "'e \<Rightarrow> 'a option \<Rightarrow> ('e, 'a) result" where
  "require e r = (case r of None \<Rightarrow> Inl e | Some x \<Rightarrow> Inr x)"

lemma and_then_simps [simp]: "and_then (Inr x) f = f x" "and_then (Inl e) f = Inl e"
  by (simp_all add: and_then_def)

lemma and_then_Inr_iff [simp]: "and_then r f = Inr y \<longleftrightarrow> (\<exists>x. r = Inr x \<and> f x = Inr y)"
  by (auto simp: and_then_def split: sum.splits)

lemma ensure_Inr_iff [simp]: "ensure e b = Inr u \<longleftrightarrow> b"
  by (simp add: ensure_def)

lemma ensure_Inl_iff [simp]: "ensure e b = Inl e' \<longleftrightarrow> \<not> b \<and> e' = e"
  by (auto simp: ensure_def)

lemma require_Inr_iff [simp]: "require e r = Inr x \<longleftrightarrow> r = Some x"
  by (auto simp: require_def split: option.splits)

lemma ensure_simps [simp]: "ensure e True = Inr ()" "ensure e False = Inl e"
  by (simp_all add: ensure_def)

lemma require_simps [simp]: "require e (Some x) = Inr x" "require e None = Inl e"
  by (simp_all add: require_def)

section \<open>Lists and options\<close>

lemma find_SomeD: "List.find P xs = Some x \<Longrightarrow> x \<in> set xs \<and> P x"
  by (auto simp: find_Some_iff)

lemma find_None_ball: "List.find P xs = None \<longleftrightarrow> (\<forall>x \<in> set xs. \<not> P x)"
  by (auto simp: find_None_iff)

lemma find_append:
  "List.find P (xs @ ys) = (case List.find P xs of Some x \<Rightarrow> Some x | None \<Rightarrow> List.find P ys)"
  by (induction xs) auto

lemma find_map_same: "(\<And>x. P (f x) = P x) \<Longrightarrow> List.find P (map f xs) = map_option f (List.find P xs)"
  by (induction xs) simp_all

lemma find_filter_const:
  "(\<And>x. P x \<Longrightarrow> Q x = c) \<Longrightarrow> List.find P (filter Q xs) = (if c then List.find P xs else None)"
  by (induction xs) auto

lemma find_ex: "list_ex P xs \<Longrightarrow> \<exists>x. List.find P xs = Some x \<and> P x"
  by (induction xs) auto

lemma sorted_map_last:
  assumes "x \<in> set xs" and "sorted (map key xs)" and "xs \<noteq> []"
  shows "key x \<le> key (last xs)"
  using assms
proof (induction xs)
  case (Cons a xs)
  then show ?case by (cases "xs = []") (auto intro: order_trans)
qed simp

lemma length_filter_eq_1D:
  assumes "length (filter P xs) = 1"
  shows "\<exists>x. filter P xs = [x] \<and> x \<in> set xs \<and> P x"
proof -
  from assms obtain x where x: "filter P xs = [x]"
    by (cases "filter P xs") auto
  then have "x \<in> set (filter P xs)" by (simp only: list.set) simp
  then have "x \<in> set xs \<and> P x" by (simp only: set_filter mem_Collect_eq)
  with x show ?thesis by auto
qed

lemma map_filter_append:
  "List.map_filter f (xs @ ys) = List.map_filter f xs @ List.map_filter f ys"
  by (simp add: List.map_filter_def)

lemma set_map_filter_iff: "k \<in> set (List.map_filter f xs) \<longleftrightarrow> (\<exists>x \<in> set xs. f x = Some k)"
  by (force simp: List.map_filter_def)

lemma notin_mapD: "x \<notin> set (map f xs) \<Longrightarrow> r \<in> set xs \<Longrightarrow> f r \<noteq> x"
  by auto

section \<open>Components that move by steps\<close>

text \<open>
  The contract every stateful component offers: a total step on its state for each
  operation, and an invariant that each step keeps. A run is the fold of the steps in
  the order in which the component's lock or transaction serialises them.
\<close>

locale stepper =
  fixes step :: "'s \<Rightarrow> 'op \<Rightarrow> 's" and inv :: "'s \<Rightarrow> bool"
  assumes inv_step: "inv s \<Longrightarrow> inv (step s op)"
begin

lemma run_inv: "inv s \<Longrightarrow> inv (foldl step s ops)"
  by (induction ops arbitrary: s) (auto intro: inv_step)

lemma run_prefix_inv: "inv s \<Longrightarrow> inv (foldl step s (take n ops))"
  by (rule run_inv)

end

text \<open>
  A stepper with a fact that, once true in a state that satisfies the invariant, stays
  true: final rows, revoked tokens, monotone counters.
\<close>

locale stable_stepper = stepper step inv
  for step :: "'s \<Rightarrow> 'op \<Rightarrow> 's" and inv :: "'s \<Rightarrow> bool" +
  fixes fact :: "'k \<Rightarrow> 's \<Rightarrow> bool"
  assumes fact_step: "inv s \<Longrightarrow> fact k s \<Longrightarrow> fact k (step s op)"
begin

lemma run_fact: "inv s \<Longrightarrow> fact k s \<Longrightarrow> fact k (foldl step s ops)"
proof (induction ops arbitrary: s)
  case (Cons op ops)
  then show ?case by (simp add: fact_step inv_step)
qed simp

lemma run_fact_between:
  assumes "inv s" and "fact k (foldl step s ops)"
  shows "fact k (foldl step s (ops @ more))"
  using run_fact [OF run_inv [OF assms(1)] assms(2)] by simp

end

end
