(* ===== verification/Go_Text.thy ===== *)
theory Go_Text
  imports Prelude
begin

text \<open>
  What the program uses of Go's \<open>strings\<close>, \<open>strconv\<close>, \<open>encoding/hex\<close> and
  \<open>unicode/utf8\<close>. A Go string is a sequence of bytes, so it is a \<open>string\<close> here
  with one \<open>char\<close> per byte. \<open>trim_space\<close> follows \<open>strings.TrimSpace\<close> on
  every byte string (all Unicode white space in its UTF-8 form); \<open>to_lower\<close>
  maps ASCII letters and the two non-ASCII runes whose lower case is ASCII, and leaves
  other non-ASCII bytes alone, which no comparison with the program's ASCII literals
  can tell from \<open>strings.ToLower\<close>.
\<close>

section \<open>Bytes\<close>

definition byte_of :: "char \<Rightarrow> int" where
  "byte_of c = of_char c"

definition byte_char :: "int \<Rightarrow> char" where
  "byte_char n = char_of n"

lemma byte_of_byte_char [simp]: "0 \<le> n \<Longrightarrow> n < 256 \<Longrightarrow> byte_of (byte_char n) = n"
  by (simp add: byte_of_def byte_char_def)

lemma byte_char_byte_of [simp]: "byte_char (byte_of c) = c"
  by (simp add: byte_of_def byte_char_def)

lemma byte_of_bounds [simp]: "byte_of c < 256" "0 \<le> byte_of c"
  by (cases c, simp add: byte_of_def horner_sum_simps)+

text \<open>Bytes are compared as integers when terms are evaluated.\<close>

lemma byte_of_nat: "byte_of c = int (of_char c)"
  by (simp only: byte_of_def of_nat_of_char)

lemma less_char_byte [code]: "(c::char) < d \<longleftrightarrow> byte_of c < byte_of d"
  by (simp only: byte_of_nat less_char_def of_nat_less_iff)

lemma less_eq_char_byte [code]: "(c::char) \<le> d \<longleftrightarrow> byte_of c \<le> byte_of d"
  by (simp only: byte_of_nat less_eq_char_def of_nat_le_iff)

lemma byte_char_eq_iff: "byte_char n = c \<longleftrightarrow> byte_of c = n mod 256"
  by (metis byte_char_byte_of byte_char_def byte_of_def of_char_of)

section \<open>White space\<close>

definition ascii_space :: "char \<Rightarrow> bool" where
  "ascii_space c \<longleftrightarrow> byte_of c = 32 \<or> (9 \<le> byte_of c \<and> byte_of c \<le> 13)"

definition two_byte_space :: "char \<Rightarrow> char \<Rightarrow> bool" where
  "two_byte_space a b \<longleftrightarrow> byte_of a = 0xC2 \<and> (byte_of b = 0x85 \<or> byte_of b = 0xA0)"

definition three_byte_space :: "char \<Rightarrow> char \<Rightarrow> char \<Rightarrow> bool" where
  "three_byte_space a b c \<longleftrightarrow>
     byte_of a = 0xE1 \<and> byte_of b = 0x9A \<and> byte_of c = 0x80 \<or>
     byte_of a = 0xE2 \<and> byte_of b = 0x80 \<and>
       (0x80 \<le> byte_of c \<and> byte_of c \<le> 0x8A \<or> byte_of c = 0xA8 \<or> byte_of c = 0xA9 \<or> byte_of c = 0xAF) \<or>
     byte_of a = 0xE2 \<and> byte_of b = 0x81 \<and> byte_of c = 0x9F \<or>
     byte_of a = 0xE3 \<and> byte_of b = 0x80 \<and> byte_of c = 0x80"

text \<open>The number of bytes of the white-space rune a string starts with, 0 if none.\<close>

definition lead_space :: "string \<Rightarrow> nat" where
  "lead_space s = (case s of [] \<Rightarrow> 0 | a # t \<Rightarrow>
     if ascii_space a then 1 else
     (case t of [] \<Rightarrow> 0 | b # u \<Rightarrow>
        if two_byte_space a b then 2 else
        (case u of [] \<Rightarrow> 0 | c # _ \<Rightarrow> if three_byte_space a b c then 3 else 0)))"

text \<open>The same for the rune a string ends with; the argument is the reversed string.\<close>

definition tail_space :: "string \<Rightarrow> nat" where
  "tail_space s = (case s of [] \<Rightarrow> 0 | a # t \<Rightarrow>
     if ascii_space a then 1 else
     (case t of [] \<Rightarrow> 0 | b # u \<Rightarrow>
        if two_byte_space b a then 2 else
        (case u of [] \<Rightarrow> 0 | c # _ \<Rightarrow> if three_byte_space c b a then 3 else 0)))"

lemma lead_space_Nil [simp]: "lead_space [] = 0"
  by (simp add: lead_space_def)

lemma tail_space_Nil [simp]: "tail_space [] = 0"
  by (simp add: tail_space_def)

function trim_left :: "string \<Rightarrow> string" where
  "trim_left s = (if lead_space s = 0 then s else trim_left (drop (lead_space s) s))"
  by pat_completeness auto
termination
proof (relation "measure length")
  fix s :: string
  assume "lead_space s \<noteq> 0"
  then have "s \<noteq> []" by auto
  with \<open>lead_space s \<noteq> 0\<close> show "(drop (lead_space s) s, s) \<in> measure length" by simp
qed simp

function trim_tail :: "string \<Rightarrow> string" where
  "trim_tail s = (if tail_space s = 0 then s else trim_tail (drop (tail_space s) s))"
  by pat_completeness auto
termination
proof (relation "measure length")
  fix s :: string
  assume "tail_space s \<noteq> 0"
  then have "s \<noteq> []" by auto
  with \<open>tail_space s \<noteq> 0\<close> show "(drop (tail_space s) s, s) \<in> measure length" by simp
qed simp

declare trim_left.simps [simp del] trim_tail.simps [simp del]

definition trim_space :: "string \<Rightarrow> string" where
  "trim_space s = rev (trim_tail (rev (trim_left s)))"

lemma trim_left_no_lead [simp]: "lead_space (trim_left s) = 0"
  by (induction s rule: trim_left.induct) (subst trim_left.simps, simp)

lemma trim_tail_no_tail [simp]: "tail_space (trim_tail s) = 0"
  by (induction s rule: trim_tail.induct) (subst trim_tail.simps, simp)

lemma trim_left_fix: "lead_space s = 0 \<Longrightarrow> trim_left s = s"
  by (simp add: trim_left.simps)

lemma trim_tail_fix: "tail_space s = 0 \<Longrightarrow> trim_tail s = s"
  by (simp add: trim_tail.simps)

lemma trim_tail_suffix: "\<exists>p. s = p @ trim_tail s"
proof (induction s rule: trim_tail.induct)
  case (1 s)
  show ?case
  proof (cases "tail_space s = 0")
    case True
    then show ?thesis by (simp add: trim_tail_fix)
  next
    case False
    with 1 obtain p where "drop (tail_space s) s = p @ trim_tail (drop (tail_space s) s)" by blast
    moreover have "trim_tail s = trim_tail (drop (tail_space s) s)"
      using False by (subst trim_tail.simps) simp
    ultimately have "s = (take (tail_space s) s @ p) @ trim_tail s"
      by (metis append.assoc append_take_drop_id)
    then show ?thesis by blast
  qed
qed

text \<open>Cutting a string on the right cannot make it start with white space.\<close>

lemma lead_space_prefix: "lead_space (s @ t) = 0 \<Longrightarrow> lead_space s = 0"
  by (auto simp: lead_space_def split: list.splits if_splits)

lemma trim_space_idem [simp]: "trim_space (trim_space s) = trim_space s"
proof -
  obtain p where p: "rev (trim_left s) = p @ trim_tail (rev (trim_left s))"
    using trim_tail_suffix by blast
  then have "trim_left s = rev (trim_tail (rev (trim_left s))) @ rev p"
    by (metis rev_append rev_rev_ident)
  then have "lead_space (trim_space s) = 0"
    using lead_space_prefix trim_left_no_lead unfolding trim_space_def by metis
  then have "trim_left (trim_space s) = trim_space s" by (rule trim_left_fix)
  then show ?thesis by (simp add: trim_space_def trim_tail_fix)
qed

text \<open>Strings of visible ASCII characters have nothing to trim.\<close>

definition visible :: "string \<Rightarrow> bool" where
  "visible s \<longleftrightarrow> list_all (\<lambda>c. 33 \<le> byte_of c \<and> byte_of c \<le> 126) s"

lemma visible_Nil [simp]: "visible []"
  by (simp add: visible_def)

lemma visible_append [simp]: "visible (s @ t) \<longleftrightarrow> visible s \<and> visible t"
  by (simp add: visible_def)

lemma not_space_visible:
  assumes "33 \<le> byte_of a" and "byte_of a \<le> 126"
  shows "\<not> ascii_space a" and "\<not> two_byte_space a b" and "\<not> two_byte_space b a"
    and "\<not> three_byte_space a b c" and "\<not> three_byte_space c b a"
  using assms by (auto simp: ascii_space_def two_byte_space_def three_byte_space_def)

lemma lead_space_visible: "visible s \<Longrightarrow> lead_space s = 0"
  by (cases s) (simp_all add: lead_space_def visible_def not_space_visible split: list.split)

lemma tail_space_visible_rev: "visible s \<Longrightarrow> tail_space s = 0"
  by (cases s) (simp_all add: tail_space_def visible_def not_space_visible split: list.split)

lemma tail_space_visible: "visible s \<Longrightarrow> tail_space (rev s) = 0"
  by (rule tail_space_visible_rev) (simp add: visible_def)

lemma trim_space_visible: "visible s \<Longrightarrow> trim_space s = s"
  by (simp add: trim_space_def trim_left_fix trim_tail_fix lead_space_visible tail_space_visible)

lemma trim_space_Nil [simp]: "trim_space [] = []"
  by (simp add: trim_space_visible)

section \<open>Case\<close>

function to_lower :: "string \<Rightarrow> string" where
  "to_lower [] = []"
| "to_lower (a # s) =
     (if 0x41 \<le> byte_of a \<and> byte_of a \<le> 0x5A then byte_char (byte_of a + 32) # to_lower s
      else if byte_of a = 0xE2 \<and> map byte_of (take 2 s) = [0x84, 0xAA] then CHR ''k'' # to_lower (drop 2 s)
      else if byte_of a = 0xC4 \<and> map byte_of (take 1 s) = [0xB0] then CHR ''i'' # to_lower (drop 1 s)
      else a # to_lower s)"
  by pat_completeness auto
termination
  by (relation "measure length") auto

section \<open>Searching\<close>

definition has_prefix :: "string \<Rightarrow> string \<Rightarrow> bool" where
  "has_prefix s p \<longleftrightarrow> take (length p) s = p"

fun str_contains :: "string \<Rightarrow> string \<Rightarrow> bool" where
  "str_contains [] sub = (sub = [])"
| "str_contains (c # s) sub = (has_prefix (c # s) sub \<or> str_contains s sub)"

lemma has_prefix_append [simp]: "has_prefix (p @ s) p"
  by (simp add: has_prefix_def)

text \<open>\<open>strings.Cut\<close> at one byte: the text before it, the text after it, whether it was found.\<close>

fun cut_at :: "char \<Rightarrow> string \<Rightarrow> string \<times> string \<times> bool" where
  "cut_at c [] = ([], [], False)"
| "cut_at c (d # s) = (if d = c then ([], s, True)
     else (case cut_at c s of (a, b, f) \<Rightarrow> (d # a, b, f)))"

text \<open>The text after the last occurrence of a byte (\<open>strings.LastIndex\<close> and a slice).\<close>

fun after_last :: "char \<Rightarrow> string \<Rightarrow> string option" where
  "after_last c [] = None"
| "after_last c (d # s) = (case after_last c s of Some t \<Rightarrow> Some t
     | None \<Rightarrow> if d = c then Some s else None)"

text \<open>\<open>strings.TrimRight(s, cutset)\<close> for an ASCII cutset.\<close>

definition trim_right_set :: "string \<Rightarrow> string \<Rightarrow> string" where
  "trim_right_set cutset s = rev (dropWhile (\<lambda>c. c \<in> set cutset) (rev s))"

text \<open>\<open>strings.Split\<close> at one byte.\<close>

fun split_char :: "char \<Rightarrow> string \<Rightarrow> string list" where
  "split_char c [] = [[]]"
| "split_char c (d # s) = (if d = c then [] # split_char c s
     else (case split_char c s of [] \<Rightarrow> [[d]] | w # ws \<Rightarrow> (d # w) # ws))"

definition has_suffix :: "string \<Rightarrow> string \<Rightarrow> bool" where
  "has_suffix s p \<longleftrightarrow> has_prefix (rev s) (rev p)"

definition trim_suffix :: "string \<Rightarrow> string \<Rightarrow> string" where
  "trim_suffix s p = (if has_suffix s p then take (length s - length p) s else s)"

text \<open>\<open>strings.Fields\<close>, with the word read so far.\<close>

function fields_from :: "string \<Rightarrow> string \<Rightarrow> string list" where
  "fields_from cur [] = (if cur = [] then [] else [cur])"
| "fields_from cur (c # s) =
     (if lead_space (c # s) = 0 then fields_from (cur @ [c]) s
      else (if cur = [] then [] else [cur]) @ fields_from [] (drop (lead_space (c # s)) (c # s)))"
  by pat_completeness auto
termination
  by (relation "measure (length \<circ> snd)") auto

definition str_fields :: "string \<Rightarrow> string list" where
  "str_fields s = fields_from [] s"

fun join_space :: "string list \<Rightarrow> string" where
  "join_space [] = []"
| "join_space [w] = w"
| "join_space (w # v # ws) = w @ '' '' @ join_space (v # ws)"

section \<open>Numbers and hexadecimal text\<close>

definition int64_max :: int where
  "int64_max = 9223372036854775807"

definition wrap64 :: "int \<Rightarrow> int" where
  "wrap64 n = (n + 9223372036854775808) mod 18446744073709551616 - 9223372036854775808"

definition is_digit :: "char \<Rightarrow> bool" where
  "is_digit c \<longleftrightarrow> 48 \<le> byte_of c \<and> byte_of c \<le> 57"

definition digits_value :: "string \<Rightarrow> int" where
  "digits_value s = foldl (\<lambda>n c. 10 * n + (byte_of c - 48)) 0 s"

text \<open>
  \<open>strconv.ParseInt(s, 10, 64)\<close>: the value and whether there was no error; 0 on a syntax
  error and the nearest bound when out of range.
\<close>

definition parse_int :: "string \<Rightarrow> int \<times> bool" where
  "parse_int s =
     (let (neg, d) = (case s of [] \<Rightarrow> (False, []) | c # t \<Rightarrow>
            if c = CHR ''-'' then (True, t) else if c = CHR ''+'' then (False, t) else (False, s))
      in if d = [] \<or> \<not> list_all is_digit d then (0, False)
         else let n = digits_value d in
           if neg then (if int64_max + 1 < n then (- int64_max - 1, False) else (- n, True))
           else (if int64_max < n then (int64_max, False) else (n, True)))"

definition digit_char :: "int \<Rightarrow> char" where
  "digit_char n = byte_char (48 + n)"

function show_dec :: "int \<Rightarrow> string" where
  "show_dec n = (if n < 10 then [digit_char n] else show_dec (n div 10) @ [digit_char (n mod 10)])"
  by pat_completeness auto
termination
  by (relation "measure nat") auto

declare show_dec.simps [simp del]

text \<open>\<open>strconv.Itoa\<close> and the verb \<open>%d\<close>.\<close>

definition show_int :: "int \<Rightarrow> string" where
  "show_int i = (if i < 0 then CHR ''-'' # show_dec (- i) else show_dec i)"

definition hex_digit :: "int \<Rightarrow> char" where
  "hex_digit n = byte_char (if n < 10 then 48 + n else 87 + n)"

definition hex_encode :: "string \<Rightarrow> string" where
  "hex_encode s = concat (map (\<lambda>c. [hex_digit (byte_of c div 16), hex_digit (byte_of c mod 16)]) s)"

lemma hex_digit_visible: "0 \<le> n \<Longrightarrow> n < 16 \<Longrightarrow> visible [hex_digit n]"
  by (auto simp: visible_def hex_digit_def)

lemma visible_hex_encode [simp]: "visible (hex_encode s)"
proof (induction s)
  case (Cons c s)
  have "byte_of c div 16 < 16" and "byte_of c mod 16 < 16" and "0 \<le> byte_of c div 16" and "0 \<le> byte_of c mod 16"
    using byte_of_bounds [of c] by presburger+
  then have "visible [hex_digit (byte_of c div 16)]" and "visible [hex_digit (byte_of c mod 16)]"
    by (auto intro: hex_digit_visible)
  with Cons show ?case by (simp add: hex_encode_def visible_def)
qed (simp add: hex_encode_def)

section \<open>Runes\<close>

text \<open>
  The length in bytes of the first rune, as \<open>utf8.DecodeRune\<close> counts it: 1 for a
  byte that starts no valid encoding.
\<close>

definition cont_byte :: "int \<Rightarrow> bool" where
  "cont_byte b \<longleftrightarrow> 0x80 \<le> b \<and> b \<le> 0xBF"

definition rune_len :: "int list \<Rightarrow> nat" where
  "rune_len bs = (case bs of [] \<Rightarrow> 0 | a # t \<Rightarrow>
     (case t of [] \<Rightarrow> 1 | b # u \<Rightarrow>
        if 0xC2 \<le> a \<and> a \<le> 0xDF \<and> cont_byte b then 2
        else (case u of [] \<Rightarrow> 1 | c # v \<Rightarrow>
          if cont_byte c \<and>
             (a = 0xE0 \<and> 0xA0 \<le> b \<and> b \<le> 0xBF \<or>
              (0xE1 \<le> a \<and> a \<le> 0xEC \<or> a = 0xEE \<or> a = 0xEF) \<and> cont_byte b \<or>
              a = 0xED \<and> 0x80 \<le> b \<and> b \<le> 0x9F) then 3
          else (case v of [] \<Rightarrow> 1 | d # _ \<Rightarrow>
            if cont_byte c \<and> cont_byte d \<and>
               (a = 0xF0 \<and> 0x90 \<le> b \<and> b \<le> 0xBF \<or>
                0xF1 \<le> a \<and> a \<le> 0xF3 \<and> cont_byte b \<or>
                a = 0xF4 \<and> 0x80 \<le> b \<and> b \<le> 0x8F) then 4
            else 1))))"

lemma rune_len_pos: "bs \<noteq> [] \<Longrightarrow> 0 < rune_len bs"
  by (auto simp: rune_len_def split: list.splits)

function count_runes :: "int list \<Rightarrow> nat" where
  "count_runes bs = (if bs = [] then 0 else Suc (count_runes (drop (rune_len bs) bs)))"
  by pat_completeness auto
termination
proof (relation "measure length")
  fix bs :: "int list"
  assume "bs \<noteq> []"
  with rune_len_pos [OF this] show "(drop (rune_len bs) bs, bs) \<in> measure length" by simp
qed simp

declare count_runes.simps [simp del]

text \<open>\<open>len([]rune(s))\<close>.\<close>

definition rune_count :: "string \<Rightarrow> nat" where
  "rune_count s = count_runes (map byte_of s)"

lemma count_runes_le: "count_runes bs \<le> length bs"
proof (induction bs rule: count_runes.induct)
  case (1 bs)
  show ?case
  proof (cases "bs = []")
    case True
    then show ?thesis by (simp add: count_runes.simps)
  next
    case False
    then have "0 < rune_len bs" by (rule rune_len_pos)
    with 1 [OF False] False show ?thesis by (subst count_runes.simps) (auto simp: neq_Nil_conv)
  qed
qed

lemma rune_count_le_length: "rune_count s \<le> length s"
  using count_runes_le [of "map byte_of s"] by (simp add: rune_count_def)

end
