(* ===== verification/Go_Time.thy ===== *)
theory Go_Time
  imports Go_Text
begin

text \<open>
  What the program uses of Go's \<open>time\<close> package. An instant is its number of
  nanoseconds since 1970-01-01 00:00:00 UTC. \<open>format_time\<close> is the text
  \<open>time.RFC3339Nano\<close> gives for it, which the control plane stores in its text
  columns and which SQLite compares byte by byte in \<open>ORDER BY\<close> and \<open>>=\<close>.
\<close>

type_synonym instant = int
type_synonym duration = int

definition second :: duration where
  "second = 1000000000"

definition minute :: duration where
  "minute = 60 * second"

definition hour :: duration where
  "hour = 60 * minute"

text \<open>The zero \<open>time.Time\<close> is 0001-01-01 00:00:00 UTC.\<close>

definition zero_time :: instant where
  "zero_time = - 62135596800 * second"

definition is_zero :: "instant \<Rightarrow> bool" where
  "is_zero t \<longleftrightarrow> t = zero_time"

lemma second_pos [simp]: "0 < second"
  by (simp add: second_def)

section \<open>The calendar\<close>

text \<open>Day number (0 is 1970-01-01) to year, month and day of the proleptic Gregorian calendar.\<close>

definition civil_of_days :: "int \<Rightarrow> int \<times> int \<times> int" where
  "civil_of_days days =
     (let z = days + 719468;
          era = z div 146097;
          doe = z mod 146097;
          yoe = (doe - doe div 1460 + doe div 36524 - doe div 146096) div 365;
          doy = doe - (365 * yoe + yoe div 4 - yoe div 100);
          mp = (5 * doy + 2) div 153;
          d = doy - (153 * mp + 2) div 5 + 1;
          m = (if mp < 10 then mp + 3 else mp - 9);
          y = yoe + era * 400 + (if m \<le> 2 then 1 else 0)
      in (y, m, d))"

section \<open>RFC3339Nano\<close>

text \<open>Decimal digits of a number in at least \<open>w\<close> places.\<close>

definition pad_dec :: "nat \<Rightarrow> int \<Rightarrow> string" where
  "pad_dec w n = (let s = show_dec n in replicate (w - length s) CHR ''0'' @ s)"

definition show_year :: "int \<Rightarrow> string" where
  "show_year y = (if y < 0 then CHR ''-'' # pad_dec 4 (- y) else pad_dec 4 y)"

text \<open>The fraction of a second: nine digits with the trailing zeros cut, nothing for 0.\<close>

definition show_frac :: "int \<Rightarrow> string" where
  "show_frac ns = (if ns = 0 then []
     else CHR ''.'' # rev (dropWhile (\<lambda>c. c = CHR ''0'') (rev (pad_dec 9 ns))))"

definition format_time :: "instant \<Rightarrow> string" where
  "format_time t =
     (let secs = t div second; ns = t mod second;
          (y, m, d) = civil_of_days (secs div 86400); s = secs mod 86400
      in show_year y @ ''-'' @ pad_dec 2 m @ ''-'' @ pad_dec 2 d @ ''T'' @
         pad_dec 2 (s div 3600) @ '':'' @ pad_dec 2 (s mod 3600 div 60) @ '':'' @ pad_dec 2 (s mod 60) @
         show_frac ns @ ''Z'')"

text \<open>The fixed-width layout of \<open>clockNowUTC\<close>, which keeps all nine digits.\<close>

definition format_time_fixed :: "instant \<Rightarrow> string" where
  "format_time_fixed t =
     (let secs = t div second; ns = t mod second;
          (y, m, d) = civil_of_days (secs div 86400); s = secs mod 86400
      in show_year y @ ''-'' @ pad_dec 2 m @ ''-'' @ pad_dec 2 d @ ''T'' @
         pad_dec 2 (s div 3600) @ '':'' @ pad_dec 2 (s mod 3600 div 60) @ '':'' @ pad_dec 2 (s mod 60) @
         ''.'' @ pad_dec 9 ns @ ''Z'')"

end
