(* ===== verification/Sql_Table.thy ===== *)
theory Sql_Table
  imports Prelude
begin

text \<open>
  What the program's SQL statements do to one SQLite table. A table is the list of its
  rows in insertion order. A key is a function from a row to the tuple of the columns of
  a primary key, a \<open>UNIQUE\<close> constraint or a unique index; it is \<open>None\<close> for a row the
  constraint does not cover (a NULL column, or the \<open>WHERE\<close> of a partial index). An
  insert that would repeat a key is the constraint error \<open>None\<close>. \<open>ORDER BY\<close> is a
  stable sort: rows with equal keys keep their insertion order.
\<close>

named_theorems sql_defs "definitions of the SQL statements"

type_synonym 'r key = "'r \<Rightarrow> string list option"

definition key_taken :: "'r key \<Rightarrow> 'r \<Rightarrow> 'r list \<Rightarrow> bool" where
  "key_taken k r rows = (case k r of None \<Rightarrow> False | Some v \<Rightarrow> list_ex (\<lambda>r'. k r' = Some v) rows)"

definition key_conflict :: "'r key list \<Rightarrow> 'r \<Rightarrow> 'r list \<Rightarrow> bool" where
  "key_conflict ks r rows = list_ex (\<lambda>k. key_taken k r rows) ks"

definition insert_row :: "'r key list \<Rightarrow> 'r \<Rightarrow> 'r list \<Rightarrow> 'r list option" where
  "insert_row ks r rows = (if key_conflict ks r rows then None else Some (rows @ [r]))"

text \<open>\<open>INSERT OR IGNORE\<close>: the new table and whether a row was inserted.\<close>

definition insert_ignore :: "'r key list \<Rightarrow> 'r \<Rightarrow> 'r list \<Rightarrow> 'r list \<times> bool" where
  "insert_ignore ks r rows =
     (case insert_row ks r rows of None \<Rightarrow> (rows, False) | Some rows' \<Rightarrow> (rows', True))"

definition update_where :: "('r \<Rightarrow> bool) \<Rightarrow> ('r \<Rightarrow> 'r) \<Rightarrow> 'r list \<Rightarrow> 'r list" where
  "update_where p f rows = map (\<lambda>r. if p r then f r else r) rows"

text \<open>\<open>RowsAffected\<close> of an update or a delete.\<close>

definition affected :: "('r \<Rightarrow> bool) \<Rightarrow> 'r list \<Rightarrow> nat" where
  "affected p rows = length (filter p rows)"

definition delete_where :: "('r \<Rightarrow> bool) \<Rightarrow> 'r list \<Rightarrow> 'r list" where
  "delete_where p rows = filter (\<lambda>r. \<not> p r) rows"

definition order_by :: "('r \<Rightarrow> 'k::linorder) \<Rightarrow> 'r list \<Rightarrow> 'r list" where
  "order_by key rows = sort_key key rows"

text \<open>Evaluation computes each key once.\<close>

lemma insort_key_decorated:
  "insort_key fst (key r, r) (map (\<lambda>r. (key r, r)) rows) = map (\<lambda>r. (key r, r)) (insort_key key r rows)"
  by (induction rows) simp_all

lemma order_by_code [code]: "order_by key rows = map snd (sort_key fst (map (\<lambda>r. (key r, r)) rows))"
proof -
  have "sort_key fst (map (\<lambda>r. (key r, r)) rows) = map (\<lambda>r. (key r, r)) (sort_key key rows)"
    by (induction rows) (simp_all add: insort_key_decorated)
  then show ?thesis by (simp add: order_by_def comp_def)
qed

section \<open>Uniqueness\<close>

definition unique_key :: "'r key \<Rightarrow> 'r list \<Rightarrow> bool" where
  "unique_key k rows = distinct (List.map_filter k rows)"

definition unique_keys :: "'r key list \<Rightarrow> 'r list \<Rightarrow> bool" where
  "unique_keys ks rows = list_all (\<lambda>k. unique_key k rows) ks"

lemma unique_keys_iff: "unique_keys ks rows \<longleftrightarrow> (\<forall>k \<in> set ks. unique_key k rows)"
  by (simp add: unique_keys_def list_all_iff)

lemma unique_key_Nil [simp]: "unique_key k []"
  by (simp add: unique_key_def List.map_filter_def)

lemma unique_keys_Nil [simp]: "unique_keys ks []"
  by (simp add: unique_keys_iff)

lemma unique_keysD: "unique_keys ks rows \<Longrightarrow> k \<in> set ks \<Longrightarrow> unique_key k rows"
  by (simp add: unique_keys_iff)

text \<open>Two rows of a table that share a key are the same row.\<close>

lemma unique_key_eq:
  assumes "unique_key k rows" and "r \<in> set rows" and "r' \<in> set rows"
    and "k r = Some v" and "k r' = Some v"
  shows "r = r'"
  using assms
proof (induction rows)
  case (Cons a rows)
  have notin: "\<And>x. x \<in> set rows \<Longrightarrow> k x = Some v \<Longrightarrow> k a \<noteq> Some v"
    using Cons.prems(1)
    by (auto simp: unique_key_def List.map_filter_simps set_map_filter_iff split: option.splits)
  have IH: "unique_key k rows"
    using Cons.prems(1) by (auto simp: unique_key_def List.map_filter_simps split: option.splits)
  from Cons.prems notin Cons.IH [OF IH] show ?case by auto
qed simp

lemma unique_key_append1:
  "unique_key k (rows @ [r]) \<longleftrightarrow> unique_key k rows \<and> \<not> key_taken k r rows"
  by (auto simp: unique_key_def key_taken_def map_filter_append List.map_filter_simps
      set_map_filter_iff list_ex_iff split: option.splits)

lemma insert_row_SomeD:
  "insert_row ks r rows = Some rows' \<Longrightarrow> rows' = rows @ [r] \<and> \<not> key_conflict ks r rows"
  by (auto simp: insert_row_def split: if_splits)

lemma insert_row_Some_iff:
  "insert_row ks r rows = Some rows' \<longleftrightarrow> \<not> key_conflict ks r rows \<and> rows' = rows @ [r]"
  by (auto simp: insert_row_def)

lemma insert_row_unique:
  "unique_keys ks rows \<Longrightarrow> insert_row ks r rows = Some rows' \<Longrightarrow> unique_keys ks rows'"
  by (auto dest!: insert_row_SomeD simp: unique_keys_iff unique_key_append1 key_conflict_def list_ex_iff)

lemma insert_row_None_iff:
  "insert_row ks r rows = None \<longleftrightarrow>
     (\<exists>k \<in> set ks. \<exists>r' \<in> set rows. \<exists>v. k r = Some v \<and> k r' = Some v)"
  by (auto simp: insert_row_def key_conflict_def key_taken_def list_ex_iff split: option.splits) force

lemma unique_key_map:
  assumes "unique_key k rows"
    and "\<And>r. r \<in> set rows \<Longrightarrow> k (f r) = k r \<or> k (f r) = None"
  shows "unique_key k (map f rows)"
  using assms
proof (induction rows)
  case (Cons a rows)
  have sub: "set (List.map_filter k (map f rows)) \<subseteq> set (List.map_filter k rows)"
    using Cons.prems(2) by (fastforce simp: set_map_filter_iff)
  have IH: "unique_key k (map f rows)"
    using Cons.prems by (intro Cons.IH) (auto simp: unique_key_def List.map_filter_simps split: option.splits)
  from Cons.prems(2) [of a] have "k (f a) = k a \<or> k (f a) = None" by simp
  then show ?case
    using Cons.prems(1) IH sub
    by (auto simp: unique_key_def List.map_filter_simps split: option.splits)
qed simp

lemma update_where_unique:
  assumes "unique_keys ks rows"
    and "\<And>k r. k \<in> set ks \<Longrightarrow> p r \<Longrightarrow> k (f r) = k r \<or> k (f r) = None"
  shows "unique_keys ks (update_where p f rows)"
proof -
  have "unique_key k (map (\<lambda>r. if p r then f r else r) rows)" if "k \<in> set ks" for k
    using assms that by (intro unique_key_map) (simp_all add: unique_keys_iff)
  then show ?thesis by (simp add: unique_keys_iff update_where_def)
qed

lemma distinct_map_filter_filter:
  "distinct (List.map_filter k rows) \<Longrightarrow> distinct (List.map_filter k (filter p rows))"
  by (induction rows) (auto simp: List.map_filter_simps set_map_filter_iff split: option.splits)

lemma delete_where_unique: "unique_keys ks rows \<Longrightarrow> unique_keys ks (delete_where p rows)"
  by (auto simp: unique_keys_iff unique_key_def delete_where_def intro: distinct_map_filter_filter)

section \<open>Selection\<close>

lemma set_update_where:
  "set (update_where p f rows) = (\<lambda>r. if p r then f r else r) ` set rows"
  by (simp add: update_where_def)

lemma update_where_none: "affected p rows = 0 \<Longrightarrow> update_where p f rows = rows"
  by (auto simp: affected_def update_where_def filter_empty_conv intro: map_idI)

lemma update_where_Nil [simp]: "update_where p f [] = []"
  by (simp add: update_where_def)

lemma update_where_Cons [simp]:
  "update_where p f (r # rows) = (if p r then f r else r) # update_where p f rows"
  by (simp add: update_where_def)

lemma affected_pos_iff: "0 < affected p rows \<longleftrightarrow> (\<exists>r \<in> set rows. p r)"
  by (auto simp: affected_def filter_empty_conv)

lemma affected_mono: "(\<And>x. p x \<Longrightarrow> q x) \<Longrightarrow> affected p rows \<le> affected q rows"
  unfolding affected_def by (induction rows) auto

text \<open>An update that selects rows by a unique key touches at most one row.\<close>

lemma affected_unique_le_1:
  assumes "unique_key k rows" and "\<And>r. p r \<Longrightarrow> k r = Some v"
  shows "affected p rows \<le> 1"
  using assms
proof (induction rows)
  case (Cons a rows)
  have U: "unique_key k rows"
    using Cons.prems(1) by (auto simp: unique_key_def List.map_filter_simps split: option.splits)
  show ?case
  proof (cases "p a")
    case True
    then have "k a = Some v" by (rule Cons.prems(2))
    then have "\<forall>r \<in> set rows. \<not> p r"
      using Cons.prems by (auto simp: unique_key_def List.map_filter_simps set_map_filter_iff)
    with True show ?thesis by (simp add: affected_def filter_empty_conv)
  next
    case False
    with Cons.IH [OF U] Cons.prems(2) show ?thesis by (simp add: affected_def)
  qed
qed (simp add: affected_def)

lemma affected_unique_eq_1:
  assumes "unique_key k rows" and "\<And>r. p r \<Longrightarrow> k r = Some v" and "r \<in> set rows" and "p r"
  shows "affected p rows = 1"
proof -
  have "0 < affected p rows" using assms(3,4) by (auto simp: affected_pos_iff)
  moreover have "affected p rows \<le> 1" by (rule affected_unique_le_1 [OF assms(1,2)])
  ultimately show ?thesis by simp
qed

lemma find_unique:
  assumes "unique_key k rows" and "\<And>x. p x \<Longrightarrow> k x = Some v" and "r \<in> set rows" and "p r"
  shows "List.find p rows = Some r"
proof (cases "List.find p rows")
  case None
  with assms(3,4) show ?thesis by (simp add: find_None_iff)
next
  case (Some x)
  then have "x \<in> set rows" "p x" by (auto dest: find_SomeD)
  with assms show ?thesis using unique_key_eq [OF assms(1) _ assms(3)] Some by metis
qed

lemma filter_unique:
  assumes "unique_key k rows" and "\<And>x. p x \<Longrightarrow> k x = Some v" and "r \<in> set rows" and "p r"
  shows "filter p rows = [r]"
proof -
  have "affected p rows = 1" using assms by (rule affected_unique_eq_1)
  then have "length (filter p rows) = 1" by (simp add: affected_def)
  then obtain x where x: "filter p rows = [x]" using length_filter_eq_1D [of p rows] by blast
  moreover have "r \<in> set (filter p rows)" using assms(3,4) by simp
  ultimately show ?thesis by simp
qed

lemma set_order_by [simp]: "set (order_by key rows) = set rows"
  by (simp add: order_by_def)

lemma mset_order_by [simp]: "mset (order_by key rows) = mset rows"
  by (simp add: order_by_def)

lemma sorted_order_by: "sorted (map key (order_by key rows))"
  by (simp add: order_by_def)

lemma order_by_take_least:
  assumes "x \<in> set (take n (order_by key rows))" and "y \<in> set rows" and "y \<notin> set (take n (order_by key rows))"
  shows "key x \<le> key y"
proof -
  let ?s = "order_by key rows"
  have "y \<in> set ?s" using assms(2) by simp
  then have "y \<in> set (drop n ?s)"
    using assms(3) by (metis Un_iff append_take_drop_id set_append)
  moreover have "sorted (map key (take n ?s) @ map key (drop n ?s))"
    by (metis append_take_drop_id map_append sorted_order_by)
  ultimately show ?thesis using assms(1) by (auto simp: sorted_append)
qed

end
