(* ===== verification/Cp_Types.thy ===== *)
theory Cp_Types
  imports Go_Time Sql_Table
begin

text \<open>
  The data of the control plane's interaction gateway (\<open>internal/controlplane\<close>,
  \<open>repository.go\<close>): the Go structs as records, the rows of its SQLite tables, the
  errors its functions return, and the keys the schema declares unique.

  A row record carries the table's \<open>username\<close> column, which the Go struct leaves out.
  The JSON columns (\<open>artifact_refs\<close>, \<open>allowed_actions\<close>, \<open>response_schema\<close>,
  \<open>selected_option_ids\<close>, \<open>result_json\<close>) are the values they encode; \<open>ui_hints\<close>, which
  the code never looks into, is its JSON text. Time columns are the instants their text
  stands for; where SQL compares the text itself the model compares \<open>format_time\<close>. A NULL
  time is the zero instant, as \<open>nullableTime\<close> and \<open>parseTime\<close> make it, and a NULL
  \<open>checkpoint_id\<close> is the empty string. Go's \<open>int\<close> columns are \<open>int\<close>.
\<close>

section \<open>Errors\<close>

text \<open>
  \<open>ErrDb\<close> is an error of the driver returned as it is; here it arises only where an
  insert meets a uniqueness constraint.
\<close>

datatype cp_error =
    ErrNotFound
  | ErrConflict string
  | ErrValidation string
  | ErrLeaseConflict
  | ErrDb string

section \<open>Requests\<close>

record response_option =
  ro_id :: string
  ro_label :: string

record response_schema =
  sc_type :: string
  sc_options :: "response_option list"
  sc_min :: int
  sc_max :: int
  sc_max_feedback :: int
  sc_custom_text :: bool

record create_input =
  ci_username :: string
  ci_checkpoint_id :: string
  ci_task_id :: string
  ci_runtime_id :: string
  ci_session_id :: string
  ci_adapter_kind :: string
  ci_vendor_id :: string
  ci_request_kind :: string
  ci_risk_class :: string
  ci_title :: string
  ci_summary :: string
  ci_preview :: string
  ci_artifact_refs :: "string list"
  ci_allowed_actions :: "string list"
  ci_schema :: response_schema
  ci_ui_hints :: string
  ci_expires_at :: instant
  ci_input_hash :: string
  ci_actor_scope :: string
  ci_idempotency_key :: string

record respond_input =
  ri_action :: string
  ri_selected :: "string list"
  ri_feedback :: string
  ri_actor :: string
  ri_device_id :: string
  ri_auth_evidence :: string
  ri_expected_version :: int
  ri_idempotency_key :: string
  ri_input_hash :: string

record cancel_input =
  cn_expected_version :: int
  cn_reason :: string
  cn_actor_scope :: string
  cn_idempotency_key :: string

section \<open>Rows\<close>

datatype ix_status = Pending | Resolved | Expired | Cancelled

fun show_status :: "ix_status \<Rightarrow> string" where
  "show_status Pending = ''pending''"
| "show_status Resolved = ''resolved''"
| "show_status Expired = ''expired''"
| "show_status Cancelled = ''cancelled''"

record interaction =
  ix_request_id :: string
  ix_username :: string
  ix_checkpoint_id :: string
  ix_task_id :: string
  ix_runtime_id :: string
  ix_session_id :: string
  ix_adapter_kind :: string
  ix_vendor_id :: string
  ix_request_kind :: string
  ix_risk_class :: string
  ix_title :: string
  ix_summary :: string
  ix_preview :: string
  ix_artifact_refs :: "string list"
  ix_allowed_actions :: "string list"
  ix_schema :: response_schema
  ix_ui_hints :: string
  ix_status :: ix_status
  ix_final_action :: string
  ix_created_at :: instant
  ix_expires_at :: instant
  ix_resolved_at :: instant
  ix_row_version :: int
  ix_input_hash :: string

record response =
  rs_id :: string
  rs_request_id :: string
  rs_username :: string
  rs_checkpoint_id :: string
  rs_action :: string
  rs_selected :: "string list"
  rs_feedback :: string
  rs_actor :: string
  rs_device_id :: string
  rs_auth_evidence :: string
  rs_expected_version :: int
  rs_idempotency_key :: string
  rs_input_hash :: string
  rs_created_at :: instant

record decision =
  dc_id :: string
  dc_request_id :: string
  dc_response_id :: string
  dc_action :: string
  dc_actor :: string
  dc_input_hash :: string
  dc_created_at :: instant

record audit_event =
  au_id :: string
  au_username :: string
  au_request_id :: string
  au_type :: string
  au_actor :: string
  au_detail :: string
  au_created_at :: instant

text \<open>What the payload column of an outbox event encodes.\<close>

datatype outbox_payload =
    InteractionPayload interaction
  | ResponsePayload response
  | ExpiryPayload string instant
  | StringsPayload "(string \<times> string) list"
  | MigratedPayload string
  | MigratedUpdatePayload string string int

record outbox_event =
  ob_id :: string
  ob_username :: string
  ob_aggregate_id :: string
  ob_type :: string
  ob_payload :: outbox_payload
  ob_created_at :: instant

record idem_row =
  ik_username :: string
  ik_actor_scope :: string
  ik_key :: string
  ik_request_hash :: string
  ik_response_id :: string
  ik_created_at :: instant

record post_idem_row =
  pk_username :: string
  pk_actor_scope :: string
  pk_operation :: string
  pk_key :: string
  pk_request_hash :: string
  pk_result :: interaction
  pk_created_at :: instant

datatype projection_state = PjPending | PjApplied | PjFailed

record projection =
  pj_decision_id :: string
  pj_username :: string
  pj_request_id :: string
  pj_response_id :: string
  pj_state :: projection_state
  pj_attempts :: int
  pj_last_error :: string
  pj_created_at :: instant
  pj_updated_at :: instant

text \<open>The tables of the gateway, each in insertion order.\<close>

record cp_db =
  db_interactions :: "interaction list"
  db_responses :: "response list"
  db_decisions :: "decision list"
  db_audits :: "audit_event list"
  db_outbox :: "outbox_event list"
  db_idem :: "idem_row list"
  db_post_idem :: "post_idem_row list"
  db_projections :: "projection list"

definition empty_db :: cp_db where
  "empty_db = \<lparr>db_interactions = [], db_responses = [], db_decisions = [], db_audits = [],
     db_outbox = [], db_idem = [], db_post_idem = [], db_projections = []\<rparr>"

section \<open>The keys of the schema\<close>

definition interaction_keys :: "interaction key list" where
  "interaction_keys =
     [\<lambda>i. Some [ix_request_id i],
      \<lambda>i. Some [ix_username i, ix_adapter_kind i, ix_session_id i, ix_vendor_id i],
      \<lambda>i. if ix_checkpoint_id i = [] then None else Some [ix_username i, ix_checkpoint_id i]]"

definition response_keys :: "response key list" where
  "response_keys = [\<lambda>r. Some [rs_id r], \<lambda>r. Some [rs_request_id r]]"

definition decision_keys :: "decision key list" where
  "decision_keys = [\<lambda>d. Some [dc_id d], \<lambda>d. Some [dc_request_id d], \<lambda>d. Some [dc_response_id d]]"

definition audit_keys :: "audit_event key list" where
  "audit_keys = [\<lambda>a. Some [au_id a]]"

definition outbox_keys :: "outbox_event key list" where
  "outbox_keys = [\<lambda>o'. Some [ob_id o']]"

definition idem_keys :: "idem_row key list" where
  "idem_keys = [\<lambda>k. Some [ik_username k, ik_actor_scope k, ik_key k]]"

definition post_idem_keys :: "post_idem_row key list" where
  "post_idem_keys = [\<lambda>k. Some [pk_username k, pk_actor_scope k, pk_operation k, pk_key k]]"

definition projection_keys :: "projection key list" where
  "projection_keys = [\<lambda>p. Some [pj_decision_id p], \<lambda>p. Some [pj_response_id p]]"

section \<open>Fresh identifiers\<close>

text \<open>
  \<open>newID\<close>: a prefix and the hexadecimal form of sixteen random bytes. The bytes are an
  input of each operation: \<open>rnd k\<close> is what the \<open>k\<close>-th call of the operation draws.
\<close>

type_synonym entropy = "nat \<Rightarrow> string"

definition new_id :: "string \<Rightarrow> string \<Rightarrow> string" where
  "new_id prefix bytes = prefix @ ''-'' @ hex_encode bytes"

end
