(* ===== verification/Interactions.thy ===== *)
theory Interactions
  imports Cp_Types
begin

text \<open>
  The operations of the interaction gateway (\<open>internal/controlplane/repository.go\<close>,
  \<open>risk.go\<close>, \<open>projection.go\<close>). Each is a function of the database, of the instant
  \<open>time.Now\<close> returns and of the random bytes it draws; it returns the database after
  its transaction (the old one when the transaction rolls back) and its result.

  The SHA-256 fingerprints of a request are functions of the fields the code feeds to
  the hash, given by the parameter \<open>hs\<close>: which fields those are is the model's part.
\<close>

section \<open>Risk classes (risk.go)\<close>

definition normalize_risk_class :: "string \<Rightarrow> string" where
  "normalize_risk_class level =
     (let l = to_lower (trim_space level) in
      if l = ''r0'' then ''low''
      else if l = ''r1'' then ''medium''
      else if l = ''r2'' \<or> l = ''high_risk'' then ''high''
      else if l = ''r3'' then ''critical''
      else l)"

definition is_high_risk :: "string \<Rightarrow> bool" where
  "is_high_risk level =
     (let l = normalize_risk_class level in l = ''high'' \<or> l = ''critical'')"

section \<open>Validation\<close>

text \<open>Trimmed, non-empty, without duplicates and sorted bytewise.\<close>

definition normalized_strings :: "string list \<Rightarrow> string list" where
  "normalized_strings values = sort (remdups (filter (\<lambda>v. v \<noteq> []) (map trim_space values)))"

definition validate_create :: "create_input \<Rightarrow> (cp_error, unit) result" where
  "validate_create input =
     and_then (ensure (ErrValidation ''required interaction field is empty'')
       (list_all (\<lambda>v. trim_space v \<noteq> [])
         [ci_username input, ci_session_id input, ci_adapter_kind input, ci_vendor_id input,
          ci_request_kind input, ci_risk_class input, ci_title input, ci_input_hash input])) (\<lambda>_.
     and_then (ensure (ErrValidation ''interaction display field is too long'')
       (\<not> (8192 < int (length (ci_preview input)) \<or> 240 < int (length (ci_title input)) \<or> 2000 < int (length (ci_summary input))))) (\<lambda>_.
     and_then (ensure (ErrValidation ''allowedActions is required'')
       (normalized_strings (ci_allowed_actions input) \<noteq> [])) (\<lambda>_.
     ensure (ErrValidation ''unsupported response schema type'')
       (sc_type (ci_schema input) \<in> set [''action'', ''single_choice'', ''multiple_choice'', ''text'']))))"

definition validate_response :: "interaction \<Rightarrow> respond_input \<Rightarrow> (cp_error, unit) result" where
  "validate_response ix input =
     (let schema = ix_schema ix; n = int (length (ri_selected input)) in
      and_then (ensure (ErrValidation ''high-risk requests require per-request approval'')
        (\<not> (is_high_risk (ix_risk_class ix) \<and> ri_action input = ''approve_session''))) (\<lambda>_.
      and_then (ensure (ErrValidation ''action is not allowed'')
        (ri_action input \<in> set (ix_allowed_actions ix))) (\<lambda>_.
      and_then (ensure (ErrValidation ''feedback is too long'')
        (\<not> (0 < sc_max_feedback schema \<and> sc_max_feedback schema < int (rune_count (ri_feedback input))))) (\<lambda>_.
      and_then (ensure (ErrValidation ''selected option is not declared'')
        (list_all (\<lambda>s. s \<in> set (map ro_id (sc_options schema))) (ri_selected input))) (\<lambda>_.
      if sc_type schema = ''action'' then
        ensure (ErrValidation ''action response cannot select options'') (n = 0)
      else if sc_type schema = ''single_choice'' then
        ensure (ErrValidation ''exactly one option is required'') (n = 1)
      else if sc_type schema = ''multiple_choice'' then
        ensure (ErrValidation ''selection count is outside schema bounds'')
          (\<not> (n < sc_min schema \<or> (0 < sc_max schema \<and> sc_max schema < n)))
      else if sc_type schema = ''text'' then
        ensure (ErrValidation ''text answer is required'') (trim_space (ri_feedback input) \<noteq> [])
      else Inr ())))))"

section \<open>Request fingerprints\<close>

text \<open>The fields \<open>hashCreateInteractionInput\<close> marshals.\<close>

record create_payload =
  cy_checkpoint_id :: string
  cy_task_id :: string
  cy_runtime_id :: string
  cy_session_id :: string
  cy_adapter_kind :: string
  cy_vendor_id :: string
  cy_request_kind :: string
  cy_risk_class :: string
  cy_title :: string
  cy_summary :: string
  cy_preview :: string
  cy_artifact_refs :: "string list"
  cy_allowed_actions :: "string list"
  cy_schema :: response_schema
  cy_ui_hints :: string
  cy_expires_at :: string
  cy_input_hash :: string

record hashes =
  hs_create :: "create_payload \<Rightarrow> string"
  hs_respond :: "string \<times> respond_input \<Rightarrow> string"
  hs_cancel :: "string \<times> int \<times> string \<Rightarrow> string"

definition create_payload_of :: "interaction \<Rightarrow> create_payload" where
  "create_payload_of i =
     \<lparr>cy_checkpoint_id = ix_checkpoint_id i, cy_task_id = ix_task_id i, cy_runtime_id = ix_runtime_id i,
      cy_session_id = ix_session_id i, cy_adapter_kind = ix_adapter_kind i, cy_vendor_id = ix_vendor_id i,
      cy_request_kind = ix_request_kind i, cy_risk_class = ix_risk_class i, cy_title = ix_title i,
      cy_summary = ix_summary i, cy_preview = ix_preview i, cy_artifact_refs = ix_artifact_refs i,
      cy_allowed_actions = ix_allowed_actions i, cy_schema = ix_schema i, cy_ui_hints = ix_ui_hints i,
      cy_expires_at = format_time (ix_expires_at i), cy_input_hash = ix_input_hash i\<rparr>"

definition hash_create_interaction_input :: "hashes \<Rightarrow> interaction \<Rightarrow> string" where
  "hash_create_interaction_input hs i = hs_create hs (create_payload_of i)"

text \<open>The selected options are sorted before hashing, so their order does not matter.\<close>

definition hash_response_input :: "hashes \<Rightarrow> string \<Rightarrow> respond_input \<Rightarrow> string" where
  "hash_response_input hs request_id input =
     hs_respond hs (request_id, input\<lparr>ri_selected := sort (ri_selected input)\<rparr>)"

definition hash_cancel_interaction_input :: "hashes \<Rightarrow> string \<Rightarrow> int \<Rightarrow> string \<Rightarrow> string" where
  "hash_cancel_interaction_input hs request_id version reason = hs_cancel hs (request_id, version, reason)"

section \<open>Rows by key\<close>

definition get_interaction_tx :: "string \<Rightarrow> string \<Rightarrow> cp_db \<Rightarrow> interaction option" where
  "get_interaction_tx username request_id db =
     List.find (\<lambda>i. ix_username i = username \<and> ix_request_id i = request_id) (db_interactions db)"

definition get_by_vendor :: "string \<Rightarrow> string \<Rightarrow> string \<Rightarrow> string \<Rightarrow> cp_db \<Rightarrow> interaction option" where
  "get_by_vendor username adapter session vendor db =
     List.find (\<lambda>i. ix_username i = username \<and> ix_adapter_kind i = adapter \<and>
       ix_session_id i = session \<and> ix_vendor_id i = vendor) (db_interactions db)"

definition get_response :: "string \<Rightarrow> string \<Rightarrow> cp_db \<Rightarrow> response option" where
  "get_response username response_id db =
     List.find (\<lambda>r. rs_username r = username \<and> rs_id r = response_id) (db_responses db)"

section \<open>Audit and outbox\<close>

definition insert_audit ::
  "string \<Rightarrow> string \<Rightarrow> string \<Rightarrow> string \<Rightarrow> string \<Rightarrow> string \<Rightarrow> instant \<Rightarrow> cp_db \<Rightarrow> (cp_error, cp_db) result" where
  "insert_audit bytes username request_id event_type actor detail now db =
     (case insert_row audit_keys
        \<lparr>au_id = new_id ''audit'' bytes, au_username = username, au_request_id = request_id,
         au_type = event_type, au_actor = actor, au_detail = detail, au_created_at = now\<rparr> (db_audits db) of
        None \<Rightarrow> Inl (ErrDb ''UNIQUE constraint failed: audit_events.event_id'')
      | Some rows \<Rightarrow> Inr (db\<lparr>db_audits := rows\<rparr>))"

definition insert_outbox ::
  "string \<Rightarrow> string \<Rightarrow> string \<Rightarrow> string \<Rightarrow> outbox_payload \<Rightarrow> instant \<Rightarrow> cp_db \<Rightarrow> (cp_error, cp_db) result" where
  "insert_outbox bytes username request_id event_type payload now db =
     (case insert_row outbox_keys
        \<lparr>ob_id = new_id ''outbox'' bytes, ob_username = username, ob_aggregate_id = request_id,
         ob_type = event_type, ob_payload = payload, ob_created_at = now\<rparr> (db_outbox db) of
        None \<Rightarrow> Inl (ErrDb ''UNIQUE constraint failed: outbox_events.event_id'')
      | Some rows \<Rightarrow> Inr (db\<lparr>db_outbox := rows\<rparr>))"

section \<open>Idempotency of creates and cancels\<close>

definition find_post_idem :: "string \<Rightarrow> string \<Rightarrow> string \<Rightarrow> string \<Rightarrow> cp_db \<Rightarrow> post_idem_row option" where
  "find_post_idem username scope operation key db =
     List.find (\<lambda>k. pk_username k = username \<and> pk_actor_scope k = scope \<and>
       pk_operation k = operation \<and> pk_key k = key) (db_post_idem db)"

text \<open>\<open>Inr None\<close>: the key is new.\<close>

definition replay_post_idempotency ::
  "string \<Rightarrow> string \<Rightarrow> string \<Rightarrow> string \<Rightarrow> string \<Rightarrow> cp_db \<Rightarrow> (cp_error, interaction option) result" where
  "replay_post_idempotency username scope operation key request_hash db =
     (case find_post_idem username scope operation key db of
        None \<Rightarrow> Inr None
      | Some k \<Rightarrow> if pk_request_hash k \<noteq> request_hash
                 then Inl (ErrConflict ''idempotency key reused with different input'')
                 else Inr (Some (pk_result k)))"

definition store_post_idempotency ::
  "string \<Rightarrow> string \<Rightarrow> string \<Rightarrow> string \<Rightarrow> string \<Rightarrow> interaction \<Rightarrow> instant \<Rightarrow> cp_db \<Rightarrow> (cp_error, cp_db) result" where
  "store_post_idempotency username scope operation key request_hash i now db =
     (case insert_row post_idem_keys
        \<lparr>pk_username = username, pk_actor_scope = scope, pk_operation = operation, pk_key = key,
         pk_request_hash = request_hash, pk_result = i, pk_created_at = now\<rparr> (db_post_idem db) of
        None \<Rightarrow> Inl (ErrDb ''UNIQUE constraint failed: post_idempotency_keys'')
      | Some rows \<Rightarrow> Inr (db\<lparr>db_post_idem := rows\<rparr>))"

text \<open>A transaction that ends in an error leaves the database as it was.\<close>

definition transact :: "cp_db \<Rightarrow> (cp_error, cp_db \<times> 'a) result \<Rightarrow> cp_db \<times> (cp_error, 'a) result" where
  "transact db r = (case r of Inl e \<Rightarrow> (db, Inl e) | Inr (db', x) \<Rightarrow> (db', Inr x))"

section \<open>CreateInteraction\<close>

definition normalize_create :: "create_input \<Rightarrow> create_input" where
  "normalize_create input0 =
     (let input = input0\<lparr>ci_risk_class := normalize_risk_class (ci_risk_class input0)\<rparr> in
      if is_high_risk (ci_risk_class input)
      then input\<lparr>ci_allowed_actions :=
             filter (\<lambda>a. a \<noteq> ''approve_session'') (normalized_strings (ci_allowed_actions input))\<rparr>
      else input)"

definition interaction_of_input :: "instant \<Rightarrow> string \<Rightarrow> create_input \<Rightarrow> interaction" where
  "interaction_of_input now bytes input =
     \<lparr>ix_request_id = new_id ''interaction'' bytes,
      ix_username = trim_space (ci_username input),
      ix_checkpoint_id = trim_space (ci_checkpoint_id input),
      ix_task_id = trim_space (ci_task_id input),
      ix_runtime_id = trim_space (ci_runtime_id input),
      ix_session_id = trim_space (ci_session_id input),
      ix_adapter_kind = trim_space (ci_adapter_kind input),
      ix_vendor_id = trim_space (ci_vendor_id input),
      ix_request_kind = trim_space (ci_request_kind input),
      ix_risk_class = trim_space (ci_risk_class input),
      ix_title = trim_space (ci_title input),
      ix_summary = trim_space (ci_summary input),
      ix_preview = trim_space (ci_preview input),
      ix_artifact_refs = ci_artifact_refs input,
      ix_allowed_actions = normalized_strings (ci_allowed_actions input),
      ix_schema = ci_schema input,
      ix_ui_hints = ci_ui_hints input,
      ix_status = Pending,
      ix_final_action = [],
      ix_created_at = now,
      ix_expires_at = ci_expires_at input,
      ix_resolved_at = zero_time,
      ix_row_version = 1,
      ix_input_hash = trim_space (ci_input_hash input)\<rparr>"

text \<open>The key is only stored when the caller gave one.\<close>

definition remember_post ::
  "string \<Rightarrow> string \<Rightarrow> string \<Rightarrow> string \<Rightarrow> string \<Rightarrow> interaction \<Rightarrow> instant \<Rightarrow> cp_db \<Rightarrow> (cp_error, cp_db) result" where
  "remember_post username scope operation key request_hash i now db =
     (if key \<noteq> [] then store_post_idempotency username scope operation key request_hash i now db else Inr db)"

definition recall_post ::
  "string \<Rightarrow> string \<Rightarrow> string \<Rightarrow> string \<Rightarrow> string \<Rightarrow> cp_db \<Rightarrow> (cp_error, interaction option) result" where
  "recall_post username scope operation key request_hash db =
     (if key \<noteq> [] then replay_post_idempotency username scope operation key request_hash db else Inr None)"

text \<open>
  The transaction once no recorded call answers it: insert the row, its audit and outbox
  events and the key; on a repeated vendor request with the same input, the row there is.
\<close>

definition create_writes ::
  "instant \<Rightarrow> entropy \<Rightarrow> string \<Rightarrow> string \<Rightarrow> string \<Rightarrow> string \<Rightarrow> interaction \<Rightarrow> cp_db \<Rightarrow>
   (cp_error, cp_db \<times> interaction) result" where
  "create_writes now rnd username scope key request_hash i db =
     (case insert_row interaction_keys i (db_interactions db) of
        None \<Rightarrow>
          (case get_by_vendor username (ix_adapter_kind i) (ix_session_id i) (ix_vendor_id i) db of
             None \<Rightarrow> Inl (ErrConflict ''duplicate or invalid interaction'')
           | Some existing \<Rightarrow>
               if ix_input_hash existing = ix_input_hash i then
                 and_then (remember_post username scope ''interaction.create'' key request_hash existing now db) (\<lambda>db'.
                 Inr (db', existing))
               else Inl (ErrConflict ''duplicate or invalid interaction''))
      | Some rows \<Rightarrow>
          and_then (insert_audit (rnd 1) username (ix_request_id i) ''interaction.created'' ''adapter'' (ix_summary i) now
            (db\<lparr>db_interactions := rows\<rparr>)) (\<lambda>db1.
          and_then (insert_outbox (rnd 2) username (ix_request_id i) ''interaction.created'' (InteractionPayload i) now db1) (\<lambda>db2.
          and_then (remember_post username scope ''interaction.create'' key request_hash i now db2) (\<lambda>db3.
          Inr (db3, i)))))"

definition create_interaction ::
  "hashes \<Rightarrow> instant \<Rightarrow> entropy \<Rightarrow> create_input \<Rightarrow> cp_db \<Rightarrow> cp_db \<times> (cp_error, interaction) result" where
  "create_interaction hs now rnd input0 db =
     (let input = normalize_create input0;
          username = trim_space (ci_username input);
          scope = trim_space (ci_actor_scope input);
          key = trim_space (ci_idempotency_key input);
          i = interaction_of_input now (rnd 0) input;
          request_hash = hash_create_interaction_input hs i
      in transact db
        (and_then (validate_create input) (\<lambda>_.
         and_then (ensure (ErrValidation ''actor scope and idempotency key must be provided together'')
           ((scope = []) = (key = []))) (\<lambda>_.
         and_then (recall_post username scope ''interaction.create'' key request_hash db) (\<lambda>replayed.
         case replayed of
           Some j \<Rightarrow> Inr (db, j)
         | None \<Rightarrow> create_writes now rnd username scope key request_hash i db)))))"

section \<open>Reading\<close>

definition get_interaction :: "string \<Rightarrow> string \<Rightarrow> cp_db \<Rightarrow> (cp_error, interaction) result" where
  "get_interaction username request_id db =
     require ErrNotFound (get_interaction_tx (trim_space username) (trim_space request_id) db)"

definition clamp_limit :: "int \<Rightarrow> nat" where
  "clamp_limit limit = nat (if limit \<le> 0 \<or> 500 < limit then 100 else limit)"

text \<open>\<open>ORDER BY created_at\<close> compares the text of the column.\<close>

definition list_interactions_where :: "string \<Rightarrow> ix_status option \<Rightarrow> int \<Rightarrow> cp_db \<Rightarrow> interaction list" where
  "list_interactions_where username status limit db =
     take (clamp_limit limit)
       (order_by (\<lambda>i. format_time (ix_created_at i))
         (filter (\<lambda>i. ix_username i = trim_space username \<and>
            (case status of None \<Rightarrow> True | Some st \<Rightarrow> ix_status i = st)) (db_interactions db)))"

definition list_interactions :: "string \<Rightarrow> int \<Rightarrow> cp_db \<Rightarrow> interaction list" where
  "list_interactions username limit db = list_interactions_where username None limit db"

definition list_all_interactions :: "string \<Rightarrow> cp_db \<Rightarrow> interaction list" where
  "list_all_interactions username db =
     order_by (\<lambda>i. format_time (ix_created_at i))
       (filter (\<lambda>i. ix_username i = trim_space username) (db_interactions db))"

definition list_responses :: "string \<Rightarrow> string \<Rightarrow> cp_db \<Rightarrow> response list" where
  "list_responses username request_id db =
     order_by (\<lambda>r. format_time (rs_created_at r))
       (filter (\<lambda>r. rs_username r = trim_space username \<and> rs_request_id r = trim_space request_id) (db_responses db))"

definition list_outbox :: "string \<Rightarrow> int \<Rightarrow> cp_db \<Rightarrow> outbox_event list" where
  "list_outbox username limit db =
     take (clamp_limit limit)
       (order_by (\<lambda>e. (format_time (ob_created_at e), ob_id e))
         (filter (\<lambda>e. ob_username e = trim_space username) (db_outbox db)))"

section \<open>Expiry\<close>

definition due :: "instant \<Rightarrow> interaction \<Rightarrow> bool" where
  "due now i \<longleftrightarrow> \<not> is_zero (ix_expires_at i) \<and> \<not> now < ix_expires_at i"

text \<open>The guarded update every change of a pending row goes through.\<close>

definition at_version :: "string \<Rightarrow> string \<Rightarrow> int \<Rightarrow> interaction \<Rightarrow> bool" where
  "at_version username request_id version i \<longleftrightarrow>
     ix_username i = username \<and> ix_request_id i = request_id \<and> ix_status i = Pending \<and> ix_row_version i = version"

definition close_row :: "ix_status \<Rightarrow> string \<Rightarrow> instant \<Rightarrow> interaction \<Rightarrow> interaction" where
  "close_row status action now i =
     i\<lparr>ix_status := status, ix_final_action := action, ix_resolved_at := now, ix_row_version := ix_row_version i + 1\<rparr>"

definition close_interaction ::
  "ix_status \<Rightarrow> string \<Rightarrow> instant \<Rightarrow> string \<Rightarrow> string \<Rightarrow> int \<Rightarrow> cp_db \<Rightarrow> cp_db option" where
  "close_interaction status action now username request_id version db =
     (if affected (at_version username request_id version) (db_interactions db) = 1
      then Some (db\<lparr>db_interactions :=
             update_where (at_version username request_id version) (close_row status action now) (db_interactions db)\<rparr>)
      else None)"

text \<open>\<open>Inr (db, None)\<close>: the row was no longer pending at that version.\<close>

definition expire_interaction_tx ::
  "instant \<Rightarrow> entropy \<Rightarrow> string \<Rightarrow> interaction \<Rightarrow> cp_db \<Rightarrow> (cp_error, cp_db \<times> interaction option) result" where
  "expire_interaction_tx now rnd username i db =
     (case close_interaction Expired ''expire'' now username (ix_request_id i) (ix_row_version i) db of
        None \<Rightarrow> Inr (db, None)
      | Some db1 \<Rightarrow>
          and_then (insert_audit (rnd 0) username (ix_request_id i) ''interaction.expired'' ''expiry_worker''
            ''Interaction reached expiresAt.'' now db1) (\<lambda>db2.
          and_then (insert_outbox (rnd 1) username (ix_request_id i) ''interaction.expired''
            (ExpiryPayload (ix_request_id i) (ix_expires_at i)) now db2) (\<lambda>db3.
          and_then (require ErrNotFound (get_interaction_tx username (ix_request_id i) db3)) (\<lambda>updated.
          Inr (db3, Some updated)))))"

text \<open>A loop over rows read before it; the entropy of each turn is its own.\<close>

definition skip_entropy :: "nat \<Rightarrow> entropy \<Rightarrow> entropy" where
  "skip_entropy n rnd = (\<lambda>k. rnd (n + k))"

fun expire_each ::
  "instant \<Rightarrow> entropy \<Rightarrow> string \<Rightarrow> interaction list \<Rightarrow> cp_db \<Rightarrow> (cp_error, cp_db \<times> interaction list) result" where
  "expire_each now rnd username [] db = Inr (db, [])"
| "expire_each now rnd username (i # is) db =
     and_then (expire_interaction_tx now rnd username i db) (\<lambda>(db1, updated).
     and_then (expire_each now (skip_entropy 2 rnd) username is db1) (\<lambda>(db2, more).
     Inr (db2, case updated of None \<Rightarrow> more | Some u \<Rightarrow> u # more)))"

definition expire_due_interactions ::
  "instant \<Rightarrow> entropy \<Rightarrow> string \<Rightarrow> cp_db \<Rightarrow> cp_db \<times> (cp_error, interaction list) result" where
  "expire_due_interactions now rnd username0 db =
     (let username = trim_space username0 in
      transact db
        (and_then (ensure (ErrValidation ''username is required'') (username \<noteq> [])) (\<lambda>_.
         expire_each now rnd username
           (filter (due now)
             (order_by (\<lambda>i. format_time (ix_created_at i))
               (filter (\<lambda>i. ix_username i = username \<and> ix_status i = Pending \<and> \<not> is_zero (ix_expires_at i))
                 (db_interactions db)))) db)))"

text \<open>\<open>ListPendingInteractions\<close> expires what is due and lists what is left pending.\<close>

definition list_pending_interactions ::
  "instant \<Rightarrow> entropy \<Rightarrow> string \<Rightarrow> int \<Rightarrow> cp_db \<Rightarrow> cp_db \<times> (cp_error, interaction list) result" where
  "list_pending_interactions now rnd username limit db =
     (case expire_due_interactions now rnd username db of
        (db', Inl e) \<Rightarrow> (db', Inl e)
      | (db', Inr _) \<Rightarrow> (db', Inr (list_interactions_where username (Some Pending) limit db')))"

section \<open>Respond\<close>

definition trim_respond :: "respond_input \<Rightarrow> respond_input" where
  "trim_respond input =
     input\<lparr>ri_action := trim_space (ri_action input), ri_actor := trim_space (ri_actor input),
           ri_device_id := trim_space (ri_device_id input), ri_idempotency_key := trim_space (ri_idempotency_key input)\<rparr>"

definition response_of :: "instant \<Rightarrow> string \<Rightarrow> interaction \<Rightarrow> string \<Rightarrow> string \<Rightarrow> respond_input \<Rightarrow> response" where
  "response_of now bytes ix username request_id input =
     \<lparr>rs_id = new_id ''response'' bytes, rs_request_id = request_id, rs_username = username,
      rs_checkpoint_id = ix_checkpoint_id ix, rs_action = ri_action input, rs_selected = ri_selected input,
      rs_feedback = ri_feedback input, rs_actor = ri_actor input, rs_device_id = ri_device_id input,
      rs_auth_evidence = ri_auth_evidence input, rs_expected_version = ri_expected_version input,
      rs_idempotency_key = ri_idempotency_key input, rs_input_hash = ri_input_hash input, rs_created_at = now\<rparr>"

definition response_scope :: "respond_input \<Rightarrow> string" where
  "response_scope input = ri_actor input @ '':'' @ ri_device_id input"

text \<open>The rows a decision writes, in the order of the transaction.\<close>

definition insert_response :: "response \<Rightarrow> cp_db \<Rightarrow> (cp_error, cp_db) result" where
  "insert_response r db =
     (case insert_row response_keys r (db_responses db) of
        None \<Rightarrow> Inl (ErrConflict ''interaction already has a final response'')
      | Some rows \<Rightarrow> Inr (db\<lparr>db_responses := rows\<rparr>))"

definition insert_decision :: "string \<Rightarrow> response \<Rightarrow> cp_db \<Rightarrow> (cp_error, cp_db) result" where
  "insert_decision bytes r db =
     (case insert_row decision_keys
        \<lparr>dc_id = new_id ''decision'' bytes, dc_request_id = rs_request_id r, dc_response_id = rs_id r,
         dc_action = rs_action r, dc_actor = rs_actor r, dc_input_hash = rs_input_hash r,
         dc_created_at = rs_created_at r\<rparr> (db_decisions db) of
        None \<Rightarrow> Inl (ErrDb ''UNIQUE constraint failed: decisions'')
      | Some rows \<Rightarrow> Inr (db\<lparr>db_decisions := rows\<rparr>))"

definition insert_idem :: "string \<Rightarrow> string \<Rightarrow> string \<Rightarrow> string \<Rightarrow> response \<Rightarrow> cp_db \<Rightarrow> (cp_error, cp_db) result" where
  "insert_idem username scope key request_hash r db =
     (case insert_row idem_keys
        \<lparr>ik_username = username, ik_actor_scope = scope, ik_key = key, ik_request_hash = request_hash,
         ik_response_id = rs_id r, ik_created_at = rs_created_at r\<rparr> (db_idem db) of
        None \<Rightarrow> Inl (ErrConflict ''idempotency key already used'')
      | Some rows \<Rightarrow> Inr (db\<lparr>db_idem := rows\<rparr>))"

definition insert_projection :: "string \<Rightarrow> response \<Rightarrow> cp_db \<Rightarrow> (cp_error, cp_db) result" where
  "insert_projection username r db =
     (case insert_row projection_keys
        \<lparr>pj_decision_id = rs_id r, pj_username = username, pj_request_id = rs_request_id r,
         pj_response_id = rs_id r, pj_state = PjPending, pj_attempts = 0, pj_last_error = [],
         pj_created_at = rs_created_at r, pj_updated_at = rs_created_at r\<rparr> (db_projections db) of
        None \<Rightarrow> Inl (ErrDb ''UNIQUE constraint failed: task_projections'')
      | Some rows \<Rightarrow> Inr (db\<lparr>db_projections := rows\<rparr>))"

definition respond_writes ::
  "entropy \<Rightarrow> string \<Rightarrow> string \<Rightarrow> string \<Rightarrow> response \<Rightarrow> cp_db \<Rightarrow> (cp_error, cp_db) result" where
  "respond_writes rnd username scope request_hash r db =
     (let now = rs_created_at r; request_id = rs_request_id r in
      and_then (insert_response r db) (\<lambda>db1.
      and_then (insert_decision (rnd 1) r db1) (\<lambda>db2.
      and_then (require (ErrConflict ''interaction changed while responding'')
        (close_interaction Resolved (rs_action r) now username request_id (rs_expected_version r) db2)) (\<lambda>db3.
      and_then (insert_idem username scope (rs_idempotency_key r) request_hash r db3) (\<lambda>db4.
      and_then (insert_projection username r db4) (\<lambda>db5.
      and_then (insert_audit (rnd 2) username request_id ''interaction.resolved'' (rs_actor r) (rs_action r) now db5) (\<lambda>db6.
      and_then (insert_outbox (rnd 3) username request_id ''interaction.resolved'' (ResponsePayload r) now db6) (\<lambda>db7.
      and_then (insert_outbox (rnd 4) username request_id ''adapter.decision.ready'' (ResponsePayload r) now db7) (\<lambda>db8.
      insert_outbox (rnd 5) username request_id ''project_task_projection.requested''
        (StringsPayload [(''decisionId'', rs_id r), (''responseId'', rs_id r)]) now db8)))))))))"

text \<open>
  A response to an interaction that is due commits its expiry and then reports the
  conflict; every other error leaves the database alone.
\<close>

definition respond_fresh ::
  "instant \<Rightarrow> entropy \<Rightarrow> string \<Rightarrow> string \<Rightarrow> string \<Rightarrow> respond_input \<Rightarrow> cp_db \<Rightarrow>
   cp_db \<times> (cp_error, response \<times> bool) result" where
  "respond_fresh now rnd username request_id request_hash input db =
     (case get_interaction_tx username request_id db of
        None \<Rightarrow> (db, Inl ErrNotFound)
      | Some ix \<Rightarrow>
          if ix_status ix = Pending \<and> due now ix then
            (case expire_interaction_tx now rnd username ix db of
               Inl e \<Rightarrow> (db, Inl e)
             | Inr (db', _) \<Rightarrow> (db', Inl (ErrConflict ''interaction expired before response'')))
          else if ix_status ix \<noteq> Pending \<or> ix_row_version ix \<noteq> ri_expected_version input then
            (db, Inl (ErrConflict (''interaction is '' @ show_status (ix_status ix) @ '' at row version '' @ show_int (ix_row_version ix))))
          else if ri_input_hash input \<noteq> ix_input_hash ix then
            (db, Inl (ErrConflict ''reviewed input changed''))
          else transact db
            (and_then (validate_response ix input) (\<lambda>_.
             let r = response_of now (rnd 0) ix username request_id input in
             and_then (respond_writes rnd username (response_scope input) request_hash r db) (\<lambda>db'.
             Inr (db', (r, False))))))"

definition find_idem :: "string \<Rightarrow> string \<Rightarrow> string \<Rightarrow> cp_db \<Rightarrow> idem_row option" where
  "find_idem username scope key db =
     List.find (\<lambda>k. ik_username k = username \<and> ik_actor_scope k = scope \<and> ik_key k = key) (db_idem db)"

definition respond ::
  "hashes \<Rightarrow> instant \<Rightarrow> entropy \<Rightarrow> string \<Rightarrow> string \<Rightarrow> respond_input \<Rightarrow> cp_db \<Rightarrow>
   cp_db \<times> (cp_error, response \<times> bool) result" where
  "respond hs now rnd username0 request_id0 input0 db =
     (let username = trim_space username0;
          request_id = trim_space request_id0;
          input = trim_respond input0;
          request_hash = hash_response_input hs request_id input
      in if ri_actor input = [] \<or> ri_idempotency_key input = [] \<or> ri_expected_version input < 1
         then (db, Inl (ErrValidation ''actor, idempotencyKey and expectedRowVersion are required''))
         else (case find_idem username (response_scope input) (ri_idempotency_key input) db of
                 Some k \<Rightarrow>
                   if ik_request_hash k \<noteq> request_hash
                   then (db, Inl (ErrConflict ''idempotency key reused with different input''))
                   else (db, and_then (require ErrNotFound (get_response username (ik_response_id k) db)) (\<lambda>r. Inr (r, True)))
               | None \<Rightarrow> respond_fresh now rnd username request_id request_hash input db))"

section \<open>Cancellation\<close>

definition cancel_writes ::
  "instant \<Rightarrow> entropy \<Rightarrow> string \<Rightarrow> string \<Rightarrow> string \<Rightarrow> cancel_input \<Rightarrow> cp_db \<Rightarrow>
   (cp_error, cp_db \<times> interaction) result" where
  "cancel_writes now rnd username request_id request_hash input db =
     and_then (require (ErrConflict ''interaction is not pending at expected version'')
       (close_interaction Cancelled ''cancel'' now username request_id (cn_expected_version input) db)) (\<lambda>db1.
     and_then (insert_audit (rnd 0) username request_id ''interaction.cancelled'' ''adapter'' (cn_reason input) now db1) (\<lambda>db2.
     and_then (insert_outbox (rnd 1) username request_id ''interaction.cancelled''
       (StringsPayload [(''reason'', cn_reason input)]) now db2) (\<lambda>db3.
     and_then (require ErrNotFound (get_interaction_tx username request_id db3)) (\<lambda>i.
     and_then (remember_post username (cn_actor_scope input) ''interaction.cancel'' (cn_idempotency_key input)
       request_hash i now db3) (\<lambda>db4.
     Inr (db4, i))))))"

definition cancel_interaction_idempotent ::
  "hashes \<Rightarrow> instant \<Rightarrow> entropy \<Rightarrow> string \<Rightarrow> string \<Rightarrow> cancel_input \<Rightarrow> cp_db \<Rightarrow>
   cp_db \<times> (cp_error, interaction) result" where
  "cancel_interaction_idempotent hs now rnd username0 request_id0 input0 db =
     (let username = trim_space username0;
          request_id = trim_space request_id0;
          input = input0\<lparr>cn_reason := trim_space (cn_reason input0),
                         cn_actor_scope := trim_space (cn_actor_scope input0),
                         cn_idempotency_key := trim_space (cn_idempotency_key input0)\<rparr>;
          request_hash = hash_cancel_interaction_input hs request_id (cn_expected_version input) (cn_reason input)
      in transact db
        (and_then (ensure (ErrValidation ''expected row version is required'') (\<not> cn_expected_version input < 1)) (\<lambda>_.
         and_then (ensure (ErrValidation ''actor scope and idempotency key must be provided together'')
           ((cn_actor_scope input = []) = (cn_idempotency_key input = []))) (\<lambda>_.
         and_then (recall_post username (cn_actor_scope input) ''interaction.cancel'' (cn_idempotency_key input)
           request_hash db) (\<lambda>replayed.
         case replayed of
           Some j \<Rightarrow> Inr (db, j)
         | None \<Rightarrow> cancel_writes now rnd username request_id request_hash input db)))))"

definition cancel_interaction ::
  "hashes \<Rightarrow> instant \<Rightarrow> entropy \<Rightarrow> string \<Rightarrow> string \<Rightarrow> int \<Rightarrow> string \<Rightarrow> cp_db \<Rightarrow> cp_db \<times> (cp_error, interaction) result" where
  "cancel_interaction hs now rnd username request_id version reason db =
     cancel_interaction_idempotent hs now rnd username request_id
       \<lparr>cn_expected_version = version, cn_reason = reason, cn_actor_scope = [], cn_idempotency_key = []\<rparr> db"

fun cancel_each ::
  "instant \<Rightarrow> entropy \<Rightarrow> string \<Rightarrow> string \<Rightarrow> string \<Rightarrow> interaction list \<Rightarrow> cp_db \<Rightarrow>
   (cp_error, cp_db \<times> interaction list) result" where
  "cancel_each now rnd username session_id reason [] db = Inr (db, [])"
| "cancel_each now rnd username session_id reason (i # is) db =
     (case close_interaction Cancelled ''cancel'' now username (ix_request_id i) (ix_row_version i) db of
        None \<Rightarrow> cancel_each now (skip_entropy 2 rnd) username session_id reason is db
      | Some db1 \<Rightarrow>
          and_then (insert_audit (rnd 0) username (ix_request_id i) ''interaction.cancelled'' ''session_lifecycle''
            reason now db1) (\<lambda>db2.
          and_then (insert_outbox (rnd 1) username (ix_request_id i) ''interaction.cancelled''
            (StringsPayload [(''reason'', reason), (''sessionId'', session_id)]) now db2) (\<lambda>db3.
          and_then (require ErrNotFound (get_interaction_tx username (ix_request_id i) db3)) (\<lambda>updated.
          and_then (cancel_each now (skip_entropy 2 rnd) username session_id reason is db3) (\<lambda>(db4, more).
          Inr (db4, updated # more))))))"

definition cancel_pending_for_session ::
  "instant \<Rightarrow> entropy \<Rightarrow> string \<Rightarrow> string \<Rightarrow> string \<Rightarrow> cp_db \<Rightarrow> cp_db \<times> (cp_error, interaction list) result" where
  "cancel_pending_for_session now rnd username0 session_id0 reason0 db =
     (let username = trim_space username0; session_id = trim_space session_id0; reason = trim_space reason0 in
      transact db
        (and_then (ensure (ErrValidation ''username and session ID are required'') (\<not> (username = [] \<or> session_id = []))) (\<lambda>_.
         cancel_each now rnd username session_id reason
           (order_by (\<lambda>i. format_time (ix_created_at i))
             (filter (\<lambda>i. ix_username i = username \<and> ix_session_id i = session_id \<and> ix_status i = Pending)
               (db_interactions db))) db)))"

section \<open>Task projections (projection.go)\<close>

definition list_pending_projections :: "string \<Rightarrow> int \<Rightarrow> cp_db \<Rightarrow> projection list" where
  "list_pending_projections username limit db =
     take (clamp_limit limit)
       (order_by (\<lambda>p. format_time (pj_created_at p))
         (filter (\<lambda>p. pj_username p = trim_space username \<and> pj_state p \<in> set [PjPending, PjFailed]) (db_projections db)))"

definition get_response_by_id :: "string \<Rightarrow> string \<Rightarrow> cp_db \<Rightarrow> (cp_error, response) result" where
  "get_response_by_id username response_id db =
     require ErrNotFound (get_response (trim_space username) (trim_space response_id) db)"

definition open_projection :: "string \<Rightarrow> string \<Rightarrow> projection \<Rightarrow> bool" where
  "open_projection username decision_id p \<longleftrightarrow>
     pj_username p = trim_space username \<and> pj_decision_id p = trim_space decision_id \<and>
     pj_state p \<in> set [PjPending, PjFailed]"

definition mark_projection_applied ::
  "instant \<Rightarrow> string \<Rightarrow> string \<Rightarrow> cp_db \<Rightarrow> cp_db \<times> (cp_error, unit) result" where
  "mark_projection_applied now username decision_id db =
     (let mine = open_projection username decision_id;
          db' = db\<lparr>db_projections := update_where mine
                  (\<lambda>p. p\<lparr>pj_state := PjApplied, pj_attempts := pj_attempts p + 1, pj_last_error := [], pj_updated_at := now\<rparr>)
                  (db_projections db)\<rparr>
      in (db', ensure (ErrConflict ''task projection is not pending'') (affected mine (db_projections db) = 1)))"

definition mark_projection_failed ::
  "instant \<Rightarrow> string \<Rightarrow> string \<Rightarrow> string option \<Rightarrow> cp_db \<Rightarrow> cp_db \<times> (cp_error, unit) result" where
  "mark_projection_failed now username decision_id projection_err db =
     (let mine = open_projection username decision_id;
          message = (case projection_err of None \<Rightarrow> ''projection failed'' | Some m \<Rightarrow> m)
      in (db\<lparr>db_projections := update_where mine
               (\<lambda>p. p\<lparr>pj_state := PjFailed, pj_attempts := pj_attempts p + 1, pj_last_error := message, pj_updated_at := now\<rparr>)
               (db_projections db)\<rparr>, Inr ()))"

end
