(* ===== verification/Interaction_Invariant.thy ===== *)
theory Interaction_Invariant
  imports Interactions
begin

text \<open>
  The invariant of the interaction gateway and its preservation by every operation: the
  schema's keys are unique, a pending row is at version 1 and a closed one at version 2
  with the final action of the way it was closed, every response answers a resolved row
  and was admissible for it, and every response has its decision, its projection and its
  idempotency record, which in turn belong to a response. The operations are
  gathered in \<open>cp_op\<close>, and the interpretation of \<open>stepper\<close> lifts the invariant to every
  sequence of transactions.
\<close>

section \<open>The invariant\<close>

definition db_keys_ok :: "cp_db \<Rightarrow> bool" where
  "db_keys_ok db \<longleftrightarrow>
     unique_keys interaction_keys (db_interactions db) \<and> unique_keys response_keys (db_responses db) \<and>
     unique_keys decision_keys (db_decisions db) \<and> unique_keys audit_keys (db_audits db) \<and>
     unique_keys outbox_keys (db_outbox db) \<and> unique_keys idem_keys (db_idem db) \<and>
     unique_keys post_idem_keys (db_post_idem db) \<and> unique_keys projection_keys (db_projections db)"

definition final_ok :: "interaction \<Rightarrow> bool" where
  "final_ok i \<longleftrightarrow> ix_row_version i = (if ix_status i = Pending then 1 else 2) \<and>
     (case ix_status i of
        Pending \<Rightarrow> ix_final_action i = [] \<and> ix_resolved_at i = zero_time
      | Expired \<Rightarrow> ix_final_action i = ''expire''
      | Cancelled \<Rightarrow> ix_final_action i = ''cancel''
      | Resolved \<Rightarrow> ix_final_action i \<in> set (ix_allowed_actions i))"

text \<open>The response answers the row, and was admissible for it.\<close>

definition answers :: "response \<Rightarrow> interaction \<Rightarrow> bool" where
  "answers r i \<longleftrightarrow>
     rs_request_id r = ix_request_id i \<and> rs_username r = ix_username i \<and> ix_status i = Resolved \<and>
     ix_final_action i = rs_action r \<and> rs_action r \<in> set (ix_allowed_actions i) \<and>
     rs_input_hash r = ix_input_hash i \<and> ix_row_version i = rs_expected_version r + 1 \<and>
     \<not> (is_high_risk (ix_risk_class i) \<and> rs_action r = ''approve_session'')"

definition recorded :: "cp_db \<Rightarrow> response \<Rightarrow> bool" where
  "recorded db r \<longleftrightarrow>
     (\<exists>d \<in> set (db_decisions db). dc_response_id d = rs_id r \<and> dc_request_id d = rs_request_id r \<and> dc_action d = rs_action r) \<and>
     (\<exists>p \<in> set (db_projections db). pj_decision_id p = rs_id r \<and> pj_response_id p = rs_id r \<and>
        pj_request_id p = rs_request_id r \<and> pj_username p = rs_username r) \<and>
     (\<exists>k \<in> set (db_idem db). ik_response_id k = rs_id r \<and> ik_username k = rs_username r)"

definition db_responses_ok :: "cp_db \<Rightarrow> bool" where
  "db_responses_ok db \<longleftrightarrow>
     (\<forall>r \<in> set (db_responses db). (\<exists>i \<in> set (db_interactions db). answers r i) \<and> recorded db r)"

definition db_resolved_ok :: "cp_db \<Rightarrow> bool" where
  "db_resolved_ok db \<longleftrightarrow>
     (\<forall>i \<in> set (db_interactions db). ix_status i = Resolved \<longrightarrow> (\<exists>r \<in> set (db_responses db). answers r i))"

definition db_owned_ok :: "cp_db \<Rightarrow> bool" where
  "db_owned_ok db \<longleftrightarrow>
     (\<forall>k \<in> set (db_idem db). \<exists>r \<in> set (db_responses db). rs_id r = ik_response_id k \<and> rs_username r = ik_username k) \<and>
     (\<forall>d \<in> set (db_decisions db). \<exists>r \<in> set (db_responses db). rs_id r = dc_response_id d \<and> rs_request_id r = dc_request_id d) \<and>
     (\<forall>p \<in> set (db_projections db). \<exists>r \<in> set (db_responses db). rs_id r = pj_response_id p \<and> rs_id r = pj_decision_id p)"

definition cp_inv :: "cp_db \<Rightarrow> bool" where
  "cp_inv db \<longleftrightarrow> db_keys_ok db \<and> (\<forall>i \<in> set (db_interactions db). final_ok i) \<and>
     db_responses_ok db \<and> db_resolved_ok db \<and> db_owned_ok db"

lemmas cp_inv_defs = cp_inv_def db_keys_ok_def db_responses_ok_def db_resolved_ok_def db_owned_ok_def recorded_def

lemma cp_inv_empty: "cp_inv empty_db"
  by (simp add: cp_inv_defs empty_db_def)

lemma cp_invD:
  assumes "cp_inv db"
  shows "unique_keys interaction_keys (db_interactions db)" and "unique_keys response_keys (db_responses db)"
    and "unique_keys idem_keys (db_idem db)" and "unique_keys post_idem_keys (db_post_idem db)"
    and "unique_keys projection_keys (db_projections db)" and "unique_keys decision_keys (db_decisions db)"
    and "i \<in> set (db_interactions db) \<Longrightarrow> final_ok i"
    and "r \<in> set (db_responses db) \<Longrightarrow> \<exists>i \<in> set (db_interactions db). answers r i"
    and "r \<in> set (db_responses db) \<Longrightarrow> recorded db r"
    and "i \<in> set (db_interactions db) \<Longrightarrow> ix_status i = Resolved \<Longrightarrow> \<exists>r \<in> set (db_responses db). answers r i"
  using assms by (auto simp: cp_inv_defs)

section \<open>Rows by their keys\<close>

lemma interaction_id_unique:
  assumes "unique_keys interaction_keys rows" and "i \<in> set rows" and "j \<in> set rows"
    and "ix_request_id i = ix_request_id j"
  shows "i = j"
proof -
  from assms(1) have "unique_key (\<lambda>i. Some [ix_request_id i]) rows"
    by (rule unique_keysD) (simp add: interaction_keys_def)
  then show ?thesis by (rule unique_key_eq [OF _ assms(2,3)]) (simp_all add: assms(4))
qed

lemma response_id_unique:
  assumes "unique_keys response_keys rows" and "r \<in> set rows" and "r' \<in> set rows" and "rs_id r = rs_id r'"
  shows "r = r'"
proof -
  from assms(1) have "unique_key (\<lambda>r. Some [rs_id r]) rows"
    by (rule unique_keysD) (simp add: response_keys_def)
  then show ?thesis by (rule unique_key_eq [OF _ assms(2,3)]) (simp_all add: assms(4))
qed

lemma response_request_unique:
  assumes "unique_keys response_keys rows" and "r \<in> set rows" and "r' \<in> set rows" and "rs_request_id r = rs_request_id r'"
  shows "r = r'"
proof -
  from assms(1) have "unique_key (\<lambda>r. Some [rs_request_id r]) rows"
    by (rule unique_keysD) (simp add: response_keys_def)
  then show ?thesis by (rule unique_key_eq [OF _ assms(2,3)]) (simp_all add: assms(4))
qed

lemma get_interaction_tx_eq:
  assumes "unique_keys interaction_keys (db_interactions db)" and "i \<in> set (db_interactions db)"
  shows "get_interaction_tx (ix_username i) (ix_request_id i) db = Some i"
proof -
  from assms(1) have "unique_key (\<lambda>i. Some [ix_request_id i]) (db_interactions db)"
    by (rule unique_keysD) (simp add: interaction_keys_def)
  then show ?thesis
    unfolding get_interaction_tx_def by (rule find_unique [OF _ _ assms(2)]) simp_all
qed

lemma get_interaction_tx_SomeD:
  "get_interaction_tx u q db = Some i \<Longrightarrow> i \<in> set (db_interactions db) \<and> ix_username i = u \<and> ix_request_id i = q"
  by (auto simp: get_interaction_tx_def dest: find_SomeD)

section \<open>What the statements keep\<close>

lemma insert_audit_inv: "insert_audit b u q t a d now db = Inr db' \<Longrightarrow> cp_inv db \<Longrightarrow> cp_inv db'"
  by (auto simp: insert_audit_def cp_inv_defs split: option.splits intro: insert_row_unique)

lemma insert_outbox_inv: "insert_outbox b u q t p now db = Inr db' \<Longrightarrow> cp_inv db \<Longrightarrow> cp_inv db'"
  by (auto simp: insert_outbox_def cp_inv_defs split: option.splits intro: insert_row_unique)

lemma remember_post_inv: "remember_post u s oper k h i now db = Inr db' \<Longrightarrow> cp_inv db \<Longrightarrow> cp_inv db'"
  by (auto simp: remember_post_def store_post_idempotency_def cp_inv_defs
      split: option.splits if_splits intro: insert_row_unique)

text \<open>The statements that append to one table leave the others alone.\<close>

lemma insert_audit_frame:
  "insert_audit b u q t a d now db = Inr db' \<Longrightarrow>
     db_interactions db' = db_interactions db \<and> db_responses db' = db_responses db \<and> db_idem db' = db_idem db \<and>
     db_post_idem db' = db_post_idem db \<and> db_projections db' = db_projections db \<and> db_outbox db' = db_outbox db \<and>
     db_decisions db' = db_decisions db"
  by (auto simp: insert_audit_def split: option.splits)

lemma insert_outbox_frame:
  "insert_outbox b u q t p now db = Inr db' \<Longrightarrow>
     db_interactions db' = db_interactions db \<and> db_responses db' = db_responses db \<and> db_idem db' = db_idem db \<and>
     db_post_idem db' = db_post_idem db \<and> db_projections db' = db_projections db \<and> db_audits db' = db_audits db \<and>
     db_decisions db' = db_decisions db"
  by (auto simp: insert_outbox_def split: option.splits)

lemma remember_post_frame:
  "remember_post u s oper k h i now db = Inr db' \<Longrightarrow>
     db_interactions db' = db_interactions db \<and> db_responses db' = db_responses db \<and> db_idem db' = db_idem db \<and>
     db_projections db' = db_projections db \<and> db_audits db' = db_audits db \<and> db_outbox db' = db_outbox db \<and>
     db_decisions db' = db_decisions db"
  by (auto simp: remember_post_def store_post_idempotency_def split: option.splits if_splits)

lemma close_row_keys: "k \<in> set interaction_keys \<Longrightarrow> k (close_row st act now i) = k i"
  by (auto simp: interaction_keys_def close_row_def)

lemma close_interaction_SomeD:
  assumes "close_interaction st act now u q v db = Some db'"
  shows "db' = db\<lparr>db_interactions := update_where (at_version u q v) (close_row st act now) (db_interactions db)\<rparr>"
    and "\<exists>i \<in> set (db_interactions db). at_version u q v i"
  using assms by (auto simp: close_interaction_def affected_pos_iff [symmetric] split: if_splits)

text \<open>Closing a pending row as expired or cancelled touches no answered row.\<close>

lemma close_interaction_inv:
  assumes inv: "cp_inv db" and close: "close_interaction st act now u q v db = Some db'"
    and st: "st = Expired \<and> act = ''expire'' \<or> st = Cancelled \<and> act = ''cancel''"
  shows "cp_inv db'"
proof -
  let ?upd = "\<lambda>i. if at_version u q v i then close_row st act now i else i"
  have ixs: "set (db_interactions db') = ?upd ` set (db_interactions db)"
    by (simp add: close_interaction_SomeD(1) [OF close] set_update_where)
  have rest: "db_responses db' = db_responses db" "db_decisions db' = db_decisions db" "db_audits db' = db_audits db"
    "db_outbox db' = db_outbox db" "db_idem db' = db_idem db" "db_post_idem db' = db_post_idem db"
    "db_projections db' = db_projections db"
    by (simp_all add: close_interaction_SomeD(1) [OF close])
  have keys: "unique_keys interaction_keys (db_interactions db')"
    using inv by (auto simp: cp_inv_defs close_interaction_SomeD(1) [OF close] close_row_keys intro!: update_where_unique)
  have fin: "final_ok (?upd i)" if "i \<in> set (db_interactions db)" for i
    using cp_invD(7) [OF inv that] st by (auto simp: final_ok_def at_version_def close_row_def)
  have keep: "?upd i = i" if "ix_status i = Resolved" for i
    using that by (simp add: at_version_def)
  have "\<exists>i \<in> set (db_interactions db'). answers r i" if r: "r \<in> set (db_responses db)" for r
  proof -
    obtain i where "i \<in> set (db_interactions db)" "answers r i" using cp_invD(8) [OF inv r] by blast
    moreover from this have "?upd i = i" by (auto simp: answers_def at_version_def)
    ultimately show ?thesis by (auto simp: ixs intro!: bexI [of _ i] image_eqI [of _ _ i])
  qed
  moreover have "\<exists>r \<in> set (db_responses db). answers r j"
    if j: "j \<in> set (db_interactions db')" and res: "ix_status j = Resolved" for j
  proof -
    from j obtain i where i: "i \<in> set (db_interactions db)" "j = ?upd i" by (auto simp: ixs)
    have "\<not> at_version u q v i"
    proof
      assume "at_version u q v i"
      with i(2) have "ix_status j = st" by (simp add: close_row_def)
      with res st show False by auto
    qed
    with i have "j \<in> set (db_interactions db)" by simp
    from cp_invD(10) [OF inv this res] show ?thesis .
  qed
  moreover have "db_keys_ok db'" using inv keys by (simp add: cp_inv_defs rest)
  moreover have "recorded db' r" if "r \<in> set (db_responses db)" for r
    using cp_invD(9) [OF inv that] by (simp add: recorded_def rest)
  moreover have "db_owned_ok db'" using inv by (simp add: cp_inv_def db_owned_ok_def rest)
  ultimately show ?thesis
    using fin by (auto simp only: cp_inv_def db_responses_ok_def db_resolved_ok_def rest ixs)
qed

text \<open>A new pending row is answered by nothing.\<close>

lemma insert_interaction_inv:
  assumes inv: "cp_inv db" and ins: "insert_row interaction_keys i (db_interactions db) = Some rows"
    and i: "ix_status i = Pending" "final_ok i"
  shows "cp_inv (db\<lparr>db_interactions := rows\<rparr>)"
proof -
  have rows: "rows = db_interactions db @ [i]" using insert_row_SomeD [OF ins] by simp
  have "unique_keys interaction_keys rows" using inv ins by (auto simp: cp_inv_defs intro: insert_row_unique)
  then show ?thesis using inv i by (auto simp: cp_inv_defs rows)
qed

section \<open>A decision\<close>

text \<open>
  What the transaction of a decision leaves behind: one new response, decision,
  idempotency record and projection, and the answered row closed.
\<close>

lemma insert_audit_Inr:
  "insert_audit b u q t a d now db = Inr db' \<longleftrightarrow>
     (\<exists>rows. insert_row audit_keys
        \<lparr>au_id = new_id ''audit'' b, au_username = u, au_request_id = q, au_type = t, au_actor = a,
         au_detail = d, au_created_at = now\<rparr> (db_audits db) = Some rows \<and> db' = db\<lparr>db_audits := rows\<rparr>)"
  by (auto simp: insert_audit_def split: option.splits)

lemma insert_outbox_Inr:
  "insert_outbox b u q t p now db = Inr db' \<longleftrightarrow>
     (\<exists>rows. insert_row outbox_keys
        \<lparr>ob_id = new_id ''outbox'' b, ob_username = u, ob_aggregate_id = q, ob_type = t, ob_payload = p,
         ob_created_at = now\<rparr> (db_outbox db) = Some rows \<and> db' = db\<lparr>db_outbox := rows\<rparr>)"
  by (auto simp: insert_outbox_def split: option.splits)

lemma insert_response_Inr:
  "insert_response r db = Inr db' \<longleftrightarrow>
     (\<exists>rows. insert_row response_keys r (db_responses db) = Some rows \<and> db' = db\<lparr>db_responses := rows\<rparr>)"
  by (auto simp: insert_response_def split: option.splits)

lemma insert_decision_Inr:
  "insert_decision b r db = Inr db' \<longleftrightarrow>
     (\<exists>rows. insert_row decision_keys
        \<lparr>dc_id = new_id ''decision'' b, dc_request_id = rs_request_id r, dc_response_id = rs_id r,
         dc_action = rs_action r, dc_actor = rs_actor r, dc_input_hash = rs_input_hash r,
         dc_created_at = rs_created_at r\<rparr> (db_decisions db) = Some rows \<and> db' = db\<lparr>db_decisions := rows\<rparr>)"
  by (auto simp: insert_decision_def split: option.splits)

lemma insert_idem_Inr:
  "insert_idem u s k h r db = Inr db' \<longleftrightarrow>
     (\<exists>rows. insert_row idem_keys
        \<lparr>ik_username = u, ik_actor_scope = s, ik_key = k, ik_request_hash = h,
         ik_response_id = rs_id r, ik_created_at = rs_created_at r\<rparr> (db_idem db) = Some rows \<and>
        db' = db\<lparr>db_idem := rows\<rparr>)"
  by (auto simp: insert_idem_def split: option.splits)

lemma insert_projection_Inr:
  "insert_projection u r db = Inr db' \<longleftrightarrow>
     (\<exists>rows. insert_row projection_keys
        \<lparr>pj_decision_id = rs_id r, pj_username = u, pj_request_id = rs_request_id r,
         pj_response_id = rs_id r, pj_state = PjPending, pj_attempts = 0, pj_last_error = [],
         pj_created_at = rs_created_at r, pj_updated_at = rs_created_at r\<rparr> (db_projections db) = Some rows \<and>
        db' = db\<lparr>db_projections := rows\<rparr>)"
  by (auto simp: insert_projection_def split: option.splits)

lemma close_interaction_Some:
  "close_interaction st act now u q v db = Some db' \<longleftrightarrow>
     affected (at_version u q v) (db_interactions db) = 1 \<and>
     db' = db\<lparr>db_interactions := update_where (at_version u q v) (close_row st act now) (db_interactions db)\<rparr>"
  by (auto simp: close_interaction_def)

lemmas write_iffs = insert_audit_Inr insert_outbox_Inr insert_response_Inr insert_decision_Inr insert_idem_Inr
  insert_projection_Inr close_interaction_Some

lemma respond_writes_shape:
  assumes "respond_writes rnd u scope rh r db = Inr db'"
  obtains d k p au o1 o2 o3 where
    "insert_row response_keys r (db_responses db) = Some (db_responses db')"
    "insert_row decision_keys d (db_decisions db) = Some (db_decisions db')"
    "dc_response_id d = rs_id r" "dc_request_id d = rs_request_id r" "dc_action d = rs_action r"
    "insert_row idem_keys k (db_idem db) = Some (db_idem db')"
    "k = \<lparr>ik_username = u, ik_actor_scope = scope, ik_key = rs_idempotency_key r, ik_request_hash = rh,
          ik_response_id = rs_id r, ik_created_at = rs_created_at r\<rparr>"
    "insert_row projection_keys p (db_projections db) = Some (db_projections db')"
    "pj_decision_id p = rs_id r" "pj_response_id p = rs_id r" "pj_request_id p = rs_request_id r" "pj_username p = u"
    "pj_state p = PjPending"
    "db_interactions db' = update_where (at_version u (rs_request_id r) (rs_expected_version r))
       (close_row Resolved (rs_action r) (rs_created_at r)) (db_interactions db)"
    "affected (at_version u (rs_request_id r) (rs_expected_version r)) (db_interactions db) = 1"
    "db_post_idem db' = db_post_idem db"
    "insert_row audit_keys au (db_audits db) = Some (db_audits db')" "au_type au = ''interaction.resolved''"
    "insert_row outbox_keys o1 (db_outbox db) = Some (db_outbox db @ [o1])"
    "insert_row outbox_keys o2 (db_outbox db @ [o1]) = Some (db_outbox db @ [o1, o2])"
    "insert_row outbox_keys o3 (db_outbox db @ [o1, o2]) = Some (db_outbox db')"
    "map ob_type [o1, o2, o3] = [''interaction.resolved'', ''adapter.decision.ready'', ''project_task_projection.requested'']"
    "map ob_payload [o1, o2] = [ResponsePayload r, ResponsePayload r]"
    "db_outbox db' = db_outbox db @ [o1, o2, o3]"
proof -
  let ?now = "rs_created_at r" and ?q = "rs_request_id r"
  let ?D = "\<lparr>dc_id = new_id ''decision'' (rnd 1), dc_request_id = ?q, dc_response_id = rs_id r,
    dc_action = rs_action r, dc_actor = rs_actor r, dc_input_hash = rs_input_hash r, dc_created_at = ?now\<rparr>"
  let ?K = "\<lparr>ik_username = u, ik_actor_scope = scope, ik_key = rs_idempotency_key r, ik_request_hash = rh,
    ik_response_id = rs_id r, ik_created_at = ?now\<rparr>"
  let ?P = "\<lparr>pj_decision_id = rs_id r, pj_username = u, pj_request_id = ?q, pj_response_id = rs_id r,
    pj_state = PjPending, pj_attempts = 0, pj_last_error = [], pj_created_at = ?now, pj_updated_at = ?now\<rparr>"
  let ?A = "\<lparr>au_id = new_id ''audit'' (rnd 2), au_username = u, au_request_id = ?q, au_type = ''interaction.resolved'',
    au_actor = rs_actor r, au_detail = rs_action r, au_created_at = ?now\<rparr>"
  let ?O = "\<lambda>n t p. \<lparr>ob_id = new_id ''outbox'' (rnd n), ob_username = u, ob_aggregate_id = ?q, ob_type = t,
    ob_payload = p, ob_created_at = ?now\<rparr>"
  let ?o1 = "?O 3 ''interaction.resolved'' (ResponsePayload r)"
  let ?o2 = "?O 4 ''adapter.decision.ready'' (ResponsePayload r)"
  let ?o3 = "?O 5 ''project_task_projection.requested'' (StringsPayload [(''decisionId'', rs_id r), (''responseId'', rs_id r)])"
  from assms obtain db1 db2 db3 db4 db5 db6 db7 db8 where w:
    "insert_response r db = Inr db1" "insert_decision (rnd 1) r db1 = Inr db2"
    "close_interaction Resolved (rs_action r) ?now u ?q (rs_expected_version r) db2 = Some db3"
    "insert_idem u scope (rs_idempotency_key r) rh r db3 = Inr db4" "insert_projection u r db4 = Inr db5"
    "insert_audit (rnd 2) u ?q ''interaction.resolved'' (rs_actor r) (rs_action r) ?now db5 = Inr db6"
    "insert_outbox (rnd 3) u ?q ''interaction.resolved'' (ResponsePayload r) ?now db6 = Inr db7"
    "insert_outbox (rnd 4) u ?q ''adapter.decision.ready'' (ResponsePayload r) ?now db7 = Inr db8"
    "insert_outbox (rnd 5) u ?q ''project_task_projection.requested''
       (StringsPayload [(''decisionId'', rs_id r), (''responseId'', rs_id r)]) ?now db8 = Inr db'"
    unfolding respond_writes_def Let_def and_then_Inr_iff require_Inr_iff by (elim exE conjE) (rule that)
  obtain R where R: "insert_row response_keys r (db_responses db) = Some R" "db1 = db\<lparr>db_responses := R\<rparr>"
    using w(1) by (auto simp: insert_response_Inr)
  obtain D where D: "insert_row decision_keys ?D (db_decisions db) = Some D" "db2 = db1\<lparr>db_decisions := D\<rparr>"
    using w(2) R(2) by (auto simp: insert_decision_Inr)
  have I: "affected (at_version u ?q (rs_expected_version r)) (db_interactions db) = 1"
    "db3 = db2\<lparr>db_interactions := update_where (at_version u ?q (rs_expected_version r))
      (close_row Resolved (rs_action r) ?now) (db_interactions db)\<rparr>"
    using w(3) R(2) D(2) by (auto simp: close_interaction_Some)
  obtain K where K: "insert_row idem_keys ?K (db_idem db) = Some K" "db4 = db3\<lparr>db_idem := K\<rparr>"
    using w(4) R(2) D(2) I(2) by (auto simp: insert_idem_Inr)
  obtain P where P: "insert_row projection_keys ?P (db_projections db) = Some P" "db5 = db4\<lparr>db_projections := P\<rparr>"
    using w(5) R(2) D(2) I(2) K(2) by (auto simp: insert_projection_Inr)
  obtain A where A: "insert_row audit_keys ?A (db_audits db) = Some A" "db6 = db5\<lparr>db_audits := A\<rparr>"
    using w(6) R(2) D(2) I(2) K(2) P(2) by (auto simp: insert_audit_Inr)
  have o6: "db_outbox db6 = db_outbox db" by (simp add: R(2) D(2) I(2) K(2) P(2) A(2))
  have O1: "insert_row outbox_keys ?o1 (db_outbox db) = Some (db_outbox db @ [?o1])"
    "db7 = db6\<lparr>db_outbox := db_outbox db @ [?o1]\<rparr>"
    using w(7) o6 by (auto simp: insert_outbox_Inr insert_row_Some_iff)
  have O2: "insert_row outbox_keys ?o2 (db_outbox db @ [?o1]) = Some (db_outbox db @ [?o1, ?o2])"
    "db8 = db6\<lparr>db_outbox := db_outbox db @ [?o1, ?o2]\<rparr>"
    using w(8) O1(2) by (auto simp: insert_outbox_Inr insert_row_Some_iff)
  have O3: "insert_row outbox_keys ?o3 (db_outbox db @ [?o1, ?o2]) = Some (db_outbox db @ [?o1, ?o2, ?o3])"
    "db' = db6\<lparr>db_outbox := db_outbox db @ [?o1, ?o2, ?o3]\<rparr>"
    using w(9) O2(2) by (auto simp: insert_outbox_Inr insert_row_Some_iff)
  note upd = O3(2) A(2) P(2) K(2) I(2) D(2) R(2)
  show thesis
    by (rule that [of ?D ?K ?P ?A ?o1 ?o2 ?o3]) (use R(1) D(1) I(1) K(1) P(1) A(1) O1(1) O2(1) O3(1) in \<open>simp_all add: upd\<close>)
qed

text \<open>An answered row stays answered by the same response when another row is closed.\<close>

lemma respond_writes_inv:
  assumes inv: "cp_inv db" and w: "respond_writes rnd u scope rh r db = Inr db'"
    and ix: "ix \<in> set (db_interactions db)" "ix_username ix = u" "ix_request_id ix = rs_request_id r"
    and r: "rs_username r = u" "rs_input_hash r = ix_input_hash ix" "rs_action r \<in> set (ix_allowed_actions ix)"
      "\<not> (is_high_risk (ix_risk_class ix) \<and> rs_action r = ''approve_session'')"
  shows "cp_inv db'"
proof -
  let ?v = "rs_expected_version r" and ?q = "rs_request_id r"
  let ?upd = "\<lambda>i. if at_version u ?q ?v i then close_row Resolved (rs_action r) (rs_created_at r) i else i"
  obtain d k p au o1 o2 o3 where s:
    "insert_row response_keys r (db_responses db) = Some (db_responses db')"
    "insert_row decision_keys d (db_decisions db) = Some (db_decisions db')"
    "dc_response_id d = rs_id r" "dc_request_id d = ?q" "dc_action d = rs_action r"
    "insert_row idem_keys k (db_idem db) = Some (db_idem db')"
    "k = \<lparr>ik_username = u, ik_actor_scope = scope, ik_key = rs_idempotency_key r, ik_request_hash = rh,
          ik_response_id = rs_id r, ik_created_at = rs_created_at r\<rparr>"
    "insert_row projection_keys p (db_projections db) = Some (db_projections db')"
    "pj_decision_id p = rs_id r" "pj_response_id p = rs_id r" "pj_request_id p = ?q" "pj_username p = u"
    "db_interactions db' = update_where (at_version u ?q ?v)
       (close_row Resolved (rs_action r) (rs_created_at r)) (db_interactions db)"
    "affected (at_version u ?q ?v) (db_interactions db) = 1"
    "db_post_idem db' = db_post_idem db"
    "insert_row audit_keys au (db_audits db) = Some (db_audits db')"
    "insert_row outbox_keys o1 (db_outbox db) = Some (db_outbox db @ [o1])"
    "insert_row outbox_keys o2 (db_outbox db @ [o1]) = Some (db_outbox db @ [o1, o2])"
    "insert_row outbox_keys o3 (db_outbox db @ [o1, o2]) = Some (db_outbox db')"
    using w by (rule respond_writes_shape) (rule that)
  have rows: "db_responses db' = db_responses db @ [r]" "db_decisions db' = db_decisions db @ [d]"
    "db_idem db' = db_idem db @ [k]" "db_projections db' = db_projections db @ [p]"
    using s(1,2,6,8) by (auto simp: insert_row_Some_iff)
  have ixs: "set (db_interactions db') = ?upd ` set (db_interactions db)"
    by (simp add: s(13) set_update_where)
  have at: "at_version u ?q ?v i \<longleftrightarrow> i = ix" if i: "i \<in> set (db_interactions db)" for i
  proof -
    have "0 < affected (at_version u ?q ?v) (db_interactions db)" using s(14) by simp
    then obtain j where j: "j \<in> set (db_interactions db)" "at_version u ?q ?v j" by (auto simp: affected_pos_iff)
    have one: "x = ix" if "x \<in> set (db_interactions db)" "at_version u ?q ?v x" for x
      using that ix by (intro interaction_id_unique [OF cp_invD(1) [OF inv]]) (simp_all add: at_version_def)
    from one [OF j] j(2) one [OF i] show ?thesis by blast
  qed
  have pend: "ix_status ix = Pending" "ix_row_version ix = ?v"
    using at [OF ix(1)] by (simp_all add: at_version_def)
  define ix' where "ix' = close_row Resolved (rs_action r) (rs_created_at r) ix"
  have ixs': "set (db_interactions db') = insert ix' (set (db_interactions db) - {ix})"
    using ix(1) at by (auto simp: ixs ix'_def)
  have ans: "answers r ix'"
    using r ix pend by (simp add: answers_def ix'_def close_row_def)
  have K: "db_keys_ok db" using inv by (simp add: cp_inv_def)
  have "unique_keys interaction_keys (db_interactions db')"
    unfolding s(13) using K by (intro update_where_unique) (simp_all add: db_keys_ok_def close_row_keys)
  moreover have "unique_keys outbox_keys (db_outbox db')"
    using K by (intro insert_row_unique [OF _ s(19)] insert_row_unique [OF _ s(18)] insert_row_unique [OF _ s(17)])
      (simp add: db_keys_ok_def)
  ultimately have keys: "db_keys_ok db'"
    using K insert_row_unique [OF _ s(1)] insert_row_unique [OF _ s(2)] insert_row_unique [OF _ s(6)]
      insert_row_unique [OF _ s(8)] insert_row_unique [OF _ s(16)]
    by (simp add: db_keys_ok_def s(15))
  have "final_ok ix'"
    using cp_invD(7) [OF inv ix(1)] r(3) pend(1) by (simp add: ix'_def final_ok_def close_row_def)
  then have fin: "final_ok i" if "i \<in> set (db_interactions db')" for i
    using that cp_invD(7) [OF inv] by (auto simp: ixs')
  have rec: "recorded db' r'" if "r' \<in> set (db_responses db')" for r'
    using that cp_invD(9) [OF inv] s(3-5,7,9-12) r(1) by (auto simp: rows recorded_def)
  have "\<exists>i \<in> set (db_interactions db'). answers r' i" if r': "r' \<in> set (db_responses db')" for r'
  proof (cases "r' = r")
    case True
    with ans show ?thesis by (auto simp: ixs')
  next
    case False
    with r' obtain i where i: "i \<in> set (db_interactions db)" "answers r' i"
      using cp_invD(8) [OF inv] by (auto simp: rows)
    with pend have "i \<noteq> ix" by (auto simp: answers_def)
    with i show ?thesis by (auto simp: ixs')
  qed
  moreover have "\<exists>r' \<in> set (db_responses db'). answers r' i"
    if "i \<in> set (db_interactions db')" "ix_status i = Resolved" for i
    using that cp_invD(10) [OF inv] ans by (auto simp: ixs' rows)
  moreover have "db_owned_ok db'"
    using inv s(3,4,7,9,10) r(1) by (auto simp: cp_inv_def db_owned_ok_def rows)
  ultimately show ?thesis
    using keys fin rec by (simp add: cp_inv_def db_responses_ok_def db_resolved_ok_def)
qed

section \<open>The operations keep the invariant\<close>

lemma transact_inv:
  "cp_inv db \<Longrightarrow> (\<And>db' x. r = Inr (db', x) \<Longrightarrow> cp_inv db') \<Longrightarrow> cp_inv (fst (transact db r))"
  by (auto simp: transact_def split: sum.splits)

lemma expire_interaction_tx_inv:
  assumes "cp_inv db" and "expire_interaction_tx now rnd u i db = Inr (db', x)"
  shows "cp_inv db'"
proof (cases "close_interaction Expired ''expire'' now u (ix_request_id i) (ix_row_version i) db")
  case None
  with assms show ?thesis by (simp add: expire_interaction_tx_def)
next
  case (Some db1)
  with assms(2) obtain db2 db3 where
    a: "insert_audit (rnd 0) u (ix_request_id i) ''interaction.expired'' ''expiry_worker'' ''Interaction reached expiresAt.'' now db1 = Inr db2"
    and o: "insert_outbox (rnd 1) u (ix_request_id i) ''interaction.expired'' (ExpiryPayload (ix_request_id i) (ix_expires_at i)) now db2 = Inr db3"
    and e: "db' = db3"
    by (auto simp: expire_interaction_tx_def)
  have "cp_inv db1" using close_interaction_inv [OF assms(1) Some] by simp
  then show ?thesis unfolding e by (rule insert_outbox_inv [OF o insert_audit_inv [OF a]])
qed

lemma expire_each_inv: "cp_inv db \<Longrightarrow> expire_each now rnd u is db = Inr (db', x) \<Longrightarrow> cp_inv db'"
proof (induction "is" arbitrary: rnd db x)
  case (Cons i "is")
  then show ?case by (fastforce dest: expire_interaction_tx_inv)
qed simp

lemma cancel_each_inv: "cp_inv db \<Longrightarrow> cancel_each now rnd u s reason is db = Inr (db', x) \<Longrightarrow> cp_inv db'"
proof (induction "is" arbitrary: rnd db x)
  case (Cons i "is")
  show ?case
  proof (cases "close_interaction Cancelled ''cancel'' now u (ix_request_id i) (ix_row_version i) db")
    case None
    with Cons show ?thesis by simp
  next
    case (Some db1)
    have "cp_inv db1" using close_interaction_inv [OF Cons.prems(1) Some] by simp
    with Some Cons.prems(2) show ?thesis
      by (auto dest!: insert_audit_inv insert_outbox_inv intro: Cons.IH)
  qed
qed simp

lemma interaction_of_input_pending:
  "ix_status (interaction_of_input now b input) = Pending" "final_ok (interaction_of_input now b input)"
  by (simp_all add: interaction_of_input_def final_ok_def)

lemma create_writes_inv:
  assumes inv: "cp_inv db" and i: "ix_status i = Pending" "final_ok i"
    and w: "create_writes now rnd u s k h i db = Inr (db', x)"
  shows "cp_inv db'"
proof (cases "insert_row interaction_keys i (db_interactions db)")
  case None
  with w inv show ?thesis
    by (auto simp: create_writes_def split: option.splits if_splits dest: remember_post_inv)
next
  case (Some rows)
  have "cp_inv (db\<lparr>db_interactions := rows\<rparr>)" by (rule insert_interaction_inv [OF inv Some i])
  with w Some show ?thesis
    by (auto simp: create_writes_def dest!: insert_audit_inv insert_outbox_inv remember_post_inv)
qed

lemma create_interaction_inv: "cp_inv db \<Longrightarrow> cp_inv (fst (create_interaction hs now rnd input db))"
  unfolding create_interaction_def Let_def
  by (rule transact_inv)
    (auto split: option.splits intro: create_writes_inv [OF _ interaction_of_input_pending])

lemma expire_due_inv: "cp_inv db \<Longrightarrow> cp_inv (fst (expire_due_interactions now rnd u db))"
  unfolding expire_due_interactions_def Let_def
  by (rule transact_inv) (auto intro: expire_each_inv)

lemma list_pending_inv: "cp_inv db \<Longrightarrow> cp_inv (fst (list_pending_interactions now rnd u limit db))"
  using expire_due_inv [of db now rnd u]
  by (auto simp: list_pending_interactions_def split: prod.splits sum.splits)

lemma cancel_for_session_inv: "cp_inv db \<Longrightarrow> cp_inv (fst (cancel_pending_for_session now rnd u s reason db))"
  unfolding cancel_pending_for_session_def Let_def
  by (rule transact_inv) (auto intro: cancel_each_inv)

lemma cancel_writes_inv:
  assumes inv: "cp_inv db" and w: "cancel_writes now rnd u q h input db = Inr (db', x)"
  shows "cp_inv db'"
proof -
  from w obtain db1 db2 db3 where
    c: "close_interaction Cancelled ''cancel'' now u q (cn_expected_version input) db = Some db1"
    and a: "insert_audit (rnd 0) u q ''interaction.cancelled'' ''adapter'' (cn_reason input) now db1 = Inr db2"
    and o: "insert_outbox (rnd 1) u q ''interaction.cancelled'' (StringsPayload [(''reason'', cn_reason input)]) now db2 = Inr db3"
    and r: "remember_post u (cn_actor_scope input) ''interaction.cancel'' (cn_idempotency_key input) h x now db3 = Inr db'"
    by (auto simp: cancel_writes_def)
  have "cp_inv db1" by (rule close_interaction_inv [OF inv c]) simp
  then show ?thesis by (rule remember_post_inv [OF r insert_outbox_inv [OF o insert_audit_inv [OF a]]])
qed

lemma cancel_idempotent_inv: "cp_inv db \<Longrightarrow> cp_inv (fst (cancel_interaction_idempotent hs now rnd u q input db))"
  unfolding cancel_interaction_idempotent_def Let_def
  by (rule transact_inv) (auto split: option.splits intro: cancel_writes_inv)

lemma validate_response_okD:
  assumes "validate_response ix input = Inr ()"
  shows "ri_action input \<in> set (ix_allowed_actions ix)"
    and "\<not> (is_high_risk (ix_risk_class ix) \<and> ri_action input = ''approve_session'')"
    and "list_all (\<lambda>s. s \<in> set (map ro_id (sc_options (ix_schema ix)))) (ri_selected input)"
  using assms by (simp_all add: validate_response_def Let_def)

lemma respond_fresh_inv: "cp_inv db \<Longrightarrow> cp_inv (fst (respond_fresh now rnd u q h input db))"
proof (cases "get_interaction_tx u q db")
  case None
  then show "cp_inv db \<Longrightarrow> ?thesis" by (simp add: respond_fresh_def)
next
  case (Some ix)
  assume inv: "cp_inv db"
  have ix: "ix \<in> set (db_interactions db)" "ix_username ix = u" "ix_request_id ix = q"
    using get_interaction_tx_SomeD [OF Some] by simp_all
  let ?r = "response_of now (rnd 0) ix u q input"
  show ?thesis
  proof (cases "ix_status ix = Pending \<and> due now ix")
    case True
    with Some inv show ?thesis
      by (auto simp: respond_fresh_def split: sum.splits dest: expire_interaction_tx_inv)
  next
    case False
    have "cp_inv db'" if hash: "ri_input_hash input = ix_input_hash ix" and v: "validate_response ix input = Inr ()"
      and w: "respond_writes rnd u (response_scope input) h ?r db = Inr db'" for db'
      by (rule respond_writes_inv [OF inv w ix(1,2)])
        (simp_all add: response_of_def ix(3) hash validate_response_okD [OF v])
    with Some False inv show ?thesis
      by (auto simp: respond_fresh_def Let_def transact_def split: sum.splits)
  qed
qed

lemma respond_inv: "cp_inv db \<Longrightarrow> cp_inv (fst (respond hs now rnd u q input db))"
  by (simp add: respond_def Let_def respond_fresh_inv split: option.splits)

lemma projection_update_inv:
  assumes "cp_inv db"
    and "\<And>p. pj_decision_id (f p) = pj_decision_id p \<and> pj_response_id (f p) = pj_response_id p \<and>
       pj_request_id (f p) = pj_request_id p \<and> pj_username (f p) = pj_username p"
  shows "cp_inv (db\<lparr>db_projections := update_where sel f (db_projections db)\<rparr>)"
proof -
  have "unique_keys projection_keys (update_where sel f (db_projections db))"
    using assms by (intro update_where_unique) (auto simp: cp_inv_defs projection_keys_def)
  moreover have "recorded (db\<lparr>db_projections := update_where sel f (db_projections db)\<rparr>) r" if "recorded db r" for r
  proof -
    from that obtain p where p: "p \<in> set (db_projections db)" "pj_decision_id p = rs_id r" "pj_response_id p = rs_id r"
      "pj_request_id p = rs_request_id r" "pj_username p = rs_username r"
      by (auto simp: recorded_def)
    let ?p = "if sel p then f p else p"
    have "?p \<in> set (update_where sel f (db_projections db))" using p(1) by (auto simp: set_update_where)
    moreover have "pj_decision_id ?p = rs_id r" "pj_response_id ?p = rs_id r"
      "pj_request_id ?p = rs_request_id r" "pj_username ?p = rs_username r"
      using p assms(2) by simp_all
    ultimately show ?thesis using that by (auto simp: recorded_def simp del: if_split)
  qed
  moreover have "\<exists>r \<in> set (db_responses db). rs_id r = pj_response_id p \<and> rs_id r = pj_decision_id p"
    if "p \<in> set (update_where sel f (db_projections db))" for p
    using that assms by (auto simp: cp_inv_def db_owned_ok_def set_update_where)
  ultimately show ?thesis
    using assms(1) by (simp add: cp_inv_def db_keys_ok_def db_responses_ok_def db_resolved_ok_def db_owned_ok_def)
qed

section \<open>Runs\<close>

text \<open>One committed or rolled-back call of the repository, with its inputs.\<close>

datatype cp_op =
    CreateOp instant entropy create_input
  | RespondOp instant entropy string string respond_input
  | CancelOp instant entropy string string cancel_input
  | ExpireOp instant entropy string
  | SessionEndOp instant entropy string string string
  | AppliedOp instant string string
  | FailedOp instant string string "string option"

fun cp_step :: "hashes \<Rightarrow> cp_db \<Rightarrow> cp_op \<Rightarrow> cp_db" where
  "cp_step hs db (CreateOp now rnd input) = fst (create_interaction hs now rnd input db)"
| "cp_step hs db (RespondOp now rnd u q input) = fst (respond hs now rnd u q input db)"
| "cp_step hs db (CancelOp now rnd u q input) = fst (cancel_interaction_idempotent hs now rnd u q input db)"
| "cp_step hs db (ExpireOp now rnd u) = fst (expire_due_interactions now rnd u db)"
| "cp_step hs db (SessionEndOp now rnd u s reason) = fst (cancel_pending_for_session now rnd u s reason db)"
| "cp_step hs db (AppliedOp now u d) = fst (mark_projection_applied now u d db)"
| "cp_step hs db (FailedOp now u d err) = fst (mark_projection_failed now u d err db)"

lemma cp_step_inv: "cp_inv db \<Longrightarrow> cp_inv (cp_step hs db op)"
  by (cases op)
    (simp_all add: create_interaction_inv respond_inv cancel_idempotent_inv expire_due_inv cancel_for_session_inv
      mark_projection_applied_def mark_projection_failed_def Let_def projection_update_inv)

interpretation gateway: stepper "cp_step hs" cp_inv for hs
  by unfold_locales (rule cp_step_inv)

definition cp_run :: "hashes \<Rightarrow> cp_op list \<Rightarrow> cp_db" where
  "cp_run hs ops = foldl (cp_step hs) empty_db ops"

lemma cp_run_inv: "cp_inv (cp_run hs ops)"
  unfolding cp_run_def by (rule gateway.run_inv [OF cp_inv_empty])

lemma cp_run_append: "cp_run hs (ops @ later) = foldl (cp_step hs) (cp_run hs ops) later"
  by (simp add: cp_run_def)

end
