(* ===== verification/Interaction_History.thy ===== *)
theory Interaction_History
  imports Interaction_Invariant
begin

text \<open>
  How the gateway's database evolves: the log tables only grow at the end, a row of the
  interaction table is never removed, and it changes at most once, from pending to its
  closed form. The recorded answers of idempotency keys are therefore stable, which the
  interpretations of \<open>replay_log\<close> state for the three tables replays read.
\<close>

section \<open>Evolution\<close>

definition evolves :: "interaction \<Rightarrow> interaction \<Rightarrow> bool" where
  "evolves i j \<longleftrightarrow> i = j \<or> ix_status i = Pending \<and> (\<exists>st act now. st \<noteq> Pending \<and> j = close_row st act now i)"

definition grows :: "'a list \<Rightarrow> 'a list \<Rightarrow> bool" where
  "grows xs ys \<longleftrightarrow> (\<exists>zs. ys = xs @ zs)"

definition rows_le :: "interaction list \<Rightarrow> interaction list \<Rightarrow> bool" where
  "rows_le rows rows' \<longleftrightarrow> (\<exists>xs ys. rows' = xs @ ys \<and> list_all2 evolves rows xs)"

definition db_le :: "cp_db \<Rightarrow> cp_db \<Rightarrow> bool" where
  "db_le db db' \<longleftrightarrow>
     rows_le (db_interactions db) (db_interactions db') \<and>
     grows (db_responses db) (db_responses db') \<and> grows (db_decisions db) (db_decisions db') \<and>
     grows (db_audits db) (db_audits db') \<and> grows (db_outbox db) (db_outbox db') \<and>
     grows (db_idem db) (db_idem db') \<and> grows (db_post_idem db) (db_post_idem db')"

lemma evolves_refl [simp]: "evolves i i"
  by (simp add: evolves_def)

lemma evolves_trans: "evolves i j \<Longrightarrow> evolves j k \<Longrightarrow> evolves i k"
  by (auto simp: evolves_def close_row_def)

lemma grows_refl [simp]: "grows xs xs" and grows_append [simp]: "grows xs (xs @ ys)"
  by (auto simp: grows_def)

lemma grows_trans: "grows xs ys \<Longrightarrow> grows ys zs \<Longrightarrow> grows xs zs"
  by (auto simp: grows_def)

lemma insert_row_grows: "insert_row ks r rows = Some rows' \<Longrightarrow> grows rows rows'"
  by (simp add: insert_row_Some_iff)

lemma list_all2_evolves_refl [simp]: "list_all2 evolves xs xs"
  by (simp add: list_all2_refl)

lemma rows_leI: "list_all2 evolves rows xs \<Longrightarrow> rows_le rows (xs @ ys)"
  by (auto simp: rows_le_def)

lemma rows_le_refl [simp]: "rows_le rows rows" and rows_le_append [simp]: "rows_le rows (rows @ ys)"
  using rows_leI [of rows rows] rows_leI [of rows rows "[]"] by simp_all

lemma rows_le_all2: "list_all2 evolves rows xs \<Longrightarrow> rows_le rows xs"
  using rows_leI [of rows xs "[]"] by simp

lemma rows_le_trans: "rows_le xs ys \<Longrightarrow> rows_le ys zs \<Longrightarrow> rows_le xs zs"
proof -
  assume "rows_le xs ys" and "rows_le ys zs"
  then obtain xs' ys' us vs where 1: "ys = xs' @ ys'" "list_all2 evolves xs xs'" "zs = us @ vs" "list_all2 evolves (xs' @ ys') us"
    by (auto simp: rows_le_def)
  then obtain us1 us2 where u: "us = us1 @ us2" "list_all2 evolves xs' us1" by (auto simp: list_all2_append1)
  have "list_all2 evolves xs us1" using list_all2_trans [OF _ 1(2) u(2)] evolves_trans by blast
  then show ?thesis using rows_leI [of xs us1 "us2 @ vs"] 1(3) u(1) by simp
qed

lemma db_le_refl [simp]: "db_le db db"
  by (simp add: db_le_def)

lemma db_le_trans: "db_le db1 db2 \<Longrightarrow> db_le db2 db3 \<Longrightarrow> db_le db1 db3"
  by (auto simp: db_le_def intro: grows_trans rows_le_trans)

lemma insert_audit_le: "insert_audit b u q t a d now db = Inr db' \<Longrightarrow> db_le db db'"
  by (auto simp: insert_audit_Inr db_le_def intro: insert_row_grows)

lemma insert_outbox_le: "insert_outbox b u q t p now db = Inr db' \<Longrightarrow> db_le db db'"
  by (auto simp: insert_outbox_Inr db_le_def intro: insert_row_grows)

lemma remember_post_le: "remember_post u s oper k h i now db = Inr db' \<Longrightarrow> db_le db db'"
  by (auto simp: remember_post_def store_post_idempotency_def db_le_def
      split: option.splits if_splits intro: insert_row_grows)

lemma update_evolves:
  "st \<noteq> Pending \<Longrightarrow> list_all2 evolves rows (update_where (at_version u q v) (close_row st act now) rows)"
  by (induction rows) (auto simp: evolves_def at_version_def)

lemma close_interaction_le:
  assumes "close_interaction st act now u q v db = Some db'" and "st \<noteq> Pending"
  shows "db_le db db'"
proof -
  have "list_all2 evolves (db_interactions db) (db_interactions db')"
    using assms by (simp add: close_interaction_SomeD(1) [OF assms(1)] update_evolves)
  then show ?thesis by (simp add: db_le_def rows_le_all2 close_interaction_SomeD(1) [OF assms(1)])
qed

lemma respond_writes_le:
  assumes "respond_writes rnd u scope rh r db = Inr db'"
  shows "db_le db db'"
proof -
  have "list_all2 evolves (db_interactions db) (db_interactions db') \<and> grows (db_responses db) (db_responses db') \<and>
     grows (db_decisions db) (db_decisions db') \<and> grows (db_audits db) (db_audits db') \<and>
     grows (db_outbox db) (db_outbox db') \<and> grows (db_idem db) (db_idem db') \<and> grows (db_post_idem db) (db_post_idem db')"
    by (rule respond_writes_shape [OF assms]) (simp add: insert_row_grows update_evolves)
  then show ?thesis by (simp add: db_le_def rows_le_all2)
qed

section \<open>Every operation\<close>

lemma transact_le: "(\<And>db' x. r = Inr (db', x) \<Longrightarrow> db_le db db') \<Longrightarrow> db_le db (fst (transact db r))"
  by (auto simp: transact_def split: sum.splits)

lemma expire_interaction_tx_le:
  "expire_interaction_tx now rnd u i db = Inr (db', x) \<Longrightarrow> db_le db db'"
  by (auto simp: expire_interaction_tx_def split: option.splits
      dest!: insert_audit_le insert_outbox_le close_interaction_le intro: db_le_trans)

lemma expire_each_le: "expire_each now rnd u is db = Inr (db', x) \<Longrightarrow> db_le db db'"
proof (induction "is" arbitrary: rnd db x)
  case (Cons i "is")
  then show ?case by (fastforce dest: expire_interaction_tx_le intro: db_le_trans)
qed simp

lemma cancel_each_le: "cancel_each now rnd u s reason is db = Inr (db', x) \<Longrightarrow> db_le db db'"
proof (induction "is" arbitrary: rnd db x)
  case (Cons i "is")
  show ?case
  proof (cases "close_interaction Cancelled ''cancel'' now u (ix_request_id i) (ix_row_version i) db")
    case None
    with Cons show ?thesis by simp
  next
    case (Some db1)
    with Cons.prems obtain db2 db3 more where
      "insert_audit (rnd 0) u (ix_request_id i) ''interaction.cancelled'' ''session_lifecycle'' reason now db1 = Inr db2"
      "insert_outbox (rnd 1) u (ix_request_id i) ''interaction.cancelled''
         (StringsPayload [(''reason'', reason), (''sessionId'', s)]) now db2 = Inr db3"
      "cancel_each now (skip_entropy 2 rnd) u s reason is db3 = Inr (db', more)"
      by auto
    then have "db_le db1 db2" "db_le db2 db3" "db_le db3 db'"
      using Cons.IH by (auto dest: insert_audit_le insert_outbox_le)
    moreover have "db_le db db1" by (rule close_interaction_le [OF Some]) simp
    ultimately show ?thesis by (blast intro: db_le_trans)
  qed
qed simp

lemma create_writes_le:
  assumes "create_writes now rnd u s k h i db = Inr (db', x)"
  shows "db_le db db'"
proof (cases "insert_row interaction_keys i (db_interactions db)")
  case None
  with assms show ?thesis
    by (auto simp: create_writes_def split: option.splits if_splits dest: remember_post_le)
next
  case (Some rows)
  then have "db_le db (db\<lparr>db_interactions := rows\<rparr>)" by (simp add: db_le_def insert_row_Some_iff)
  with assms Some show ?thesis
    by (auto simp: create_writes_def dest!: insert_audit_le insert_outbox_le remember_post_le intro: db_le_trans)
qed

lemma cancel_writes_le:
  assumes "cancel_writes now rnd u q h input db = Inr (db', x)"
  shows "db_le db db'"
  using assms
  by (auto simp: cancel_writes_def dest!: close_interaction_le insert_audit_le insert_outbox_le remember_post_le
      intro: db_le_trans)

lemma respond_fresh_le: "db_le db (fst (respond_fresh now rnd u q h input db))"
proof (cases "get_interaction_tx u q db")
  case (Some ix)
  then show ?thesis
    by (auto simp: respond_fresh_def Let_def transact_def split: sum.splits
        dest!: expire_interaction_tx_le respond_writes_le)
qed (simp add: respond_fresh_def)

lemma replay_le:
  "(case replayed of None \<Rightarrow> w | Some j \<Rightarrow> Inr (db, j)) = Inr (db', x) \<Longrightarrow> (w = Inr (db', x) \<Longrightarrow> db_le db db') \<Longrightarrow> db_le db db'"
  by (cases replayed) auto

lemma cp_step_le: "db_le db (cp_step hs db op)"
proof (cases op)
  case (CreateOp now rnd input)
  show ?thesis
    unfolding CreateOp cp_step.simps create_interaction_def Let_def
    by (rule transact_le)
      (simp only: and_then_Inr_iff, elim exE conjE, erule replay_le, erule create_writes_le)
next
  case (RespondOp now rnd u q input)
  then show ?thesis by (simp add: respond_def Let_def respond_fresh_le split: option.splits)
next
  case (CancelOp now rnd u q input)
  show ?thesis
    unfolding CancelOp cp_step.simps cancel_interaction_idempotent_def Let_def
    by (rule transact_le)
      (simp only: and_then_Inr_iff, elim exE conjE, erule replay_le, erule cancel_writes_le)
next
  case (ExpireOp now rnd u)
  show ?thesis
    unfolding ExpireOp cp_step.simps expire_due_interactions_def Let_def
    by (rule transact_le) (auto dest: expire_each_le)
next
  case (SessionEndOp now rnd u s reason)
  show ?thesis
    unfolding SessionEndOp cp_step.simps cancel_pending_for_session_def Let_def
    by (rule transact_le) (auto dest: cancel_each_le)
next
  case (AppliedOp now u d)
  then show ?thesis by (simp add: mark_projection_applied_def Let_def db_le_def)
next
  case (FailedOp now u d err)
  then show ?thesis by (simp add: mark_projection_failed_def Let_def db_le_def)
qed

lemma run_le: "db_le db (foldl (cp_step hs) db ops)"
proof (induction ops arbitrary: db)
  case (Cons op ops)
  have "db_le (cp_step hs db op) (foldl (cp_step hs) (cp_step hs db op) ops)" by (rule Cons.IH)
  then show ?case using db_le_trans [OF cp_step_le] by (metis foldl_Cons)
qed simp

lemma rows_leD:
  assumes "rows_le rows rows'" and "i \<in> set rows"
  shows "\<exists>j \<in> set rows'. evolves i j"
proof -
  from assms(1) obtain xs ys where x: "rows' = xs @ ys" "list_all2 evolves rows xs" by (auto simp: rows_le_def)
  from assms(2) obtain n where "n < length rows" "i = rows ! n" by (auto simp: in_set_conv_nth)
  with x(2) have "evolves i (xs ! n)" "xs ! n \<in> set xs"
    by (auto simp: list_all2_conv_all_nth)
  with x(1) show ?thesis by auto
qed

lemma db_leD:
  assumes "db_le db db'"
  shows "r \<in> set (db_responses db) \<Longrightarrow> r \<in> set (db_responses db')"
    and "i \<in> set (db_interactions db) \<Longrightarrow> \<exists>j \<in> set (db_interactions db'). evolves i j"
  using assms by (auto simp: db_le_def grows_def intro: rows_leD)

text \<open>A closed row is in every later state as it is.\<close>

lemma closed_row_stays:
  assumes "db_le db db'" and "i \<in> set (db_interactions db)" and "ix_status i \<noteq> Pending"
  shows "i \<in> set (db_interactions db')"
  using db_leD(2) [OF assms(1,2)] assms(3) by (auto simp: evolves_def)

section \<open>Recorded answers\<close>

text \<open>
  A table that answers a repeated call by its recorded row: what a lookup finds, it
  finds in every later state.
\<close>

locale replay_log = stepper step inv
  for step :: "'s \<Rightarrow> 'op \<Rightarrow> 's" and inv :: "'s \<Rightarrow> bool" +
  fixes lookup :: "'k \<Rightarrow> 's \<Rightarrow> 'v option"
  assumes lookup_step: "inv s \<Longrightarrow> lookup k s = Some v \<Longrightarrow> lookup k (step s op) = Some v"
begin

lemma lookup_run: "inv s \<Longrightarrow> lookup k s = Some v \<Longrightarrow> lookup k (foldl step s ops) = Some v"
proof (induction ops arbitrary: s)
  case (Cons op ops)
  then show ?case by (simp add: lookup_step inv_step)
qed simp

end

sublocale replay_log \<subseteq> stable_stepper step inv "\<lambda>(k, v) s. lookup k s = Some v"
  by unfold_locales (auto intro: lookup_step)

lemma find_grows: "grows xs ys \<Longrightarrow> List.find P xs = Some x \<Longrightarrow> List.find P ys = Some x"
  by (auto simp: grows_def find_append)

interpretation idem_log: replay_log "cp_step hs" cp_inv "\<lambda>(u, scope, key). find_idem u scope key" for hs
proof unfold_locales
  fix db op v and k :: "string \<times> string \<times> string"
  assume "(case k of (u, scope, key) \<Rightarrow> find_idem u scope key) db = Some v"
  then show "(case k of (u, scope, key) \<Rightarrow> find_idem u scope key) (cp_step hs db op) = Some v"
    using cp_step_le [of db hs op] by (auto simp: find_idem_def db_le_def intro: find_grows split: prod.splits)
qed

interpretation post_log: replay_log "cp_step hs" cp_inv "\<lambda>(u, scope, oper, key). find_post_idem u scope oper key" for hs
proof unfold_locales
  fix db op v and k :: "string \<times> string \<times> string \<times> string"
  assume "(case k of (u, scope, oper, key) \<Rightarrow> find_post_idem u scope oper key) db = Some v"
  then show "(case k of (u, scope, oper, key) \<Rightarrow> find_post_idem u scope oper key) (cp_step hs db op) = Some v"
    using cp_step_le [of db hs op] by (auto simp: find_post_idem_def db_le_def intro: find_grows split: prod.splits)
qed

interpretation response_log: replay_log "cp_step hs" cp_inv "\<lambda>(u, rid). get_response u rid" for hs
proof unfold_locales
  fix db op v and k :: "string \<times> string"
  assume "(case k of (u, rid) \<Rightarrow> get_response u rid) db = Some v"
  then show "(case k of (u, rid) \<Rightarrow> get_response u rid) (cp_step hs db op) = Some v"
    using cp_step_le [of db hs op] by (auto simp: get_response_def db_le_def intro: find_grows split: prod.splits)
qed

interpretation closed_rows: stable_stepper "cp_step hs" cp_inv
  "\<lambda>i db. i \<in> set (db_interactions db) \<and> ix_status i \<noteq> Pending" for hs
  by unfold_locales (auto intro: closed_row_stays [OF cp_step_le])

end
