(* ===== verification/Gateway_Facts.thy ===== *)
theory Gateway_Facts
  imports Interaction_History
begin

text \<open>
  Facts on single operations of the gateway that its properties share: when a response
  is accepted and what it leaves, what a recorded key answers, and which rows the
  bulk operations close.
\<close>

section \<open>An accepted response\<close>

lemma respond_fresh_okD:
  assumes "respond_fresh now rnd u q h input db = (db', Inr (r, replayed))"
  obtains ix where "get_interaction_tx u q db = Some ix" "ix_status ix = Pending" "\<not> due now ix"
    "ix_row_version ix = ri_expected_version input" "ri_input_hash input = ix_input_hash ix"
    "validate_response ix input = Inr ()" "r = response_of now (rnd 0) ix u q input" "\<not> replayed"
    "respond_writes rnd u (response_scope input) h r db = Inr db'"
proof (cases "get_interaction_tx u q db")
  case None
  with assms show thesis by (simp add: respond_fresh_def)
next
  case (Some ix)
  show thesis
  proof (cases "ix_status ix = Pending \<and> due now ix")
    case True
    with assms Some show thesis by (auto simp: respond_fresh_def split: sum.splits)
  next
    case False
    with assms Some that [OF Some] show thesis
      by (auto simp: respond_fresh_def Let_def transact_def split: if_splits sum.splits)
  qed
qed

lemma respond_okD:
  assumes "respond hs now rnd u q input db = (db', Inr (r, False))"
  shows "find_idem (trim_space u) (response_scope (trim_respond input)) (ri_idempotency_key (trim_respond input)) db = None"
    and "respond_fresh now rnd (trim_space u) (trim_space q)
       (hash_response_input hs (trim_space q) (trim_respond input)) (trim_respond input) db = (db', Inr (r, False))"
    and "\<not> (ri_actor (trim_respond input) = [] \<or> ri_idempotency_key (trim_respond input) = [] \<or>
       ri_expected_version (trim_respond input) < 1)"
  using assms by (auto simp: respond_def Let_def split: if_splits option.splits)

text \<open>The recorded key and the recorded response are found again.\<close>

lemma find_idem_unique:
  assumes "unique_keys idem_keys (db_idem db)" and "k \<in> set (db_idem db)"
  shows "find_idem (ik_username k) (ik_actor_scope k) (ik_key k) db = Some k"
proof -
  have "unique_key (\<lambda>k. Some [ik_username k, ik_actor_scope k, ik_key k]) (db_idem db)"
    by (rule unique_keysD [OF assms(1)]) (simp add: idem_keys_def)
  then show ?thesis unfolding find_idem_def by (rule find_unique [OF _ _ assms(2)]) simp_all
qed

lemma get_response_unique:
  assumes "unique_keys response_keys (db_responses db)" and "r \<in> set (db_responses db)"
  shows "get_response (rs_username r) (rs_id r) db = Some r"
proof -
  have "unique_key (\<lambda>r. Some [rs_id r]) (db_responses db)"
    by (rule unique_keysD [OF assms(1)]) (simp add: response_keys_def)
  then show ?thesis unfolding get_response_def by (rule find_unique [OF _ _ assms(2)]) simp_all
qed

lemma respond_ok_recorded:
  assumes inv: "cp_inv db" and ok: "respond hs now rnd u q input db = (db', Inr (r, False))"
  shows "\<exists>k. find_idem (trim_space u) (response_scope (trim_respond input)) (ri_idempotency_key (trim_respond input)) db' = Some k \<and>
       ik_request_hash k = hash_response_input hs (trim_space q) (trim_respond input) \<and> ik_response_id k = rs_id r"
    and "get_response (trim_space u) (rs_id r) db' = Some r"
proof -
  let ?in = "trim_respond input" and ?u = "trim_space u" and ?h = "hash_response_input hs (trim_space q) (trim_respond input)"
  obtain ix where r: "r = response_of now (rnd 0) ix ?u (trim_space q) ?in"
    and w: "respond_writes rnd ?u (response_scope ?in) ?h r db = Inr db'"
    using respond_okD(2) [OF ok] by (rule respond_fresh_okD)
  have inv': "cp_inv db'" using respond_inv [OF inv, of hs now rnd u q input] ok by simp
  let ?k = "\<lparr>ik_username = ?u, ik_actor_scope = response_scope ?in, ik_key = rs_idempotency_key r, ik_request_hash = ?h,
          ik_response_id = rs_id r, ik_created_at = rs_created_at r\<rparr>"
  have mem: "?k \<in> set (db_idem db')" "r \<in> set (db_responses db')"
    by (rule respond_writes_shape [OF w], simp add: insert_row_Some_iff)+
  have key: "rs_idempotency_key r = ri_idempotency_key ?in" "rs_username r = ?u" by (simp_all add: r response_of_def)
  show "get_response ?u (rs_id r) db' = Some r"
    using get_response_unique [OF cp_invD(2) [OF inv'] mem(2)] key(2) by simp
  show "\<exists>k. find_idem ?u (response_scope ?in) (ri_idempotency_key ?in) db' = Some k \<and> ik_request_hash k = ?h \<and> ik_response_id k = rs_id r"
    using find_idem_unique [OF cp_invD(3) [OF inv'] mem(1)] key(1) by simp
qed

text \<open>Later operations do not change what the key answers.\<close>

lemma respond_recorded_later:
  assumes inv: "cp_inv db" and ok: "respond hs now rnd u q input db = (db', Inr (r, False))"
  shows "\<exists>k. find_idem (trim_space u) (response_scope (trim_respond input)) (ri_idempotency_key (trim_respond input))
          (foldl (cp_step hs) db' later) = Some k \<and>
       ik_request_hash k = hash_response_input hs (trim_space q) (trim_respond input) \<and> ik_response_id k = rs_id r"
    and "get_response (trim_space u) (rs_id r) (foldl (cp_step hs) db' later) = Some r"
proof -
  have inv': "cp_inv db'" using respond_inv [OF inv, of hs now rnd u q input] ok by simp
  obtain k where k: "find_idem (trim_space u) (response_scope (trim_respond input)) (ri_idempotency_key (trim_respond input)) db' = Some k"
    "ik_request_hash k = hash_response_input hs (trim_space q) (trim_respond input)" "ik_response_id k = rs_id r"
    using respond_ok_recorded(1) [OF inv ok] by blast
  show "\<exists>k. find_idem (trim_space u) (response_scope (trim_respond input)) (ri_idempotency_key (trim_respond input))
          (foldl (cp_step hs) db' later) = Some k \<and>
       ik_request_hash k = hash_response_input hs (trim_space q) (trim_respond input) \<and> ik_response_id k = rs_id r"
    using idem_log.lookup_run [OF inv', of "(trim_space u, response_scope (trim_respond input), ri_idempotency_key (trim_respond input))"] k
    by auto
  show "get_response (trim_space u) (rs_id r) (foldl (cp_step hs) db' later) = Some r"
    using response_log.lookup_run [OF inv', of "(trim_space u, rs_id r)"] respond_ok_recorded(2) [OF inv ok] by auto
qed

lemma trim_respond_idem_fields:
  "ri_selected (trim_respond input) = ri_selected input"
  "trim_respond (input\<lparr>ri_selected := sel\<rparr>) = (trim_respond input)\<lparr>ri_selected := sel\<rparr>"
  by (simp_all add: trim_respond_def)

lemma response_scope_selected [simp]: "response_scope (input\<lparr>ri_selected := sel\<rparr>) = response_scope input"
  by (simp add: response_scope_def)

lemma hash_response_input_perm:
  assumes "mset sel = mset (ri_selected input)"
  shows "hash_response_input hs q (input\<lparr>ri_selected := sel\<rparr>) = hash_response_input hs q input"
proof -
  have "sort sel = sort (ri_selected input)" using assms by (intro properties_for_sort) simp_all
  then show ?thesis by (simp add: hash_response_input_def)
qed

section \<open>A recorded create\<close>

lemma post_idem_unique:
  assumes "unique_keys post_idem_keys (db_post_idem db)" and "k \<in> set (db_post_idem db)"
  shows "find_post_idem (pk_username k) (pk_actor_scope k) (pk_operation k) (pk_key k) db = Some k"
proof -
  have "unique_key (\<lambda>k. Some [pk_username k, pk_actor_scope k, pk_operation k, pk_key k]) (db_post_idem db)"
    by (rule unique_keysD [OF assms(1)]) (simp add: post_idem_keys_def)
  then show ?thesis unfolding find_post_idem_def by (rule find_unique [OF _ _ assms(2)]) simp_all
qed

lemma remember_post_recorded:
  assumes "remember_post u s oper k h i now db = Inr db'" and "k \<noteq> []" and "cp_inv db"
  shows "\<exists>row. find_post_idem u s oper k db' = Some row \<and> pk_request_hash row = h \<and> pk_result row = i"
proof -
  have inv': "cp_inv db'" by (rule remember_post_inv [OF assms(1,3)])
  let ?row = "\<lparr>pk_username = u, pk_actor_scope = s, pk_operation = oper, pk_key = k, pk_request_hash = h,
    pk_result = i, pk_created_at = now\<rparr>"
  have "?row \<in> set (db_post_idem db')"
    using assms(1,2) by (auto simp: remember_post_def store_post_idempotency_def insert_row_Some_iff split: option.splits)
  from post_idem_unique [OF cp_invD(4) [OF inv'] this] show ?thesis by simp
qed

lemma create_writes_recorded:
  assumes inv: "cp_inv db" and i: "ix_status i = Pending" "final_ok i" and k: "k \<noteq> []"
    and w: "create_writes now rnd u s k h i db = Inr (db', x)"
  shows "\<exists>row. find_post_idem u s ''interaction.create'' k db' = Some row \<and> pk_request_hash row = h \<and> pk_result row = x"
proof (cases "insert_row interaction_keys i (db_interactions db)")
  case None
  with w have "remember_post u s ''interaction.create'' k h x now db = Inr db'"
    by (auto simp: create_writes_def split: option.splits if_splits)
  then show ?thesis using k inv by (rule remember_post_recorded)
next
  case (Some rows)
  with w obtain db1 db2 where a: "insert_audit (rnd 1) u (ix_request_id i) ''interaction.created'' ''adapter'' (ix_summary i) now
        (db\<lparr>db_interactions := rows\<rparr>) = Inr db1"
    and o: "insert_outbox (rnd 2) u (ix_request_id i) ''interaction.created'' (InteractionPayload i) now db1 = Inr db2"
    and m: "remember_post u s ''interaction.create'' k h x now db2 = Inr db'"
    by (auto simp: create_writes_def)
  have "cp_inv (db\<lparr>db_interactions := rows\<rparr>)" by (rule insert_interaction_inv [OF inv Some i])
  then have "cp_inv db2" by (rule insert_outbox_inv [OF o insert_audit_inv [OF a]])
  with m k show ?thesis by (rule remember_post_recorded)
qed

lemma create_recorded:
  fixes input :: create_input
  defines "inp \<equiv> normalize_create input"
  defines "u \<equiv> trim_space (ci_username inp)" and "s \<equiv> trim_space (ci_actor_scope inp)" and "k \<equiv> trim_space (ci_idempotency_key inp)"
  assumes inv: "cp_inv db" and ok: "create_interaction hs now rnd input db = (db', Inr i)" and k: "k \<noteq> []"
  shows "validate_create inp = Inr () \<and> (s = []) = (k = []) \<and>
    (\<exists>row. find_post_idem u s ''interaction.create'' k db' = Some row \<and>
       pk_request_hash row = hash_create_interaction_input hs (interaction_of_input now (rnd 0) inp) \<and> pk_result row = i)"
proof -
  let ?i = "interaction_of_input now (rnd 0) inp" and ?h = "hash_create_interaction_input hs (interaction_of_input now (rnd 0) inp)"
  from ok obtain replayed where v: "validate_create inp = Inr ()" "(s = []) = (k = [])"
    and re: "recall_post u s ''interaction.create'' k ?h db = Inr replayed"
    and w: "(case replayed of Some j \<Rightarrow> Inr (db, j) | None \<Rightarrow> create_writes now rnd u s k ?h ?i db) = Inr (db', i)"
    unfolding create_interaction_def Let_def transact_def inp_def [symmetric] u_def [symmetric] s_def [symmetric] k_def [symmetric]
    by (auto split: sum.splits prod.splits)
  have "\<exists>row. find_post_idem u s ''interaction.create'' k db' = Some row \<and> pk_request_hash row = ?h \<and> pk_result row = i"
  proof (cases replayed)
    case None
    with w have "create_writes now rnd u s k ?h ?i db = Inr (db', i)" by simp
    then show ?thesis by (rule create_writes_recorded [OF inv interaction_of_input_pending k])
  next
    case (Some j)
    with w re k show ?thesis
      by (auto simp: recall_post_def replay_post_idempotency_def split: option.splits if_splits)
  qed
  with v show ?thesis by simp
qed

section \<open>Which rows the bulk operations close\<close>

text \<open>
  Closing a row that is in the table by its own key and version changes that row only.
\<close>

lemma update_own_row:
  assumes uk: "unique_keys interaction_keys rows" and i: "i \<in> set rows" and pend: "ix_status i = Pending"
  shows "affected (at_version (ix_username i) (ix_request_id i) (ix_row_version i)) rows = 1"
    and "update_where (at_version (ix_username i) (ix_request_id i) (ix_row_version i)) (close_row st act now) rows =
      map (\<lambda>j. if j = i then close_row st act now j else j) rows"
proof -
  let ?at = "at_version (ix_username i) (ix_request_id i) (ix_row_version i)"
  have eq: "?at j \<longleftrightarrow> j = i" if "j \<in> set rows" for j
    using interaction_id_unique [OF uk that i] pend by (auto simp: at_version_def)
  have "unique_key (\<lambda>i. Some [ix_request_id i]) rows"
    using uk by (rule unique_keysD) (simp add: interaction_keys_def)
  then show "affected ?at rows = 1"
    by (rule affected_unique_eq_1 [OF _ _ i]) (use eq [OF i] in \<open>simp_all add: at_version_def\<close>)
  show "update_where ?at (close_row st act now) rows = map (\<lambda>j. if j = i then close_row st act now j else j) rows"
    using eq by (auto simp: update_where_def)
qed

lemma close_own_row:
  assumes "unique_keys interaction_keys (db_interactions db)" and "i \<in> set (db_interactions db)" and "ix_status i = Pending"
  shows "close_interaction st act now (ix_username i) (ix_request_id i) (ix_row_version i) db =
     Some (db\<lparr>db_interactions := map (\<lambda>j. if j = i then close_row st act now j else j) (db_interactions db)\<rparr>)"
  using update_own_row [OF assms] by (simp add: close_interaction_Some)

lemma get_closed_row:
  assumes "unique_keys interaction_keys (db_interactions db)" and "i \<in> set (db_interactions db)"
    and "db_interactions db' = map (\<lambda>j. if j = i then close_row st act now j else j) (db_interactions db)"
  shows "get_interaction_tx (ix_username i) (ix_request_id i) db' = Some (close_row st act now i)"
proof -
  have "unique_keys interaction_keys (db_interactions db')"
    using assms(1) update_where_unique [of interaction_keys "db_interactions db" "\<lambda>j. j = i" "close_row st act now"]
    by (simp add: assms(3) update_where_def close_row_keys)
  moreover have "close_row st act now i \<in> set (db_interactions db')" using assms(2) by (auto simp: assms(3))
  ultimately have "get_interaction_tx (ix_username (close_row st act now i)) (ix_request_id (close_row st act now i)) db' =
      Some (close_row st act now i)" by (rule get_interaction_tx_eq)
  then show ?thesis by (simp add: close_row_def)
qed

text \<open>
  A loop that closes, one after the other, pending rows of the user read from the table
  before it: a step relation between databases that both bulk operations follow.
\<close>

inductive closes_rows :: "ix_status \<Rightarrow> string \<Rightarrow> instant \<Rightarrow> interaction list \<Rightarrow> interaction list \<Rightarrow> interaction list \<Rightarrow> bool"
  for st :: ix_status and act :: string and now :: instant where
  closes_Nil: "closes_rows st act now [] rows rows"
| closes_Cons: "closes_rows st act now is (map (\<lambda>j. if j = i then close_row st act now j else j) rows) rows' \<Longrightarrow>
     closes_rows st act now (i # is) rows rows'"

inductive_cases closes_ConsE: "closes_rows st act now (i # is) rows rows'"

lemma closes_rows_map:
  assumes "closes_rows st act now is rows rows'" and "\<forall>i \<in> set is. ix_status i = Pending" and "st \<noteq> Pending"
    and "distinct is"
  shows "rows' = map (\<lambda>j. if j \<in> set is then close_row st act now j else j) rows"
  using assms
proof (induction rule: closes_rows.induct)
  case (closes_Cons "is" i rows rows')
  have "close_row st act now j \<notin> set is" for j
    using closes_Cons.prems(1,2) by (auto simp: close_row_def)
  with closes_Cons show ?case by auto
qed simp

text \<open>One turn of each loop on a row that is still in the table.\<close>

definition closed_in :: "ix_status \<Rightarrow> string \<Rightarrow> instant \<Rightarrow> interaction \<Rightarrow> cp_db \<Rightarrow> cp_db \<Rightarrow> bool" where
  "closed_in st act now i db db' \<longleftrightarrow>
     db_interactions db' = map (\<lambda>j. if j = i then close_row st act now j else j) (db_interactions db) \<and>
     db_responses db' = db_responses db"

lemma expire_interaction_tx_closes:
  assumes inv: "cp_inv db" and i: "i \<in> set (db_interactions db)" "ix_status i = Pending"
    and ok: "expire_interaction_tx now rnd (ix_username i) i db = Inr (db', x)"
  shows "closed_in Expired ''expire'' now i db db'" and "x = Some (close_row Expired ''expire'' now i)"
proof -
  note uk = cp_invD(1) [OF inv]
  let ?db1 = "db\<lparr>db_interactions := map (\<lambda>j. if j = i then close_row Expired ''expire'' now j else j) (db_interactions db)\<rparr>"
  have close: "close_interaction Expired ''expire'' now (ix_username i) (ix_request_id i) (ix_row_version i) db = Some ?db1"
    by (rule close_own_row [OF uk i])
  obtain db2 where
    a: "insert_audit (rnd 0) (ix_username i) (ix_request_id i) ''interaction.expired'' ''expiry_worker''
      ''Interaction reached expiresAt.'' now ?db1 = Inr db2"
    and o: "insert_outbox (rnd 1) (ix_username i) (ix_request_id i) ''interaction.expired''
      (ExpiryPayload (ix_request_id i) (ix_expires_at i)) now db2 = Inr db'"
    and x: "\<exists>j. get_interaction_tx (ix_username i) (ix_request_id i) db' = Some j \<and> x = Some j"
    using ok unfolding expire_interaction_tx_def close by auto
  from insert_audit_frame [OF a] insert_outbox_frame [OF o]
  have rows: "db_interactions db' = map (\<lambda>j. if j = i then close_row Expired ''expire'' now j else j) (db_interactions db)"
    and "db_responses db' = db_responses db" by simp_all
  then show "closed_in Expired ''expire'' now i db db'" by (simp add: closed_in_def)
  show "x = Some (close_row Expired ''expire'' now i)" using get_closed_row [OF uk i(1) rows] x by simp
qed

lemma expire_each_closes:
  assumes "cp_inv db" and "distinct is"
    and "\<forall>i \<in> set is. i \<in> set (db_interactions db) \<and> ix_status i = Pending \<and> ix_username i = u"
    and "expire_each now rnd u is db = Inr (db', out)"
  shows "closes_rows Expired ''expire'' now is (db_interactions db) (db_interactions db') \<and>
     out = map (close_row Expired ''expire'' now) is \<and> db_responses db' = db_responses db"
  using assms
proof (induction "is" arbitrary: rnd db out)
  case (Cons i "is")
  from Cons.prems(4) obtain db1 x more' where
    step: "expire_interaction_tx now rnd u i db = Inr (db1, x)"
    and rest: "expire_each now (skip_entropy 2 rnd) u is db1 = Inr (db', more')"
    and out: "out = (case x of None \<Rightarrow> more' | Some u \<Rightarrow> u # more')" by auto
  have i: "i \<in> set (db_interactions db)" "ix_status i = Pending" "ix_username i = u" using Cons.prems(3) by simp_all
  note c = expire_interaction_tx_closes [OF Cons.prems(1) i(1,2), unfolded i(3), OF step]
  have later: "\<forall>j \<in> set is. j \<in> set (db_interactions db1) \<and> ix_status j = Pending \<and> ix_username j = u"
    using Cons.prems(2,3) c(1) by (auto simp: closed_in_def)
  have "cp_inv db1" by (rule expire_interaction_tx_inv [OF Cons.prems(1) step])
  from Cons.IH [OF this _ later rest] Cons.prems(2) have
    "closes_rows Expired ''expire'' now is (db_interactions db1) (db_interactions db')"
    "more' = map (close_row Expired ''expire'' now) is" "db_responses db' = db_responses db1" by simp_all
  with c show ?case unfolding out by (auto simp: closed_in_def intro: closes_Cons)
qed (simp add: closes_Nil)

lemma cancel_each_closes:
  assumes "cp_inv db" and "distinct is"
    and "\<forall>i \<in> set is. i \<in> set (db_interactions db) \<and> ix_status i = Pending \<and> ix_username i = u"
    and "cancel_each now rnd u s reason is db = Inr (db', out)"
  shows "closes_rows Cancelled ''cancel'' now is (db_interactions db) (db_interactions db') \<and>
     out = map (close_row Cancelled ''cancel'' now) is \<and> db_responses db' = db_responses db"
  using assms
proof (induction "is" arbitrary: rnd db out)
  case (Cons i "is")
  have i: "i \<in> set (db_interactions db)" "ix_status i = Pending" "ix_username i = u" using Cons.prems(3) by simp_all
  note uk = cp_invD(1) [OF Cons.prems(1)]
  let ?db1 = "db\<lparr>db_interactions := map (\<lambda>j. if j = i then close_row Cancelled ''cancel'' now j else j) (db_interactions db)\<rparr>"
  have close: "close_interaction Cancelled ''cancel'' now u (ix_request_id i) (ix_row_version i) db = Some ?db1"
    using close_own_row [OF uk i(1,2)] i(3) by simp
  from Cons.prems(4) close obtain db2 db3 more' j where
    a: "insert_audit (rnd 0) u (ix_request_id i) ''interaction.cancelled'' ''session_lifecycle'' reason now ?db1 = Inr db2"
    and o: "insert_outbox (rnd 1) u (ix_request_id i) ''interaction.cancelled''
         (StringsPayload [(''reason'', reason), (''sessionId'', s)]) now db2 = Inr db3"
    and g: "get_interaction_tx u (ix_request_id i) db3 = Some j"
    and rest: "cancel_each now (skip_entropy 2 rnd) u s reason is db3 = Inr (db', more')"
    and out: "out = j # more'"
    by auto
  from insert_audit_frame [OF a] insert_outbox_frame [OF o]
  have rows: "db_interactions db3 = map (\<lambda>j. if j = i then close_row Cancelled ''cancel'' now j else j) (db_interactions db)"
    and resp: "db_responses db3 = db_responses db" by simp_all
  have later: "\<forall>j \<in> set is. j \<in> set (db_interactions db3) \<and> ix_status j = Pending \<and> ix_username j = u"
    using Cons.prems(2,3) by (auto simp: rows)
  have "cp_inv ?db1" by (rule close_interaction_inv [OF Cons.prems(1) close]) simp
  then have "cp_inv db3" by (rule insert_outbox_inv [OF o insert_audit_inv [OF a]])
  from Cons.IH [OF this _ later rest] Cons.prems(2) have
    "closes_rows Cancelled ''cancel'' now is (db_interactions db3) (db_interactions db')"
    "more' = map (close_row Cancelled ''cancel'' now) is" "db_responses db' = db_responses db" by (simp_all add: resp)
  moreover have "j = close_row Cancelled ''cancel'' now i"
    using get_closed_row [OF uk i(1) rows] g i(3) by simp
  ultimately show ?case unfolding out rows by (auto intro: closes_Cons)
qed (simp add: closes_Nil)

lemma distinct_interactions:
  assumes "unique_keys interaction_keys rows"
  shows "distinct rows"
proof -
  have "unique_key (\<lambda>i. Some [ix_request_id i]) rows"
    using assms by (rule unique_keysD) (simp add: interaction_keys_def)
  then have "distinct (map (\<lambda>i. [ix_request_id i]) rows)"
    by (simp add: unique_key_def List.map_filter_def comp_def)
  then show ?thesis by (simp only: distinct_map)
qed

definition closable :: "string \<Rightarrow> (interaction \<Rightarrow> bool) \<Rightarrow> interaction \<Rightarrow> bool" where
  "closable u p i \<longleftrightarrow> ix_username i = u \<and> ix_status i = Pending \<and> p i"

lemma expire_due_closes:
  assumes inv: "cp_inv db" and ok: "expire_due_interactions now rnd u db = (db', Inr out)"
  shows "db_interactions db' = map (\<lambda>i. if closable (trim_space u) (due now) i
      then close_row Expired ''expire'' now i else i) (db_interactions db)"
    and "db_responses db' = db_responses db"
    and "mset out = image_mset (close_row Expired ''expire'' now)
      (filter_mset (closable (trim_space u) (due now)) (mset (db_interactions db)))"
proof -
  let ?due = "filter (due now) (order_by (\<lambda>i. format_time (ix_created_at i))
       (filter (\<lambda>i. ix_username i = trim_space u \<and> ix_status i = Pending \<and> \<not> is_zero (ix_expires_at i)) (db_interactions db)))"
  have loop: "expire_each now rnd (trim_space u) ?due db = Inr (db', out)"
    using ok by (auto simp: expire_due_interactions_def Let_def transact_def split: sum.splits prod.splits)
  have "distinct ?due" by (simp add: order_by_def distinct_interactions [OF cp_invD(1) [OF inv]])
  moreover have mine: "\<forall>i \<in> set ?due. i \<in> set (db_interactions db) \<and> ix_status i = Pending \<and> ix_username i = trim_space u"
    by auto
  ultimately have closes: "closes_rows Expired ''expire'' now ?due (db_interactions db) (db_interactions db')"
    and out: "out = map (close_row Expired ''expire'' now) ?due" and resp: "db_responses db' = db_responses db"
    using expire_each_closes [OF inv _ _ loop] by blast+
  have "db_interactions db' = map (\<lambda>j. if j \<in> set ?due then close_row Expired ''expire'' now j else j) (db_interactions db)"
    by (rule closes_rows_map [OF closes]) (use mine \<open>distinct ?due\<close> in simp_all)
  then show "db_interactions db' = map (\<lambda>i. if closable (trim_space u) (due now) i
      then close_row Expired ''expire'' now i else i) (db_interactions db)"
    by (auto simp: due_def closable_def)
  show "db_responses db' = db_responses db" by (rule resp)
  have "mset ?due = filter_mset (closable (trim_space u) (due now)) (mset (db_interactions db))"
    by (auto simp: filter_filter_mset due_def closable_def intro!: filter_mset_cong)
  then show "mset out = image_mset (close_row Expired ''expire'' now)
      (filter_mset (closable (trim_space u) (due now)) (mset (db_interactions db)))"
    by (simp add: out)
qed

lemma cancel_for_session_closes:
  assumes inv: "cp_inv db" and ok: "cancel_pending_for_session now rnd u s reason db = (db', Inr out)"
  shows "db_interactions db' = map (\<lambda>i. if closable (trim_space u) (\<lambda>i. ix_session_id i = trim_space s) i
      then close_row Cancelled ''cancel'' now i else i) (db_interactions db)"
    and "db_responses db' = db_responses db"
    and "mset out = image_mset (close_row Cancelled ''cancel'' now)
      (filter_mset (closable (trim_space u) (\<lambda>i. ix_session_id i = trim_space s)) (mset (db_interactions db)))"
proof -
  let ?open = "order_by (\<lambda>i. format_time (ix_created_at i))
       (filter (\<lambda>i. ix_username i = trim_space u \<and> ix_session_id i = trim_space s \<and> ix_status i = Pending) (db_interactions db))"
  have loop: "cancel_each now rnd (trim_space u) (trim_space s) (trim_space reason) ?open db = Inr (db', out)"
    using ok by (auto simp: cancel_pending_for_session_def Let_def transact_def split: sum.splits prod.splits)
  have "distinct ?open" by (simp add: order_by_def distinct_interactions [OF cp_invD(1) [OF inv]])
  moreover have mine: "\<forall>i \<in> set ?open. i \<in> set (db_interactions db) \<and> ix_status i = Pending \<and> ix_username i = trim_space u"
    by auto
  ultimately have closes: "closes_rows Cancelled ''cancel'' now ?open (db_interactions db) (db_interactions db')"
    and out: "out = map (close_row Cancelled ''cancel'' now) ?open" and resp: "db_responses db' = db_responses db"
    using cancel_each_closes [OF inv _ _ loop] by blast+
  have "db_interactions db' = map (\<lambda>j. if j \<in> set ?open then close_row Cancelled ''cancel'' now j else j) (db_interactions db)"
    by (rule closes_rows_map [OF closes]) (use mine \<open>distinct ?open\<close> in simp_all)
  then show "db_interactions db' = map (\<lambda>i. if closable (trim_space u) (\<lambda>i. ix_session_id i = trim_space s) i
      then close_row Cancelled ''cancel'' now i else i) (db_interactions db)"
    by (auto simp: closable_def)
  show "db_responses db' = db_responses db" by (rule resp)
  have "mset ?open = filter_mset (closable (trim_space u) (\<lambda>i. ix_session_id i = trim_space s)) (mset (db_interactions db))"
    by (auto simp: closable_def intro!: filter_mset_cong)
  then show "mset out = image_mset (close_row Cancelled ''cancel'' now)
      (filter_mset (closable (trim_space u) (\<lambda>i. ix_session_id i = trim_space s)) (mset (db_interactions db)))"
    by (simp add: out)
qed

section \<open>Where the rows come from\<close>

text \<open>
  Only a create adds an interaction row, and only an accepted response adds responses:
  what one transaction can do to these two tables.
\<close>

definition row_source :: "(interaction \<Rightarrow> bool) \<Rightarrow> cp_db \<Rightarrow> cp_db \<Rightarrow> bool" where
  "row_source p db db' \<longleftrightarrow> (\<forall>j \<in> set (db_interactions db'). (\<exists>i \<in> set (db_interactions db). evolves i j) \<or> p j)"

definition same_responses :: "cp_db \<Rightarrow> cp_db \<Rightarrow> bool" where
  "same_responses db db' \<longleftrightarrow> db_responses db' = db_responses db \<and> db_projections db' = db_projections db"

lemma row_source_refl [simp]: "row_source p db db"
  by (auto simp: row_source_def intro: evolves_refl)

lemma row_source_trans:
  assumes "row_source p db1 db2" and "row_source p db2 db3" and "\<And>i j. p i \<Longrightarrow> evolves i j \<Longrightarrow> p j"
  shows "row_source p db1 db3"
  unfolding row_source_def
proof
  fix k assume "k \<in> set (db_interactions db3)"
  with assms(2) consider "p k" | j where "j \<in> set (db_interactions db2)" "evolves j k"
    by (auto simp: row_source_def)
  then show "(\<exists>i \<in> set (db_interactions db1). evolves i k) \<or> p k"
  proof cases
    case (2 j)
    with assms(1) consider "p j" | i where "i \<in> set (db_interactions db1)" "evolves i j" by (auto simp: row_source_def)
    then show ?thesis using 2 assms(3) evolves_trans by cases blast+
  qed simp
qed

lemma row_source_eq: "db_interactions db' = db_interactions db \<Longrightarrow> row_source p db db'"
  by (auto simp: row_source_def intro: evolves_refl)

lemma close_interaction_source:
  "close_interaction st act now u q v db = Some db' \<Longrightarrow> st \<noteq> Pending \<Longrightarrow> row_source p db db' \<and> same_responses db db'"
  by (auto simp: close_interaction_Some row_source_def same_responses_def set_update_where evolves_def at_version_def)

lemma expire_interaction_tx_source:
  assumes "expire_interaction_tx now rnd u i db = Inr (db', x)"
  shows "row_source p db db' \<and> same_responses db db'"
proof (cases "close_interaction Expired ''expire'' now u (ix_request_id i) (ix_row_version i) db")
  case (Some db1)
  with assms close_interaction_source [OF Some, of p] show ?thesis
    by (auto simp: expire_interaction_tx_def row_source_def same_responses_def
        dest!: insert_audit_frame insert_outbox_frame)
qed (use assms in \<open>simp add: expire_interaction_tx_def same_responses_def\<close>)

lemma expire_each_source:
  assumes "expire_each now rnd u is db = Inr (db', x)" and p: "\<And>i j. p i \<Longrightarrow> evolves i j \<Longrightarrow> p j"
  shows "row_source p db db' \<and> same_responses db db'"
  using assms(1)
proof (induction "is" arbitrary: rnd db x)
  case (Cons i "is")
  then obtain db1 y z where "expire_interaction_tx now rnd u i db = Inr (db1, y)"
    and "expire_each now (skip_entropy 2 rnd) u is db1 = Inr (db', z)" by auto
  with expire_interaction_tx_source [of now rnd u i db db1 y p] Cons.IH show ?case
    by (auto simp: same_responses_def intro: row_source_trans [OF _ _ p])
qed (simp add: same_responses_def)

lemma cancel_each_source:
  assumes "cancel_each now rnd u s reason is db = Inr (db', x)" and p: "\<And>i j. p i \<Longrightarrow> evolves i j \<Longrightarrow> p j"
  shows "row_source p db db' \<and> same_responses db db'"
  using assms(1)
proof (induction "is" arbitrary: rnd db x)
  case (Cons i "is")
  show ?case
  proof (cases "close_interaction Cancelled ''cancel'' now u (ix_request_id i) (ix_row_version i) db")
    case None
    with Cons show ?thesis by simp
  next
    case (Some db1)
    with Cons.prems obtain db2 db3 z where
      a: "insert_audit (rnd 0) u (ix_request_id i) ''interaction.cancelled'' ''session_lifecycle'' reason now db1 = Inr db2"
      and o: "insert_outbox (rnd 1) u (ix_request_id i) ''interaction.cancelled''
         (StringsPayload [(''reason'', reason), (''sessionId'', s)]) now db2 = Inr db3"
      and rest: "cancel_each now (skip_entropy 2 rnd) u s reason is db3 = Inr (db', z)"
      by auto
    have "row_source p db db3 \<and> same_responses db db3"
      using close_interaction_source [OF Some, of p] insert_audit_frame [OF a] insert_outbox_frame [OF o]
      by (simp add: row_source_def same_responses_def)
    with Cons.IH [OF rest] show ?thesis
      by (auto simp: same_responses_def intro: row_source_trans [OF _ _ p])
  qed
qed (simp add: same_responses_def)

lemma create_writes_source:
  assumes "create_writes now rnd u s k h i db = Inr (db', x)" and "p i"
  shows "row_source p db db' \<and> same_responses db db'"
proof (cases "insert_row interaction_keys i (db_interactions db)")
  case None
  with assms show ?thesis
    by (auto simp: create_writes_def same_responses_def row_source_eq split: option.splits if_splits
        dest!: remember_post_frame)
next
  case (Some rows)
  then have "rows = db_interactions db @ [i]" by (simp add: insert_row_Some_iff)
  with Some assms show ?thesis
    by (auto simp: create_writes_def row_source_def same_responses_def intro: evolves_refl
        dest!: insert_audit_frame insert_outbox_frame remember_post_frame)
qed

lemma cancel_writes_source:
  assumes "cancel_writes now rnd u q h input db = Inr (db', x)"
  shows "row_source p db db' \<and> same_responses db db'"
proof -
  from assms obtain db1 db2 db3 where
    c: "close_interaction Cancelled ''cancel'' now u q (cn_expected_version input) db = Some db1"
    and a: "insert_audit (rnd 0) u q ''interaction.cancelled'' ''adapter'' (cn_reason input) now db1 = Inr db2"
    and o: "insert_outbox (rnd 1) u q ''interaction.cancelled'' (StringsPayload [(''reason'', cn_reason input)]) now db2 = Inr db3"
    and r: "remember_post u (cn_actor_scope input) ''interaction.cancel'' (cn_idempotency_key input) h x now db3 = Inr db'"
    by (auto simp: cancel_writes_def)
  from close_interaction_source [OF c, of p] insert_audit_frame [OF a] insert_outbox_frame [OF o] remember_post_frame [OF r]
  show ?thesis by (simp add: row_source_def same_responses_def)
qed

lemma respond_writes_source:
  assumes "respond_writes rnd u scope rh r db = Inr db'"
  shows "row_source p db db'"
proof -
  have "db_interactions db' = update_where (at_version u (rs_request_id r) (rs_expected_version r))
       (close_row Resolved (rs_action r) (rs_created_at r)) (db_interactions db)"
    by (rule respond_writes_shape [OF assms])
  then show ?thesis by (auto simp: row_source_def set_update_where evolves_def at_version_def)
qed

text \<open>What one transaction does to the two tables.\<close>

definition tx_source :: "(interaction \<Rightarrow> bool) \<Rightarrow> cp_db \<Rightarrow> cp_db \<Rightarrow> bool" where
  "tx_source p db db' \<longleftrightarrow> row_source p db db' \<and>
     (same_responses db db' \<or> (\<exists>rnd u scope h r. respond_writes rnd u scope h r db = Inr db') \<or>
      (\<exists>u d f. db' = db\<lparr>db_projections := update_where (open_projection u d) f (db_projections db)\<rparr>))"

lemma tx_source_quiet: "row_source p db db' \<and> same_responses db db' \<Longrightarrow> tx_source p db db'"
  by (simp add: tx_source_def)

lemma tx_source_refl [simp]: "tx_source p db db"
  by (simp add: tx_source_def same_responses_def)

lemma tx_source_respond: "respond_writes rnd u scope h r db = Inr db' \<Longrightarrow> tx_source p db db'"
  by (auto simp: tx_source_def intro: respond_writes_source)

lemma tx_source_projection:
  "tx_source p db (db\<lparr>db_projections := update_where (open_projection u d) f (db_projections db)\<rparr>)"
  unfolding tx_source_def by (intro conjI disjI2 exI) (simp_all add: row_source_eq)

lemma transact_source:
  "(\<And>db' x. r = Inr (db', x) \<Longrightarrow> row_source p db db' \<and> same_responses db db') \<Longrightarrow> tx_source p db (fst (transact db r))"
  by (auto simp: transact_def split: sum.splits intro: tx_source_quiet)

lemma respond_fresh_source: "tx_source p db (fst (respond_fresh now rnd u q h input db))"
proof (cases "get_interaction_tx u q db")
  case (Some ix)
  then show ?thesis
    by (auto simp: respond_fresh_def Let_def transact_def split: sum.splits
        intro: tx_source_respond tx_source_quiet [OF expire_interaction_tx_source])
qed (simp add: respond_fresh_def)

lemma replay_source:
  "(case replayed of None \<Rightarrow> w | Some j \<Rightarrow> Inr (db, j)) = Inr (db', x) \<Longrightarrow>
   (w = Inr (db', x) \<Longrightarrow> row_source p db db' \<and> same_responses db db') \<Longrightarrow> row_source p db db' \<and> same_responses db db'"
  by (cases replayed) (auto simp: same_responses_def)

lemma cp_step_source:
  assumes new: "\<And>now b input. validate_create (normalize_create input) = Inr () \<Longrightarrow>
      p (interaction_of_input now b (normalize_create input))"
    and p: "\<And>i j. p i \<Longrightarrow> evolves i j \<Longrightarrow> p j"
  shows "tx_source p db (cp_step hs db op)"
proof (cases op)
  case (CreateOp now rnd input)
  show ?thesis
    unfolding CreateOp cp_step.simps create_interaction_def Let_def
    by (rule transact_source)
      (simp only: and_then_Inr_iff, elim exE conjE, erule replay_source, erule create_writes_source, simp add: new)
next
  case (RespondOp now rnd u q input)
  then show ?thesis by (simp add: respond_def Let_def respond_fresh_source split: option.splits)
next
  case (CancelOp now rnd u q input)
  show ?thesis
    unfolding CancelOp cp_step.simps cancel_interaction_idempotent_def Let_def
    by (rule transact_source)
      (simp only: and_then_Inr_iff, elim exE conjE, erule replay_source, erule cancel_writes_source)
next
  case (ExpireOp now rnd u)
  show ?thesis
    unfolding ExpireOp cp_step.simps expire_due_interactions_def Let_def
    by (rule transact_source) (simp only: and_then_Inr_iff, elim exE conjE, erule expire_each_source [OF _ p])
next
  case (SessionEndOp now rnd u s reason)
  show ?thesis
    unfolding SessionEndOp cp_step.simps cancel_pending_for_session_def Let_def
    by (rule transact_source) (simp only: and_then_Inr_iff, elim exE conjE, erule cancel_each_source [OF _ p])
next
  case (AppliedOp now u d)
  then show ?thesis
    by (simp add: mark_projection_applied_def Let_def tx_source_projection)
next
  case (FailedOp now u d err)
  then show ?thesis
    by (simp add: mark_projection_failed_def Let_def tx_source_projection)
qed

end
