(* ===== verification/Gateway_Progress.thy ===== *)
theory Gateway_Progress
  imports Gateway_Facts
begin

text \<open>
  That an admissible response is accepted: with identifiers no row has yet, every insert
  and the guarded update of the transaction succeed. Also two invariants of runs beside
  \<open>cp_inv\<close>: high-risk rows do not offer \<open>approve_session\<close>, and every response has the
  outbox event that delivers it to the adapter.
\<close>

section \<open>Fresh identifiers\<close>

definition fresh_response_ids :: "entropy \<Rightarrow> cp_db \<Rightarrow> bool" where
  "fresh_response_ids rnd db \<longleftrightarrow>
     new_id ''response'' (rnd 0) \<notin> set (map rs_id (db_responses db)) \<and>
     new_id ''decision'' (rnd 1) \<notin> set (map dc_id (db_decisions db)) \<and>
     new_id ''audit'' (rnd 2) \<notin> set (map au_id (db_audits db)) \<and>
     (let os = map (\<lambda>k. new_id ''outbox'' (rnd k)) [3, 4, 5] in
      distinct os \<and> list_all (\<lambda>x. x \<notin> set (map ob_id (db_outbox db))) os)"

definition fresh_expiry_ids :: "entropy \<Rightarrow> cp_db \<Rightarrow> bool" where
  "fresh_expiry_ids rnd db \<longleftrightarrow>
     new_id ''audit'' (rnd 0) \<notin> set (map au_id (db_audits db)) \<and>
     new_id ''outbox'' (rnd 1) \<notin> set (map ob_id (db_outbox db))"

lemmas insert_defs = insert_row_def key_conflict_def key_taken_def list_ex_iff

lemma insert_audit_fresh:
  "new_id ''audit'' b \<notin> set (map au_id (db_audits db)) \<Longrightarrow>
   insert_audit b u q t act d now db = Inr (db\<lparr>db_audits := db_audits db @
     [\<lparr>au_id = new_id ''audit'' b, au_username = u, au_request_id = q, au_type = t,
       au_actor = act, au_detail = d, au_created_at = now\<rparr>]\<rparr>)"
  by (auto simp: insert_audit_def audit_keys_def insert_defs simp del: set_map dest: notin_mapD)

lemma insert_outbox_fresh:
  "new_id ''outbox'' b \<notin> set (map ob_id (db_outbox db)) \<Longrightarrow>
   insert_outbox b u q t p now db = Inr (db\<lparr>db_outbox := db_outbox db @
     [\<lparr>ob_id = new_id ''outbox'' b, ob_username = u, ob_aggregate_id = q, ob_type = t, ob_payload = p, ob_created_at = now\<rparr>]\<rparr>)"
  by (auto simp: insert_outbox_def outbox_keys_def insert_defs simp del: set_map dest: notin_mapD)

lemma find_idem_None_insert:
  assumes "find_idem u scope k db = None"
  shows "insert_idem u scope k h r db = Inr (db\<lparr>db_idem := db_idem db @
     [\<lparr>ik_username = u, ik_actor_scope = scope, ik_key = k, ik_request_hash = h, ik_response_id = rs_id r,
       ik_created_at = rs_created_at r\<rparr>]\<rparr>)"
  using assms by (auto simp: insert_idem_def idem_keys_def find_idem_def find_None_ball insert_defs)

lemma insert_outbox3_fresh:
  assumes "distinct (map (\<lambda>k. new_id ''outbox'' (rnd k)) [a, b, c])"
    and "list_all (\<lambda>k. new_id ''outbox'' (rnd k) \<notin> set (map ob_id (db_outbox db))) [a, b, c]"
  shows "\<exists>db'. and_then (insert_outbox (rnd a) u q t1 p1 now db) (\<lambda>db1.
      and_then (insert_outbox (rnd b) u q t2 p2 now db1) (\<lambda>db2. insert_outbox (rnd c) u q t3 p3 now db2)) = Inr db'"
proof -
  let ?e = "\<lambda>k t p. \<lparr>ob_id = new_id ''outbox'' (rnd k), ob_username = u, ob_aggregate_id = q, ob_type = t, ob_payload = p, ob_created_at = now\<rparr>"
  define db1 where "db1 = db\<lparr>db_outbox := db_outbox db @ [?e a t1 p1]\<rparr>"
  define db2 where "db2 = db1\<lparr>db_outbox := db_outbox db1 @ [?e b t2 p2]\<rparr>"
  have 1: "insert_outbox (rnd a) u q t1 p1 now db = Inr db1"
    unfolding db1_def by (rule insert_outbox_fresh) (use assms(2) in simp)
  have 2: "insert_outbox (rnd b) u q t2 p2 now db1 = Inr db2"
    unfolding db2_def by (rule insert_outbox_fresh) (use assms in \<open>auto simp: db1_def\<close>)
  have 3: "new_id ''outbox'' (rnd c) \<notin> set (map ob_id (db_outbox db2))"
    using assms by (auto simp: db2_def db1_def)
  show ?thesis unfolding 1 2 and_then_simps by (rule exI) (rule insert_outbox_fresh [OF 3])
qed

section \<open>A response is accepted\<close>

lemma unanswered_no_response:
  assumes "cp_inv db" and "ix \<in> set (db_interactions db)" and "ix_status ix \<noteq> Resolved" and "r \<in> set (db_responses db)"
  shows "rs_request_id r \<noteq> ix_request_id ix"
proof
  assume eq: "rs_request_id r = ix_request_id ix"
  obtain i where i: "i \<in> set (db_interactions db)" "answers r i" using cp_invD(8) [OF assms(1,4)] by blast
  from i(2) eq have "ix_request_id i = ix_request_id ix" by (simp add: answers_def)
  with i(1) assms(2) have "i = ix" by (rule interaction_id_unique [OF cp_invD(1) [OF assms(1)]])
  with i(2) assms(3) show False by (simp add: answers_def)
qed

text \<open>The rows the decision tables get, on a request that has no response yet.\<close>

lemma respond_inserts_fresh:
  assumes inv: "cp_inv db" and fresh: "fresh_response_ids rnd db" and id: "rs_id r = new_id ''response'' (rnd 0)"
    and none: "\<forall>r' \<in> set (db_responses db). rs_request_id r' \<noteq> rs_request_id r"
  shows "insert_response r db = Inr (db\<lparr>db_responses := db_responses db @ [r]\<rparr>)"
    and "\<And>db'. db_decisions db' = db_decisions db \<Longrightarrow>
      \<exists>d. insert_decision (rnd 1) r db' = Inr (db'\<lparr>db_decisions := db_decisions db @ [d]\<rparr>)"
    and "\<And>db'. db_projections db' = db_projections db \<Longrightarrow>
      \<exists>p. insert_projection u r db' = Inr (db'\<lparr>db_projections := db_projections db @ [p]\<rparr>)"
proof -
  have new: "rs_id r' \<noteq> rs_id r" if "r' \<in> set (db_responses db)" for r'
    unfolding id by (rule notin_mapD [OF _ that]) (use fresh in \<open>simp add: fresh_response_ids_def\<close>)
  have dec: "dc_response_id d \<noteq> rs_id r \<and> dc_request_id d \<noteq> rs_request_id r \<and> dc_id d \<noteq> new_id ''decision'' (rnd 1)"
    if d: "d \<in> set (db_decisions db)" for d
  proof -
    obtain r' where "r' \<in> set (db_responses db)" "rs_id r' = dc_response_id d" "rs_request_id r' = dc_request_id d"
      using inv d by (auto simp: cp_inv_def db_owned_ok_def)
    moreover have "dc_id d \<noteq> new_id ''decision'' (rnd 1)"
      by (rule notin_mapD [OF _ d]) (use fresh in \<open>simp add: fresh_response_ids_def\<close>)
    ultimately show ?thesis using new none by metis
  qed
  have prj: "pj_response_id p \<noteq> rs_id r \<and> pj_decision_id p \<noteq> rs_id r" if p: "p \<in> set (db_projections db)" for p
  proof -
    obtain r' where "r' \<in> set (db_responses db)" "rs_id r' = pj_response_id p" "rs_id r' = pj_decision_id p"
      using inv p by (auto simp: cp_inv_def db_owned_ok_def)
    with new show ?thesis by metis
  qed
  show "insert_response r db = Inr (db\<lparr>db_responses := db_responses db @ [r]\<rparr>)"
    using new none by (auto simp: insert_response_def response_keys_def insert_defs)
  show "\<exists>d. insert_decision (rnd 1) r db' = Inr (db'\<lparr>db_decisions := db_decisions db @ [d]\<rparr>)"
    if "db_decisions db' = db_decisions db" for db'
    using that dec by (auto simp: insert_decision_def decision_keys_def insert_defs)
  show "\<exists>p. insert_projection u r db' = Inr (db'\<lparr>db_projections := db_projections db @ [p]\<rparr>)"
    if "db_projections db' = db_projections db" for db'
    using that prj by (auto simp: insert_projection_def projection_keys_def insert_defs)
qed

text \<open>The transaction of an admissible response commits.\<close>

lemma respond_writes_fresh:
  assumes inv: "cp_inv db" and ix: "ix \<in> set (db_interactions db)" "ix_status ix = Pending"
    and r: "rs_username r = ix_username ix" "rs_request_id r = ix_request_id ix" "rs_expected_version r = ix_row_version ix"
      "rs_id r = new_id ''response'' (rnd 0)"
    and fresh: "fresh_response_ids rnd db" and key: "find_idem (ix_username ix) scope (rs_idempotency_key r) db = None"
  shows "\<exists>db'. respond_writes rnd (ix_username ix) scope h r db = Inr db'"
proof -
  let ?u = "ix_username ix"
  have "\<forall>r' \<in> set (db_responses db). rs_request_id r' \<noteq> rs_request_id r"
    using unanswered_no_response [OF inv ix(1)] ix(2) by (simp add: r(2))
  note ins = respond_inserts_fresh [OF inv fresh r(4) this]
  define db1 where "db1 = db\<lparr>db_responses := db_responses db @ [r]\<rparr>"
  obtain d where d: "insert_decision (rnd 1) r db1 = Inr (db1\<lparr>db_decisions := db_decisions db @ [d]\<rparr>)"
    using ins(2) [of db1] by (auto simp: db1_def)
  define db2 where "db2 = db1\<lparr>db_decisions := db_decisions db @ [d]\<rparr>"
  have uk: "unique_keys interaction_keys (db_interactions db2)" using cp_invD(1) [OF inv] by (simp add: db2_def db1_def)
  have ix2: "ix \<in> set (db_interactions db2)" using ix(1) by (simp add: db2_def db1_def)
  define db3 where "db3 = db2\<lparr>db_interactions := map (\<lambda>j. if j = ix then close_row Resolved (rs_action r) (rs_created_at r) j else j)
     (db_interactions db2)\<rparr>"
  have close: "close_interaction Resolved (rs_action r) (rs_created_at r) ?u (rs_request_id r) (rs_expected_version r) db2 = Some db3"
    unfolding r(2,3) db3_def by (rule close_own_row [OF uk ix2 ix(2)])
  have "find_idem ?u scope (rs_idempotency_key r) db3 = None"
    using key by (simp add: find_idem_def db3_def db2_def db1_def)
  from find_idem_None_insert [OF this] obtain k where
    k: "insert_idem ?u scope (rs_idempotency_key r) h r db3 = Inr (db3\<lparr>db_idem := db_idem db3 @ [k]\<rparr>)" by blast
  define db4 where "db4 = db3\<lparr>db_idem := db_idem db3 @ [k]\<rparr>"
  obtain p where p: "insert_projection ?u r db4 = Inr (db4\<lparr>db_projections := db_projections db @ [p]\<rparr>)"
    using ins(3) [of db4 ?u] by (auto simp: db4_def db3_def db2_def db1_def)
  define db5 where "db5 = db4\<lparr>db_projections := db_projections db @ [p]\<rparr>"
  have logs: "db_audits db5 = db_audits db" "db_outbox db5 = db_outbox db"
    by (simp_all add: db5_def db4_def db3_def db2_def db1_def)
  have "new_id ''audit'' (rnd 2) \<notin> set (map au_id (db_audits db5))" using fresh by (simp add: logs fresh_response_ids_def)
  note a = insert_audit_fresh [OF this, of ?u "rs_request_id r" "''interaction.resolved''" "rs_actor r" "rs_action r" "rs_created_at r"]
  show ?thesis
    unfolding respond_writes_def Let_def ins(1) and_then_simps db1_def [symmetric] d db2_def [symmetric] close
      require_simps k db4_def [symmetric] p db5_def [symmetric] a
    by (rule insert_outbox3_fresh) (use fresh in \<open>simp_all add: fresh_response_ids_def logs\<close>)
qed

lemma expire_fresh:
  assumes inv: "cp_inv db" and i: "i \<in> set (db_interactions db)" "ix_status i = Pending" and fresh: "fresh_expiry_ids rnd db"
  shows "\<exists>db' x. expire_interaction_tx now rnd (ix_username i) i db = Inr (db', x)"
proof -
  note uk = cp_invD(1) [OF inv]
  define db1 where "db1 = db\<lparr>db_interactions := map (\<lambda>j. if j = i then close_row Expired ''expire'' now j else j) (db_interactions db)\<rparr>"
  have close: "close_interaction Expired ''expire'' now (ix_username i) (ix_request_id i) (ix_row_version i) db = Some db1"
    unfolding db1_def by (rule close_own_row [OF uk i])
  have "new_id ''audit'' (rnd 0) \<notin> set (map au_id (db_audits db1))" using fresh by (simp add: db1_def fresh_expiry_ids_def)
  from insert_audit_fresh [OF this] obtain a where
    a: "insert_audit (rnd 0) (ix_username i) (ix_request_id i) ''interaction.expired'' ''expiry_worker''
      ''Interaction reached expiresAt.'' now db1 = Inr (db1\<lparr>db_audits := db_audits db1 @ [a]\<rparr>)" by blast
  define db2 where "db2 = db1\<lparr>db_audits := db_audits db1 @ [a]\<rparr>"
  have "new_id ''outbox'' (rnd 1) \<notin> set (map ob_id (db_outbox db2))"
    using fresh by (simp add: db2_def db1_def fresh_expiry_ids_def)
  from insert_outbox_fresh [OF this] obtain e where
    o: "insert_outbox (rnd 1) (ix_username i) (ix_request_id i) ''interaction.expired''
      (ExpiryPayload (ix_request_id i) (ix_expires_at i)) now db2 = Inr (db2\<lparr>db_outbox := db_outbox db2 @ [e]\<rparr>)" by blast
  have "get_interaction_tx (ix_username i) (ix_request_id i) (db2\<lparr>db_outbox := db_outbox db2 @ [e]\<rparr>) =
      Some (close_row Expired ''expire'' now i)"
    by (rule get_closed_row [OF uk i(1)]) (simp add: db2_def db1_def)
  then show ?thesis
    unfolding expire_interaction_tx_def close option.case and_then_simps a db2_def [symmetric] o by simp
qed

end
