(* ===== verification/Gateway_Properties.thy ===== *)
theory Gateway_Properties
  imports Gateway_Progress
begin

text \<open>
  The properties of the interaction gateway: what a caller, an adapter and an auditor
  may rely on in every state the operations can reach, each with a witness that
  evaluates it on a small database. \<open>demo_*\<close> are the inputs of the witnesses.
\<close>

section \<open>Two more invariants of runs\<close>

lemma trim_space_normalize [simp]:
  "is_high_risk (trim_space l) = is_high_risk l" "normalize_risk_class (trim_space l) = normalize_risk_class l"
  by (simp_all add: is_high_risk_def normalize_risk_class_def)

definition guarded_row :: "interaction \<Rightarrow> bool" where
  "guarded_row i \<longleftrightarrow> (is_high_risk (ix_risk_class i) \<longrightarrow> ''approve_session'' \<notin> set (ix_allowed_actions i)) \<and>
     ix_allowed_actions i \<noteq> [] \<and> sorted (ix_allowed_actions i) \<and> distinct (ix_allowed_actions i)"

lemma guarded_row_create:
  assumes "validate_create (normalize_create input) = Inr ()"
  shows "guarded_row (interaction_of_input now b (normalize_create input))"
proof -
  have "''approve_session'' \<notin> set (normalized_strings (ci_allowed_actions (normalize_create input)))"
    if high: "is_high_risk (ci_risk_class (normalize_create input))"
  proof -
    from high have "is_high_risk (normalize_risk_class (ci_risk_class input))"
      by (simp add: normalize_create_def Let_def split: if_splits)
    then have "ci_allowed_actions (normalize_create input) =
        filter (\<lambda>a. a \<noteq> ''approve_session'') (normalized_strings (ci_allowed_actions input))"
      by (simp add: normalize_create_def Let_def)
    then show ?thesis by (auto simp: normalized_strings_def)
  qed
  moreover have "normalized_strings (ci_allowed_actions (normalize_create input)) \<noteq> []"
    using assms by (simp add: validate_create_def)
  ultimately show ?thesis
    by (simp add: guarded_row_def interaction_of_input_def normalized_strings_def)
qed

lemma guarded_row_evolves: "guarded_row i \<Longrightarrow> evolves i j \<Longrightarrow> guarded_row j"
  by (auto simp: guarded_row_def evolves_def close_row_def)

definition delivered :: "cp_db \<Rightarrow> bool" where
  "delivered db \<longleftrightarrow> (\<forall>r \<in> set (db_responses db). \<exists>e \<in> set (db_outbox db).
     ob_type e = ''adapter.decision.ready'' \<and> ob_payload e = ResponsePayload r)"

lemma delivered_respond:
  assumes "delivered db" and w: "respond_writes rnd u scope h r db = Inr db'"
  shows "delivered db'"
proof -
  obtain o1 o2 o3 where "db_responses db' = db_responses db @ [r]" "db_outbox db' = db_outbox db @ [o1, o2, o3]"
    "map ob_type [o1, o2, o3] = [''interaction.resolved'', ''adapter.decision.ready'', ''project_task_projection.requested'']"
    "map ob_payload [o1, o2] = [ResponsePayload r, ResponsePayload r]"
    using w by (rule respond_writes_shape) (auto simp: insert_row_Some_iff intro: that)
  with assms(1) show ?thesis by (auto simp: delivered_def)
qed

interpretation rows_guarded: stepper "cp_step hs" "\<lambda>db::cp_db. \<forall>i \<in> set (db_interactions db). guarded_row i" for hs
proof unfold_locales
  fix db :: cp_db and op assume inv: "\<forall>i \<in> set (db_interactions db). guarded_row i"
  have "row_source guarded_row db (cp_step hs db op)"
    using cp_step_source [of guarded_row db hs op] guarded_row_create guarded_row_evolves
    by (auto simp: tx_source_def)
  with inv show "\<forall>i \<in> set (db_interactions (cp_step hs db op)). guarded_row i"
    by (fastforce simp: row_source_def intro: guarded_row_evolves)
qed

interpretation outbox_delivery: stepper "cp_step hs" delivered for hs
proof unfold_locales
  fix db op assume inv: "delivered db"
  have "tx_source (\<lambda>_. True) db (cp_step hs db op)" by (rule cp_step_source) simp_all
  moreover have "delivered (cp_step hs db op)" if "same_responses db (cp_step hs db op)"
    using inv that cp_step_le [of db hs op] by (fastforce simp: delivered_def same_responses_def db_le_def grows_def)
  ultimately show "delivered (cp_step hs db op)"
    using delivered_respond [OF inv] inv by (auto simp: tx_source_def delivered_def)
qed

text \<open>An applied projection is final.\<close>

definition applied_projection :: "projection \<Rightarrow> cp_db \<Rightarrow> bool" where
  "applied_projection p db \<longleftrightarrow> p \<in> set (db_projections db) \<and> pj_state p = PjApplied"

lemma applied_projection_step:
  assumes "applied_projection p db" and "tx_source (\<lambda>_. True) db db'"
  shows "applied_projection p db'"
proof -
  have "p \<in> set (db_projections db')"
  proof (cases "\<exists>rnd u scope h r. respond_writes rnd u scope h r db = Inr db'")
    case True
    then obtain rnd u scope h r where w: "respond_writes rnd u scope h r db = Inr db'" by blast
    obtain q where "insert_row projection_keys q (db_projections db) = Some (db_projections db')"
      using w by (rule respond_writes_shape) (rule that)
    with assms(1) show ?thesis by (auto simp: applied_projection_def insert_row_Some_iff)
  next
    case False
    with assms show ?thesis
      by (auto simp: tx_source_def same_responses_def applied_projection_def set_update_where open_projection_def
          intro!: image_eqI [of _ _ p])
  qed
  with assms(1) show ?thesis by (simp add: applied_projection_def)
qed

interpretation projections_final: stable_stepper "cp_step hs" cp_inv applied_projection for hs
proof unfold_locales
  fix db :: cp_db and p op
  have "tx_source (\<lambda>_. True) db (cp_step hs db op)" by (rule cp_step_source) simp_all
  then show "applied_projection p db \<Longrightarrow> applied_projection p (cp_step hs db op)"
    by (rule applied_projection_step [rotated])
qed

section \<open>Inputs of the witnesses\<close>

definition demo_hashes :: hashes where
  "demo_hashes = \<lparr>hs_create = cy_title, hs_respond = (\<lambda>(q, input). q @ ri_action input @ concat (ri_selected input)),
     hs_cancel = (\<lambda>(q, v, reason). q @ reason)\<rparr>"

definition demo_rnd :: "string \<Rightarrow> entropy" where
  "demo_rnd tag k = tag @ replicate k CHR ''a''"

definition demo_schema :: response_schema where
  "demo_schema = \<lparr>sc_type = ''multiple_choice'', sc_options = [\<lparr>ro_id = ''x'', ro_label = []\<rparr>, \<lparr>ro_id = ''y'', ro_label = []\<rparr>],
     sc_min = 0, sc_max = 0, sc_max_feedback = 0, sc_custom_text = False\<rparr>"

definition demo_create :: "string \<Rightarrow> create_input" where
  "demo_create vendor = \<lparr>ci_username = ''u'', ci_checkpoint_id = [], ci_task_id = ''t'', ci_runtime_id = [], ci_session_id = ''s'',
     ci_adapter_kind = ''a'', ci_vendor_id = vendor, ci_request_kind = ''k'', ci_risk_class = ''R2'', ci_title = ''T'',
     ci_summary = [], ci_preview = [], ci_artifact_refs = [], ci_allowed_actions = [''approve'', ''approve_session''],
     ci_schema = demo_schema, ci_ui_hints = [], ci_expires_at = 1000, ci_input_hash = ''h'',
     ci_actor_scope = ''adapter'', ci_idempotency_key = vendor\<rparr>"

definition demo_respond :: respond_input where
  "demo_respond = \<lparr>ri_action = ''approve'', ri_selected = [''x'', ''y''], ri_feedback = [], ri_actor = ''m'', ri_device_id = ''d'',
     ri_auth_evidence = [], ri_expected_version = 1, ri_idempotency_key = ''i1'', ri_input_hash = ''h''\<rparr>"

text \<open>Two interactions, \<open>interaction-62\<close> and \<open>interaction-63\<close>; the first is answered.\<close>

definition demo_open :: "cp_op list" where
  "demo_open = [CreateOp 10 (demo_rnd ''b'') (demo_create ''v1''), CreateOp 11 (demo_rnd ''c'') (demo_create ''v2'')]"

definition demo_answer :: cp_op where
  "demo_answer = RespondOp 20 (demo_rnd ''d'') ''u'' ''interaction-62'' demo_respond"

definition demo_row :: "nat \<Rightarrow> cp_op list \<Rightarrow> interaction" where
  "demo_row n ops = db_interactions (cp_run demo_hashes ops) ! n"

definition demo_response :: "cp_op list \<Rightarrow> response" where
  "demo_response ops = hd (db_responses (cp_run demo_hashes ops))"

section \<open>Every interaction is answered at most once\<close>







section \<open>Responding\<close>

text \<open>
  C4. Replay: after a response was accepted, the same call (with the selected options in
  any order) at any later time and after any other operations changes nothing and returns
  the response that was recorded, marked as a replay.
\<close>

theorem respond_replay:
  assumes "respond hs now rnd u q input (cp_run hs ops) = (db', Inr (r, False))"
    and "mset sel = mset (ri_selected input)"
  shows "let db = foldl (cp_step hs) db' later in
     respond hs now' rnd' u q (input\<lparr>ri_selected := sel\<rparr>) db = (db, Inr (r, True))"
proof -
  let ?in = "trim_respond input" and ?db = "foldl (cp_step hs) db' later"
  obtain k where k: "find_idem (trim_space u) (response_scope ?in) (ri_idempotency_key ?in) ?db = Some k"
    "ik_request_hash k = hash_response_input hs (trim_space q) ?in" "ik_response_id k = rs_id r"
    using respond_recorded_later(1) [OF cp_run_inv assms(1)] by blast
  have "get_response (trim_space u) (rs_id r) ?db = Some r"
    by (rule respond_recorded_later(2) [OF cp_run_inv assms(1)])
  moreover have "hash_response_input hs (trim_space q) (?in\<lparr>ri_selected := sel\<rparr>) = hash_response_input hs (trim_space q) ?in"
    by (rule hash_response_input_perm) (simp add: assms(2) trim_respond_idem_fields)
  ultimately show ?thesis
    using k respond_okD(3) [OF assms(1)] by (simp add: respond_def Let_def trim_respond_idem_fields)
qed

theorem respond_replay_witness:
  "snd (respond demo_hashes 500 (demo_rnd ''e'') ''u'' ''interaction-62'' (demo_respond\<lparr>ri_selected := [''y'', ''x'']\<rparr>)
     (cp_run demo_hashes ((demo_open @ [demo_answer]) @ [ExpireOp 2000 (demo_rnd ''f'') ''u'']))) =
   Inr (demo_response (demo_open @ [demo_answer]), True)"
proof -
  have "respond demo_hashes 20 (demo_rnd ''d'') ''u'' ''interaction-62'' demo_respond (cp_run demo_hashes demo_open) =
      (cp_run demo_hashes (demo_open @ [demo_answer]), Inr (demo_response (demo_open @ [demo_answer]), False))"
    by code_simp
  from respond_replay [OF this, of "[''y'', ''x'']" "[ExpireOp 2000 (demo_rnd ''f'') ''u'']"] show ?thesis
    by (simp add: cp_run_append Let_def demo_respond_def del: cp_step.simps)
qed

end
