(* ===== verification/Gateway_Calls.thy ===== *)
theory Gateway_Calls
  imports Gateway_Properties
begin

text \<open>
  What single calls of the gateway do in a reachable state: the branches of a response,
  of a create and of a cancel, the exact rows the bulk operations close, and what the
  listings show.
\<close>

section \<open>The branches of a response\<close>

text \<open>
  An idempotency key is bound to one request: after a response was accepted under a
  key, a call by the same user, actor and device with that key whose fingerprint differs
  is a conflict and changes nothing, whenever it comes.
\<close>

theorem respond_key_reuse_conflict:
  assumes "respond hs now rnd u q input (cp_run hs ops) = (db', Inr (r, False))"
    and "trim_space u' = trim_space u"
    and "response_scope (trim_respond input') = response_scope (trim_respond input)"
    and "ri_actor (trim_respond input') \<noteq> []" and "0 < ri_expected_version input'"
    and "ri_idempotency_key (trim_respond input') = ri_idempotency_key (trim_respond input)"
    and "hash_response_input hs (trim_space q') (trim_respond input') \<noteq> hash_response_input hs (trim_space q) (trim_respond input)"
  shows "let db = foldl (cp_step hs) db' later in
     respond hs now' rnd' u' q' input' db = (db, Inl (ErrConflict ''idempotency key reused with different input''))"
proof -
  let ?in = "trim_respond input" and ?db = "foldl (cp_step hs) db' later"
  obtain k where k: "find_idem (trim_space u) (response_scope ?in) (ri_idempotency_key ?in) ?db = Some k"
    "ik_request_hash k = hash_response_input hs (trim_space q) ?in"
    using respond_recorded_later(1) [OF cp_run_inv assms(1)] by blast
  moreover have "ri_expected_version (trim_respond input') = ri_expected_version input'" by (simp add: trim_respond_def)
  ultimately show ?thesis
    using assms respond_okD(3) [OF assms(1)] by (simp add: respond_def Let_def)
qed

theorem respond_key_reuse_conflict_witness:
  "snd (respond demo_hashes 30 (demo_rnd ''e'') ''u'' ''interaction-63'' demo_respond (cp_run demo_hashes (demo_open @ [demo_answer]))) =
   Inl (ErrConflict ''idempotency key reused with different input'')"
proof -
  have "respond demo_hashes 20 (demo_rnd ''d'') ''u'' ''interaction-62'' demo_respond (cp_run demo_hashes demo_open) =
      (cp_run demo_hashes (demo_open @ [demo_answer]), Inr (demo_response (demo_open @ [demo_answer]), False))"
    by code_simp
  moreover have "ri_actor (trim_respond demo_respond) \<noteq> []" "0 < ri_expected_version demo_respond" by code_simp+
  moreover have "hash_response_input demo_hashes (trim_space ''interaction-63'') (trim_respond demo_respond) \<noteq>
      hash_response_input demo_hashes (trim_space ''interaction-62'') (trim_respond demo_respond)" by code_simp
  ultimately show ?thesis
    using respond_key_reuse_conflict [of demo_hashes 20 "demo_rnd ''d''" "''u''" "''interaction-62''" demo_respond demo_open
        _ _ "''u''" demo_respond "''interaction-63''" "[]"]
    by simp
qed

text \<open>
  C35. Acceptance: a response under a new key that names a pending interaction at its
  version and input hash, is admissible for it and comes before it is due is accepted
  (given identifiers that no row has yet). It closes exactly that row, adds exactly that
  response, and appends the three events the adapter and the task projector wait for.
\<close>

theorem respond_accepts:
  assumes "get_interaction_tx (trim_space u) (trim_space q) (cp_run hs ops) = Some ix"
    and "ix_status ix = Pending" and "\<not> due now ix"
    and "ri_expected_version input = ix_row_version ix" and "ri_input_hash input = ix_input_hash ix"
    and "validate_response ix (trim_respond input) = Inr ()"
    and "ri_actor (trim_respond input) \<noteq> []" and "ri_idempotency_key (trim_respond input) \<noteq> []"
    and "find_idem (trim_space u) (response_scope (trim_respond input)) (ri_idempotency_key (trim_respond input)) (cp_run hs ops) = None"
    and "fresh_response_ids rnd (cp_run hs ops)"
  shows "\<exists>db' r. respond hs now rnd u q input (cp_run hs ops) = (db', Inr (r, False)) \<and>
     r = response_of now (rnd 0) ix (trim_space u) (trim_space q) (trim_respond input) \<and>
     db_responses db' = db_responses (cp_run hs ops) @ [r] \<and>
     db_interactions db' = map (\<lambda>i. if i = ix then close_row Resolved (rs_action r) now i else i) (db_interactions (cp_run hs ops)) \<and>
     map ob_type (drop (length (db_outbox (cp_run hs ops))) (db_outbox db')) =
       [''interaction.resolved'', ''adapter.decision.ready'', ''project_task_projection.requested'']"
proof -
  let ?db = "cp_run hs ops" and ?in = "trim_respond input" and ?u = "trim_space u"
  let ?h = "hash_response_input hs (trim_space q) ?in"
  let ?r = "response_of now (rnd 0) ix ?u (trim_space q) ?in"
  have ix: "ix \<in> set (db_interactions ?db)" "ix_username ix = ?u" "ix_request_id ix = trim_space q"
    using get_interaction_tx_SomeD [OF assms(1)] by simp_all
  have v: "ri_expected_version ?in = ix_row_version ix" "ri_input_hash ?in = ix_input_hash ix"
    using assms(4,5) by (simp_all add: trim_respond_def)
  have one: "ix_row_version ix = 1" using cp_invD(7) [OF cp_run_inv ix(1)] assms(2) by (simp add: final_ok_def)
  have r: "rs_username ?r = ix_username ix" "rs_request_id ?r = ix_request_id ix" "rs_expected_version ?r = ix_row_version ix"
    "rs_id ?r = new_id ''response'' (rnd 0)" "rs_idempotency_key ?r = ri_idempotency_key ?in" "rs_created_at ?r = now"
    using ix v by (simp_all add: response_of_def)
  obtain db' where w: "respond_writes rnd ?u (response_scope ?in) ?h ?r ?db = Inr db'"
    using respond_writes_fresh [OF cp_run_inv ix(1) assms(2) r(1,2,3,4) assms(10), of "response_scope ?in" ?h] assms(9)
    by (auto simp: r(5) ix(2))
  have "respond hs now rnd u q input ?db = (db', Inr (?r, False))"
    using assms v one w by (simp add: respond_def Let_def respond_fresh_def transact_def)
  moreover have "db_responses db' = db_responses ?db @ [?r]"
    using w by (rule respond_writes_shape) (simp add: insert_row_Some_iff)
  moreover have "db_interactions db' = map (\<lambda>i. if i = ix then close_row Resolved (rs_action ?r) now i else i) (db_interactions ?db)"
  proof -
    have "db_interactions db' = update_where (at_version ?u (rs_request_id ?r) (rs_expected_version ?r))
        (close_row Resolved (rs_action ?r) (rs_created_at ?r)) (db_interactions ?db)"
      by (rule respond_writes_shape [OF w])
    then show ?thesis
      using update_own_row(2) [OF cp_invD(1) [OF cp_run_inv] ix(1) assms(2), of Resolved "rs_action ?r" now]
      by (simp add: r ix)
  qed
  moreover have "map ob_type (drop (length (db_outbox ?db)) (db_outbox db')) =
       [''interaction.resolved'', ''adapter.decision.ready'', ''project_task_projection.requested'']"
    using w by (rule respond_writes_shape) simp
  ultimately show ?thesis by (intro exI [of _ db'] exI [of _ ?r] conjI refl)
qed

theorem respond_accepts_witness:
  "\<exists>db' r. respond demo_hashes 20 (demo_rnd ''d'') ''u'' ''interaction-62'' demo_respond (cp_run demo_hashes demo_open) = (db', Inr (r, False))"
proof -
  have "get_interaction_tx (trim_space ''u'') (trim_space ''interaction-62'') (cp_run demo_hashes demo_open) = Some (demo_row 0 demo_open)"
    by code_simp
  moreover have "ix_status (demo_row 0 demo_open) = Pending" by code_simp
  moreover have "\<not> due 20 (demo_row 0 demo_open)" by code_simp
  moreover have "ri_expected_version demo_respond = ix_row_version (demo_row 0 demo_open)" by code_simp
  moreover have "ri_input_hash demo_respond = ix_input_hash (demo_row 0 demo_open)" by code_simp
  moreover have "validate_response (demo_row 0 demo_open) (trim_respond demo_respond) = Inr ()" by code_simp
  moreover have "ri_actor (trim_respond demo_respond) \<noteq> []" by code_simp
  moreover have "ri_idempotency_key (trim_respond demo_respond) \<noteq> []" by code_simp
  moreover have "find_idem (trim_space ''u'') (response_scope (trim_respond demo_respond)) (ri_idempotency_key (trim_respond demo_respond))
      (cp_run demo_hashes demo_open) = None" by code_simp
  moreover have "fresh_response_ids (demo_rnd ''d'') (cp_run demo_hashes demo_open)" by code_simp
  ultimately show ?thesis using respond_accepts by blast
qed

text \<open>
  C36. Too late: a response under a new key to a pending interaction that is due is a
  conflict, adds no response, and leaves the row expired (given fresh identifiers for
  the two event rows).
\<close>

theorem respond_too_late:
  assumes "get_interaction_tx (trim_space u) (trim_space q) (cp_run hs ops) = Some ix"
    and "ix_status ix = Pending" and "due now ix"
    and "find_idem (trim_space u) (response_scope (trim_respond input)) (ri_idempotency_key (trim_respond input)) (cp_run hs ops) = None"
    and "ri_actor (trim_respond input) \<noteq> []" and "ri_idempotency_key (trim_respond input) \<noteq> []" and "1 \<le> ri_expected_version input"
    and "fresh_expiry_ids rnd (cp_run hs ops)"
  shows "\<exists>db'. respond hs now rnd u q input (cp_run hs ops) = (db', Inl (ErrConflict ''interaction expired before response'')) \<and>
     db_responses db' = db_responses (cp_run hs ops) \<and>
     db_interactions db' = map (\<lambda>i. if i = ix then close_row Expired ''expire'' now i else i) (db_interactions (cp_run hs ops))"
proof -
  let ?db = "cp_run hs ops" and ?u = "trim_space u"
  have ix: "ix \<in> set (db_interactions ?db)" "ix_username ix = ?u" "ix_request_id ix = trim_space q"
    using get_interaction_tx_SomeD [OF assms(1)] by simp_all
  obtain db' x where e: "expire_interaction_tx now rnd ?u ix ?db = Inr (db', x)"
    using expire_fresh [OF cp_run_inv ix(1) assms(2,8), of now] by (auto simp: ix(2))
  have "closed_in Expired ''expire'' now ix ?db db'"
    using expire_interaction_tx_closes(1) [OF cp_run_inv ix(1) assms(2)] e by (simp add: ix(2))
  moreover have "respond hs now rnd u q input ?db = (db', Inl (ErrConflict ''interaction expired before response''))"
    using assms e by (simp add: respond_def Let_def respond_fresh_def trim_respond_def)
  ultimately show ?thesis by (simp add: closed_in_def)
qed

theorem respond_too_late_witness:
  "\<exists>db'. respond demo_hashes 1000 (demo_rnd ''d'') ''u'' ''interaction-62'' demo_respond (cp_run demo_hashes demo_open) =
     (db', Inl (ErrConflict ''interaction expired before response''))"
proof -
  have "get_interaction_tx (trim_space ''u'') (trim_space ''interaction-62'') (cp_run demo_hashes demo_open) = Some (demo_row 0 demo_open)"
    by code_simp
  moreover have "ix_status (demo_row 0 demo_open) = Pending" by code_simp
  moreover have "due 1000 (demo_row 0 demo_open)" by code_simp
  moreover have "find_idem (trim_space ''u'') (response_scope (trim_respond demo_respond)) (ri_idempotency_key (trim_respond demo_respond))
      (cp_run demo_hashes demo_open) = None" by code_simp
  moreover have "ri_actor (trim_respond demo_respond) \<noteq> []" by code_simp
  moreover have "ri_idempotency_key (trim_respond demo_respond) \<noteq> []" by code_simp
  moreover have "1 \<le> ri_expected_version demo_respond" by code_simp
  moreover have "fresh_expiry_ids (demo_rnd ''d'') (cp_run demo_hashes demo_open)" by code_simp
  ultimately show ?thesis using respond_too_late by blast
qed

section \<open>Creating\<close>

text \<open>
  C37. A create with an idempotency key is answered once: repeated with the same input at
  any later time, even after the interaction was answered or closed, it changes nothing
  and returns the interaction as it was first returned.
\<close>

theorem create_replay:
  assumes "create_interaction hs now rnd input (cp_run hs ops) = (db', Inr i)"
    and "trim_space (ci_idempotency_key input) \<noteq> []"
  shows "let db = foldl (cp_step hs) db' later in create_interaction hs now' rnd' input db = (db, Inr i)"
proof -
  let ?in = "normalize_create input" and ?db = "foldl (cp_step hs) db' later"
  let ?u = "trim_space (ci_username ?in)" and ?s = "trim_space (ci_actor_scope ?in)" and ?k = "trim_space (ci_idempotency_key ?in)"
  let ?h = "\<lambda>now b. hash_create_interaction_input hs (interaction_of_input now b ?in)"
  have key: "?k \<noteq> []" using assms(2) by (simp add: normalize_create_def Let_def)
  have h: "?h now' (rnd' 0) = ?h now (rnd 0)"
    by (simp add: hash_create_interaction_input_def create_payload_of_def interaction_of_input_def)
  have ok: "validate_create ?in = Inr ()" "(?s = []) = (?k = [])"
    and rec: "\<exists>row. find_post_idem ?u ?s ''interaction.create'' ?k db' = Some row \<and> pk_request_hash row = ?h now (rnd 0) \<and> pk_result row = i"
    using create_recorded [OF cp_run_inv assms(1) key] by simp_all
  have inv': "cp_inv db'" using create_interaction_inv [OF cp_run_inv, of hs now rnd input] assms(1) by (metis fst_conv)
  from rec post_log.lookup_run [OF inv', of "(?u, ?s, ''interaction.create'', ?k)"]
  obtain row where "find_post_idem ?u ?s ''interaction.create'' ?k ?db = Some row" "pk_request_hash row = ?h now (rnd 0)" "pk_result row = i"
    by auto
  with key h ok show ?thesis
    by (simp add: create_interaction_def Let_def recall_post_def replay_post_idempotency_def transact_def)
qed

theorem create_replay_witness:
  "snd (create_interaction demo_hashes 99 (demo_rnd ''e'') (demo_create ''v2'') (cp_run demo_hashes (demo_open @ [demo_answer]))) =
   Inr (demo_row 1 demo_open)"
proof -
  have "create_interaction demo_hashes 11 (demo_rnd ''c'') (demo_create ''v2'') (cp_run demo_hashes [hd demo_open]) =
      (cp_run demo_hashes demo_open, Inr (demo_row 1 demo_open))" by code_simp
  moreover have "trim_space (ci_idempotency_key (demo_create ''v2'')) \<noteq> []" by code_simp
  ultimately show ?thesis
    using create_replay [of demo_hashes 11 "demo_rnd ''c''" "demo_create ''v2''" "[hd demo_open]" _ _ "[demo_answer]" 99 "demo_rnd ''e''"]
    by (simp add: cp_run_append Let_def del: cp_step.simps)
qed

text \<open>
  One interaction per vendor request: a valid create without a key for a vendor
  request that has a row with the same input hash returns that row as it now is and adds
  nothing; with another hash it is a conflict. So a retry never opens a second approval.
\<close>

theorem create_vendor_once:
  assumes "validate_create (normalize_create input) = Inr ()"
    and "trim_space (ci_actor_scope input) = []" and "trim_space (ci_idempotency_key input) = []"
    and "get_by_vendor (trim_space (ci_username input)) (trim_space (ci_adapter_kind input)) (trim_space (ci_session_id input))
       (trim_space (ci_vendor_id input)) (cp_run hs ops) = Some existing"
  shows "create_interaction hs now rnd input (cp_run hs ops) =
     (cp_run hs ops, if ix_input_hash existing = trim_space (ci_input_hash input) then Inr existing
       else Inl (ErrConflict ''duplicate or invalid interaction''))"
proof -
  let ?i = "interaction_of_input now (rnd 0) (normalize_create input)"
  have f: "ix_adapter_kind ?i = trim_space (ci_adapter_kind input)" "ix_session_id ?i = trim_space (ci_session_id input)"
    "ix_vendor_id ?i = trim_space (ci_vendor_id input)" "ix_username ?i = trim_space (ci_username input)"
    "ix_input_hash ?i = trim_space (ci_input_hash input)"
    by (simp_all add: interaction_of_input_def normalize_create_def Let_def)
  have n: "ci_username (normalize_create input) = ci_username input" "ci_actor_scope (normalize_create input) = ci_actor_scope input"
    "ci_idempotency_key (normalize_create input) = ci_idempotency_key input"
    by (simp_all add: normalize_create_def Let_def)
  have "existing \<in> set (db_interactions (cp_run hs ops))" "ix_username existing = ix_username ?i"
    "ix_adapter_kind existing = ix_adapter_kind ?i" "ix_session_id existing = ix_session_id ?i" "ix_vendor_id existing = ix_vendor_id ?i"
    using assms(4) by (auto simp: get_by_vendor_def f dest: find_SomeD)
  then have "insert_row interaction_keys ?i (db_interactions (cp_run hs ops)) = None"
    by (auto simp: insert_row_None_iff interaction_keys_def intro!: bexI [of _ existing])
  then show ?thesis
    using assms by (simp add: create_interaction_def Let_def create_writes_def n f recall_post_def remember_post_def transact_def)
qed

theorem create_vendor_once_witness:
  "create_interaction demo_hashes 99 (demo_rnd ''e'') (demo_create ''v1''\<lparr>ci_actor_scope := [], ci_idempotency_key := []\<rparr>)
     (cp_run demo_hashes (demo_open @ [demo_answer])) =
   (cp_run demo_hashes (demo_open @ [demo_answer]), Inr (demo_row 0 (demo_open @ [demo_answer])))"
proof -
  let ?in = "demo_create ''v1''\<lparr>ci_actor_scope := [], ci_idempotency_key := []\<rparr>"
  let ?ops = "demo_open @ [demo_answer]"
  have "validate_create (normalize_create ?in) = Inr ()" by code_simp
  moreover have "trim_space (ci_actor_scope ?in) = []" "trim_space (ci_idempotency_key ?in) = []" by code_simp+
  moreover have "get_by_vendor (trim_space (ci_username ?in)) (trim_space (ci_adapter_kind ?in)) (trim_space (ci_session_id ?in))
      (trim_space (ci_vendor_id ?in)) (cp_run demo_hashes ?ops) = Some (demo_row 0 ?ops)" by code_simp
  ultimately have "create_interaction demo_hashes 99 (demo_rnd ''e'') ?in (cp_run demo_hashes ?ops) =
     (cp_run demo_hashes ?ops, if ix_input_hash (demo_row 0 ?ops) = trim_space (ci_input_hash ?in) then Inr (demo_row 0 ?ops)
       else Inl (ErrConflict ''duplicate or invalid interaction''))"
    by (rule create_vendor_once)
  moreover have "ix_input_hash (demo_row 0 ?ops) = trim_space (ci_input_hash ?in)" by code_simp
  ultimately show ?thesis by simp
qed

end
