(* ===== verification/Gateway_Bulk.thy ===== *)
theory Gateway_Bulk
  imports Gateway_Properties
begin

text \<open>
  Cancelling, expiring and listing: the exact rows each operation closes in a reachable
  state, what the pending list shows, and how the listings are ordered.
\<close>

section \<open>Cancelling\<close>

text \<open>
  A cancel without a key succeeds only on an interaction that is pending at the
  version the adapter expects; it then closes exactly that row and returns it closed, and
  otherwise it reports an error and changes nothing.
\<close>

theorem cancel_only_pending_at_version:
  "case cancel_interaction hs now rnd u q v reason (cp_run hs ops) of
     (db', Inl _) \<Rightarrow> db' = cp_run hs ops
   | (db', Inr j) \<Rightarrow> \<exists>i \<in> set (db_interactions (cp_run hs ops)).
       at_version (trim_space u) (trim_space q) v i \<and> j = close_row Cancelled ''cancel'' now i \<and>
       db_interactions db' = map (\<lambda>x. if x = i then close_row Cancelled ''cancel'' now x else x) (db_interactions (cp_run hs ops)) \<and>
       db_responses db' = db_responses (cp_run hs ops)"
proof (cases "snd (cancel_interaction hs now rnd u q v reason (cp_run hs ops))")
  case (Inl e)
  then show ?thesis
    by (auto simp: cancel_interaction_def cancel_interaction_idempotent_def Let_def transact_def split: sum.splits prod.splits)
next
  case (Inr j)
  let ?db = "cp_run hs ops" and ?u = "trim_space u" and ?q = "trim_space q"
  obtain db' where ok: "cancel_interaction hs now rnd u q v reason ?db = (db', Inr j)"
    using Inr by (metis prod.collapse)
  define inp where "inp = \<lparr>cn_expected_version = v, cn_reason = trim_space reason, cn_actor_scope = [], cn_idempotency_key = []\<rparr>"
  have inp: "cn_expected_version inp = v" "cn_idempotency_key inp = []" by (simp_all add: inp_def)
  from ok have w: "cancel_writes now rnd ?u ?q (hash_cancel_interaction_input hs ?q v (trim_space reason)) inp ?db = Inr (db', j)"
    by (auto simp: inp_def cancel_interaction_def cancel_interaction_idempotent_def Let_def transact_def recall_post_def
        split: sum.splits prod.splits)
  from w inp obtain db1 db2 where
    c: "close_interaction Cancelled ''cancel'' now ?u ?q v ?db = Some db1"
    and a: "insert_audit (rnd 0) ?u ?q ''interaction.cancelled'' ''adapter'' (cn_reason inp) now db1 = Inr db2"
    and o: "insert_outbox (rnd 1) ?u ?q ''interaction.cancelled'' (StringsPayload [(''reason'', cn_reason inp)]) now db2 = Inr db'"
    and g: "get_interaction_tx ?u ?q db' = Some j"
    by (auto simp: cancel_writes_def remember_post_def)
  obtain i where i: "i \<in> set (db_interactions ?db)" "at_version ?u ?q v i"
    using close_interaction_SomeD(2) [OF c] by blast
  then have f: "ix_username i = ?u" "ix_request_id i = ?q" "ix_row_version i = v" "ix_status i = Pending"
    by (simp_all add: at_version_def)
  have c': "close_interaction Cancelled ''cancel'' now (ix_username i) (ix_request_id i) (ix_row_version i) ?db = Some db1"
    using c by (simp add: f)
  have "db_interactions db1 = map (\<lambda>x. if x = i then close_row Cancelled ''cancel'' now x else x) (db_interactions ?db) \<and>
      db_responses db1 = db_responses ?db"
    using c' unfolding close_own_row [OF cp_invD(1) [OF cp_run_inv] i(1) f(4)] by auto
  then have rows: "db_interactions db' = map (\<lambda>x. if x = i then close_row Cancelled ''cancel'' now x else x) (db_interactions ?db)"
    and resp: "db_responses db' = db_responses ?db"
    using insert_audit_frame [OF a] insert_outbox_frame [OF o] by simp_all
  have "j = close_row Cancelled ''cancel'' now i"
    using get_closed_row [OF cp_invD(1) [OF cp_run_inv] i(1) rows] g by (simp add: f)
  with i rows resp show ?thesis by (auto simp: ok)
qed

text \<open>
  C38. Expiry is exact: when it commits, the rows it closes and returns are the user's
  pending rows whose deadline has come, no row that is not due, answered or of another
  user changes, and no response is touched.
\<close>

theorem expire_due_exact:
  assumes "expire_due_interactions now rnd u (cp_run hs ops) = (db', Inr out)"
  shows "db_interactions db' = map (\<lambda>i. if ix_username i = trim_space u \<and> ix_status i = Pending \<and> due now i
       then close_row Expired ''expire'' now i else i) (db_interactions (cp_run hs ops)) \<and>
     mset out = image_mset (close_row Expired ''expire'' now)
       (mset (filter (\<lambda>i. ix_username i = trim_space u \<and> ix_status i = Pending \<and> due now i) (db_interactions (cp_run hs ops)))) \<and>
     db_responses db' = db_responses (cp_run hs ops)"
  using expire_due_closes [OF cp_run_inv assms] by (simp add: closable_def [abs_def])

theorem expire_due_exact_witness:
  "map ix_status (db_interactions (fst (expire_due_interactions 1000 (demo_rnd ''e'') ''u'' (cp_run demo_hashes (demo_open @ [demo_answer]))))) =
   [Resolved, Expired]"
proof -
  let ?db = "cp_run demo_hashes (demo_open @ [demo_answer])"
  have "is_ok (snd (expire_due_interactions 1000 (demo_rnd ''e'') ''u'' ?db))" by code_simp
  then obtain db' out where ok: "expire_due_interactions 1000 (demo_rnd ''e'') ''u'' ?db = (db', Inr out)"
    by (metis is_okE prod.collapse)
  have "map (\<lambda>i. (ix_username i = trim_space ''u'' \<and> ix_status i = Pending \<and> due 1000 i, ix_status i)) (db_interactions ?db) =
      [(False, Resolved), (True, Pending)]" by code_simp
  then show ?thesis unfolding ok using expire_due_exact [OF ok] by (auto simp: map_eq_Cons_conv close_row_def)
qed

text \<open>
  Ending a session leaves no interaction of it open: the user's pending rows of that
  session are cancelled and returned, and nothing else changes.
\<close>

theorem session_end_exact:
  assumes "cancel_pending_for_session now rnd u s reason (cp_run hs ops) = (db', Inr out)"
  shows "db_interactions db' = map (\<lambda>i. if ix_username i = trim_space u \<and> ix_status i = Pending \<and> ix_session_id i = trim_space s
       then close_row Cancelled ''cancel'' now i else i) (db_interactions (cp_run hs ops)) \<and>
     mset out = image_mset (close_row Cancelled ''cancel'' now)
       (mset (filter (\<lambda>i. ix_username i = trim_space u \<and> ix_status i = Pending \<and> ix_session_id i = trim_space s)
         (db_interactions (cp_run hs ops)))) \<and>
     db_responses db' = db_responses (cp_run hs ops)"
  using cancel_for_session_closes [OF cp_run_inv assms] by (simp add: closable_def [abs_def])

theorem session_end_exact_witness:
  "map ix_status (db_interactions (fst (cancel_pending_for_session 50 (demo_rnd ''e'') ''u'' ''s'' ''closed'' (cp_run demo_hashes (demo_open @ [demo_answer]))))) =
   [Resolved, Cancelled]"
proof -
  let ?db = "cp_run demo_hashes (demo_open @ [demo_answer])"
  have "is_ok (snd (cancel_pending_for_session 50 (demo_rnd ''e'') ''u'' ''s'' ''closed'' ?db))" by code_simp
  then obtain db' out where ok: "cancel_pending_for_session 50 (demo_rnd ''e'') ''u'' ''s'' ''closed'' ?db = (db', Inr out)"
    by (metis is_okE prod.collapse)
  have "map (\<lambda>i. (ix_username i = trim_space ''u'' \<and> ix_status i = Pending \<and> ix_session_id i = trim_space ''s'', ix_status i))
      (db_interactions ?db) = [(False, Resolved), (True, Pending)]" by code_simp
  then show ?thesis unfolding ok using session_end_exact [OF ok] by (auto simp: map_eq_Cons_conv close_row_def)
qed

section \<open>Listing\<close>

text \<open>
  The pending list shows what can still be answered: every row it returns is a
  pending row of the user in the new state that is not due, there are at most as many as
  the clamped limit, and when there are fewer, every pending row of the user is there.
\<close>

theorem list_pending_answerable:
  assumes "list_pending_interactions now rnd u limit (cp_run hs ops) = (db', Inr out)"
  shows "set out \<subseteq> {i \<in> set (db_interactions db'). ix_username i = trim_space u \<and> ix_status i = Pending \<and> \<not> due now i} \<and>
     length out \<le> clamp_limit limit \<and>
     (length out = clamp_limit limit \<or>
       set out = {i \<in> set (db_interactions db'). ix_username i = trim_space u \<and> ix_status i = Pending})"
proof -
  obtain closed where e: "expire_due_interactions now rnd u (cp_run hs ops) = (db', Inr closed)"
    and out: "out = list_interactions_where u (Some Pending) limit db'"
    using assms by (auto simp: list_pending_interactions_def split: prod.splits sum.splits)
  have fresh: "\<not> due now i" if "i \<in> set (db_interactions db')" "ix_username i = trim_space u" "ix_status i = Pending" for i
    using that expire_due_closes(1) [OF cp_run_inv e] by (auto simp: closable_def close_row_def)
  define rows where "rows = order_by (\<lambda>i. format_time (ix_created_at i))
      (filter (\<lambda>i. ix_username i = trim_space u \<and> ix_status i = Pending) (db_interactions db'))"
  have rows: "set rows = {i \<in> set (db_interactions db'). ix_username i = trim_space u \<and> ix_status i = Pending}"
    by (auto simp: rows_def)
  have take: "out = take (clamp_limit limit) rows"
    by (simp add: out list_interactions_where_def rows_def)
  have "set out \<subseteq> set rows" by (auto simp: take dest: in_set_takeD)
  moreover have "length out = clamp_limit limit \<or> set out = set rows" by (auto simp: take)
  moreover have "length out \<le> clamp_limit limit" by (simp add: take)
  ultimately show ?thesis using fresh by (auto simp: rows)
qed

theorem list_pending_answerable_witness:
  "\<exists>db' out. list_pending_interactions 50 (demo_rnd ''e'') ''u'' 10 (cp_run demo_hashes [hd demo_open]) = (db', Inr out) \<and>
     (\<forall>i \<in> set out. ix_status i = Pending \<and> \<not> due 50 i)"
proof -
  let ?call = "list_pending_interactions 50 (demo_rnd ''e'') ''u'' 10 (cp_run demo_hashes [hd demo_open])"
  have "is_ok (snd ?call)" by code_simp
  then obtain db' out where call: "?call = (db', Inr out)" by (metis is_okE prod.collapse)
  from list_pending_answerable [OF call] show ?thesis by (auto simp: call)
qed

text \<open>
  The listings order rows by the text of \<open>created_at\<close>, which drops trailing zeros
  of the fraction: of two interactions created in one second, at 100 and at 120
  milliseconds, the later one is listed first, so the order is not the order of creation.
\<close>

theorem listing_not_chronological:
  "map ix_created_at (list_interactions ''u'' 10 (cp_run demo_hashes
     [CreateOp 100000000 (demo_rnd ''b'') (demo_create ''v1''), CreateOp 120000000 (demo_rnd ''c'') (demo_create ''v2'')])) =
   [120000000, 100000000]"
  by code_simp

section \<open>Rows offered and projections\<close>

text \<open>
  No interaction row a reachable state holds lets a high-risk request be approved
  for a whole session, and its allowed actions are a non-empty sorted list without
  duplicates.
\<close>

theorem allowed_actions_guarded:
  assumes "i \<in> set (db_interactions (cp_run hs ops))"
  shows "(is_high_risk (ix_risk_class i) \<longrightarrow> ''approve_session'' \<notin> set (ix_allowed_actions i)) \<and>
     ix_allowed_actions i \<noteq> [] \<and> sorted (ix_allowed_actions i) \<and> distinct (ix_allowed_actions i)"
proof -
  have "\<forall>i \<in> set (db_interactions (cp_run hs ops)). guarded_row i"
    unfolding cp_run_def by (rule rows_guarded.run_inv) (simp add: empty_db_def)
  with assms show ?thesis by (auto simp: guarded_row_def)
qed

theorem allowed_actions_guarded_witness:
  "''approve_session'' \<notin> set (ix_allowed_actions (demo_row 0 demo_open))"
proof -
  have "demo_row 0 demo_open \<in> set (db_interactions (cp_run demo_hashes demo_open))" by code_simp
  moreover have "is_high_risk (ix_risk_class (demo_row 0 demo_open))" by code_simp
  ultimately show ?thesis using allowed_actions_guarded by blast
qed

text \<open>
  A projection is applied once: when marking it applied succeeds, its row is applied
  and stays as it is under all later operations, and marking it again, as applied or as
  failed, changes no row; the second mark as applied is a conflict.
\<close>

theorem projection_applied_once:
  assumes "mark_projection_applied now u d (cp_run hs ops) = (db', Inr ())"
  shows "let db = foldl (cp_step hs) db' later in
     (\<exists>p \<in> set (db_projections db). pj_decision_id p = trim_space d \<and> pj_username p = trim_space u \<and> pj_state p = PjApplied) \<and>
     snd (mark_projection_applied now' u d db) = Inl (ErrConflict ''task projection is not pending'') \<and>
     db_projections (fst (mark_projection_applied now' u d db)) = db_projections db \<and>
     db_projections (fst (mark_projection_failed now' u d err db)) = db_projections db"
proof -
  let ?sel = "open_projection u d"
  have step: "db' = cp_step hs (cp_run hs ops) (AppliedOp now u d)" using assms by simp
  then have run: "db' = cp_run hs (ops @ [AppliedOp now u d])" by (simp add: cp_run_append)
  define db where "db = foldl (cp_step hs) db' later"
  have inv': "cp_inv db'" unfolding run by (rule cp_run_inv)
  have inv: "cp_inv db" unfolding db_def by (rule gateway.run_inv [OF inv'])
  from assms have "affected ?sel (db_projections (cp_run hs ops)) = 1"
    by (auto simp: mark_projection_applied_def Let_def)
  then obtain p where p: "p \<in> set (db_projections (cp_run hs ops))" "?sel p"
    by (metis affected_pos_iff zero_less_one)
  define p' where "p' = p\<lparr>pj_state := PjApplied, pj_attempts := pj_attempts p + 1, pj_last_error := [], pj_updated_at := now\<rparr>"
  have "p' \<in> set (db_projections db')"
    using assms p by (auto simp: mark_projection_applied_def Let_def set_update_where p'_def)
  then have "applied_projection p' db'" by (simp add: applied_projection_def p'_def)
  then have "applied_projection p' db" unfolding db_def by (rule projections_final.run_fact [OF inv'])
  then have mem: "p' \<in> set (db_projections db)" "pj_state p' = PjApplied" by (simp_all add: applied_projection_def)
  have id: "pj_decision_id p' = trim_space d" "pj_username p' = trim_space u"
    using p(2) by (simp_all add: p'_def open_projection_def)
  have "unique_key (\<lambda>p. Some [pj_decision_id p]) (db_projections db)"
    by (rule unique_keysD [OF cp_invD(5) [OF inv]]) (simp add: projection_keys_def)
  then have "x = p'" if "x \<in> set (db_projections db)" "?sel x" for x
    by (rule unique_key_eq [where v = "[trim_space d]"]) (use that mem(1) id in \<open>simp_all add: open_projection_def\<close>)
  with mem(2) have "\<not> ?sel x" if "x \<in> set (db_projections db)" for x
    using that by (auto simp: open_projection_def)
  then have none: "affected ?sel (db_projections db) = 0" by (metis affected_pos_iff neq0_conv)
  then show ?thesis
    using mem id by (auto simp: Let_def db_def [symmetric] mark_projection_applied_def mark_projection_failed_def update_where_none
        intro!: bexI [of _ p'])
qed

theorem projection_applied_once_witness:
  "snd (mark_projection_applied 40 ''u'' ''response-64'' (cp_run demo_hashes (demo_open @ [demo_answer, AppliedOp 30 ''u'' ''response-64'']))) =
   Inl (ErrConflict ''task projection is not pending'')"
proof -
  have "mark_projection_applied 30 ''u'' ''response-64'' (cp_run demo_hashes (demo_open @ [demo_answer])) =
     (cp_run demo_hashes ((demo_open @ [demo_answer]) @ [AppliedOp 30 ''u'' ''response-64'']), Inr ())" by code_simp
  from projection_applied_once [OF this, of "[]"] show ?thesis by (simp add: Let_def)
qed

end
