(* ===== verification/Task_Claims.thy ===== *)
theory Task_Claims
  imports Cp_Types
begin

text \<open>
  Task claim leases (\<open>internal/controlplane/claims.go\<close>): the table \<open>task_claims\<close> and the
  operations of \<open>ClaimStore\<close>. A lease is an exclusive hold of one agent runtime on a task for
  120 seconds from its last heartbeat; the partial unique index on the task of the active
  rows decides which of several claimants wins.

  The state is the table. The store's injectable clock is an argument of each operation;
  the loop over candidates reads it once per candidate, so there it is a sequence.
\<close>

section \<open>Data\<close>

definition lease_ttl :: duration where
  "lease_ttl = 120 * second"

datatype claim_status = ClActive | ClReleased | ClExpired

record task_claim =
  tc_id :: string
  tc_username :: string
  tc_task :: string
  tc_runtime :: string
  tc_agent :: string
  tc_status :: claim_status
  tc_lease :: instant
  tc_created :: instant
  tc_updated :: instant

record claim_timeline =
  ct_timestamp :: instant
  ct_actor :: string
  ct_action :: string
  ct_detail :: string
  ct_task :: string
  ct_claim :: string

type_synonym claims = "task_claim list"

definition claim_keys :: "task_claim key list" where
  "claim_keys = [\<lambda>c. Some [tc_id c], \<lambda>c. if tc_status c = ClActive then Some [tc_task c] else None]"

text \<open>\<open>!LeaseExpiresAt.After(now)\<close>\<close>

definition lease_over :: "instant \<Rightarrow> task_claim \<Rightarrow> bool" where
  "lease_over now c \<longleftrightarrow> \<not> now < tc_lease c"

definition get_claim :: "string \<Rightarrow> string \<Rightarrow> claims \<Rightarrow> (cp_error, task_claim) result" where
  "get_claim username claim_id rows =
     require ErrNotFound (List.find (\<lambda>c. tc_username c = username \<and> tc_id c = claim_id) rows)"

definition active_claim_for_task :: "string \<Rightarrow> string \<Rightarrow> claims \<Rightarrow> (cp_error, task_claim) result" where
  "active_claim_for_task username task_id rows =
     (if username = [] \<or> task_id = [] then Inl (ErrValidation ''username and taskId are required'')
      else require ErrNotFound
        (List.find (\<lambda>c. tc_username c = username \<and> tc_task c = task_id \<and> tc_status c = ClActive) rows))"

section \<open>Claiming\<close>

definition try_claim_task ::
  "instant \<Rightarrow> string \<Rightarrow> string \<Rightarrow> string \<Rightarrow> string \<Rightarrow> string \<Rightarrow> claims \<Rightarrow> (cp_error, claims \<times> task_claim) result" where
  "try_claim_task now bytes username task_id runtime_id agent rows =
     (let c = \<lparr>tc_id = new_id ''claim'' bytes, tc_username = username, tc_task = task_id, tc_runtime = runtime_id,
               tc_agent = agent, tc_status = ClActive, tc_lease = now + lease_ttl, tc_created = now, tc_updated = now\<rparr>
      in case insert_row claim_keys c rows of
           None \<Rightarrow> Inl ErrLeaseConflict
         | Some rows' \<Rightarrow> Inr (rows', c))"

text \<open>The candidates in order; a candidate another runtime holds is passed over.\<close>

fun claim_first ::
  "(nat \<Rightarrow> instant) \<Rightarrow> entropy \<Rightarrow> string \<Rightarrow> string \<Rightarrow> string \<Rightarrow> string list \<Rightarrow> claims \<Rightarrow> claims \<times> (cp_error, task_claim) result" where
  "claim_first clock rnd username runtime_id agent [] rows = (rows, Inl ErrNotFound)"
| "claim_first clock rnd username runtime_id agent (t # ts) rows =
     (if trim_space t = [] then claim_first clock rnd username runtime_id agent ts rows
      else case try_claim_task (clock 0) (rnd 0) username (trim_space t) runtime_id agent rows of
             Inl e \<Rightarrow>
               if e = ErrLeaseConflict
               then claim_first (\<lambda>k. clock (Suc k)) (\<lambda>k. rnd (Suc k)) username runtime_id agent ts rows
               else (rows, Inl e)
           | Inr (rows', c) \<Rightarrow> (rows', Inr c))"

definition claim_ready_task ::
  "(nat \<Rightarrow> instant) \<Rightarrow> entropy \<Rightarrow> string \<Rightarrow> string list \<Rightarrow> string \<Rightarrow> string \<Rightarrow> claims \<Rightarrow> claims \<times> (cp_error, task_claim) result" where
  "claim_ready_task clock rnd username0 ready runtime0 agent0 rows =
     (let username = trim_space username0; runtime_id = trim_space runtime0; agent = trim_space agent0 in
      if username = [] then (rows, Inl (ErrValidation ''username is required''))
      else if runtime_id = [] \<or> agent = [] then (rows, Inl (ErrValidation ''runtimeId and agentLabel are required''))
      else claim_first clock rnd username runtime_id agent ready rows)"

section \<open>Heartbeat and release\<close>

definition active_row :: "string \<Rightarrow> string \<Rightarrow> task_claim \<Rightarrow> bool" where
  "active_row username claim_id c \<longleftrightarrow> tc_id c = claim_id \<and> tc_username c = username \<and> tc_status c = ClActive"

definition heartbeat_claim ::
  "instant \<Rightarrow> string \<Rightarrow> string \<Rightarrow> claims \<Rightarrow> claims \<times> (cp_error, task_claim \<times> instant \<times> claim_timeline) result" where
  "heartbeat_claim now username claim_id0 rows =
     (let claim_id = trim_space claim_id0 in
      if username = [] \<or> claim_id = [] then (rows, Inl (ErrValidation ''leaseId is required''))
      else case get_claim username claim_id rows of
        Inl e \<Rightarrow> (rows, Inl e)
      | Inr c \<Rightarrow>
          if tc_status c \<noteq> ClActive \<or> lease_over now c then (rows, Inl ErrNotFound)
          else let expires = now + lease_ttl in
            if affected (active_row username claim_id) rows \<noteq> 1 then (rows, Inl ErrNotFound)
            else (update_where (active_row username claim_id) (\<lambda>c. c\<lparr>tc_lease := expires, tc_updated := now\<rparr>) rows,
              Inr (c\<lparr>tc_lease := expires, tc_updated := now\<rparr>, expires,
                \<lparr>ct_timestamp = now, ct_actor = ''agent:'' @ tc_agent c, ct_action = ''task_lease_heartbeat'',
                 ct_detail = ''Lease '' @ tc_id c @ '' renewed for runtime '' @ tc_runtime c @ '' until '' @ format_time expires @ ''.'',
                 ct_task = tc_task c, ct_claim = tc_id c\<rparr>)))"

datatype release_outcome = OutcomeDone | OutcomeFailed | OutcomeReleased

definition parse_outcome :: "string \<Rightarrow> release_outcome option" where
  "parse_outcome s =
     (let o' = trim_space (to_lower s) in
      if o' = ''done'' then Some OutcomeDone else if o' = ''failed'' then Some OutcomeFailed
      else if o' = ''released'' then Some OutcomeReleased else None)"

fun show_outcome :: "release_outcome \<Rightarrow> string" where
  "show_outcome OutcomeDone = ''done''"
| "show_outcome OutcomeFailed = ''failed''"
| "show_outcome OutcomeReleased = ''released''"

fun next_dispatch :: "release_outcome \<Rightarrow> string" where
  "next_dispatch OutcomeDone = ''done''"
| "next_dispatch _ = ''ready''"

definition release_claim ::
  "instant \<Rightarrow> string \<Rightarrow> string \<Rightarrow> string \<Rightarrow> claims \<Rightarrow>
   claims \<times> (cp_error, task_claim \<times> instant \<times> string \<times> claim_timeline) result" where
  "release_claim now username claim_id0 outcome0 rows =
     (let claim_id = trim_space claim_id0 in
      case parse_outcome outcome0 of
        None \<Rightarrow> (rows, Inl (ErrValidation ''outcome must be done, failed or released''))
      | Some outcome \<Rightarrow>
          (case get_claim username claim_id rows of
             Inl e \<Rightarrow> (rows, Inl e)
           | Inr c \<Rightarrow>
               if tc_status c \<noteq> ClActive \<or> lease_over now c then (rows, Inl ErrNotFound)
               else if affected (active_row username claim_id) rows \<noteq> 1 then (rows, Inl ErrNotFound)
               else (update_where (active_row username claim_id) (\<lambda>c. c\<lparr>tc_status := ClReleased, tc_updated := now\<rparr>) rows,
                 Inr (c\<lparr>tc_status := ClReleased, tc_updated := now\<rparr>, tc_lease c, next_dispatch outcome,
                   \<lparr>ct_timestamp = now, ct_actor = ''agent:'' @ tc_agent c, ct_action = ''task_lease_released'',
                    ct_detail = ''Lease '' @ tc_id c @ '' released by runtime '' @ tc_runtime c @ '' with outcome '' @
                      show_outcome outcome @ ''; task dispatch state -> '' @ next_dispatch outcome @ ''.'',
                    ct_task = tc_task c, ct_claim = tc_id c\<rparr>))))"

section \<open>Recycling\<close>

definition expire_row :: "instant \<Rightarrow> task_claim \<Rightarrow> task_claim" where
  "expire_row now c = c\<lparr>tc_status := ClExpired, tc_updated := now\<rparr>"

definition expired_event :: "instant \<Rightarrow> task_claim \<Rightarrow> claim_timeline" where
  "expired_event now c =
     \<lparr>ct_timestamp = now, ct_actor = ''system'', ct_action = ''task_lease_expired'',
      ct_detail = ''Lease '' @ tc_id c @ '' for runtime '' @ tc_runtime c @ '' expired at '' @ format_time (tc_lease c) @
        ''; task returned to ready.'',
      ct_task = tc_task c, ct_claim = tc_id c\<rparr>"

fun expire_claims_each :: "instant \<Rightarrow> task_claim list \<Rightarrow> claims \<Rightarrow> claims \<times> (task_claim \<times> claim_timeline) list" where
  "expire_claims_each now [] rows = (rows, [])"
| "expire_claims_each now (c # cs) rows =
     (let mine = (\<lambda>r. tc_id r = tc_id c \<and> tc_status r = ClActive) in
      if affected mine rows \<noteq> 1 then expire_claims_each now cs rows
      else let (rows', out) = expire_claims_each now cs (update_where mine (expire_row now) rows)
           in (rows', (expire_row now c, expired_event now c) # out))"

text \<open>The user \<open>[]\<close> stands for all users, as in \<open>ExpireStaleClaims\<close>.\<close>

definition stale :: "instant \<Rightarrow> string \<Rightarrow> task_claim \<Rightarrow> bool" where
  "stale now username c \<longleftrightarrow> tc_status c = ClActive \<and> (username = [] \<or> tc_username c = username) \<and> lease_over now c"

definition expire_stale_claims :: "instant \<Rightarrow> string \<Rightarrow> claims \<Rightarrow> claims \<times> (task_claim \<times> claim_timeline) list" where
  "expire_stale_claims now username rows =
     expire_claims_each now (filter (lease_over now)
       (filter (\<lambda>c. tc_status c = ClActive \<and> (username = [] \<or> tc_username c = username)) rows)) rows"

definition expire_all_stale_claims :: "instant \<Rightarrow> claims \<Rightarrow> claims \<times> (task_claim \<times> claim_timeline) list" where
  "expire_all_stale_claims now rows = expire_stale_claims now [] rows"

definition expire_stale_claims_for_user :: "instant \<Rightarrow> string \<Rightarrow> claims \<Rightarrow> claims \<times> (task_claim \<times> claim_timeline) list" where
  "expire_stale_claims_for_user now username rows = expire_stale_claims now username rows"

definition revoke_task_claims :: "instant \<Rightarrow> string \<Rightarrow> string \<Rightarrow> claims \<Rightarrow> claims" where
  "revoke_task_claims now username task_id rows =
     update_where (\<lambda>c. tc_username c = username \<and> tc_task c = task_id \<and> tc_status c = ClActive)
       (\<lambda>c. c\<lparr>tc_status := ClReleased, tc_updated := now\<rparr>) rows"

end
