(* ===== verification/Claim_Facts.thy ===== *)
theory Claim_Facts
  imports Task_Claims
begin

text \<open>
  The invariant of the claim table, its preservation by every operation of the store, and
  the finality of closed leases, as interpretations of \<open>stepper\<close> and \<open>stable_stepper\<close>.
\<close>

section \<open>The invariant\<close>

definition cl_inv :: "claims \<Rightarrow> bool" where
  "cl_inv rows \<longleftrightarrow> unique_keys claim_keys rows \<and>
     (\<forall>c \<in> set rows. tc_status c = ClActive \<longrightarrow> tc_lease c = tc_updated c + lease_ttl)"

lemma cl_invD:
  assumes "cl_inv rows"
  shows "unique_keys claim_keys rows" and "c \<in> set rows \<Longrightarrow> tc_status c = ClActive \<Longrightarrow> tc_lease c = tc_updated c + lease_ttl"
  using assms by (simp_all add: cl_inv_def)

lemma claim_id_unique:
  assumes "cl_inv rows" and "c \<in> set rows" and "d \<in> set rows" and "tc_id c = tc_id d"
  shows "c = d"
proof -
  have "unique_key (\<lambda>c. Some [tc_id c]) rows"
    using cl_invD(1) [OF assms(1)] by (rule unique_keysD) (simp add: claim_keys_def)
  then show ?thesis by (rule unique_key_eq [OF _ assms(2,3)]) (simp_all add: assms(4))
qed

lemma active_claim_unique:
  assumes "cl_inv rows" and "c \<in> set rows" and "d \<in> set rows" and "tc_task c = tc_task d"
    and "tc_status c = ClActive" and "tc_status d = ClActive"
  shows "c = d"
proof -
  have "unique_key (\<lambda>c. if tc_status c = ClActive then Some [tc_task c] else None) rows"
    using cl_invD(1) [OF assms(1)] by (rule unique_keysD) (simp add: claim_keys_def)
  then show ?thesis by (rule unique_key_eq [OF _ assms(2,3)]) (simp_all add: assms(4-6))
qed

text \<open>A row found by user and id is the only one the guarded updates of that id touch.\<close>

lemma get_claim_Inr:
  "get_claim u i rows = Inr c \<Longrightarrow> c \<in> set rows \<and> tc_username c = u \<and> tc_id c = i"
  by (auto simp: get_claim_def dest: find_SomeD)

lemma get_claim_eq:
  assumes "cl_inv rows" and "c \<in> set rows"
  shows "get_claim (tc_username c) (tc_id c) rows = Inr c"
proof -
  have "unique_key (\<lambda>c. Some [tc_id c]) rows"
    using cl_invD(1) [OF assms(1)] by (rule unique_keysD) (simp add: claim_keys_def)
  then have "List.find (\<lambda>x. tc_username x = tc_username c \<and> tc_id x = tc_id c) rows = Some c"
    by (rule find_unique [OF _ _ assms(2)]) simp_all
  then show ?thesis by (simp add: get_claim_def)
qed

lemma claim_update:
  assumes inv: "cl_inv rows" and c: "c \<in> set rows" "sel c" and sel: "\<And>x. sel x \<Longrightarrow> tc_id x = tc_id c"
  shows "affected sel rows = 1" and "update_where sel f rows = map (\<lambda>x. if x = c then f x else x) rows"
proof -
  have eq: "sel x \<longleftrightarrow> x = c" if "x \<in> set rows" for x
    using claim_id_unique [OF inv that c(1)] sel c(2) by blast
  have "unique_key (\<lambda>c. Some [tc_id c]) rows"
    using cl_invD(1) [OF inv] by (rule unique_keysD) (simp add: claim_keys_def)
  moreover have "(\<lambda>x. Some [tc_id x]) r = Some [tc_id c]" if "sel r" for r
    using sel [OF that] by simp
  ultimately show "affected sel rows = 1" using c by (rule affected_unique_eq_1)
  show "update_where sel f rows = map (\<lambda>x. if x = c then f x else x) rows"
    using eq by (auto simp: update_where_def)
qed

lemma claim_update_inv:
  assumes inv: "cl_inv rows"
    and f: "\<And>c. c \<in> set rows \<Longrightarrow> sel c \<Longrightarrow> tc_id (f c) = tc_id c \<and> tc_task (f c) = tc_task c \<and>
      (tc_status (f c) = ClActive \<longrightarrow> tc_status c = ClActive \<and> tc_lease (f c) = tc_updated (f c) + lease_ttl)"
  shows "cl_inv (update_where sel f rows)"
proof -
  have "unique_key k (map (\<lambda>c. if sel c then f c else c) rows)" if "k \<in> set claim_keys" for k
    by (rule unique_key_map [OF unique_keysD [OF cl_invD(1) [OF inv] that]])
      (use that f in \<open>auto simp: claim_keys_def split: if_splits\<close>)
  then have "unique_keys claim_keys (update_where sel f rows)" by (simp add: unique_keys_iff update_where_def)
  then show ?thesis using inv f by (auto simp: cl_inv_def set_update_where)
qed

section \<open>The operations keep the invariant\<close>

definition new_lease :: "string \<Rightarrow> string \<Rightarrow> string \<Rightarrow> string list \<Rightarrow> task_claim \<Rightarrow> bool" where
  "new_lease u rt ag ts c \<longleftrightarrow> tc_status c = ClActive \<and> tc_lease c = tc_updated c + lease_ttl \<and>
     tc_username c = u \<and> tc_runtime c = rt \<and> tc_agent c = ag \<and> tc_task c \<in> trim_space ` set ts \<and> tc_task c \<noteq> []"

lemma new_lease_Cons: "new_lease u rt ag ts c \<Longrightarrow> new_lease u rt ag (t # ts) c"
  by (auto simp: new_lease_def)

lemma claim_first_Inl: "claim_first clock rnd u rt ag ts rows = (rows', Inl e) \<Longrightarrow> rows' = rows"
  by (induction ts arbitrary: clock rnd) (auto split: if_splits sum.splits)

lemma claim_first_Inr:
  "claim_first clock rnd u rt ag ts rows = (rows', Inr c) \<Longrightarrow> insert_row claim_keys c rows = Some rows' \<and> new_lease u rt ag ts c"
proof (induction ts arbitrary: clock rnd)
  case (Cons t ts)
  show ?case
  proof (cases "trim_space t = [] \<or> (\<exists>e. try_claim_task (clock 0) (rnd 0) u (trim_space t) rt ag rows = Inl e)")
    case True
    with Cons.prems have "claim_first clock rnd u rt ag ts rows = (rows', Inr c) \<or>
        claim_first (\<lambda>k. clock (Suc k)) (\<lambda>k. rnd (Suc k)) u rt ag ts rows = (rows', Inr c)"
      by (auto split: if_splits)
    then show ?thesis using Cons.IH new_lease_Cons by blast
  next
    case False
    then obtain r where "trim_space t \<noteq> []" "try_claim_task (clock 0) (rnd 0) u (trim_space t) rt ag rows = Inr r"
      by (cases "try_claim_task (clock 0) (rnd 0) u (trim_space t) rt ag rows") auto
    with Cons.prems show ?thesis
      by (auto simp: try_claim_task_def Let_def new_lease_def split: option.splits)
  qed
qed simp

lemma claim_ready_task_Inl: "claim_ready_task clock rnd u ts rt ag rows = (rows', Inl e) \<Longrightarrow> rows' = rows"
  by (auto simp: claim_ready_task_def Let_def split: if_splits dest: claim_first_Inl)

lemma claim_ready_task_Inr:
  "claim_ready_task clock rnd u ts rt ag rows = (rows', Inr c) \<Longrightarrow>
     insert_row claim_keys c rows = Some rows' \<and> new_lease (trim_space u) (trim_space rt) (trim_space ag) ts c"
  by (auto simp: claim_ready_task_def Let_def split: if_splits dest: claim_first_Inr)

lemma claim_ready_task_inv: "cl_inv rows \<Longrightarrow> cl_inv (fst (claim_ready_task clock rnd u ts rt ag rows))"
proof -
  assume inv: "cl_inv rows"
  obtain rows' res where c: "claim_ready_task clock rnd u ts rt ag rows = (rows', res)" by fastforce
  show ?thesis
  proof (cases res)
    case (Inl e)
    with claim_ready_task_Inl c inv show ?thesis by fastforce
  next
    case (Inr x)
    with claim_ready_task_Inr c have ins: "insert_row claim_keys x rows = Some rows'"
      and x: "tc_status x = ClActive" "tc_lease x = tc_updated x + lease_ttl" by (fastforce simp: new_lease_def)+
    have "unique_keys claim_keys rows'" by (rule insert_row_unique [OF cl_invD(1) [OF inv] ins])
    with inv x ins show ?thesis by (auto simp: c cl_inv_def insert_row_Some_iff)
  qed
qed

lemma heartbeat_claim_inv: "cl_inv rows \<Longrightarrow> cl_inv (fst (heartbeat_claim now u i rows))"
  by (auto simp: heartbeat_claim_def Let_def active_row_def split: sum.splits intro!: claim_update_inv)

lemma release_claim_inv: "cl_inv rows \<Longrightarrow> cl_inv (fst (release_claim now u i out rows))"
  by (auto simp: release_claim_def Let_def split: sum.splits option.splits intro!: claim_update_inv)

lemma revoke_task_claims_inv: "cl_inv rows \<Longrightarrow> cl_inv (revoke_task_claims now u t rows)"
  by (auto simp: revoke_task_claims_def intro!: claim_update_inv)

lemma expire_claims_each_inv: "cl_inv rows \<Longrightarrow> cl_inv (fst (expire_claims_each now cs rows))"
proof (induction cs arbitrary: rows)
  case (Cons c cs)
  let ?mine = "\<lambda>r. tc_id r = tc_id c \<and> tc_status r = ClActive"
  have "cl_inv (update_where ?mine (expire_row now) rows)"
    using Cons.prems by (rule claim_update_inv) (simp add: expire_row_def)
  with Cons show ?case by (simp add: Let_def case_prod_unfold)
qed simp

lemma expire_stale_claims_inv: "cl_inv rows \<Longrightarrow> cl_inv (fst (expire_stale_claims now u rows))"
  by (simp add: expire_stale_claims_def expire_claims_each_inv)

section \<open>Runs\<close>

datatype cl_op =
    ClaimReady "nat \<Rightarrow> instant" entropy string "string list" string string
  | Heartbeat instant string string
  | Release instant string string string
  | ExpireStale instant string
  | Revoke instant string string

fun cl_step :: "claims \<Rightarrow> cl_op \<Rightarrow> claims" where
  "cl_step rows (ClaimReady clock rnd u ts rt ag) = fst (claim_ready_task clock rnd u ts rt ag rows)"
| "cl_step rows (Heartbeat now u i) = fst (heartbeat_claim now u i rows)"
| "cl_step rows (Release now u i out) = fst (release_claim now u i out rows)"
| "cl_step rows (ExpireStale now u) = fst (expire_stale_claims now u rows)"
| "cl_step rows (Revoke now u t) = revoke_task_claims now u t rows"

interpretation leases: stepper cl_step cl_inv
proof unfold_locales
  fix rows op assume "cl_inv rows"
  then show "cl_inv (cl_step rows op)"
    by (cases op) (simp_all add: claim_ready_task_inv heartbeat_claim_inv release_claim_inv expire_stale_claims_inv
        revoke_task_claims_inv)
qed

definition cl_run :: "cl_op list \<Rightarrow> claims" where
  "cl_run ops = foldl cl_step [] ops"

lemma cl_run_inv: "cl_inv (cl_run ops)"
  unfolding cl_run_def by (rule leases.run_inv) (simp add: cl_inv_def)

text \<open>Rows are never removed, and a lease that is not active is never changed again.\<close>

definition closed_claim :: "task_claim \<Rightarrow> claims \<Rightarrow> bool" where
  "closed_claim c rows \<longleftrightarrow> c \<in> set rows \<and> tc_status c \<noteq> ClActive"

lemma closed_claim_update:
  "closed_claim c rows \<Longrightarrow> (\<And>x. sel x \<Longrightarrow> tc_status x = ClActive) \<Longrightarrow> closed_claim c (update_where sel f rows)"
  by (auto simp: closed_claim_def set_update_where)

lemma closed_claim_expire: "closed_claim c rows \<Longrightarrow> closed_claim c (fst (expire_claims_each now cs rows))"
proof (induction cs arbitrary: rows)
  case (Cons d cs)
  have "closed_claim c (update_where (\<lambda>r. tc_id r = tc_id d \<and> tc_status r = ClActive) (expire_row now) rows)"
    by (rule closed_claim_update [OF Cons.prems]) simp
  with Cons show ?case by (simp add: Let_def case_prod_unfold)
qed simp

lemma closed_claim_ready:
  assumes "closed_claim c rows"
  shows "closed_claim c (fst (claim_ready_task clock rnd u ts rt ag rows))"
proof -
  obtain rows' res where r: "claim_ready_task clock rnd u ts rt ag rows = (rows', res)" by fastforce
  show ?thesis
  proof (cases res)
    case (Inl e)
    with claim_ready_task_Inl r assms show ?thesis by fastforce
  next
    case (Inr x)
    with claim_ready_task_Inr r have "insert_row claim_keys x rows = Some rows'" by blast
    with assms r show ?thesis by (simp add: closed_claim_def insert_row_Some_iff)
  qed
qed

lemma closed_claim_heartbeat: "closed_claim c rows \<Longrightarrow> closed_claim c (fst (heartbeat_claim now u i rows))"
  by (cases "get_claim u (trim_space i) rows")
    (auto simp: heartbeat_claim_def Let_def active_row_def intro!: closed_claim_update)

lemma closed_claim_release: "closed_claim c rows \<Longrightarrow> closed_claim c (fst (release_claim now u i out rows))"
  by (cases "get_claim u (trim_space i) rows"; cases "parse_outcome out")
    (auto simp: release_claim_def Let_def active_row_def intro!: closed_claim_update)

interpretation closed_leases: stable_stepper cl_step cl_inv closed_claim
proof unfold_locales
  fix rows c op assume "closed_claim c rows"
  then show "closed_claim c (cl_step rows op)"
    by (cases op)
      (auto simp: closed_claim_ready closed_claim_heartbeat closed_claim_release expire_stale_claims_def
        closed_claim_expire revoke_task_claims_def intro!: closed_claim_update)
qed

end
