(* ===== verification/Claim_Properties.thy ===== *)
theory Claim_Properties
  imports Claim_Facts
begin

text \<open>
  What agents and the dispatcher rely on: one holder per task, who gets a task, how a
  lease is kept, lost and handed on. \<open>demo_lease_*\<close> are the inputs of the witnesses.
\<close>

section \<open>Looking at the table\<close>

definition held :: "claims \<Rightarrow> string \<Rightarrow> bool" where
  "held rows t \<longleftrightarrow> list_ex (\<lambda>c. tc_task c = t \<and> tc_status c = ClActive) rows"

definition fresh_claim_ids :: "entropy \<Rightarrow> claims \<Rightarrow> bool" where
  "fresh_claim_ids rnd rows \<longleftrightarrow> (\<forall>k. new_id ''claim'' (rnd k) \<notin> set (map tc_id rows))"

lemma try_claim_task_fresh:
  assumes "new_id ''claim'' b \<notin> set (map tc_id rows)"
  shows "try_claim_task now b u t rt ag rows =
    (if held rows t then Inl ErrLeaseConflict
     else Inr (rows @ [\<lparr>tc_id = new_id ''claim'' b, tc_username = u, tc_task = t, tc_runtime = rt, tc_agent = ag,
       tc_status = ClActive, tc_lease = now + lease_ttl, tc_created = now, tc_updated = now\<rparr>],
       \<lparr>tc_id = new_id ''claim'' b, tc_username = u, tc_task = t, tc_runtime = rt, tc_agent = ag,
       tc_status = ClActive, tc_lease = now + lease_ttl, tc_created = now, tc_updated = now\<rparr>))"
proof -
  have "tc_id c \<noteq> new_id ''claim'' b" if "c \<in> set rows" for c
    by (rule notin_mapD [OF assms that])
  then show ?thesis
    by (auto simp: try_claim_task_def Let_def insert_row_def key_conflict_def key_taken_def claim_keys_def held_def list_ex_iff)
qed

lemma claim_first_task:
  assumes "fresh_claim_ids rnd rows"
  shows "map_sum id tc_task (snd (claim_first clock rnd u rt ag ts rows)) =
    require ErrNotFound (List.find (\<lambda>t. t \<noteq> [] \<and> \<not> held rows t) (map trim_space ts))"
  using assms
proof (induction ts arbitrary: clock rnd)
  case (Cons t ts)
  have rnd: "new_id ''claim'' (rnd 0) \<notin> set (map tc_id rows)" and rest: "fresh_claim_ids (\<lambda>k. rnd (Suc k)) rows"
    using Cons.prems by (auto simp only: fresh_claim_ids_def)
  show ?case
    using Cons.IH [OF Cons.prems] Cons.IH [OF rest] by (simp add: try_claim_task_fresh [OF rnd])
qed simp

lemma expire_claims_each_map:
  assumes "cl_inv rows" and "distinct (map tc_id cs)" and "\<forall>c \<in> set cs. c \<in> set rows \<and> tc_status c = ClActive"
  shows "expire_claims_each now cs rows =
    (map (\<lambda>c. if c \<in> set cs then expire_row now c else c) rows, map (\<lambda>c. (expire_row now c, expired_event now c)) cs)"
  using assms
proof (induction cs arbitrary: rows)
  case (Cons c cs)
  let ?mine = "\<lambda>r. tc_id r = tc_id c \<and> tc_status r = ClActive"
  have c: "c \<in> set rows" "?mine c" using Cons.prems(3) by simp_all
  have one: "affected ?mine rows = 1"
    by (rule claim_update(1) [where c = c]) (use Cons.prems(1) c in simp_all)
  have map: "update_where ?mine (expire_row now) rows = map (\<lambda>x. if x = c then expire_row now x else x) rows"
    by (rule claim_update(2) [where c = c]) (use Cons.prems(1) c in simp_all)
  have "cl_inv (update_where ?mine (expire_row now) rows)"
    using Cons.prems(1) by (rule claim_update_inv) (simp add: expire_row_def)
  moreover have "\<forall>d \<in> set cs. d \<in> set (map (\<lambda>x. if x = c then expire_row now x else x) rows) \<and> tc_status d = ClActive"
    using Cons.prems(2,3) by auto
  ultimately have IH: "expire_claims_each now cs (map (\<lambda>x. if x = c then expire_row now x else x) rows) =
    (map (\<lambda>d. if d \<in> set cs then expire_row now d else d) (map (\<lambda>x. if x = c then expire_row now x else x) rows),
     map (\<lambda>c. (expire_row now c, expired_event now c)) cs)"
    using Cons.IH Cons.prems(2) by (simp add: map)
  have "expire_row now x \<notin> set cs" for x using Cons.prems(3) by (auto simp: expire_row_def)
  then have comp: "map (\<lambda>d. if d \<in> set cs then expire_row now d else d) (map (\<lambda>x. if x = c then expire_row now x else x) rows) =
      map (\<lambda>d. if d \<in> set (c # cs) then expire_row now d else d) rows" by auto
  show ?case using one by (simp only: expire_claims_each.simps Let_def map IH comp) simp
qed simp

lemma distinct_claim_ids: "cl_inv rows \<Longrightarrow> distinct (map tc_id rows)"
proof -
  assume "cl_inv rows"
  then have "unique_key (\<lambda>c. Some [tc_id c]) rows"
    by (intro unique_keysD [OF cl_invD(1)]) (simp_all add: claim_keys_def)
  then have "distinct (map (\<lambda>c. [tc_id c]) rows)" by (simp add: unique_key_def List.map_filter_def comp_def)
  then show ?thesis by (simp add: distinct_map inj_on_def)
qed

lemma expire_stale_claims_map:
  assumes "cl_inv rows"
  shows "expire_stale_claims now u rows =
    (map (\<lambda>c. if stale now u c then expire_row now c else c) rows,
     map (\<lambda>c. (expire_row now c, expired_event now c)) (filter (stale now u) rows))"
proof -
  have sel: "filter (lease_over now) (filter (\<lambda>c. tc_status c = ClActive \<and> (u = [] \<or> tc_username c = u)) rows) = filter (stale now u) rows"
    by (simp add: stale_def [abs_def] conj_ac)
  have "distinct (map tc_id (filter (stale now u) rows))"
    using distinct_claim_ids [OF assms] by (simp add: distinct_map inj_on_def)
  then have "expire_claims_each now (filter (stale now u) rows) rows =
    (map (\<lambda>c. if c \<in> set (filter (stale now u) rows) then expire_row now c else c) rows,
     map (\<lambda>c. (expire_row now c, expired_event now c)) (filter (stale now u) rows))"
    by (rule expire_claims_each_map [OF assms]) (simp add: stale_def)
  then have "expire_stale_claims now u rows =
    (map (\<lambda>c. if c \<in> set (filter (stale now u) rows) then expire_row now c else c) rows,
     map (\<lambda>c. (expire_row now c, expired_event now c)) (filter (stale now u) rows))"
    by (simp only: expire_stale_claims_def sel)
  then show ?thesis by auto
qed

section \<open>Inputs of the witnesses\<close>

definition demo_lease_run :: "cl_op list" where
  "demo_lease_run =
     [ClaimReady (\<lambda>_. 0) (\<lambda>_. ''a'') ''u'' ['' t1'', ''t2''] ''r1'' ''codex'',
      ClaimReady (\<lambda>_. 1) (\<lambda>k. if k = 0 then ''b'' else ''c'') ''u'' [''t1'', ''t2''] ''r2'' ''claude'']"

definition demo_lease :: "nat \<Rightarrow> task_claim" where
  "demo_lease n = cl_run demo_lease_run ! n"

section \<open>Mutual exclusion\<close>



text \<open>
  C23. Who gets what: with valid names and unused identifiers, a claim takes the first
  candidate, in the caller's order, that no active lease holds, and reports that nothing
  was found exactly when all of them are held.
\<close>

theorem claim_takes_first_free:
  assumes "trim_space u \<noteq> []" and "trim_space rt \<noteq> []" and "trim_space ag \<noteq> []" and "fresh_claim_ids rnd rows"
  shows "map_sum id tc_task (snd (claim_ready_task clock rnd u ts rt ag rows)) =
    require ErrNotFound (List.find (\<lambda>t. t \<noteq> [] \<and> \<not> held rows t) (map trim_space ts))"
  using assms by (simp add: claim_ready_task_def claim_first_task)

theorem claim_takes_first_free_witness:
  "map_sum id tc_task (snd (claim_ready_task (\<lambda>_. 2) (\<lambda>_. ''d'') ''u'' [''t2'', '' '', ''t3''] ''r3'' ''kimi'' (cl_run demo_lease_run))) = Inr ''t3''"
proof -
  have ids: "new_id ''claim'' ''d'' \<notin> set (map tc_id (cl_run demo_lease_run))" by code_simp
  have names: "trim_space ''u'' \<noteq> []" "trim_space ''r3'' \<noteq> []" "trim_space ''kimi'' \<noteq> []" by code_simp+
  have "fresh_claim_ids (\<lambda>_. ''d'') (cl_run demo_lease_run)" unfolding fresh_claim_ids_def using ids by (rule allI)
  from claim_takes_first_free [OF names this, of "\<lambda>_. 2" "[''t2'', '' '', ''t3'']"]
  have "map_sum id tc_task (snd (claim_ready_task (\<lambda>_. 2) (\<lambda>_. ''d'') ''u'' [''t2'', '' '', ''t3''] ''r3'' ''kimi'' (cl_run demo_lease_run))) =
    require ErrNotFound (List.find (\<lambda>t. t \<noteq> [] \<and> \<not> held (cl_run demo_lease_run) t) (map trim_space [''t2'', '' '', ''t3'']))" .
  moreover have "List.find (\<lambda>t. t \<noteq> [] \<and> \<not> held (cl_run demo_lease_run) t) (map trim_space [''t2'', '' '', ''t3'']) = Some ''t3''"
    by code_simp
  ultimately show ?thesis by simp
qed

section \<open>Keeping and losing a lease\<close>

text \<open>
  A heartbeat by the holder renews the lease exactly when it is active and not over:
  then that row alone runs to 120 seconds from now; otherwise the call reports that there
  is no such lease and changes nothing, so an expired lease cannot be revived.
\<close>

theorem heartbeat_exact:
  assumes "c \<in> set (cl_run ops)" and "trim_space i = tc_id c" and "tc_id c \<noteq> []" and "tc_username c \<noteq> []"
  shows "let (rows', res) = heartbeat_claim now (tc_username c) i (cl_run ops) in
    if tc_status c = ClActive \<and> now < tc_lease c
    then rows' = map (\<lambda>x. if x = c then x\<lparr>tc_lease := now + 120 * second, tc_updated := now\<rparr> else x) (cl_run ops) \<and>
      (\<exists>ev. res = Inr (c\<lparr>tc_lease := now + 120 * second, tc_updated := now\<rparr>, now + 120 * second, ev))
    else rows' = cl_run ops \<and> res = Inl ErrNotFound"
proof (cases "tc_status c = ClActive \<and> now < tc_lease c")
  case True
  have a: "active_row (tc_username c) (tc_id c) c" using True by (simp add: active_row_def)
  have sel: "active_row (tc_username c) (tc_id c) x \<Longrightarrow> tc_id x = tc_id c" for x by (simp add: active_row_def)
  note upd = claim_update [where c = c and sel = "active_row (tc_username c) (tc_id c)", OF cl_run_inv assms(1) a sel]
  show ?thesis
    using True assms get_claim_eq [OF cl_run_inv assms(1)]
    by (simp add: heartbeat_claim_def Let_def lease_over_def upd lease_ttl_def)
next
  case False
  with assms get_claim_eq [OF cl_run_inv assms(1)] show ?thesis
    by (auto simp: heartbeat_claim_def Let_def lease_over_def)
qed

theorem heartbeat_exact_witness:
  "snd (heartbeat_claim (120 * second) ''u'' ''claim-61'' (cl_run demo_lease_run)) = Inl ErrNotFound"
proof -
  have c: "demo_lease 0 \<in> set (cl_run demo_lease_run)" by code_simp
  have i: "trim_space ''claim-61'' = tc_id (demo_lease 0)" "tc_id (demo_lease 0) \<noteq> []" "tc_username (demo_lease 0) \<noteq> []" by code_simp+
  have "tc_username (demo_lease 0) = ''u''" "\<not> 120 * second < tc_lease (demo_lease 0)" by code_simp+
  with heartbeat_exact [OF c i, of "120 * second"] show ?thesis by (simp add: case_prod_unfold Let_def)
qed

text \<open>
  Recycling is exact, for every table: the leases it expires and reports are the
  active ones (of the user, or of everyone) whose end has come; every other row stays.
\<close>

theorem expire_stale_exact:
  "expire_stale_claims now u (cl_run ops) =
    (map (\<lambda>c. if tc_status c = ClActive \<and> (u = [] \<or> tc_username c = u) \<and> tc_lease c \<le> now
       then c\<lparr>tc_status := ClExpired, tc_updated := now\<rparr> else c) (cl_run ops),
     map (\<lambda>c. (c\<lparr>tc_status := ClExpired, tc_updated := now\<rparr>, expired_event now c))
       (filter (\<lambda>c. tc_status c = ClActive \<and> (u = [] \<or> tc_username c = u) \<and> tc_lease c \<le> now) (cl_run ops)))"
  by (simp only: expire_stale_claims_map [OF cl_run_inv] stale_def [abs_def] lease_over_def linorder_not_less expire_row_def)

text \<open>
  A closed lease is final: a lease that was released, expired or revoked stays as it
  is under all later operations, and neither a heartbeat nor a release of it succeeds.
\<close>

theorem closed_lease_final:
  assumes "c \<in> set (cl_run ops)" and "tc_status c \<noteq> ClActive" and "trim_space i = tc_id c"
  shows "let rows = cl_run (ops @ later) in
    c \<in> set rows \<and> \<not> is_ok (snd (heartbeat_claim now (tc_username c) i rows)) \<and> \<not> is_ok (snd (release_claim now (tc_username c) i out rows))"
proof -
  have "closed_claim c (cl_run ops)" using assms(1,2) by (simp add: closed_claim_def)
  from closed_leases.run_fact [OF cl_run_inv this, of later] have c: "c \<in> set (cl_run (ops @ later))"
    by (simp add: closed_claim_def cl_run_def)
  then have "get_claim (tc_username c) (tc_id c) (cl_run (ops @ later)) = Inr c" by (rule get_claim_eq [OF cl_run_inv])
  with c assms(2,3) show ?thesis
    by (auto simp: Let_def heartbeat_claim_def release_claim_def split: option.splits)
qed

theorem closed_lease_final_witness:
  "\<not> is_ok (snd (heartbeat_claim 6 ''u'' ''claim-61'' (cl_run ((demo_lease_run @ [Release 5 ''u'' ''claim-61'' ''DONE'']) @
     [ClaimReady (\<lambda>_. 5) (\<lambda>_. ''e'') ''u'' [''t1''] ''r2'' ''claude'']))))"
proof -
  let ?ops = "demo_lease_run @ [Release 5 ''u'' ''claim-61'' ''DONE'']"
  let ?c = "hd (cl_run ?ops)"
  have "?c \<in> set (cl_run ?ops)" "tc_status ?c \<noteq> ClActive" "trim_space ''claim-61'' = tc_id ?c" by code_simp+
  from closed_lease_final [OF this, of "[ClaimReady (\<lambda>_. 5) (\<lambda>_. ''e'') ''u'' [''t1''] ''r2'' ''claude'']" 6]
  have "\<not> is_ok (snd (heartbeat_claim 6 (tc_username ?c) ''claim-61'' (cl_run (?ops @ [ClaimReady (\<lambda>_. 5) (\<lambda>_. ''e'') ''u'' [''t1''] ''r2'' ''claude'']))))"
    unfolding Let_def by blast
  moreover have "tc_username ?c = ''u''" by code_simp
  ultimately show ?thesis by simp
qed

text \<open>
  C39. Hand-over: once the lease of a task has ended and stale leases are recycled, the
  next runtime that asks for the task gets it.
\<close>

theorem stale_task_claimable:
  assumes "c \<in> set (cl_run ops)" and "tc_task c = trim_space t" and "trim_space t \<noteq> []" and "tc_lease c \<le> now" and "tc_status c = ClActive"
    and "trim_space u \<noteq> []" and "trim_space rt \<noteq> []" and "trim_space ag \<noteq> []"
    and "fresh_claim_ids rnd (cl_run ops)"
  shows "\<exists>d. snd (claim_ready_task clock rnd u [t] rt ag (fst (expire_stale_claims now [] (cl_run ops)))) = Inr d \<and>
    tc_task d = tc_task c \<and> tc_runtime d = trim_space rt \<and> tc_username d = trim_space u"
proof -
  let ?rows = "fst (expire_stale_claims now [] (cl_run ops))"
  have rows: "?rows = map (\<lambda>c. if stale now [] c then expire_row now c else c) (cl_run ops)"
    by (simp add: expire_stale_claims_map [OF cl_run_inv])
  have "\<not> held ?rows (trim_space t)"
  proof
    assume "held ?rows (trim_space t)"
    then obtain d where d: "d \<in> set (cl_run ops)" "tc_task d = trim_space t" "tc_status d = ClActive" "\<not> stale now [] d"
      by (auto simp: held_def list_ex_iff rows expire_row_def split: if_splits)
    then have "d = c" using active_claim_unique [OF cl_run_inv d(1) assms(1)] assms(2,5) by simp
    with d(4) assms(4,5) show False by (simp add: stale_def lease_over_def)
  qed
  moreover have "map tc_id ?rows = map tc_id (cl_run ops)" by (simp add: rows expire_row_def)
  then have "fresh_claim_ids rnd ?rows" using assms(9) by (metis fresh_claim_ids_def)
  ultimately have "map_sum id tc_task (snd (claim_ready_task clock rnd u [t] rt ag ?rows)) = Inr (trim_space t)"
    using assms(3,6,7,8) by (simp add: claim_ready_task_def claim_first_task del: claim_first.simps)
  then obtain d where d: "snd (claim_ready_task clock rnd u [t] rt ag ?rows) = Inr d" "tc_task d = trim_space t"
    by (cases "snd (claim_ready_task clock rnd u [t] rt ag ?rows)") auto
  moreover from d(1) have "new_lease (trim_space u) (trim_space rt) (trim_space ag) [t] d"
    using claim_ready_task_Inr [of clock rnd u "[t]" rt ag ?rows _ d] by (metis prod.collapse)
  ultimately show ?thesis using assms(2) by (auto simp: new_lease_def)
qed

theorem stale_task_claimable_witness:
  "\<exists>d. snd (claim_ready_task (\<lambda>_. 121 * second) (\<lambda>_. ''d'') ''u'' [''t1''] ''r3'' ''kimi'' (fst (expire_stale_claims (120 * second) [] (cl_run demo_lease_run)))) = Inr d \<and>
    tc_runtime d = trim_space ''r3''"
proof -
  have c: "demo_lease 0 \<in> set (cl_run demo_lease_run)" "tc_task (demo_lease 0) = trim_space ''t1''" "trim_space ''t1'' \<noteq> []"
    "tc_lease (demo_lease 0) \<le> 120 * second" "tc_status (demo_lease 0) = ClActive" by code_simp+
  have names: "trim_space ''u'' \<noteq> []" "trim_space ''r3'' \<noteq> []" "trim_space ''kimi'' \<noteq> []" by code_simp+
  have "new_id ''claim'' ''d'' \<notin> set (map tc_id (cl_run demo_lease_run))" by code_simp
  then have "fresh_claim_ids (\<lambda>_. ''d'') (cl_run demo_lease_run)" unfolding fresh_claim_ids_def by (rule allI)
  from stale_task_claimable [OF c names this] show ?thesis by blast
qed

end
