(* ===== verification/Task_Progress.thy ===== *)
theory Task_Progress
  imports Cp_Types
begin

text \<open>
  The progress feed of a task (\<open>internal/controlplane/progress.go\<close>): the table
  \<open>task_progress\<close>, its upsert and pruning, and the abstract feed it implements, a map from
  sequence numbers to events that keeps the newest fifty.
\<close>

section \<open>The operations\<close>

record progress =
  tp_username :: string
  tp_task :: string
  tp_seq :: int
  tp_kind :: string
  tp_text :: string
  tp_created :: string

definition task_progress_limit :: nat where
  "task_progress_limit = 50"

definition progress_key :: "string \<Rightarrow> string \<Rightarrow> int \<Rightarrow> progress \<Rightarrow> bool" where
  "progress_key u t s p \<longleftrightarrow> tp_username p = u \<and> tp_task p = t \<and> tp_seq p = s"

text \<open>\<open>INSERT ... ON CONFLICT DO UPDATE\<close>\<close>

definition upsert_progress :: "progress \<Rightarrow> progress list \<Rightarrow> progress list" where
  "upsert_progress p rows =
     (if list_ex (progress_key (tp_username p) (tp_task p) (tp_seq p)) rows
      then update_where (progress_key (tp_username p) (tp_task p) (tp_seq p))
        (\<lambda>r. r\<lparr>tp_kind := tp_kind p, tp_text := tp_text p, tp_created := tp_created p\<rparr>) rows
      else rows @ [p])"

definition newest_seqs :: "string \<Rightarrow> string \<Rightarrow> progress list \<Rightarrow> int list" where
  "newest_seqs u t rows =
     take task_progress_limit (rev (sort (map tp_seq (filter (\<lambda>p. tp_username p = u \<and> tp_task p = t) rows))))"

definition prune_progress :: "string \<Rightarrow> string \<Rightarrow> progress list \<Rightarrow> progress list" where
  "prune_progress u t rows =
     delete_where (\<lambda>p. tp_username p = u \<and> tp_task p = t \<and> tp_seq p \<notin> set (newest_seqs u t rows)) rows"

definition progress_text :: "string \<Rightarrow> string" where
  "progress_text text = (let s = trim_space text in if 8192 < int (length s) then take (nat 8192) s else s)"

definition add_task_progress ::
  "instant \<Rightarrow> string \<Rightarrow> string \<Rightarrow> int \<Rightarrow> string \<Rightarrow> string \<Rightarrow> progress list \<Rightarrow> progress list \<times> (cp_error, unit) result" where
  "add_task_progress now u0 t0 seq kind0 text rows =
     (let u = trim_space u0; t = trim_space t0; kind = trim_space kind0 in
      if u = [] \<or> t = [] then (rows, Inl (ErrValidation ''username and taskId are required''))
      else if seq < 1 then (rows, Inl (ErrValidation ''seq must be >= 1''))
      else if trim_space text = [] then (rows, Inr ())
      else (prune_progress u t (upsert_progress
              \<lparr>tp_username = u, tp_task = t, tp_seq = seq, tp_kind = (if kind = [] then ''raw'' else kind),
               tp_text = progress_text text, tp_created = format_time_fixed now\<rparr> rows), Inr ()))"

definition list_task_progress :: "string \<Rightarrow> string \<Rightarrow> int \<Rightarrow> progress list \<Rightarrow> (cp_error, progress list) result" where
  "list_task_progress u0 t0 after rows =
     (let u = trim_space u0; t = trim_space t0 in
      if u = [] \<or> t = [] then Inl (ErrValidation ''username and taskId are required'')
      else Inr (take task_progress_limit
        (order_by (\<lambda>p. - tp_seq p) (filter (\<lambda>p. tp_username p = u \<and> tp_task p = t \<and> after < tp_seq p) rows))))"

definition clear_task_progress :: "string \<Rightarrow> string \<Rightarrow> progress list \<Rightarrow> progress list" where
  "clear_task_progress u t rows = delete_where (\<lambda>p. tp_username p = u \<and> tp_task p = t) rows"

section \<open>The feed\<close>

definition progress_keys :: "progress key list" where
  "progress_keys = [\<lambda>p. Some [tp_username p, tp_task p, show_int (tp_seq p)]]"

definition feed :: "string \<Rightarrow> string \<Rightarrow> progress list \<Rightarrow> int \<rightharpoonup> string \<times> string \<times> string" where
  "feed u t rows s = map_option (\<lambda>p. (tp_kind p, tp_text p, tp_created p)) (List.find (progress_key u t s) rows)"

definition keep_newest :: "nat \<Rightarrow> (int \<rightharpoonup> 'a) \<Rightarrow> int \<rightharpoonup> 'a" where
  "keep_newest n m = m |` {s \<in> dom m. card {s' \<in> dom m. s < s'} < n}"

definition pr_inv :: "progress list \<Rightarrow> bool" where
  "pr_inv rows \<longleftrightarrow> distinct (map (\<lambda>p. (tp_username p, tp_task p, tp_seq p)) rows) \<and>
     (\<forall>u t. affected (\<lambda>p. tp_username p = u \<and> tp_task p = t) rows \<le> task_progress_limit) \<and>
     (\<forall>p \<in> set rows. 1 \<le> tp_seq p)"

text \<open>In a strictly descending list, the first \<open>n\<close> entries are those with fewer than \<open>n\<close> above.\<close>

lemma take_descending:
  fixes ys :: "int list"
  assumes "sorted_wrt (>) ys"
  shows "s \<in> set (take n ys) \<longleftrightarrow> s \<in> set ys \<and> card {s' \<in> set ys. s < s'} < n"
proof (cases "s \<in> set ys")
  case True
  then obtain i where i: "i < length ys" "ys ! i = s" by (auto simp: in_set_conv_nth)
  have lt: "ys ! i < ys ! j \<longleftrightarrow> j < i" if "j < length ys" for j
    using assms i(1) that by (metis linorder_neqE_nat order_less_asym order_less_irrefl sorted_wrt_iff_nth_less)
  have "{s' \<in> set ys. s < s'} = set (take i ys)"
  proof
    show "{s' \<in> set ys. s < s'} \<subseteq> set (take i ys)"
    proof
      fix x assume "x \<in> {s' \<in> set ys. s < s'}"
      then obtain j where "j < length ys" "ys ! j = x" "s < x" by (auto simp: in_set_conv_nth)
      then show "x \<in> set (take i ys)" using lt i by (auto simp: in_set_conv_nth)
    qed
    show "set (take i ys) \<subseteq> {s' \<in> set ys. s < s'}"
    proof
      fix x assume "x \<in> set (take i ys)"
      then obtain j where j: "j < i" "x = ys ! j" by (auto simp: in_set_conv_nth)
      then have "j < length ys" using i(1) by simp
      with lt j i(2) show "x \<in> {s' \<in> set ys. s < s'}" by auto
    qed
  qed
  moreover have dist: "distinct ys" using assms by (induction ys) auto
  ultimately have card: "card {s' \<in> set ys. s < s'} = i" using i(1) by (simp add: distinct_card)
  have "s \<in> set (take n ys) \<longleftrightarrow> i < n"
  proof
    assume "s \<in> set (take n ys)"
    then obtain j where "j < n" "j < length ys" "ys ! j = s" by (auto simp: in_set_conv_nth)
    then show "i < n" using dist i by (metis nth_eq_iff_index_eq)
  next
    assume "i < n"
    then show "s \<in> set (take n ys)" using i by (auto simp: in_set_conv_nth)
  qed
  with True card show ?thesis by simp
qed (auto dest: in_set_takeD)

lemma sorted_wrt_rev_sort: "distinct xs \<Longrightarrow> sorted_wrt (>) (rev (sort (xs :: int list)))"
  by (simp add: sorted_wrt_rev strict_sorted_iff)

lemma descending_distinct:
  fixes xs :: "int list"
  assumes "distinct xs" and "sorted (map uminus xs)"
  shows "sorted_wrt (>) xs"
  using assms by (induction xs) (auto simp: order.order_iff_strict)

lemma feed_Some_iff:
  assumes "distinct (map (\<lambda>p. (tp_username p, tp_task p, tp_seq p)) rows)"
  shows "feed u t rows s = Some e \<longleftrightarrow> (\<exists>p \<in> set rows. progress_key u t s p \<and> (tp_kind p, tp_text p, tp_created p) = e)"
proof
  assume "feed u t rows s = Some e"
  then show "\<exists>p \<in> set rows. progress_key u t s p \<and> (tp_kind p, tp_text p, tp_created p) = e"
    by (auto simp: feed_def dest!: find_SomeD)
next
  assume "\<exists>p \<in> set rows. progress_key u t s p \<and> (tp_kind p, tp_text p, tp_created p) = e"
  then obtain p where p: "p \<in> set rows" "progress_key u t s p" "(tp_kind p, tp_text p, tp_created p) = e" by blast
  then obtain q where q: "List.find (progress_key u t s) rows = Some q"
    by (cases "List.find (progress_key u t s) rows") (auto simp: find_None_iff)
  then have "q \<in> set rows" "progress_key u t s q" by (auto dest: find_SomeD)
  with p assms have "q = p" by (auto simp: distinct_map inj_on_def progress_key_def)
  with q p show "feed u t rows s = Some e" by (simp add: feed_def)
qed

lemma feed_None_iff: "feed u t rows s = None \<longleftrightarrow> (\<forall>p \<in> set rows. \<not> progress_key u t s p)"
  by (simp add: feed_def find_None_ball)

lemma feed_dom: "dom (feed u t rows) = tp_seq ` {p \<in> set rows. tp_username p = u \<and> tp_task p = t}"
proof (rule set_eqI)
  fix s
  have "s \<in> dom (feed u t rows) \<longleftrightarrow> \<not> (\<forall>p \<in> set rows. \<not> progress_key u t s p)"
    unfolding feed_None_iff [symmetric] by (simp add: dom_def)
  then show "s \<in> dom (feed u t rows) \<longleftrightarrow> s \<in> tp_seq ` {p \<in> set rows. tp_username p = u \<and> tp_task p = t}"
    by (auto simp: progress_key_def)
qed

lemma feed_upsert:
  "feed u t (upsert_progress p rows) =
     (if tp_username p = u \<and> tp_task p = t then (feed u t rows)(tp_seq p \<mapsto> (tp_kind p, tp_text p, tp_created p)) else feed u t rows)"
proof
  fix s
  let ?k = "progress_key (tp_username p) (tp_task p) (tp_seq p)"
  let ?f = "\<lambda>r. if ?k r then r\<lparr>tp_kind := tp_kind p, tp_text := tp_text p, tp_created := tp_created p\<rparr> else r"
  have same: "progress_key u t s (?f r) = progress_key u t s r" for r by (simp add: progress_key_def)
  have mine: "?k = progress_key u t s" if "tp_username p = u" "tp_task p = t" "tp_seq p = s" using that by simp
  have other: "\<not> ?k r" if "progress_key u t s r" "\<not> (tp_username p = u \<and> tp_task p = t \<and> tp_seq p = s)" for r
    using that by (auto simp: progress_key_def)
  show "feed u t (upsert_progress p rows) s =
     (if tp_username p = u \<and> tp_task p = t then (feed u t rows)(tp_seq p \<mapsto> (tp_kind p, tp_text p, tp_created p)) else feed u t rows) s"
  proof (cases "list_ex ?k rows")
    case True
    have "List.find (progress_key u t s) (update_where ?k (\<lambda>r. r\<lparr>tp_kind := tp_kind p, tp_text := tp_text p, tp_created := tp_created p\<rparr>) rows) =
        map_option ?f (List.find (progress_key u t s) rows)"
      unfolding update_where_def by (rule find_map_same) (simp add: same)
    then have new: "feed u t (upsert_progress p rows) s =
        map_option (\<lambda>r. (tp_kind (?f r), tp_text (?f r), tp_created (?f r))) (List.find (progress_key u t s) rows)"
      using True by (simp add: feed_def upsert_progress_def option.map_comp comp_def)
    show ?thesis
    proof (cases "tp_username p = u \<and> tp_task p = t \<and> tp_seq p = s")
      case hit: True
      with True have "List.find (progress_key u t s) rows \<noteq> None" by (auto simp: list_ex_iff find_None_iff)
      then obtain r where "List.find (progress_key u t s) rows = Some r" by blast
      moreover from this have "?k r" using hit by (auto dest: find_SomeD)
      ultimately show ?thesis using hit new by auto
    next
      case False
      have "feed u t (upsert_progress p rows) s = feed u t rows s"
      proof (cases "List.find (progress_key u t s) rows")
        case (Some r)
        then have "\<not> ?k r" using other [of r] False by (auto dest: find_SomeD)
        with Some new show ?thesis by (simp add: feed_def)
      qed (use new in \<open>simp add: feed_def\<close>)
      with False show ?thesis by auto
    qed
  next
    case False
    then have "List.find ?k rows = None" by (auto simp: find_None_iff list_ex_iff)
    with False mine show ?thesis
      by (auto simp: feed_def upsert_progress_def find_append progress_key_def split: option.splits)
  qed
qed

lemma feed_prune:
  assumes dist: "distinct (map (\<lambda>p. (tp_username p, tp_task p, tp_seq p)) rows)"
  shows "feed u' t' (prune_progress u t rows) =
     (if u' = u \<and> t' = t then keep_newest task_progress_limit (feed u t rows) else feed u' t' rows)"
proof
  fix s
  let ?seqs = "map tp_seq (filter (\<lambda>p. tp_username p = u \<and> tp_task p = t) rows)"
  have "distinct ?seqs"
    using dist by (auto simp: distinct_map inj_on_def)
  then have desc: "sorted_wrt (>) (rev (sort ?seqs))" by (rule sorted_wrt_rev_sort)
  have dom: "set ?seqs = dom (feed u t rows)" by (auto simp: feed_dom)
  have newest: "s \<in> set (newest_seqs u t rows) \<longleftrightarrow>
      s \<in> dom (feed u t rows) \<and> card {s' \<in> dom (feed u t rows). s < s'} < task_progress_limit" for s
    unfolding newest_seqs_def take_descending [OF desc] by (simp add: dom [symmetric])
  let ?keep = "\<not> (u' = u \<and> t' = t \<and> s \<notin> set (newest_seqs u t rows))"
  have "List.find (progress_key u' t' s) (prune_progress u t rows) = (if ?keep then List.find (progress_key u' t' s) rows else None)"
    unfolding prune_progress_def delete_where_def by (rule find_filter_const) (auto simp: progress_key_def)
  then have "feed u' t' (prune_progress u t rows) s = (if ?keep then feed u' t' rows s else None)"
    by (simp add: feed_def)
  then show "feed u' t' (prune_progress u t rows) s =
     (if u' = u \<and> t' = t then keep_newest task_progress_limit (feed u t rows) else feed u' t' rows) s"
    using newest [of s] by (auto simp: keep_newest_def restrict_map_def)
qed

lemma upsert_distinct:
  assumes "distinct (map (\<lambda>p. (tp_username p, tp_task p, tp_seq p)) rows)"
  shows "distinct (map (\<lambda>p. (tp_username p, tp_task p, tp_seq p)) (upsert_progress p rows))"
proof (cases "list_ex (progress_key (tp_username p) (tp_task p) (tp_seq p)) rows")
  case True
  then have "map (\<lambda>p. (tp_username p, tp_task p, tp_seq p)) (upsert_progress p rows) =
      map (\<lambda>p. (tp_username p, tp_task p, tp_seq p)) rows"
    by (auto simp: upsert_progress_def update_where_def)
  with assms show ?thesis by simp
next
  case False
  with assms show ?thesis by (auto simp: upsert_progress_def list_ex_iff progress_key_def)
qed

lemma feed_count:
  assumes "distinct (map (\<lambda>p. (tp_username p, tp_task p, tp_seq p)) rows)"
  shows "affected (\<lambda>p. tp_username p = u \<and> tp_task p = t) rows = card (dom (feed u t rows))"
proof -
  have "distinct (map tp_seq (filter (\<lambda>p. tp_username p = u \<and> tp_task p = t) rows))"
    using assms by (auto simp: distinct_map inj_on_def)
  from distinct_card [OF this] show ?thesis
    by (simp add: affected_def feed_dom)
qed

lemma card_keep_newest:
  assumes "finite (dom (m :: int \<rightharpoonup> 'a))"
  shows "card (dom (keep_newest n m)) \<le> n"
proof -
  let ?ys = "rev (sorted_list_of_set (dom m))"
  have "sorted_wrt (>) ?ys" by (simp add: sorted_wrt_rev)
  from take_descending [OF this, of _ n] have "dom (keep_newest n m) = set (take n ?ys)"
    using assms by (auto simp: keep_newest_def)
  also have "card \<dots> \<le> length (take n ?ys)" by (rule card_length)
  finally show ?thesis by simp
qed

lemma finite_feed [simp]: "finite (dom (feed u t rows))"
  by (simp add: feed_dom)

lemma add_task_progress_feed:
  assumes "pr_inv rows" and "trim_space u \<noteq> []" and "trim_space t \<noteq> []" and "1 \<le> seq" and "trim_space text \<noteq> []"
  shows "feed u' t' (fst (add_task_progress now u t seq kind text rows)) =
    (if u' = trim_space u \<and> t' = trim_space t
     then keep_newest task_progress_limit ((feed u' t' rows)(seq \<mapsto>
       (if trim_space kind = [] then ''raw'' else trim_space kind, progress_text text, format_time_fixed now)))
     else feed u' t' rows)"
  using assms feed_prune [OF upsert_distinct]
  by (auto simp: add_task_progress_def Let_def pr_inv_def feed_upsert)

lemma prune_sub: "set (prune_progress u t rows) \<subseteq> set rows"
  by (auto simp: prune_progress_def delete_where_def)

lemma add_task_progress_inv: "pr_inv rows \<Longrightarrow> pr_inv (fst (add_task_progress now u t seq kind text rows))"
proof (cases "trim_space u = [] \<or> trim_space t = [] \<or> seq < 1 \<or> trim_space text = []")
  case False
  assume inv: "pr_inv rows"
  let ?p = "\<lparr>tp_username = trim_space u, tp_task = trim_space t, tp_seq = seq, tp_kind = (if trim_space kind = [] then ''raw'' else trim_space kind),
     tp_text = progress_text text, tp_created = format_time_fixed now\<rparr>"
  let ?new = "fst (add_task_progress now u t seq kind text rows)"
  have new: "?new = prune_progress (trim_space u) (trim_space t) (upsert_progress ?p rows)"
    using False by (simp add: add_task_progress_def Let_def)
  have d: "distinct (map (\<lambda>p. (tp_username p, tp_task p, tp_seq p)) (upsert_progress ?p rows))"
    using inv upsert_distinct by (simp add: pr_inv_def)
  then have dist: "distinct (map (\<lambda>p. (tp_username p, tp_task p, tp_seq p)) ?new)"
    unfolding new prune_progress_def delete_where_def by (auto simp: distinct_map inj_on_def)
  have "card (dom (feed u' t' ?new)) \<le> task_progress_limit" for u' t'
  proof (cases "u' = trim_space u \<and> t' = trim_space t")
    case True
    then show ?thesis unfolding new feed_prune [OF d] by (simp add: card_keep_newest)
  next
    case other: False
    then have "feed u' t' ?new = feed u' t' rows" unfolding new feed_prune [OF d] by (auto simp: feed_upsert)
    moreover have "card (dom (feed u' t' rows)) \<le> task_progress_limit"
      using inv feed_count [of rows u' t', symmetric] by (simp add: pr_inv_def)
    ultimately show ?thesis by simp
  qed
  moreover have "1 \<le> tp_seq x" if "x \<in> set ?new" for x
  proof -
    have "x \<in> set (upsert_progress ?p rows)" using that prune_sub unfolding new by (rule subsetD [rotated])
    then show ?thesis using inv False
      by (auto simp: pr_inv_def upsert_progress_def set_update_where split: if_splits)
  qed
  ultimately show ?thesis using dist by (simp add: pr_inv_def feed_count)
qed (auto simp: add_task_progress_def Let_def)

lemma clear_task_progress_inv: "pr_inv rows \<Longrightarrow> pr_inv (clear_task_progress u t rows)"
proof -
  assume inv: "pr_inv rows"
  have "affected P (clear_task_progress u t rows) \<le> affected P rows" for P
    unfolding affected_def clear_task_progress_def delete_where_def by (induction rows) auto
  moreover have "affected P rows \<le> task_progress_limit" if "P = (\<lambda>p. tp_username p = u' \<and> tp_task p = t')" for P u' t'
    using inv that by (simp add: pr_inv_def)
  ultimately have "affected (\<lambda>p. tp_username p = u' \<and> tp_task p = t') (clear_task_progress u t rows) \<le> task_progress_limit" for u' t'
    using order_trans by blast
  moreover have "distinct (map (\<lambda>p. (tp_username p, tp_task p, tp_seq p)) (clear_task_progress u t rows))"
    using inv unfolding pr_inv_def clear_task_progress_def delete_where_def by (auto simp: distinct_map inj_on_def)
  ultimately show ?thesis using inv by (simp add: pr_inv_def clear_task_progress_def delete_where_def)
qed

section \<open>Runs\<close>

datatype pr_op = AddProgress instant string string int string string | ClearProgress string string

fun pr_step :: "progress list \<Rightarrow> pr_op \<Rightarrow> progress list" where
  "pr_step rows (AddProgress now u t seq kind text) = fst (add_task_progress now u t seq kind text rows)"
| "pr_step rows (ClearProgress u t) = clear_task_progress u t rows"

interpretation progress: stepper pr_step pr_inv
proof unfold_locales
  fix rows op assume "pr_inv rows"
  then show "pr_inv (pr_step rows op)" by (cases op) (simp_all add: add_task_progress_inv clear_task_progress_inv)
qed

definition pr_run :: "pr_op list \<Rightarrow> progress list" where
  "pr_run ops = foldl pr_step [] ops"

lemma pr_run_inv: "pr_inv (pr_run ops)"
  unfolding pr_run_def by (rule progress.run_inv) (simp add: pr_inv_def affected_def)

end
