(* ===== verification/Progress_Properties.thy ===== *)
theory Progress_Properties
  imports Task_Progress
begin

text \<open>
  The progress table refines a bounded map per task, and reading it lists that map from
  the newest event down.
\<close>

definition demo_progress :: "pr_op list" where
  "demo_progress = [AddProgress 0 ''u'' ''t'' 1 ''cmd'' ''ls'', AddProgress 1 ''u'' ''t'' 2 [] '' ok '', AddProgress 2 ''u'' ''t'' 1 ''cmd'' ''pwd'']"

text \<open>
  C24. Refinement: in every reachable table, storing an event with valid arguments changes
  the feed of that task as a bounded map does (the event is put under its sequence number,
  replacing one that is there, and only the newest fifty remain) and no other feed.
\<close>

theorem add_progress_refines:
  assumes "trim_space u \<noteq> []" and "trim_space t \<noteq> []" and "1 \<le> seq" and "trim_space text \<noteq> []"
  shows "feed u' t' (fst (add_task_progress now u t seq kind text (pr_run ops))) =
    (if u' = trim_space u \<and> t' = trim_space t
     then keep_newest 50 ((feed u' t' (pr_run ops))(seq \<mapsto>
       (if trim_space kind = [] then ''raw'' else trim_space kind, progress_text text, format_time_fixed now)))
     else feed u' t' (pr_run ops))"
  using add_task_progress_feed [OF pr_run_inv assms] by (simp add: task_progress_limit_def)

theorem add_progress_refines_witness:
  "feed ''u'' ''t'' (fst (add_task_progress 3 ''u'' ''t'' 3 '' '' ''done'' (pr_run demo_progress))) =
    keep_newest 50 ((feed ''u'' ''t'' (pr_run demo_progress))(3 \<mapsto> (''raw'', ''done'', format_time_fixed 3)))"
proof -
  have v: "trim_space ''u'' \<noteq> []" "trim_space ''t'' \<noteq> []" "1 \<le> (3::int)" "trim_space ''done'' \<noteq> []" by code_simp+
  have e: "trim_space ''u'' = ''u''" "trim_space ''t'' = ''t''" "trim_space '' '' = []" "progress_text ''done'' = ''done''" by code_simp+
  show ?thesis using add_progress_refines [OF v, of "''u''" "''t''" 3 "'' ''" demo_progress] by (simp add: e)
qed

text \<open>
  Reading a feed lists, in strictly descending order of the sequence numbers, exactly
  the events of the task that come after the given number; the limit of the query never
  cuts one off, and no task has more than fifty.
\<close>

theorem list_progress_exact:
  assumes "list_task_progress u t after (pr_run ops) = Inr out"
  shows "sorted_wrt (>) (map tp_seq out) \<and> length out \<le> 50 \<and>
    (\<forall>s e. (feed (trim_space u) (trim_space t) (pr_run ops) s = Some e \<and> after < s) =
       (\<exists>p \<in> set out. tp_seq p = s \<and> (tp_kind p, tp_text p, tp_created p) = e))"
proof -
  let ?u = "trim_space u" and ?t = "trim_space t" and ?rows = "pr_run ops"
  let ?sel = "filter (\<lambda>p. tp_username p = ?u \<and> tp_task p = ?t \<and> after < tp_seq p) ?rows"
  note inv = pr_run_inv [of ops]
  have out: "out = take task_progress_limit (order_by (\<lambda>p. - tp_seq p) ?sel)"
    using assms by (auto simp: list_task_progress_def Let_def split: if_splits)
  have "length ?sel \<le> affected (\<lambda>p. tp_username p = ?u \<and> tp_task p = ?t) ?rows"
    unfolding affected_def [symmetric] by (rule affected_mono) simp
  also have "\<dots> \<le> task_progress_limit" using inv by (simp add: pr_inv_def)
  finally have all: "out = order_by (\<lambda>p. - tp_seq p) ?sel"
    unfolding out by (simp add: order_by_def)
  have dist: "distinct (map (\<lambda>p. (tp_username p, tp_task p, tp_seq p)) ?rows)" using inv by (simp add: pr_inv_def)
  then have "distinct (map tp_seq ?sel)" by (auto simp: distinct_map inj_on_def)
  moreover have "mset (map tp_seq out) = mset (map tp_seq ?sel)" unfolding all by simp
  ultimately have "distinct (map tp_seq out)" using mset_eq_imp_distinct_iff by blast
  moreover have "sorted (map uminus (map tp_seq out))"
    using sorted_order_by [of "\<lambda>p. - tp_seq p" ?sel] by (simp add: all comp_def)
  ultimately have desc: "sorted_wrt (>) (map tp_seq out)" by (rule descending_distinct)
  have feed: "feed ?u ?t ?rows s = Some e \<longleftrightarrow> (\<exists>p \<in> set ?rows. progress_key ?u ?t s p \<and> (tp_kind p, tp_text p, tp_created p) = e)" for s e
    by (rule feed_Some_iff [OF dist])
  have "(feed ?u ?t ?rows s = Some e \<and> after < s) = (\<exists>p \<in> set out. tp_seq p = s \<and> (tp_kind p, tp_text p, tp_created p) = e)" for s e
    unfolding feed by (auto simp: all progress_key_def)
  moreover have "length out \<le> 50" by (simp add: out task_progress_limit_def)
  ultimately show ?thesis using desc by blast
qed

theorem list_progress_exact_witness:
  "\<exists>out. list_task_progress ''u'' ''t'' 0 (pr_run demo_progress) = Inr out \<and> sorted_wrt (>) (map tp_seq out) \<and> map tp_seq out = [2, 1]"
proof -
  have v: "is_ok (list_task_progress ''u'' ''t'' 0 (pr_run demo_progress))" by code_simp
  then obtain out where out: "list_task_progress ''u'' ''t'' 0 (pr_run demo_progress) = Inr out" by (rule is_okE)
  have "map_sum id (map tp_seq) (list_task_progress ''u'' ''t'' 0 (pr_run demo_progress)) = Inr [2, 1]" by code_simp
  with list_progress_exact [OF out] out show ?thesis by simp
qed

end
