(* ===== verification/Handoff.thy ===== *)
theory Handoff
  imports Cp_Types
begin

text \<open>
  Terminal handoff (\<open>internal/controlplane/handoff.go\<close>): copies recorded at one terminal,
  the paste that matches one, source references between tasks, pending handoffs waiting for
  a submission, and the task each agent process generation works on.

  The Go structs keep \<open>created_at\<close> as text and the statements compare it as text, so it is
  a string here. \<open>sha\<close> is the hexadecimal SHA-256 digest. \<open>ORDER BY created_at DESC\<close>
  keeps rows with equal text in insertion order, except for the newest copy, which the
  index on the copies yields last inserted first.
\<close>

section \<open>Data\<close>

record terminal_copy =
  co_id :: string
  co_username :: string
  co_terminal :: string
  co_task :: string
  co_fingerprint :: string
  co_snapshot :: string
  co_created :: string

record source_ref =
  sr_id :: string
  sr_username :: string
  sr_target :: string
  sr_source :: string
  sr_relation :: string
  sr_snapshot :: string
  sr_source_terminal :: string
  sr_target_terminal :: string
  sr_copy_id :: string
  sr_created :: string

record pending_handoff =
  ph_id :: string
  ph_username :: string
  ph_source_task :: string
  ph_source_terminal :: string
  ph_target_terminal :: string
  ph_fingerprint :: string
  ph_snapshot :: string
  ph_copy_id :: string
  ph_draft_id :: string
  ph_intended :: string
  ph_promoted :: string
  ph_created :: string

record agent_execution =
  ae_id :: string
  ae_username :: string
  ae_terminal :: string
  ae_sig :: string
  ae_name :: string
  ae_task :: string
  ae_created :: string

record handoff_db =
  ho_copies :: "terminal_copy list"
  ho_refs :: "source_ref list"
  ho_pending :: "pending_handoff list"
  ho_execs :: "agent_execution list"

definition copy_keys :: "terminal_copy key list" where
  "copy_keys = [\<lambda>c. Some [co_id c]]"

definition ref_keys :: "source_ref key list" where
  "ref_keys = [\<lambda>r. Some [sr_id r], \<lambda>r. Some [sr_username r, sr_target r, sr_source r, sr_relation r]]"

definition pending_keys :: "pending_handoff key list" where
  "pending_keys = [\<lambda>h. Some [ph_id h],
     \<lambda>h. if ph_promoted h = [] then Some [ph_username h, ph_target_terminal h, ph_draft_id h, ph_copy_id h] else None]"

definition exec_keys :: "agent_execution key list" where
  "exec_keys = [\<lambda>e. Some [ae_id e], \<lambda>e. Some [ae_username e, ae_terminal e, ae_sig e]]"

definition new_random_id :: "string \<Rightarrow> string \<Rightarrow> string" where
  "new_random_id prefix bytes = prefix @ ''-'' @ hex_encode bytes"

definition fingerprint_text :: "(string \<Rightarrow> string) \<Rightarrow> string \<Rightarrow> string" where
  "fingerprint_text sha text = take 32 (sha (trim_right_set [CHR 13, CHR 10] text))"

definition snapshot_of :: "string \<Rightarrow> string" where
  "snapshot_of text0 =
     (let text = trim_right_set [CHR 13, CHR 10] text0 in if 8000 < int (length text) then take (nat 8000) text else text)"

definition order_by_desc :: "('r \<Rightarrow> 'k::linorder) \<Rightarrow> 'r list \<Rightarrow> 'r list" where
  "order_by_desc key rows = rev (order_by key (rev rows))"

section \<open>Copy and paste\<close>

definition record_terminal_copy ::
  "(string \<Rightarrow> string) \<Rightarrow> instant \<Rightarrow> string \<Rightarrow> string \<Rightarrow> string \<Rightarrow> string \<Rightarrow> string \<Rightarrow> handoff_db \<Rightarrow>
   handoff_db \<times> (cp_error, terminal_copy) result" where
  "record_terminal_copy sha now bytes username0 terminal0 task0 text db =
     (let username = trim_space username0; terminal = trim_space terminal0; task_id = trim_space task0 in
      if username = [] \<or> terminal = [] then (db, Inl (ErrValidation ''username and terminalId are required''))
      else if trim_space text = [] then (db, Inl (ErrValidation ''copied text is empty''))
      else let c = \<lparr>co_id = new_random_id ''copy'' bytes, co_username = username, co_terminal = terminal, co_task = task_id,
             co_fingerprint = fingerprint_text sha text, co_snapshot = snapshot_of text, co_created = format_time now\<rparr>
        in case insert_row copy_keys c (ho_copies db) of
             None \<Rightarrow> (db, Inl (ErrDb ''UNIQUE constraint failed: terminal_copies.id''))
           | Some rows \<Rightarrow> (db\<lparr>ho_copies := rows\<rparr>, Inr c))"

definition paste_candidate :: "string \<Rightarrow> string \<Rightarrow> string \<Rightarrow> string \<Rightarrow> terminal_copy \<Rightarrow> bool" where
  "paste_candidate username fp cutoff exclude c \<longleftrightarrow>
     co_username c = username \<and> co_fingerprint c = fp \<and> cutoff \<le> co_created c \<and> co_terminal c \<noteq> exclude"

definition match_terminal_paste ::
  "(string \<Rightarrow> string) \<Rightarrow> instant \<Rightarrow> string \<Rightarrow> string \<Rightarrow> duration \<Rightarrow> string \<Rightarrow> handoff_db \<Rightarrow> terminal_copy option" where
  "match_terminal_paste sha now username text lookback exclude db =
     (let found = order_by co_created
        (filter (paste_candidate username (fingerprint_text sha text) (format_time (now - lookback)) (trim_space exclude))
          (ho_copies db))
      in if found = [] then None else Some (last found))"

section \<open>Source references\<close>

text \<open>The reference as the call normalises it, the pair it is unique for, and the row a repeat leaves.\<close>

definition prepared_ref :: "string \<Rightarrow> source_ref \<Rightarrow> source_ref" where
  "prepared_ref username ref =
     ref\<lparr>sr_username := username,
         sr_relation := (if trim_space (sr_relation ref) = [] then ''reviews'' else trim_space (sr_relation ref)),
         sr_source := trim_space (sr_source ref), sr_target := trim_space (sr_target ref)\<rparr>"

definition same_pair :: "source_ref \<Rightarrow> source_ref \<Rightarrow> bool" where
  "same_pair ref r \<longleftrightarrow> sr_username r = sr_username ref \<and> sr_target r = sr_target ref \<and>
     sr_source r = sr_source ref \<and> sr_relation r = sr_relation ref"

definition refreshed :: "string \<Rightarrow> source_ref \<Rightarrow> source_ref \<Rightarrow> source_ref" where
  "refreshed created ref r =
     r\<lparr>sr_snapshot := sr_snapshot ref, sr_source_terminal := sr_source_terminal ref,
       sr_target_terminal := sr_target_terminal ref, sr_copy_id := sr_copy_id ref, sr_created := created\<rparr>"

definition add_source_ref ::
  "instant \<Rightarrow> string \<Rightarrow> string \<Rightarrow> source_ref \<Rightarrow> handoff_db \<Rightarrow> handoff_db \<times> (cp_error, source_ref) result" where
  "add_source_ref now bytes username ref0 db =
     (let ref = prepared_ref username ref0 in
      if sr_target ref = [] \<or> sr_source ref = [] then (db, Inl (ErrValidation ''target and source tasks are required''))
      else if sr_target ref = sr_source ref then (db, Inl (ErrValidation ''target and source must differ''))
      else case List.find (same_pair ref) (ho_refs db) of
        Some old \<Rightarrow>
          if trim_space (sr_snapshot ref) \<noteq> [] \<and> sr_snapshot ref \<noteq> sr_snapshot old
          then (db\<lparr>ho_refs := update_where (\<lambda>r. sr_id r = sr_id old) (refreshed (format_time now) ref) (ho_refs db)\<rparr>,
                Inr (ref\<lparr>sr_id := sr_id old, sr_created := format_time now\<rparr>))
          else (db, Inr (ref\<lparr>sr_id := sr_id old, sr_created := sr_created old\<rparr>))
      | None \<Rightarrow>
          (let r = ref\<lparr>sr_id := new_random_id ''ref'' bytes, sr_created := format_time now\<rparr> in
           case insert_row ref_keys r (ho_refs db) of
             None \<Rightarrow> (db, Inl (ErrDb ''UNIQUE constraint failed: task_source_refs''))
           | Some rows \<Rightarrow> (db\<lparr>ho_refs := rows\<rparr>, Inr r)))"

definition list_source_refs :: "string \<Rightarrow> string \<Rightarrow> handoff_db \<Rightarrow> source_ref list" where
  "list_source_refs username task_id db =
     order_by_desc sr_created (filter (\<lambda>r. sr_username r = username \<and> sr_target r = task_id) (ho_refs db))"

definition list_source_refs_for_user :: "string \<Rightarrow> handoff_db \<Rightarrow> source_ref list" where
  "list_source_refs_for_user username db = order_by_desc sr_created (filter (\<lambda>r. sr_username r = username) (ho_refs db))"

definition delete_source_ref :: "string \<Rightarrow> string \<Rightarrow> handoff_db \<Rightarrow> handoff_db \<times> bool" where
  "delete_source_ref username ref_id db =
     (let mine = (\<lambda>r. sr_username r = username \<and> sr_id r = ref_id)
      in (db\<lparr>ho_refs := delete_where mine (ho_refs db)\<rparr>, affected mine (ho_refs db) = 1))"

section \<open>Pending handoffs\<close>

definition trim_pending :: "string \<Rightarrow> pending_handoff \<Rightarrow> pending_handoff" where
  "trim_pending username h =
     h\<lparr>ph_username := username, ph_source_terminal := trim_space (ph_source_terminal h),
       ph_target_terminal := trim_space (ph_target_terminal h), ph_source_task := trim_space (ph_source_task h),
       ph_copy_id := trim_space (ph_copy_id h), ph_draft_id := trim_space (ph_draft_id h),
       ph_fingerprint := trim_space (ph_fingerprint h)\<rparr>"

definition active_pending :: "string \<Rightarrow> string \<Rightarrow> string \<Rightarrow> string \<Rightarrow> pending_handoff \<Rightarrow> bool" where
  "active_pending username terminal copy_id draft_id h \<longleftrightarrow>
     ph_username h = username \<and> ph_target_terminal h = terminal \<and> ph_copy_id h = copy_id \<and> ph_draft_id h = draft_id \<and>
     ph_promoted h = []"

text \<open>The result carries the columns the final \<open>SELECT\<close> reads and the caller's own fields.\<close>

definition record_pending_handoff ::
  "instant \<Rightarrow> string \<Rightarrow> string \<Rightarrow> pending_handoff \<Rightarrow> handoff_db \<Rightarrow> handoff_db \<times> (cp_error, pending_handoff) result" where
  "record_pending_handoff now bytes username0 h0 db =
     (let username = trim_space username0; h1 = trim_pending username h0 in
      if username = [] \<or> ph_source_terminal h1 = [] \<or> ph_target_terminal h1 = []
      then (db, Inl (ErrValidation ''username and terminals are required''))
      else if ph_source_terminal h1 = ph_target_terminal h1
      then (db, Inl (ErrValidation ''source and target terminals must differ''))
      else if ph_fingerprint h1 = [] then (db, Inl (ErrValidation ''fingerprint is required''))
      else let h = h1\<lparr>ph_id := new_random_id ''pend'' bytes, ph_promoted := [], ph_created := format_time now\<rparr>;
             rows = fst (insert_ignore pending_keys h (ho_pending db));
             db' = db\<lparr>ho_pending := rows\<rparr>
        in case order_by_desc ph_created
             (filter (active_pending username (ph_target_terminal h) (ph_copy_id h) (ph_draft_id h)) rows) of
             [] \<Rightarrow> (db', Inl (ErrDb ''sql: no rows in result set''))
           | p # _ \<Rightarrow> (db', Inr \<lparr>ph_id = ph_id p, ph_username = username, ph_source_task = ph_source_task p,
               ph_source_terminal = ph_source_terminal p, ph_target_terminal = ph_target_terminal h,
               ph_fingerprint = ph_fingerprint h, ph_snapshot = ph_snapshot p, ph_copy_id = ph_copy_id p,
               ph_draft_id = ph_draft_id h, ph_intended = [], ph_promoted = [], ph_created = ph_created p\<rparr>))"

definition list_pending_handoffs :: "string \<Rightarrow> string \<Rightarrow> handoff_db \<Rightarrow> pending_handoff list" where
  "list_pending_handoffs username terminal db =
     order_by ph_created (filter (\<lambda>h. ph_username h = username \<and> ph_target_terminal h = trim_space terminal \<and> ph_promoted h = [])
       (ho_pending db))"

text \<open>With a draft, only the rows of that draft are pinned.\<close>

definition pinnable :: "string \<Rightarrow> string \<Rightarrow> string option \<Rightarrow> pending_handoff \<Rightarrow> bool" where
  "pinnable username terminal draft h \<longleftrightarrow>
     ph_username h = username \<and> ph_target_terminal h = trim_space terminal \<and> ph_promoted h = [] \<and> ph_intended h = [] \<and>
     (case draft of None \<Rightarrow> True | Some d \<Rightarrow> ph_draft_id h = d)"

definition set_pending_intended_task :: "string \<Rightarrow> string \<Rightarrow> string \<Rightarrow> string option \<Rightarrow> handoff_db \<Rightarrow> handoff_db" where
  "set_pending_intended_task username terminal task_id draft db =
     db\<lparr>ho_pending := update_where (pinnable username terminal draft) (\<lambda>h. h\<lparr>ph_intended := trim_space task_id\<rparr>) (ho_pending db)\<rparr>"

definition cancel_handoff_draft :: "string \<Rightarrow> string \<Rightarrow> string \<Rightarrow> handoff_db \<Rightarrow> handoff_db" where
  "cancel_handoff_draft username terminal draft db =
     db\<lparr>ho_pending := delete_where (\<lambda>h. ph_username h = username \<and> ph_target_terminal h = trim_space terminal \<and>
       ph_draft_id h = trim_space draft \<and> ph_intended h = [] \<and> ph_promoted h = []) (ho_pending db)\<rparr>"

definition mark_handoff_promoted :: "string \<Rightarrow> string \<Rightarrow> string \<Rightarrow> handoff_db \<Rightarrow> handoff_db" where
  "mark_handoff_promoted username handoff_id task_id db =
     db\<lparr>ho_pending := update_where (\<lambda>h. ph_username h = username \<and> ph_id h = trim_space handoff_id \<and> ph_promoted h = [])
       (\<lambda>h. h\<lparr>ph_promoted := trim_space task_id\<rparr>) (ho_pending db)\<rparr>"

section \<open>Agent executions\<close>

definition same_generation :: "string \<Rightarrow> string \<Rightarrow> string \<Rightarrow> agent_execution \<Rightarrow> bool" where
  "same_generation username terminal agent_sig e \<longleftrightarrow>
     ae_username e = username \<and> ae_terminal e = terminal \<and> ae_sig e = agent_sig"

definition agent_execution_by_sig :: "string \<Rightarrow> string \<Rightarrow> string \<Rightarrow> handoff_db \<Rightarrow> agent_execution option" where
  "agent_execution_by_sig username terminal agent_sig db =
     List.find (same_generation username (trim_space terminal) (trim_space agent_sig)) (ho_execs db)"

definition upsert_agent_execution ::
  "instant \<Rightarrow> string \<Rightarrow> string \<Rightarrow> agent_execution \<Rightarrow> handoff_db \<Rightarrow> handoff_db \<times> (cp_error, agent_execution) result" where
  "upsert_agent_execution now bytes username0 e0 db =
     (let username = trim_space username0;
          e = e0\<lparr>ae_username := username, ae_terminal := trim_space (ae_terminal e0), ae_sig := trim_space (ae_sig e0),
                 ae_id := new_random_id ''exec'' bytes, ae_created := format_time now\<rparr>
      in if username = [] \<or> ae_terminal e = [] \<or> ae_sig e = []
         then (db, Inl (ErrValidation ''username, terminal and agent signature are required''))
         else let mine = same_generation username (ae_terminal e) (ae_sig e) in
           if list_ex mine (ho_execs db)
           then let db' = db\<lparr>ho_execs := update_where mine
                     (\<lambda>x. x\<lparr>ae_task := ae_task e, ae_name := ae_name e, ae_created := ae_created e\<rparr>) (ho_execs db)\<rparr>
                in (db', require (ErrDb ''sql: no rows in result set'') (List.find mine (ho_execs db')))
           else case insert_row exec_keys e (ho_execs db) of
                  None \<Rightarrow> (db, Inl (ErrDb ''UNIQUE constraint failed: terminal_agent_executions.id''))
                | Some rows \<Rightarrow> (db\<lparr>ho_execs := rows\<rparr>, require (ErrDb ''sql: no rows in result set'') (List.find mine rows)))"

end
