(* ===== verification/Handoff_Facts.thy ===== *)
theory Handoff_Facts
  imports Handoff
begin

text \<open>
  The invariant of the handoff tables over every run of their operations, the finality of
  a pending handoff's owner, and the table of agent executions as a keyed store.
\<close>

section \<open>The invariant\<close>

definition ref_ok :: "source_ref \<Rightarrow> bool" where
  "ref_ok r \<longleftrightarrow> sr_target r \<noteq> [] \<and> sr_source r \<noteq> [] \<and> sr_target r \<noteq> sr_source r \<and> sr_relation r \<noteq> []"

definition pending_ok :: "pending_handoff \<Rightarrow> bool" where
  "pending_ok h \<longleftrightarrow> ph_source_terminal h \<noteq> ph_target_terminal h \<and> ph_source_terminal h \<noteq> [] \<and> ph_target_terminal h \<noteq> [] \<and>
     ph_fingerprint h \<noteq> []"

definition ho_inv :: "handoff_db \<Rightarrow> bool" where
  "ho_inv db \<longleftrightarrow> unique_keys copy_keys (ho_copies db) \<and> unique_keys ref_keys (ho_refs db) \<and>
     unique_keys pending_keys (ho_pending db) \<and> unique_keys exec_keys (ho_execs db) \<and>
     (\<forall>r \<in> set (ho_refs db). ref_ok r) \<and> (\<forall>h \<in> set (ho_pending db). pending_ok h)"

lemma record_terminal_copy_inv: "ho_inv db \<Longrightarrow> ho_inv (fst (record_terminal_copy sha now b u t k text db))"
  by (auto simp: record_terminal_copy_def Let_def ho_inv_def split: option.splits intro: insert_row_unique)

lemma refreshed_simps [simp]:
  "sr_id (refreshed t ref r) = sr_id r" "sr_username (refreshed t ref r) = sr_username r" "sr_target (refreshed t ref r) = sr_target r"
  "sr_source (refreshed t ref r) = sr_source r" "sr_relation (refreshed t ref r) = sr_relation r"
  "sr_snapshot (refreshed t ref r) = sr_snapshot ref"
  by (simp_all add: refreshed_def)

lemma ref_ok_refreshed [simp]: "ref_ok (refreshed t ref r) = ref_ok r"
  by (simp add: ref_ok_def)

lemma prepared_relation [simp]: "sr_relation (prepared_ref u ref) \<noteq> []"
  by (simp add: prepared_ref_def)

lemma refresh_rows_inv:
  "ho_inv db \<Longrightarrow> ho_inv (db\<lparr>ho_refs := update_where p (refreshed t ref) (ho_refs db)\<rparr>)"
  by (auto simp: ho_inv_def ref_keys_def set_update_where intro!: update_where_unique)

lemma insert_ref_inv:
  "ho_inv db \<Longrightarrow> ref_ok r \<Longrightarrow> insert_row ref_keys r (ho_refs db) = Some rows \<Longrightarrow> ho_inv (db\<lparr>ho_refs := rows\<rparr>)"
  using insert_row_unique [of ref_keys "ho_refs db" r rows] by (auto simp: ho_inv_def insert_row_Some_iff)

lemma add_source_ref_inv:
  assumes "ho_inv db"
  shows "ho_inv (fst (add_source_ref now b u ref db))"
  using assms
  by (auto simp: add_source_ref_def Let_def refresh_rows_inv ref_ok_def split: option.splits elim!: insert_ref_inv [rotated 2])

lemma delete_source_ref_inv: "ho_inv db \<Longrightarrow> ho_inv (fst (delete_source_ref u i db))"
  by (auto simp: delete_source_ref_def Let_def ho_inv_def delete_where_unique) (simp add: delete_where_def)

lemma insert_ignore_cases:
  "insert_ignore ks r rows = (rows', b) \<Longrightarrow> rows' = rows \<or> insert_row ks r rows = Some rows'"
  by (auto simp: insert_ignore_def split: option.splits)

lemma record_pending_inv: "ho_inv db \<Longrightarrow> ho_inv (fst (record_pending_handoff now b u h db))"
proof -
  assume inv: "ho_inv db"
  let ?h1 = "trim_pending (trim_space u) h"
  let ?h = "?h1\<lparr>ph_id := new_random_id ''pend'' b, ph_promoted := [], ph_created := format_time now\<rparr>"
  have new: "ho_inv (db\<lparr>ho_pending := fst (insert_ignore pending_keys ?h (ho_pending db))\<rparr>)" if "pending_ok ?h"
  proof -
    obtain rows c where r: "insert_ignore pending_keys ?h (ho_pending db) = (rows, c)" by fastforce
    from insert_ignore_cases [OF r] have "unique_keys pending_keys rows \<and> (\<forall>h \<in> set rows. pending_ok h)"
      using inv that insert_row_unique [of pending_keys "ho_pending db" ?h rows]
      by (auto simp: ho_inv_def insert_row_Some_iff)
    with inv r show ?thesis by (simp add: ho_inv_def)
  qed
  have ok: "pending_ok ?h" if "ph_source_terminal ?h1 \<noteq> []" "ph_target_terminal ?h1 \<noteq> []" "ph_source_terminal ?h1 \<noteq> ph_target_terminal ?h1"
    "ph_fingerprint ?h1 \<noteq> []" using that by (simp add: pending_ok_def)
  show ?thesis using inv new ok by (simp add: record_pending_handoff_def Let_def split: list.splits)
qed

lemma set_intended_inv: "ho_inv db \<Longrightarrow> ho_inv (set_pending_intended_task u t k d db)"
  by (auto simp: set_pending_intended_task_def ho_inv_def pending_keys_def set_update_where pending_ok_def
      intro!: update_where_unique split: if_splits)

lemma cancel_draft_inv: "ho_inv db \<Longrightarrow> ho_inv (cancel_handoff_draft u t d db)"
  by (auto simp: cancel_handoff_draft_def ho_inv_def delete_where_unique) (simp add: delete_where_def)

lemma mark_promoted_inv: "ho_inv db \<Longrightarrow> ho_inv (mark_handoff_promoted u i k db)"
  by (auto simp: mark_handoff_promoted_def ho_inv_def pending_keys_def set_update_where pending_ok_def
      intro!: update_where_unique split: if_splits)

lemma upsert_agent_execution_inv: "ho_inv db \<Longrightarrow> ho_inv (fst (upsert_agent_execution now b u e db))"
proof -
  assume inv: "ho_inv db"
  have upd: "unique_keys exec_keys (update_where p (\<lambda>x. x\<lparr>ae_task := s1, ae_name := s2, ae_created := s3\<rparr>) (ho_execs db))" for p s1 s2 s3
    using inv by (intro update_where_unique) (auto simp: ho_inv_def exec_keys_def)
  have new: "unique_keys exec_keys rows" if "insert_row exec_keys x (ho_execs db) = Some rows" for x rows
    using inv insert_row_unique [OF _ that] by (simp add: ho_inv_def)
  show ?thesis using inv upd new by (auto simp: upsert_agent_execution_def Let_def ho_inv_def split: option.splits)
qed

section \<open>Runs\<close>

datatype ho_op =
    RecordCopy instant string string string string string
  | AddRef instant string string source_ref
  | DeleteRef string string
  | RecordPending instant string string pending_handoff
  | SetIntended string string string "string option"
  | CancelDraft string string string
  | MarkPromoted string string string
  | UpsertExec instant string string agent_execution

fun ho_step :: "(string \<Rightarrow> string) \<Rightarrow> handoff_db \<Rightarrow> ho_op \<Rightarrow> handoff_db" where
  "ho_step sha db (RecordCopy now b u t k text) = fst (record_terminal_copy sha now b u t k text db)"
| "ho_step sha db (AddRef now b u ref) = fst (add_source_ref now b u ref db)"
| "ho_step sha db (DeleteRef u i) = fst (delete_source_ref u i db)"
| "ho_step sha db (RecordPending now b u h) = fst (record_pending_handoff now b u h db)"
| "ho_step sha db (SetIntended u t k d) = set_pending_intended_task u t k d db"
| "ho_step sha db (CancelDraft u t d) = cancel_handoff_draft u t d db"
| "ho_step sha db (MarkPromoted u i k) = mark_handoff_promoted u i k db"
| "ho_step sha db (UpsertExec now b u e) = fst (upsert_agent_execution now b u e db)"

lemmas ho_inv_ops = record_terminal_copy_inv add_source_ref_inv delete_source_ref_inv record_pending_inv set_intended_inv
  cancel_draft_inv mark_promoted_inv upsert_agent_execution_inv

interpretation handoffs: stepper "ho_step sha" ho_inv for sha
proof unfold_locales
  fix db op assume "ho_inv db"
  then show "ho_inv (ho_step sha db op)" by (cases op) (simp_all add: ho_inv_ops)
qed

definition empty_handoffs :: handoff_db where
  "empty_handoffs = \<lparr>ho_copies = [], ho_refs = [], ho_pending = [], ho_execs = []\<rparr>"

definition ho_run :: "(string \<Rightarrow> string) \<Rightarrow> ho_op list \<Rightarrow> handoff_db" where
  "ho_run sha ops = foldl (ho_step sha) empty_handoffs ops"

lemma ho_run_inv: "ho_inv (ho_run sha ops)"
  unfolding ho_run_def by (rule handoffs.run_inv) (simp add: ho_inv_def empty_handoffs_def)

lemma ho_run_append: "ho_run sha (ops @ later) = foldl (ho_step sha) (ho_run sha ops) later"
  by (simp add: ho_run_def)

section \<open>A pinned handoff keeps its owner\<close>

text \<open>The row \<open>i\<close> exists and is pinned to \<open>k\<close>; where it is promoted, it stays so.\<close>

definition pinned_to :: "string \<times> string \<times> string \<Rightarrow> handoff_db \<Rightarrow> bool" where
  "pinned_to x db = (case x of (i, k, m) \<Rightarrow>
     k \<noteq> [] \<and> (\<exists>h \<in> set (ho_pending db). ph_id h = i \<and> ph_intended h = k \<and> (m = [] \<or> ph_promoted h = m)))"

lemma pinned_update:
  assumes "pinned_to x db"
    and "\<And>h. h \<in> set (ho_pending db) \<Longrightarrow> p h \<Longrightarrow> ph_id (f h) = ph_id h \<and> (ph_intended h \<noteq> [] \<longrightarrow> ph_intended (f h) = ph_intended h) \<and>
      (ph_promoted h \<noteq> [] \<longrightarrow> ph_promoted (f h) = ph_promoted h)"
  shows "pinned_to x (db\<lparr>ho_pending := update_where p f (ho_pending db)\<rparr>)"
proof -
  obtain i k m h where x: "x = (i, k, m)" "k \<noteq> []" and h: "h \<in> set (ho_pending db)" "ph_id h = i" "ph_intended h = k" "m = [] \<or> ph_promoted h = m"
    using assms(1) by (auto simp: pinned_to_def)
  let ?h = "if p h then f h else h"
  have "?h \<in> set (update_where p f (ho_pending db))" using h(1) by (auto simp: set_update_where)
  moreover have "ph_id ?h = i \<and> ph_intended ?h = k \<and> (m = [] \<or> ph_promoted ?h = m)" using assms(2) [OF h(1)] h x(2) by auto
  ultimately show ?thesis using x by (auto simp: pinned_to_def simp del: if_split)
qed

lemma pinned_mono:
  "pinned_to x db \<Longrightarrow> set (ho_pending db) \<subseteq> set (ho_pending db') \<Longrightarrow> pinned_to x db'"
  by (fastforce simp: pinned_to_def split: prod.splits)

lemma pending_frames:
  "ho_pending (fst (record_terminal_copy sha now b u t k text db)) = ho_pending db"
  "ho_pending (fst (add_source_ref now b u ref db)) = ho_pending db"
  "ho_pending (fst (delete_source_ref u i db)) = ho_pending db"
  "ho_pending (fst (upsert_agent_execution now b u e db)) = ho_pending db"
  "set (ho_pending db) \<subseteq> set (ho_pending (fst (record_pending_handoff now b u h db)))"
  by (auto simp: record_terminal_copy_def add_source_ref_def delete_source_ref_def upsert_agent_execution_def
      record_pending_handoff_def insert_ignore_def insert_row_Some_iff Let_def split: option.split list.split)

interpretation pinned: stable_stepper "ho_step sha" ho_inv pinned_to for sha
proof unfold_locales
  fix db x op assume p: "pinned_to x db"
  show "pinned_to x (ho_step sha db op)"
  proof (cases op)
    case (CancelDraft u t d)
    from p have "pinned_to x (cancel_handoff_draft u t d db)"
      by (fastforce simp: pinned_to_def cancel_handoff_draft_def delete_where_def split: prod.splits)
    with CancelDraft show ?thesis by simp
  next
    case (SetIntended u t k d)
    with p show ?thesis
      by (simp add: set_pending_intended_task_def) (rule pinned_update, auto simp: pinnable_def)
  next
    case (MarkPromoted u i k)
    with p show ?thesis
      by (simp add: mark_handoff_promoted_def) (rule pinned_update, auto)
  qed (auto intro: pinned_mono [OF p] simp: pending_frames pending_frames(5) [THEN subsetD])
qed

end
