(* ===== verification/Handoff_Properties.thy ===== *)
theory Handoff_Properties
  imports Handoff_Facts
begin

text \<open>
  What the handoff relies on: where a matched paste comes from, that a failed submission
  keeps its handoffs, that source references are a simple relation, and that a process
  generation works on the goal it accepted last.
\<close>

definition demo_sha :: "string \<Rightarrow> string" where
  "demo_sha s = s"

definition demo_copies :: "ho_op list" where
  "demo_copies =
     [RecordCopy 1000000001 ''a'' ''u'' ''T1'' ''k1'' ''text'', RecordCopy 2000000002 ''b'' ''u'' ''T2'' ''k2'' ''text'',
      RecordCopy 3000000003 ''c'' ''u'' ''T3'' [] ''text'']"

definition demo_pending :: pending_handoff where
  "demo_pending = \<lparr>ph_id = [], ph_username = [], ph_source_task = ''k1'', ph_source_terminal = ''T1'', ph_target_terminal = ''T9'',
     ph_fingerprint = ''f'', ph_snapshot = ''text'', ph_copy_id = ''copy-61'', ph_draft_id = ''d'', ph_intended = [], ph_promoted = [], ph_created = []\<rparr>"

definition demo_pinned :: "ho_op list" where
  "demo_pinned = [RecordPending 5 ''p'' ''u'' demo_pending, SetIntended ''u'' ''T9'' ''goal1'' None]"

definition demo_ref :: source_ref where
  "demo_ref = \<lparr>sr_id = [], sr_username = [], sr_target = ''k2'', sr_source = ''k1'', sr_relation = [], sr_snapshot = ''one'',
     sr_source_terminal = ''T1'', sr_target_terminal = ''T2'', sr_copy_id = [], sr_created = []\<rparr>"

definition demo_exec :: agent_execution where
  "demo_exec = \<lparr>ae_id = [], ae_username = [], ae_terminal = ''T1'', ae_sig = ''42:9'', ae_name = ''codex'', ae_task = ''k1'', ae_created = []\<rparr>"

section \<open>Pastes\<close>

text \<open>
  C25. A paste matches only what was copied: a match is a recorded copy of the same user
  with the fingerprint of the pasted text, from another terminal and not older than the
  window, and no candidate has a later time text; there is no match exactly when there is
  no candidate.
\<close>

theorem paste_provenance:
  "case match_terminal_paste sha now u pasted lookback exclude (ho_run sha ops) of
     None \<Rightarrow> \<forall>c \<in> set (ho_copies (ho_run sha ops)).
       \<not> paste_candidate u (fingerprint_text sha pasted) (format_time (now - lookback)) (trim_space exclude) c
   | Some c \<Rightarrow> c \<in> set (ho_copies (ho_run sha ops)) \<and> co_username c = u \<and> co_terminal c \<noteq> trim_space exclude \<and>
       co_fingerprint c = fingerprint_text sha pasted \<and> format_time (now - lookback) \<le> co_created c \<and>
       (\<forall>d \<in> set (ho_copies (ho_run sha ops)).
         paste_candidate u (fingerprint_text sha pasted) (format_time (now - lookback)) (trim_space exclude) d \<longrightarrow> co_created d \<le> co_created c)"
proof -
  let ?p = "paste_candidate u (fingerprint_text sha pasted) (format_time (now - lookback)) (trim_space exclude)"
  let ?found = "order_by co_created (filter ?p (ho_copies (ho_run sha ops)))"
  show ?thesis
  proof (cases "?found = []")
    case True
    then have "set (filter ?p (ho_copies (ho_run sha ops))) = {}" by (metis empty_set set_order_by)
    then show ?thesis using True by (auto simp: match_terminal_paste_def Let_def filter_empty_conv)
  next
    case False
    have "last ?found \<in> set ?found" using False by (rule last_in_set)
    then have mem: "last ?found \<in> set (ho_copies (ho_run sha ops))" "?p (last ?found)" by simp_all
    have max: "co_created d \<le> co_created (last ?found)" if "d \<in> set (ho_copies (ho_run sha ops))" "?p d" for d
    proof -
      have "d \<in> set ?found" using that by simp
      then show ?thesis using sorted_order_by False by (rule sorted_map_last)
    qed
    show ?thesis using False mem max by (simp add: match_terminal_paste_def Let_def paste_candidate_def)
  qed
qed

theorem paste_provenance_witness:
  "\<exists>c. match_terminal_paste demo_sha 4000000000 ''u'' ''text'' (10 * second) ''T3'' (ho_run demo_sha demo_copies) = Some c \<and>
     co_terminal c = ''T2'' \<and> co_username c = ''u''"
proof -
  have "map_option co_terminal (match_terminal_paste demo_sha 4000000000 ''u'' ''text'' (10 * second) ''T3'' (ho_run demo_sha demo_copies)) = Some ''T2''"
    by code_simp
  then obtain c where "match_terminal_paste demo_sha 4000000000 ''u'' ''text'' (10 * second) ''T3'' (ho_run demo_sha demo_copies) = Some c"
    "co_terminal c = ''T2''" by auto
  then show ?thesis
    using paste_provenance [where sha = demo_sha and now = 4000000000 and u = "''u''" and pasted = "''text''" and lookback = "10 * second"
        and exclude = "''T3''" and ops = demo_copies] by simp
qed

section \<open>Pending handoffs\<close>

text \<open>
  A pending handoff pinned to a task keeps that owner for good: whatever is copied,
  pasted, pinned, cancelled or promoted later, the row is still there, still pinned to that
  task, and once it is promoted it stays promoted to the same task.
\<close>

theorem pinned_handoff_stays:
  assumes "h \<in> set (ho_pending (ho_run sha ops))" and "ph_intended h \<noteq> []"
  shows "\<exists>h' \<in> set (ho_pending (ho_run sha (ops @ later))). ph_id h' = ph_id h \<and> ph_intended h' = ph_intended h \<and>
     (ph_promoted h = [] \<or> ph_promoted h' = ph_promoted h)"
proof -
  have "pinned_to (ph_id h, ph_intended h, ph_promoted h) (ho_run sha ops)"
    using assms by (auto simp: pinned_to_def)
  from pinned.run_fact [where sha = sha and ops = later, OF ho_run_inv this] show ?thesis
    by (auto simp: pinned_to_def ho_run_append)
qed

theorem pinned_handoff_stays_witness:
  "\<exists>h \<in> set (ho_pending (ho_run demo_sha (demo_pinned @ [CancelDraft ''u'' ''T9'' ''d'', SetIntended ''u'' ''T9'' ''goal2'' None]))).
     ph_intended h = ''goal1''"
proof -
  let ?h = "hd (ho_pending (ho_run demo_sha demo_pinned))"
  have h: "?h \<in> set (ho_pending (ho_run demo_sha demo_pinned))" "ph_intended ?h \<noteq> []" by code_simp+
  have "ph_intended ?h = ''goal1''" by code_simp
  with pinned_handoff_stays [OF h, of "[CancelDraft ''u'' ''T9'' ''d'', SetIntended ''u'' ''T9'' ''goal2'' None]"] show ?thesis by auto
qed

section \<open>Source references\<close>

text \<open>
  Source references form a simple relation: in every reachable state no task is its
  own source; and after an addition succeeds, exactly one row holds that target, source and
  relation of the user. It has the id the call returns and, when the call brought content,
  that content.
\<close>

theorem source_refs_simple:
  assumes "add_source_ref now b u ref (ho_run sha ops) = (db', Inr r)"
  shows "(\<forall>x \<in> set (ho_refs db'). sr_target x \<noteq> sr_source x) \<and>
    (\<exists>x. filter (same_pair (prepared_ref u ref)) (ho_refs db') = [x] \<and> sr_id x = sr_id r \<and>
      (trim_space (sr_snapshot ref) \<noteq> [] \<longrightarrow> sr_snapshot x = sr_snapshot ref))"
proof -
  let ?ref = "prepared_ref u ref"
  note inv = ho_run_inv [of sha ops]
  have inv': "ho_inv db'" using add_source_ref_inv [OF inv, of now b u ref] assms by simp
  have "unique_key (\<lambda>r. Some [sr_username r, sr_target r, sr_source r, sr_relation r]) (ho_refs db')"
    using inv' unfolding ho_inv_def by (elim conjE) (erule unique_keysD, simp add: ref_keys_def)
  then have one: "filter (same_pair ?ref) (ho_refs db') = [x]" if "x \<in> set (ho_refs db')" "same_pair ?ref x" for x
    by (rule filter_unique [where v = "[sr_username ?ref, sr_target ?ref, sr_source ?ref, sr_relation ?ref]"])
      (use that in \<open>simp_all add: same_pair_def\<close>)
  have snap: "sr_snapshot ?ref = sr_snapshot ref" by (simp add: prepared_ref_def)
  have "\<exists>x \<in> set (ho_refs db'). same_pair ?ref x \<and> sr_id x = sr_id r \<and>
      (trim_space (sr_snapshot ref) \<noteq> [] \<longrightarrow> sr_snapshot x = sr_snapshot ref)"
  proof (cases "List.find (same_pair ?ref) (ho_refs (ho_run sha ops))")
    case None
    with assms have "r \<in> set (ho_refs db')" "same_pair ?ref r" "sr_snapshot r = sr_snapshot ref"
      by (auto simp: add_source_ref_def Let_def insert_row_Some_iff same_pair_def snap split: if_splits option.splits)
    then show ?thesis by blast
  next
    case (Some old)
    then have old: "old \<in> set (ho_refs (ho_run sha ops))" "same_pair ?ref old" by (auto dest: find_SomeD)
    show ?thesis
    proof (cases "trim_space (sr_snapshot ?ref) \<noteq> [] \<and> sr_snapshot ?ref \<noteq> sr_snapshot old")
      case True
      with assms Some have "db' = (ho_run sha ops)\<lparr>ho_refs := update_where (\<lambda>r. sr_id r = sr_id old)
          (refreshed (format_time now) ?ref) (ho_refs (ho_run sha ops))\<rparr>" "sr_id r = sr_id old"
        by (auto simp: add_source_ref_def Let_def split: if_splits)
      then show ?thesis using old
        by (intro bexI [of _ "refreshed (format_time now) ?ref old"]) (auto simp: same_pair_def snap set_update_where)
    next
      case False
      with assms Some have "db' = ho_run sha ops" "sr_id r = sr_id old"
        by (auto simp: add_source_ref_def Let_def split: if_splits)
      then show ?thesis using old False by (auto simp: snap)
    qed
  qed
  then obtain x where x: "x \<in> set (ho_refs db')" "same_pair ?ref x" "sr_id x = sr_id r"
    "trim_space (sr_snapshot ref) \<noteq> [] \<longrightarrow> sr_snapshot x = sr_snapshot ref" by blast
  with one [OF x(1,2)] inv' show ?thesis by (auto simp: ho_inv_def ref_ok_def)
qed

theorem source_refs_simple_witness:
  "\<exists>db' r x. add_source_ref 7 ''y'' ''u'' (demo_ref\<lparr>sr_snapshot := ''two''\<rparr>) (ho_run demo_sha [AddRef 5 ''x'' ''u'' demo_ref]) = (db', Inr r) \<and>
     filter (same_pair (prepared_ref ''u'' demo_ref)) (ho_refs db') = [x] \<and> sr_snapshot x = ''two''"
proof -
  let ?call = "add_source_ref 7 ''y'' ''u'' (demo_ref\<lparr>sr_snapshot := ''two''\<rparr>) (ho_run demo_sha [AddRef 5 ''x'' ''u'' demo_ref])"
  have "is_ok (snd ?call)" by code_simp
  then obtain db' r where call: "?call = (db', Inr r)" by (metis is_okE prod.collapse)
  have "same_pair (prepared_ref ''u'' (demo_ref\<lparr>sr_snapshot := ''two''\<rparr>)) = same_pair (prepared_ref ''u'' demo_ref)"
    by (rule ext) (simp add: same_pair_def prepared_ref_def)
  moreover have "trim_space ''two'' \<noteq> []" by code_simp
  ultimately show ?thesis using source_refs_simple [OF call] by (auto simp: call)
qed

section \<open>Agent executions\<close>

text \<open>
  The last accepted goal wins: after a process generation is bound to a task, looking
  it up gives that task, whatever it was bound to before, and the binding of every other
  generation is as it was.
\<close>

theorem execution_last_goal:
  assumes "upsert_agent_execution now b u e (ho_run sha ops) = (db', Inr out)"
  shows "map_option ae_task (agent_execution_by_sig (trim_space u') t' s' db') =
    (if trim_space u' = trim_space u \<and> trim_space t' = trim_space (ae_terminal e) \<and> trim_space s' = trim_space (ae_sig e)
     then Some (ae_task e) else map_option ae_task (agent_execution_by_sig (trim_space u') t' s' (ho_run sha ops)))"
proof -
  let ?mine = "same_generation (trim_space u) (trim_space (ae_terminal e)) (trim_space (ae_sig e))"
  let ?key = "same_generation (trim_space u') (trim_space t') (trim_space s')"
  let ?rows = "ho_execs (ho_run sha ops)"
  have same: "?key = ?mine" if "trim_space u' = trim_space u" "trim_space t' = trim_space (ae_terminal e)" "trim_space s' = trim_space (ae_sig e)"
    using that by simp
  have other: "\<not> ?mine x" if "\<not> (trim_space u' = trim_space u \<and> trim_space t' = trim_space (ae_terminal e) \<and> trim_space s' = trim_space (ae_sig e))"
    "?key x" for x using that by (auto simp: same_generation_def)
  show ?thesis
  proof (cases "list_ex ?mine ?rows")
    case True
    define f where "f = (\<lambda>x :: agent_execution. x\<lparr>ae_task := ae_task e, ae_name := ae_name e, ae_created := format_time now\<rparr>)"
    have "ho_execs db' = map (\<lambda>x. if ?mine x then f x else x) ?rows"
      using assms True by (auto simp: upsert_agent_execution_def Let_def update_where_def f_def split: if_splits)
    then have find: "List.find ?key (ho_execs db') = map_option (\<lambda>x. if ?mine x then f x else x) (List.find ?key ?rows)"
      by (simp add: find_map_same f_def same_generation_def)
    show ?thesis
    proof (cases "trim_space u' = trim_space u \<and> trim_space t' = trim_space (ae_terminal e) \<and> trim_space s' = trim_space (ae_sig e)")
      case hit: True
      then have key: "?key = ?mine" using same by simp
      from find_ex [OF True] obtain x where "List.find ?mine ?rows = Some x" "?mine x" by blast
      then show ?thesis using find hit by (simp add: agent_execution_by_sig_def key f_def)
    next
      case False
      have "List.find ?key (ho_execs db') = List.find ?key ?rows"
        using find other [OF False] by (cases "List.find ?key ?rows") (auto dest: find_SomeD)
      with False show ?thesis by (simp only: agent_execution_by_sig_def if_False)
    qed
  next
    case False
    then obtain r where r: "ho_execs db' = ?rows @ [r]" "?mine r" "ae_task r = ae_task e"
      using assms by (auto simp: upsert_agent_execution_def Let_def insert_row_Some_iff same_generation_def split: if_splits option.splits)
    have none: "List.find ?mine ?rows = None" using False by (auto simp: list_ex_iff find_None_iff)
    show ?thesis
    proof (cases "trim_space u' = trim_space u \<and> trim_space t' = trim_space (ae_terminal e) \<and> trim_space s' = trim_space (ae_sig e)")
      case hit: True
      then have key: "?key = ?mine" using same by simp
      show ?thesis using hit r none by (simp add: agent_execution_by_sig_def key find_append)
    next
      case miss: False
      then have "\<not> ?key r" using other r(2) by blast
      then have "List.find ?key (ho_execs db') = List.find ?key ?rows"
        by (simp add: r(1) find_append split: option.splits)
      with miss show ?thesis by (simp only: agent_execution_by_sig_def if_False)
    qed
  qed
qed

theorem execution_last_goal_witness:
  "\<exists>db' out. upsert_agent_execution 9 ''y'' ''u'' (demo_exec\<lparr>ae_task := ''k2''\<rparr>) (ho_run demo_sha [UpsertExec 5 ''x'' ''u'' demo_exec]) = (db', Inr out) \<and>
     map_option ae_task (agent_execution_by_sig (trim_space ''u'') ''T1'' ''42:9'' db') = Some ''k2''"
proof -
  let ?call = "upsert_agent_execution 9 ''y'' ''u'' (demo_exec\<lparr>ae_task := ''k2''\<rparr>) (ho_run demo_sha [UpsertExec 5 ''x'' ''u'' demo_exec])"
  have "is_ok (snd ?call)" by code_simp
  then obtain db' out where call: "?call = (db', Inr out)" by (metis is_okE prod.collapse)
  have "trim_space ''T1'' = trim_space (ae_terminal (demo_exec\<lparr>ae_task := ''k2''\<rparr>))" "trim_space ''42:9'' = trim_space (ae_sig (demo_exec\<lparr>ae_task := ''k2''\<rparr>))"
    by code_simp+
  then have "map_option ae_task (agent_execution_by_sig (trim_space ''u'') ''T1'' ''42:9'' db') = Some ''k2''"
    using execution_last_goal [OF call, of "''u''" "''T1''" "''42:9''"] by simp
  then show ?thesis using call by blast
qed

end
