(* ===== verification/Osc.thy ===== *)
theory Osc
  imports Go_Time
begin

text \<open>
  The OSC notification scanner (\<open>internal/terminal/osc.go\<close>), a streaming parser over
  the bytes a terminal prints: one step per byte on the scanner's three fields, the
  notification an OSC sequence holds, and \<open>Feed\<close> as the run of the steps over a chunk.
  \<open>clock\<close> gives the time read for the k-th notification of a call.
\<close>

section \<open>Notifications\<close>

record osc_notification =
  on_code :: int
  on_title :: string
  on_subtitle :: string
  on_body :: string
  on_session :: string
  on_time :: instant

record osc_scanner =
  os_session :: string
  os_buf :: string
  os_esc :: bool
  os_osc :: bool

definition new_osc_scanner :: "string \<Rightarrow> osc_scanner" where
  "new_osc_scanner sid = \<lparr>os_session = sid, os_buf = [], os_esc = False, os_osc = False\<rparr>"

abbreviation esc_byte :: char where "esc_byte \<equiv> CHR 0x1B"
abbreviation bel_byte :: char where "bel_byte \<equiv> CHR 0x07"
abbreviation backslash :: char where "backslash \<equiv> CHR 0x5C"

definition parse_osc :: "instant \<Rightarrow> string \<Rightarrow> string \<Rightarrow> osc_notification option" where
  "parse_osc now sid content =
     (if has_prefix content ''9;'' then
        Some \<lparr>on_code = 9, on_title = trim_space (drop 2 content), on_subtitle = [], on_body = [],
              on_session = sid, on_time = now\<rparr>
      else if has_prefix content ''777;notify;'' then
        (case cut_at (CHR '';'') (drop 11 content) of (title, body, _) \<Rightarrow>
           Some \<lparr>on_code = 777, on_title = trim_space title, on_subtitle = [], on_body = trim_space body,
                 on_session = sid, on_time = now\<rparr>)
      else if has_prefix content ''99;'' then
        (case after_last (CHR '':'') (drop 3 content) of
           None \<Rightarrow> None
         | Some payload \<Rightarrow>
             if trim_space payload \<noteq> [] then
               Some \<lparr>on_code = 99, on_title = [], on_subtitle = [], on_body = trim_space payload,
                     on_session = sid, on_time = now\<rparr>
             else None)
      else None)"

section \<open>The scanner\<close>

definition osc_end :: "instant \<Rightarrow> string \<Rightarrow> osc_scanner \<Rightarrow> osc_scanner \<times> string \<times> osc_notification list" where
  "osc_end now content s =
     (s\<lparr>os_buf := [], os_osc := False\<rparr>, [],
      (case parse_osc now (os_session s) content of None \<Rightarrow> [] | Some n \<Rightarrow> [n]))"

definition osc_byte :: "instant \<Rightarrow> osc_scanner \<Rightarrow> char \<Rightarrow> osc_scanner \<times> string \<times> osc_notification list" where
  "osc_byte now s b =
     (if os_osc s then
        if b = bel_byte then osc_end now (os_buf s) s
        else if b = backslash \<and> os_buf s \<noteq> [] \<and> last (os_buf s) = esc_byte
        then osc_end now (butlast (os_buf s)) s
        else if int (length (os_buf s)) < 1024 then (s\<lparr>os_buf := os_buf s @ [b]\<rparr>, [], [])
        else (s, [], [])
      else if os_esc s then
        if b = CHR '']'' then (s\<lparr>os_esc := False, os_osc := True, os_buf := []\<rparr>, [], [])
        else (s\<lparr>os_esc := False\<rparr>, [esc_byte, b], [])
      else if b = esc_byte then (s\<lparr>os_esc := True\<rparr>, [], [])
      else (s, [b], []))"

fun osc_feed :: "(nat \<Rightarrow> instant) \<Rightarrow> osc_scanner \<Rightarrow> string \<Rightarrow> osc_scanner \<times> string \<times> osc_notification list" where
  "osc_feed clock s [] = (s, [], [])"
| "osc_feed clock s (b # data) =
     (case osc_byte (clock 0) s b of (s', out, ns) \<Rightarrow>
        case osc_feed (\<lambda>k. clock (length ns + k)) s' data of (s'', out', ns') \<Rightarrow>
          (s'', out @ out', ns @ ns'))"

section \<open>Feeding\<close>

lemma osc_feed_append:
  "osc_feed clock s (a @ b) =
     (case osc_feed clock s a of (s', out, ns) \<Rightarrow>
        case osc_feed (\<lambda>k. clock (length ns + k)) s' b of (s'', out', ns') \<Rightarrow> (s'', out @ out', ns @ ns'))"
proof (induction a arbitrary: clock s)
  case (Cons x a)
  show ?case
    by (cases "osc_byte (clock 0) s x") (simp add: Cons split: prod.split, simp add: add.assoc)
qed (simp split: prod.split)

lemma osc_byte_clock:
  "osc_byte t s b = (s', out, ns) \<Longrightarrow> osc_byte t' s b = (s', out, map (\<lambda>n. n\<lparr>on_time := t'\<rparr>) ns)"
  by (auto simp: osc_byte_def osc_end_def parse_osc_def split: if_splits option.splits prod.splits)

lemma osc_byte_session [simp]: "os_session (fst (osc_byte t s b)) = os_session s"
  by (simp add: osc_byte_def osc_end_def)

lemma osc_plain_byte: "\<not> os_osc s \<Longrightarrow> \<not> os_esc s \<Longrightarrow> b \<noteq> esc_byte \<Longrightarrow> osc_byte t s b = (s, [b], [])"
  by (simp add: osc_byte_def)

lemma osc_plain: "\<not> os_osc s \<Longrightarrow> \<not> os_esc s \<Longrightarrow> esc_byte \<notin> set p \<Longrightarrow> osc_feed clock s p = (s, p, [])"
  by (induction p arbitrary: clock) (auto simp: osc_plain_byte)

lemma osc_collect:
  "os_osc s \<Longrightarrow> bel_byte \<notin> set p \<Longrightarrow> esc_byte \<notin> set (os_buf s) \<Longrightarrow> esc_byte \<notin> set p \<Longrightarrow>
   int (length (os_buf s) + length p) \<le> 1024 \<Longrightarrow>
   osc_feed clock s p = (s\<lparr>os_buf := os_buf s @ p\<rparr>, [], [])"
proof (induction p arbitrary: s clock)
  case (Cons b p)
  then have "os_buf s \<noteq> [] \<Longrightarrow> last (os_buf s) \<noteq> esc_byte" by (metis last_in_set)
  with Cons.prems have "osc_byte (clock 0) s b = (s\<lparr>os_buf := os_buf s @ [b]\<rparr>, [], [])"
    by (auto simp: osc_byte_def)
  with Cons show ?case by simp
qed simp

text \<open>A full buffer whose last byte is not an escape only leaves the sequence at a bell.\<close>

lemma osc_full:
  "os_osc s \<Longrightarrow> bel_byte \<notin> set p \<Longrightarrow> esc_byte \<notin> set (os_buf s) \<Longrightarrow> 1024 \<le> int (length (os_buf s)) \<Longrightarrow>
   osc_feed clock s p = (s, [], [])"
proof (induction p arbitrary: clock)
  case (Cons b p)
  then have "os_buf s \<noteq> [] \<Longrightarrow> last (os_buf s) \<noteq> esc_byte" by (metis last_in_set)
  with Cons.prems have "osc_byte (clock 0) s b = (s, [], [])" by (auto simp: osc_byte_def)
  with Cons show ?case by simp
qed simp

lemma osc_open:
  assumes "\<not> os_osc s" and "\<not> os_esc s"
  shows "osc_feed clock s [esc_byte, CHR '']''] = (s\<lparr>os_osc := True, os_buf := []\<rparr>, [], [])"
  using assms by (simp add: osc_byte_def)

text \<open>A whole sequence whose content fits the buffer, with either terminator.\<close>

lemma osc_sequence:
  assumes "\<not> os_osc s" and "\<not> os_esc s" and "os_buf s = []" and "bel_byte \<notin> set content" and "esc_byte \<notin> set content"
    and "int (length content) < 1024" and "t \<in> {[bel_byte], [esc_byte, backslash]}"
  shows "osc_feed clock s (([esc_byte, CHR '']''] @ content) @ t) =
     (s, [], (case parse_osc (clock 0) (os_session s) content of None \<Rightarrow> [] | Some n \<Rightarrow> [n]))"
proof -
  have "osc_feed clock (s\<lparr>os_osc := True, os_buf := []\<rparr>) content = (s\<lparr>os_osc := True, os_buf := content\<rparr>, [], [])"
    by (subst osc_collect) (use assms in auto)
  then have 1: "osc_feed clock s ([esc_byte, CHR '']''] @ content) = (s\<lparr>os_osc := True, os_buf := content\<rparr>, [], [])"
    by (simp only: osc_feed_append [of _ _ "[esc_byte, CHR '']'']"] osc_open [OF assms(1,2)] prod.case list.size add_0 append_Nil)
  have same: "s\<lparr>os_buf := [], os_osc := False\<rparr> = s" using assms by simp
  have "osc_feed clock (s\<lparr>os_osc := True, os_buf := content\<rparr>) t =
     (s, [], (case parse_osc (clock 0) (os_session s) content of None \<Rightarrow> [] | Some n \<Rightarrow> [n]))"
    using assms same by (auto simp: osc_byte_def osc_end_def dest: last_in_set)
  then show ?thesis
    by (simp only: osc_feed_append [of _ _ "[esc_byte, CHR '']''] @ content"] 1 prod.case list.size add_0 append_Nil)
qed

section \<open>The session's read loop\<close>

text \<open>
  The loop of \<open>handleTerminalWS\<close> (\<open>internal/server/server.go\<close>) hands each chunk read
  from the terminal to \<open>Feed\<close>, broadcasts the notifications and writes what passes through.
\<close>

fun osc_pump :: "(nat \<Rightarrow> instant) \<Rightarrow> osc_scanner \<Rightarrow> string list \<Rightarrow> osc_scanner \<times> string list \<times> osc_notification list" where
  "osc_pump clock s [] = (s, [], [])"
| "osc_pump clock s (chunk # chunks) =
     (case osc_feed clock s chunk of (s', out, ns) \<Rightarrow>
        case osc_pump (\<lambda>k. clock (length ns + k)) s' chunks of (s'', outs, ns') \<Rightarrow>
          (s'', (if out = [] then outs else out # outs), ns @ ns'))"

section \<open>The buffer\<close>

definition osc_inv :: "osc_scanner \<Rightarrow> bool" where
  "osc_inv s \<longleftrightarrow> int (length (os_buf s)) \<le> 1024 \<and> (os_osc s \<longrightarrow> \<not> os_esc s) \<and> (\<not> os_osc s \<longrightarrow> os_buf s = [])"

lemma osc_byte_inv: "osc_inv s \<Longrightarrow> osc_inv (fst (osc_byte t s b))"
  by (auto simp: osc_inv_def osc_byte_def osc_end_def)

definition osc_step :: "osc_scanner \<Rightarrow> instant \<times> char \<Rightarrow> osc_scanner" where
  "osc_step s tb = fst (osc_byte (fst tb) s (snd tb))"

interpretation osc: stepper osc_step osc_inv
  by unfold_locales (simp add: osc_step_def osc_byte_inv)

text \<open>The scanner a chunk leaves does not depend on the times read.\<close>

lemma osc_feed_state: "fst (osc_feed clock s data) = foldl osc_step s (map (Pair t) data)"
proof (induction data arbitrary: clock s)
  case (Cons b data)
  have "fst (osc_byte (clock 0) s b) = fst (osc_byte t s b)"
    by (cases "osc_byte (clock 0) s b") (auto dest: osc_byte_clock [of _ _ _ _ _ _ t])
  with Cons show ?case by (auto simp: osc_step_def split: prod.split dest: arg_cong [of _ _ fst])
qed simp

lemma osc_feed_inv: "osc_inv s \<Longrightarrow> osc_inv (fst (osc_feed clock s data))"
  by (simp only: osc_feed_state [of clock s data 0] osc.run_inv)

lemma osc_pump_inv: "osc_inv s \<Longrightarrow> osc_inv (fst (osc_pump clock s chunks))"
proof (induction chunks arbitrary: clock s)
  case (Cons c chunks)
  obtain s1 o1 n1 where 1: "osc_feed clock s c = (s1, o1, n1)" by (metis prod_cases3)
  then have "osc_inv s1" using osc_feed_inv [OF Cons.prems, of clock c] by simp
  from Cons.IH [OF this, of "\<lambda>k. clock (length n1 + k)"] 1 show ?case
    by (cases "osc_pump (\<lambda>k. clock (length n1 + k)) s1 chunks") simp
qed simp

lemma new_osc_inv: "osc_inv (new_osc_scanner sid)"
  by (simp add: osc_inv_def new_osc_scanner_def)

text \<open>What passes through is no longer than what came in and the escape held back.\<close>

lemma osc_feed_length:
  "osc_inv s \<Longrightarrow> osc_feed clock s data = (s', out, ns) \<Longrightarrow>
   length out + (if os_esc s' then 1 else 0) \<le> length data + (if os_esc s then 1 else 0)"
proof (induction data arbitrary: clock s s' out ns)
  case (Cons b data)
  obtain s1 o1 n1 where 1: "osc_byte (clock 0) s b = (s1, o1, n1)" by (metis prod_cases3)
  obtain s2 o2 n2 where 2: "osc_feed (\<lambda>k. clock (length n1 + k)) s1 data = (s2, o2, n2)" by (metis prod_cases3)
  have "osc_inv s1" using osc_byte_inv [OF Cons.prems(1), of "clock 0" b] 1 by simp
  from Cons.IH [OF this 2] have "length o2 + (if os_esc s2 then 1 else 0) \<le> length data + (if os_esc s1 then 1 else 0)" .
  moreover have "length o1 + (if os_esc s1 then 1 else 0) \<le> 1 + (if os_esc s then 1 else 0)"
    using 1 Cons.prems(1) by (auto simp: osc_byte_def osc_end_def osc_inv_def split: if_splits)
  ultimately show ?case using Cons.prems(2) 1 2 by (auto split: if_splits)
qed simp

end
