(* ===== verification/Osc_Properties.thy ===== *)
theory Osc_Properties
  imports Osc
begin

text \<open>
  What the OSC scanner guarantees: the way the terminal's output is cut into reads does not
  matter, notifications are delivered and stripped, the buffer is bounded, and the sequence
  the buffer's bound makes it lose.
\<close>


text \<open>
  C31. A notification is delivered and stripped: text, an OSC 9 sequence whose body has no
  escape or bell and fits the buffer, ended by a bell or by ESC backslash, and more text
  pass through as the two texts alone, with one notification titled by the trimmed body.
\<close>

theorem osc_notification_delivered:
  assumes "esc_byte \<notin> set before" and "esc_byte \<notin> set body" and "bel_byte \<notin> set body" and "esc_byte \<notin> set rest"
    and "int (length body) \<le> 1021" and "terminator \<in> {[bel_byte], [esc_byte, backslash]}"
  shows "osc_feed clock (new_osc_scanner sid) (before @ [esc_byte, CHR '']''] @ (''9;'' @ body) @ terminator @ rest) =
     (new_osc_scanner sid, before @ rest,
      [\<lparr>on_code = 9, on_title = trim_space body, on_subtitle = [], on_body = [], on_session = sid, on_time = clock 0\<rparr>])"
proof -
  let ?s = "new_osc_scanner sid"
  have s: "\<not> os_osc ?s" "\<not> os_esc ?s" "os_buf ?s = []" "os_session ?s = sid" by (simp_all add: new_osc_scanner_def)
  define content where "content = ''9;'' @ body"
  have "bel_byte \<notin> set content" "esc_byte \<notin> set content" "int (length content) < 1024"
    using assms by (auto simp: content_def)
  note sequence = osc_sequence [OF s(1-3) this assms(6), of clock]
  have parse: "parse_osc (clock 0) sid content = Some \<lparr>on_code = 9, on_title = trim_space body, on_subtitle = [],
      on_body = [], on_session = sid, on_time = clock 0\<rparr>"
    by (simp add: parse_osc_def has_prefix_def content_def)
  define middle where "middle = ([esc_byte, CHR '']''] @ content) @ terminator"
  have "osc_feed clock ?s (before @ middle @ rest) = (?s, before @ rest, [\<lparr>on_code = 9, on_title = trim_space body,
      on_subtitle = [], on_body = [], on_session = sid, on_time = clock 0\<rparr>])"
    unfolding osc_feed_append osc_plain [OF s(1,2) assms(1)]
    by (simp add: sequence [folded middle_def] s parse osc_plain assms)
  then show ?thesis by (simp only: middle_def content_def append_assoc)
qed

theorem osc_notification_delivered_witness:
  "osc_feed (\<lambda>k. 7) (new_osc_scanner ''T'') (''ab'' @ [esc_byte, CHR '']''] @ (''9;'' @ '' done '') @ [esc_byte, backslash] @ ''c'') =
     (new_osc_scanner ''T'', ''ab'' @ ''c'',
      [\<lparr>on_code = 9, on_title = trim_space '' done '', on_subtitle = [], on_body = [], on_session = ''T'', on_time = 7\<rparr>])"
  by (rule osc_notification_delivered) simp_all

text \<open>
  The scanner's memory is bounded: whatever the terminal prints, the buffer holds at
  most 1024 bytes, and a call lets through at most the bytes it was given and one escape.
\<close>

theorem osc_bounds:
  "int (length (os_buf (fst (osc_pump clock (new_osc_scanner sid) chunks)))) \<le> 1024 \<and>
   length (fst (snd (osc_feed clock' (fst (osc_pump clock (new_osc_scanner sid) chunks)) data))) \<le> length data + 1"
proof -
  let ?s = "fst (osc_pump clock (new_osc_scanner sid) chunks)"
  have inv: "osc_inv ?s" by (rule osc_pump_inv [OF new_osc_inv])
  obtain s' out ns where "osc_feed clock' ?s data = (s', out, ns)" by (metis prod_cases3)
  moreover from osc_feed_length [OF inv this] have "length out \<le> length data + 1" by (auto split: if_splits)
  moreover have "int (length (os_buf ?s)) \<le> 1024" using inv by (simp add: osc_inv_def)
  ultimately show ?thesis by simp
qed

text \<open>
  C40. A sequence that fills the buffer and ends with ESC backslash is never left: the
  escape is not stored, so the terminator goes unseen, and nothing the terminal prints
  afterwards passes through or is delivered until it prints a bell.
\<close>

theorem osc_long_sequence_swallows:
  assumes "esc_byte \<notin> set content" and "bel_byte \<notin> set content" and "1024 \<le> int (length content)"
    and "bel_byte \<notin> set rest"
  shows "snd (osc_feed clock (new_osc_scanner sid) ([esc_byte, CHR '']''] @ content @ [esc_byte, backslash] @ rest)) = ([], [])"
proof -
  let ?s = "new_osc_scanner sid"
  define full where "full = ?s\<lparr>os_osc := True, os_buf := take 1024 content\<rparr>"
  have open_s: "\<not> os_osc ?s" "\<not> os_esc ?s" by (simp_all add: new_osc_scanner_def)
  have len: "length (take 1024 content) = 1024" using assms(3) by simp
  have "osc_feed clock (?s\<lparr>os_osc := True, os_buf := []\<rparr>) (take 1024 content) = (full, [], [])"
    by (subst osc_collect) (use assms in \<open>auto simp: full_def dest: in_set_takeD\<close>)
  moreover have "osc_feed clock full (drop 1024 content @ [esc_byte, backslash] @ rest) = (full, [], [])"
    by (rule osc_full) (use assms len in \<open>auto simp: full_def dest: in_set_takeD in_set_dropD\<close>)
  ultimately have "osc_feed clock (?s\<lparr>os_osc := True, os_buf := []\<rparr>)
      (take 1024 content @ drop 1024 content @ [esc_byte, backslash] @ rest) = (full, [], [])"
    by (simp only: osc_feed_append prod.case list.size add_0 append_Nil)
  then have "osc_feed clock (?s\<lparr>os_osc := True, os_buf := []\<rparr>) (content @ [esc_byte, backslash] @ rest) = (full, [], [])"
    by (simp only: append.assoc [symmetric] append_take_drop_id)
  then show ?thesis
    by (simp only: osc_feed_append [of clock ?s "[esc_byte, CHR '']'']"] osc_open [OF open_s] prod.case list.size add_0 append_Nil snd_conv)
qed

theorem osc_long_sequence_swallows_witness:
  "snd (osc_feed (\<lambda>k. 7) (new_osc_scanner ''T'')
     ([esc_byte, CHR '']''] @ replicate 1024 (CHR ''x'') @ [esc_byte, backslash] @ ''a prompt'')) = ([], [])"
  by (rule osc_long_sequence_swallows) simp_all

end
