(* ===== verification/Expiring.thy ===== *)
theory Expiring
  imports Go_Time
begin

text \<open>
  The contract of a store whose entries age (login sessions, login attempts, the messages
  a Telegram reply may answer). \<open>view t v\<close> is what an entry still shows at time \<open>t\<close>. The
  one law is that entries which show the same now show the same at any later time; then a
  store that drops what has aged answers, from then on, as one that never drops anything.
\<close>

type_synonym ('k, 'v) store = "'k \<Rightarrow> 'v option"

definition agree :: "(instant \<Rightarrow> 'v option \<Rightarrow> 'w) \<Rightarrow> instant \<Rightarrow> ('k, 'v) store \<Rightarrow> ('k, 'v) store \<Rightarrow> bool" where
  "agree view t m m' \<longleftrightarrow> (\<forall>k. view t (m k) = view t (m' k))"

locale expiring =
  fixes view :: "instant \<Rightarrow> 'v option \<Rightarrow> 'w"
  assumes view_later: "view t a = view t b \<Longrightarrow> t \<le> t' \<Longrightarrow> view t' a = view t' b"
begin

lemma agree_refl: "agree view t m m"
  by (simp add: agree_def)

lemma agree_later: "agree view t m m' \<Longrightarrow> t \<le> t' \<Longrightarrow> agree view t' m m'"
  unfolding agree_def using view_later by blast

lemma agree_view: "agree view t m m' \<Longrightarrow> view t (m k) = view t (m' k)"
  by (simp add: agree_def)

lemma agree_put: "agree view t m m' \<Longrightarrow> view t a = view t b \<Longrightarrow> agree view t (m(k := a)) (m'(k := b))"
  by (simp add: agree_def)

lemma agree_swap: "agree view t m m' \<Longrightarrow> view t a = view t (m k) \<Longrightarrow> agree view t (m(k := a)) m'"
  by (simp add: agree_def)

lemma agree_purge: "agree view t m m' \<Longrightarrow> (\<And>k. view t (p k) = view t (m k)) \<Longrightarrow> agree view t p m'"
  by (simp add: agree_def)

end

text \<open>The two shapes of entries the program has: one with a deadline, and a list of times.\<close>

definition unexpired :: "('v \<Rightarrow> instant) \<Rightarrow> instant \<Rightarrow> 'v option \<Rightarrow> 'v option" where
  "unexpired deadline t v = (case v of None \<Rightarrow> None | Some e \<Rightarrow> if deadline e < t then None else Some e)"

definition purge :: "('v \<Rightarrow> instant) \<Rightarrow> instant \<Rightarrow> ('k, 'v) store \<Rightarrow> ('k, 'v) store" where
  "purge deadline t m = (\<lambda>k. unexpired deadline t (m k))"

definition recent :: "duration \<Rightarrow> instant \<Rightarrow> instant list option \<Rightarrow> instant list" where
  "recent window t v = filter (\<lambda>x. t - window < x) (case v of None \<Rightarrow> [] | Some xs \<Rightarrow> xs)"

lemma unexpired_later:
  "unexpired deadline t a = unexpired deadline t b \<Longrightarrow> t \<le> t' \<Longrightarrow> unexpired deadline t' a = unexpired deadline t' b"
  by (auto simp: unexpired_def split: option.splits if_splits)

lemma recent_later:
  assumes "recent window t a = recent window t b" and "t \<le> t'"
  shows "recent window t' a = recent window t' b"
proof -
  have "recent window t' v = filter (\<lambda>x. t' - window < x) (recent window t v)" for v
    unfolding recent_def filter_filter by (rule filter_cong) (use assms(2) in auto)
  then show ?thesis by (simp add: assms(1))
qed

lemma unexpired_idem [simp]: "unexpired deadline t (unexpired deadline t v) = unexpired deadline t v"
  by (simp add: unexpired_def split: option.split)

lemma unexpired_None [simp]: "unexpired deadline t None = None"
  by (simp add: unexpired_def)

lemma unexpired_Some_iff [simp]: "unexpired deadline t v = Some e \<longleftrightarrow> v = Some e \<and> t \<le> deadline e"
  by (auto simp: unexpired_def split: option.splits if_splits)

interpretation dated: expiring "unexpired deadline" for deadline :: "'v \<Rightarrow> instant"
  by unfold_locales (rule unexpired_later)

interpretation windowed: expiring "recent window" for window :: duration
  by unfold_locales (rule recent_later)

lemma agree_purge_dated: "agree (unexpired deadline) t m m' \<Longrightarrow> agree (unexpired deadline) t (purge deadline t m) m'"
  by (rule dated.agree_purge) (simp_all add: purge_def)

end
