(* ===== verification/Auth.thy ===== *)
theory Auth
  imports Expiring
begin

text \<open>
  Sign-in: revocable sessions with a sliding deadline (\<open>internal/auth/session.go\<close>), the
  limiter of login attempts and the password provider (\<open>internal/auth/auth.go\<close>), and
  the handlers that compose them (\<open>handleLogin\<close>, \<open>handleLogout\<close> and \<open>writeAuthStatus\<close>
  in \<open>internal/server/server.go\<close>, \<open>authRequired\<close> in \<open>internal/server/middleware.go\<close>).

  The two maps are the state; a mutex makes each call atomic. A request reads the clock
  once here, at \<open>now\<close>. \<open>bcrypt hash password\<close> is the comparison of the bcrypt package,
  the 32 random bytes of a token are an argument, and a request body that does not decode
  is \<open>None\<close>.
\<close>

section \<open>Sessions\<close>

record session_entry =
  se_user :: string
  se_expires :: instant

type_synonym sessions = "(string, session_entry) store"

datatype auth_error = ErrSessionExpired | ErrInvalidCredentials | ErrRateLimited

definition b64_digit :: "int \<Rightarrow> char" where
  "b64_digit n = (if n < 26 then byte_char (65 + n) else if n < 52 then byte_char (71 + n)
     else if n < 62 then byte_char (n - 4) else if n = 62 then CHR ''-'' else CHR ''_'')"

fun raw_url_encode :: "string \<Rightarrow> string" where
  "raw_url_encode [] = []"
| "raw_url_encode [a] = [b64_digit (byte_of a div 4), b64_digit (byte_of a mod 4 * 16)]"
| "raw_url_encode [a, b] =
     [b64_digit (byte_of a div 4), b64_digit (byte_of a mod 4 * 16 + byte_of b div 16), b64_digit (byte_of b mod 16 * 4)]"
| "raw_url_encode (a # b # c # s) =
     [b64_digit (byte_of a div 4), b64_digit (byte_of a mod 4 * 16 + byte_of b div 16),
      b64_digit (byte_of b mod 16 * 4 + byte_of c div 64), b64_digit (byte_of c mod 64)] @ raw_url_encode s"

definition create_session :: "duration \<Rightarrow> instant \<Rightarrow> string \<Rightarrow> string \<Rightarrow> sessions \<Rightarrow> sessions \<times> string" where
  "create_session timeout now bytes username m =
     (let token = raw_url_encode bytes in (m(token \<mapsto> \<lparr>se_user = username, se_expires = now + timeout\<rparr>), token))"

definition validate_session :: "duration \<Rightarrow> instant \<Rightarrow> string \<Rightarrow> sessions \<Rightarrow> sessions \<times> (auth_error, string) result" where
  "validate_session timeout now cookie m =
     (case m cookie of
        None \<Rightarrow> (m, Inl ErrSessionExpired)
      | Some e \<Rightarrow>
          if se_expires e < now then (m(cookie := None), Inl ErrSessionExpired)
          else (m(cookie \<mapsto> e\<lparr>se_expires := now + timeout\<rparr>), Inr (se_user e)))"

definition invalidate_session :: "string \<Rightarrow> sessions \<Rightarrow> sessions" where
  "invalidate_session cookie m = m(cookie := None)"

definition cleanup_sessions :: "instant \<Rightarrow> sessions \<Rightarrow> sessions" where
  "cleanup_sessions now m = purge se_expires now m"

section \<open>Login attempts\<close>

type_synonym attempts = "(string, instant list) store"

definition check_rate :: "int \<Rightarrow> duration \<Rightarrow> instant \<Rightarrow> string \<Rightarrow> attempts \<Rightarrow> attempts \<times> (auth_error, unit) result" where
  "check_rate max_attempts window now ip m =
     (let rs = recent window now (m ip) in
      if rs = [] then (m(ip := None), Inr ())
      else (m(ip \<mapsto> rs), if max_attempts \<le> int (length rs) then Inl ErrRateLimited else Inr ()))"

definition record_attempt :: "instant \<Rightarrow> string \<Rightarrow> attempts \<Rightarrow> attempts" where
  "record_attempt now ip m = m(ip \<mapsto> (case m ip of None \<Rightarrow> [] | Some ts \<Rightarrow> ts) @ [now])"

definition cleanup_attempts :: "duration \<Rightarrow> instant \<Rightarrow> attempts \<Rightarrow> attempts" where
  "cleanup_attempts window now m =
     (\<lambda>ip. case m ip of None \<Rightarrow> None
        | Some ts \<Rightarrow> (let rs = recent window now (Some ts) in if rs = [] then None else Some rs))"

section \<open>The password provider\<close>

record auth_config =
  ac_timeout :: duration
  ac_max_attempts :: int
  ac_lockout :: duration
  ac_hash :: string
  ac_single_user :: string

definition new_password_auth :: "auth_config \<Rightarrow> (string, string \<times> string) result" where
  "new_password_auth cfg =
     (if ac_hash cfg = [] then Inl ''authentication not configured''
      else if ac_single_user cfg = [] then Inl ''single_user is required in password mode''
      else Inr (ac_hash cfg, ac_single_user cfg))"

definition authenticate :: "(string \<Rightarrow> string \<Rightarrow> bool) \<Rightarrow> string \<times> string \<Rightarrow> string \<Rightarrow> string \<Rightarrow> (auth_error, unit) result" where
  "authenticate bcrypt p username password =
     (if snd p \<noteq> [] \<and> username \<noteq> snd p then Inl ErrInvalidCredentials
      else if \<not> bcrypt (fst p) password then Inl ErrInvalidCredentials
      else Inr ())"

section \<open>The handlers\<close>

record auth_state =
  au_sessions :: sessions
  au_attempts :: attempts

datatype login_reply = MethodNotAllowed | TooManyRequests | BadRequest | Unauthorized | SessionError
  | LoggedIn string string

definition handle_login ::
  "(string \<Rightarrow> string \<Rightarrow> bool) \<Rightarrow> auth_config \<Rightarrow> string \<times> string \<Rightarrow> bool \<Rightarrow> instant \<Rightarrow> string \<Rightarrow> (string \<times> string) option \<Rightarrow> string option \<Rightarrow>
   auth_state \<Rightarrow> auth_state \<times> login_reply" where
  "handle_login bcrypt cfg provider post now ip body bytes st =
     (if \<not> post then (st, MethodNotAllowed)
      else case check_rate (ac_max_attempts cfg) (ac_lockout cfg) now ip (au_attempts st) of
        (attempts, Inl _) \<Rightarrow> (st\<lparr>au_attempts := attempts\<rparr>, TooManyRequests)
      | (attempts, Inr _) \<Rightarrow>
          (let st = st\<lparr>au_attempts := attempts\<rparr> in
           case body of None \<Rightarrow> (st, BadRequest)
           | Some (username, password) \<Rightarrow>
               if \<not> is_ok (authenticate bcrypt provider username password)
               then (st\<lparr>au_attempts := record_attempt now ip (au_attempts st)\<rparr>, Unauthorized)
               else let session_user = (if ac_single_user cfg \<noteq> [] then ac_single_user cfg else username) in
                 (case bytes of None \<Rightarrow> (st, SessionError)
                  | Some rnd \<Rightarrow>
                      (case create_session (ac_timeout cfg) now rnd session_user (au_sessions st) of
                         (ss, token) \<Rightarrow> (st\<lparr>au_sessions := ss\<rparr>, LoggedIn token session_user)))))"

definition handle_logout :: "bool \<Rightarrow> string option \<Rightarrow> auth_state \<Rightarrow> auth_state" where
  "handle_logout post cookie_value st =
     (if \<not> post then st
      else case cookie_value of None \<Rightarrow> st
        | Some c \<Rightarrow> st\<lparr>au_sessions := invalidate_session c (au_sessions st)\<rparr>)"

text \<open>The user a request runs as, or \<open>None\<close>: the middleware refuses it.\<close>

definition auth_required :: "auth_config \<Rightarrow> instant \<Rightarrow> string option \<Rightarrow> auth_state \<Rightarrow> auth_state \<times> string option" where
  "auth_required cfg now cookie_value st =
     (case cookie_value of None \<Rightarrow> (st, None)
      | Some c \<Rightarrow>
          (case validate_session (ac_timeout cfg) now c (au_sessions st) of
             (ss, Inl _) \<Rightarrow> (st\<lparr>au_sessions := ss\<rparr>, None)
           | (ss, Inr username) \<Rightarrow> (st\<lparr>au_sessions := ss\<rparr>, Some username)))"

definition write_auth_status :: "auth_config \<Rightarrow> instant \<Rightarrow> string option \<Rightarrow> auth_state \<Rightarrow> auth_state \<times> string option" where
  "write_auth_status cfg now cookie_value st =
     (case cookie_value of None \<Rightarrow> (st, None)
      | Some c \<Rightarrow>
          (case validate_session (ac_timeout cfg) now c (au_sessions st) of
             (ss, Inl _) \<Rightarrow> (st\<lparr>au_sessions := ss\<rparr>, None)
           | (ss, Inr username) \<Rightarrow> (st\<lparr>au_sessions := ss\<rparr>, Some username)))"

section \<open>Runs\<close>

text \<open>
  Everything that touches the two maps, in the order of the locks: logins, logouts,
  requests that carry a cookie, and the two clean-up tickers.
\<close>

datatype auth_op =
  Login instant string "(string \<times> string) option" "string option"
| Logout instant string
| Request instant string
| CleanSessions instant
| CleanAttempts instant

fun op_time :: "auth_op \<Rightarrow> instant" where
  "op_time (Login t _ _ _) = t"
| "op_time (Logout t _) = t"
| "op_time (Request t _) = t"
| "op_time (CleanSessions t) = t"
| "op_time (CleanAttempts t) = t"

datatype auth_answer = Replied login_reply | Runs_as "string option" | Quiet

fun auth_step :: "(string \<Rightarrow> string \<Rightarrow> bool) \<Rightarrow> auth_config \<Rightarrow> string \<times> string \<Rightarrow> auth_state \<Rightarrow> auth_op \<Rightarrow> auth_state \<times> auth_answer" where
  "auth_step bcrypt cfg provider st (Login now ip body bytes) =
     (case handle_login bcrypt cfg provider True now ip body bytes st of (st', r) \<Rightarrow> (st', Replied r))"
| "auth_step bcrypt cfg provider st (Logout now c) = (handle_logout True (Some c) st, Quiet)"
| "auth_step bcrypt cfg provider st (Request now c) =
     (case auth_required cfg now (Some c) st of (st', u) \<Rightarrow> (st', Runs_as u))"
| "auth_step bcrypt cfg provider st (CleanSessions now) =
     (st\<lparr>au_sessions := cleanup_sessions now (au_sessions st)\<rparr>, Quiet)"
| "auth_step bcrypt cfg provider st (CleanAttempts now) =
     (st\<lparr>au_attempts := cleanup_attempts (ac_lockout cfg) now (au_attempts st)\<rparr>, Quiet)"

fun auth_run :: "(string \<Rightarrow> string \<Rightarrow> bool) \<Rightarrow> auth_config \<Rightarrow> string \<times> string \<Rightarrow> auth_state \<Rightarrow> auth_op list \<Rightarrow> auth_answer list" where
  "auth_run bcrypt cfg provider st [] = []"
| "auth_run bcrypt cfg provider st (op # ops) =
     (case auth_step bcrypt cfg provider st op of (st', a) \<Rightarrow> a # auth_run bcrypt cfg provider st' ops)"

definition empty_auth :: auth_state where
  "empty_auth = \<lparr>au_sessions = (\<lambda>_. None), au_attempts = (\<lambda>_. None)\<rparr>"

end
