(* ===== verification/Auth_Properties.thy ===== *)
theory Auth_Properties
  imports Auth
begin

text \<open>
  The sign-in service as its users see it: who was last seen with which token, and every
  failed attempt ever made. Nothing is dropped and no ticker does anything. The maps of
  the code answer as this service does, and an address cannot guess more often than
  configured.
\<close>

section \<open>The service\<close>

record signin =
  seen :: "string \<Rightarrow> (string \<times> instant) option"
  failures :: "string \<Rightarrow> instant list"

definition locked_out :: "auth_config \<Rightarrow> instant \<Rightarrow> instant list \<Rightarrow> bool" where
  "locked_out cfg now ts \<longleftrightarrow> (let rs = filter (\<lambda>t. now - ac_lockout cfg < t) ts in rs \<noteq> [] \<and> ac_max_attempts cfg \<le> int (length rs))"

fun signin_step :: "(string \<Rightarrow> string \<Rightarrow> bool) \<Rightarrow> auth_config \<Rightarrow> string \<times> string \<Rightarrow> signin \<Rightarrow> auth_op \<Rightarrow> signin \<times> auth_answer" where
  "signin_step bcrypt cfg provider a (Login now ip body bytes) =
     (if locked_out cfg now (failures a ip) then (a, Replied TooManyRequests)
      else case body of None \<Rightarrow> (a, Replied BadRequest)
      | Some (username, password) \<Rightarrow>
          if is_ok (authenticate bcrypt provider username password) then
            let u = (if ac_single_user cfg \<noteq> [] then ac_single_user cfg else username) in
            (case bytes of None \<Rightarrow> (a, Replied SessionError)
             | Some rnd \<Rightarrow> (a\<lparr>seen := (seen a)(raw_url_encode rnd \<mapsto> (u, now))\<rparr>, Replied (LoggedIn (raw_url_encode rnd) u)))
          else (a\<lparr>failures := (failures a)(ip := failures a ip @ [now])\<rparr>, Replied Unauthorized))"
| "signin_step bcrypt cfg provider a (Logout now c) = (a\<lparr>seen := (seen a)(c := None)\<rparr>, Quiet)"
| "signin_step bcrypt cfg provider a (Request now c) =
     (case seen a c of
        None \<Rightarrow> (a, Runs_as None)
      | Some (u, t) \<Rightarrow>
          if now \<le> t + ac_timeout cfg then (a\<lparr>seen := (seen a)(c \<mapsto> (u, now))\<rparr>, Runs_as (Some u))
          else (a, Runs_as None))"
| "signin_step bcrypt cfg provider a (CleanSessions now) = (a, Quiet)"
| "signin_step bcrypt cfg provider a (CleanAttempts now) = (a, Quiet)"

fun signin_run :: "(string \<Rightarrow> string \<Rightarrow> bool) \<Rightarrow> auth_config \<Rightarrow> string \<times> string \<Rightarrow> signin \<Rightarrow> auth_op list \<Rightarrow> auth_answer list" where
  "signin_run bcrypt cfg provider a [] = []"
| "signin_run bcrypt cfg provider a (op # ops) =
     (case signin_step bcrypt cfg provider a op of (a', r) \<Rightarrow> r # signin_run bcrypt cfg provider a' ops)"

definition no_signin :: signin where
  "no_signin = \<lparr>seen = (\<lambda>_. None), failures = (\<lambda>_. [])\<rparr>"

section \<open>The simulation\<close>

definition entry_of :: "duration \<Rightarrow> string \<times> instant \<Rightarrow> session_entry" where
  "entry_of timeout ut = \<lparr>se_user = fst ut, se_expires = snd ut + timeout\<rparr>"

definition serves :: "auth_config \<Rightarrow> instant \<Rightarrow> auth_state \<Rightarrow> signin \<Rightarrow> bool" where
  "serves cfg t st a \<longleftrightarrow>
     agree (unexpired se_expires) t (au_sessions st) (\<lambda>k. map_option (entry_of (ac_timeout cfg)) (seen a k)) \<and>
     agree (recent (ac_lockout cfg)) t (au_attempts st) (\<lambda>ip. Some (failures a ip))"

lemma serves_later: "serves cfg t st a \<Longrightarrow> t \<le> t' \<Longrightarrow> serves cfg t' st a"
  by (auto simp: serves_def intro: dated.agree_later windowed.agree_later)

lemma serves_empty: "serves cfg t empty_auth no_signin"
  by (simp add: serves_def agree_def empty_auth_def no_signin_def recent_def)

lemma recent_keep: "recent w t (Some (recent w t v)) = recent w t v"
  by (simp add: recent_def)

lemma recent_None: "recent w t None = []"
  by (simp add: recent_def)

lemma agree_seen_put:
  "agree (unexpired se_expires) t m (\<lambda>k. map_option (entry_of d) (s k)) \<Longrightarrow>
   agree (unexpired se_expires) t (m(k := map_option (entry_of d) v)) (\<lambda>j. map_option (entry_of d) ((s(k := v)) j))"
  by (auto simp: agree_def)

lemma check_rate_serves:
  assumes "agree (recent (ac_lockout cfg)) now m (\<lambda>ip. Some (f ip))"
    and "check_rate (ac_max_attempts cfg) (ac_lockout cfg) now ip m = (m', r)"
  shows "agree (recent (ac_lockout cfg)) now m' (\<lambda>ip. Some (f ip)) \<and> (is_ok r \<longleftrightarrow> \<not> locked_out cfg now (f ip))"
proof -
  have same: "recent (ac_lockout cfg) now (m ip) = filter (\<lambda>t. now - ac_lockout cfg < t) (f ip)"
    using windowed.agree_view [OF assms(1), of ip] by (simp add: recent_def)
  have "agree (recent (ac_lockout cfg)) now m' (\<lambda>ip. Some (f ip))"
    using assms(2) windowed.agree_swap [OF assms(1)]
    by (auto simp: check_rate_def Let_def recent_keep recent_None split: if_splits)
  moreover have "is_ok r \<longleftrightarrow> \<not> locked_out cfg now (f ip)"
    using assms(2) same by (auto simp: check_rate_def locked_out_def Let_def split: if_splits)
  ultimately show ?thesis by simp
qed

lemma record_serves:
  assumes "agree (recent w) now m (\<lambda>ip. Some (f ip))"
  shows "agree (recent w) now (record_attempt now ip m) (\<lambda>i. Some ((f(ip := f ip @ [now])) i))"
  using assms by (auto simp: agree_def record_attempt_def recent_def split: option.splits)

lemma validate_serves:
  assumes "agree (unexpired se_expires) now m (\<lambda>k. map_option (entry_of d) (s k))"
    and "validate_session d now c m = (m', r)"
  shows "case s c of
      None \<Rightarrow> agree (unexpired se_expires) now m' (\<lambda>k. map_option (entry_of d) (s k)) \<and> r = Inl ErrSessionExpired
    | Some (u, t) \<Rightarrow>
        if now \<le> t + d
        then agree (unexpired se_expires) now m' (\<lambda>k. map_option (entry_of d) ((s(c \<mapsto> (u, now))) k)) \<and> r = Inr u
        else agree (unexpired se_expires) now m' (\<lambda>k. map_option (entry_of d) (s k)) \<and> r = Inl ErrSessionExpired"
proof -
  have view: "unexpired se_expires now (m c) = unexpired se_expires now (map_option (entry_of d) (s c))"
    by (rule dated.agree_view [OF assms(1)])
  have put: "agree (unexpired se_expires) now (m(c \<mapsto> \<lparr>se_user = u, se_expires = now + d\<rparr>))
      (\<lambda>k. map_option (entry_of d) ((s(c \<mapsto> (u, now))) k))" for u
    using agree_seen_put [OF assms(1), of c "Some (u, now)"] by (simp add: entry_of_def)
  have drop_entry: "unexpired se_expires now (m c) = None \<Longrightarrow>
      agree (unexpired se_expires) now (m(c := None)) (\<lambda>k. map_option (entry_of d) (s k))"
    by (rule dated.agree_swap [OF assms(1)]) simp
  show ?thesis
  proof (cases "m c")
    case None
    with assms view show ?thesis
      by (auto simp: validate_session_def unexpired_def entry_of_def split: option.splits if_splits)
  next
    case (Some e)
    show ?thesis
    proof (cases "se_expires e < now")
      case True
      with Some have "unexpired se_expires now (m c) = None" by (simp add: unexpired_def)
      with drop_entry view True Some assms(2) show ?thesis
        by (auto simp: validate_session_def unexpired_def entry_of_def split: option.splits if_splits)
    next
      case False
      with Some view obtain ut where ut: "s c = Some ut" "entry_of d ut = e" "now \<le> snd ut + d"
        by (auto simp: unexpired_def entry_of_def split: option.splits if_splits)
      then have e: "se_user e = fst ut" "e\<lparr>se_expires := now + d\<rparr> = \<lparr>se_user = fst ut, se_expires = now + d\<rparr>"
        by (auto simp: entry_of_def)
      with False Some assms(2) put ut show ?thesis
        by (cases ut) (auto simp: validate_session_def)
    qed
  qed
qed


lemma serves_step:
  assumes "serves cfg (op_time op) st a"
    and "auth_step bcrypt cfg provider st op = (st', r)" and "signin_step bcrypt cfg provider a op = (a', r')"
  shows "r = r' \<and> serves cfg (op_time op) st' a'"
proof (cases op)
  case (Login now ip body bytes)
  obtain m' c where c: "check_rate (ac_max_attempts cfg) (ac_lockout cfg) now ip (au_attempts st) = (m', c)"
    by (meson prod.exhaust_sel)
  have ss: "agree (unexpired se_expires) now (au_sessions st) (\<lambda>k. map_option (entry_of (ac_timeout cfg)) (seen a k))"
    and aa: "agree (recent (ac_lockout cfg)) now (au_attempts st) (\<lambda>ip. Some (failures a ip))"
    using assms(1) by (simp_all add: serves_def Login)
  from check_rate_serves [OF aa c]
  have m': "agree (recent (ac_lockout cfg)) now m' (\<lambda>ip. Some (failures a ip))"
    and locked: "is_ok c \<longleftrightarrow> \<not> locked_out cfg now (failures a ip)" by simp_all
  show ?thesis
  proof (cases c)
    case (Inl e)
    with locked assms c m' ss show ?thesis by (auto simp: Login handle_login_def serves_def)
  next
    case (Inr u)
    with locked have free: "\<not> locked_out cfg now (failures a ip)" by simp
    show ?thesis
    proof (cases body)
      case None
      with Inr free assms c m' ss show ?thesis by (auto simp: Login handle_login_def serves_def)
    next
      case (Some up)
      obtain un pw where [simp]: "up = (un, pw)" by fastforce
      show ?thesis
      proof (cases "is_ok (authenticate bcrypt provider un pw)")
        case False
        with Some Inr free assms c m' ss record_serves [OF m', of ip] show ?thesis
          by (auto simp: Login handle_login_def serves_def)
      next
        case True
        with Some Inr free assms(2,3) c m' ss
          agree_seen_put [OF ss, of _ "Some (if ac_single_user cfg \<noteq> [] then ac_single_user cfg else un, now)"]
        show ?thesis
          by (cases bytes) (auto simp: Login handle_login_def create_session_def serves_def entry_of_def Let_def)
      qed
    qed
  qed
next
  case (Logout now c)
  with assms agree_seen_put [where v = None and k = c] show ?thesis
    by (auto simp: handle_logout_def invalidate_session_def serves_def)
next
  case (Request now c)
  obtain m' x where x: "validate_session (ac_timeout cfg) now c (au_sessions st) = (m', x)" by (meson prod.exhaust_sel)
  have ss: "agree (unexpired se_expires) now (au_sessions st) (\<lambda>k. map_option (entry_of (ac_timeout cfg)) (seen a k))"
    using assms(1) by (simp add: serves_def Request)
  from validate_serves [OF ss x] assms x show ?thesis
    by (auto simp: Request auth_required_def serves_def split: option.splits prod.splits if_splits)
next
  case (CleanSessions now)
  with assms show ?thesis by (auto simp: serves_def cleanup_sessions_def intro: agree_purge_dated)
next
  case (CleanAttempts now)
  have "recent (ac_lockout cfg) now (cleanup_attempts (ac_lockout cfg) now m ip) = recent (ac_lockout cfg) now (m ip)" for m ip
    by (auto simp: cleanup_attempts_def recent_keep recent_None Let_def split: option.split)
  with CleanAttempts assms show ?thesis by (auto simp: serves_def intro: windowed.agree_purge)
qed

lemma serves_run:
  assumes "serves cfg t st a" and "sorted (t # map op_time ops)"
  shows "auth_run bcrypt cfg provider st ops = signin_run bcrypt cfg provider a ops"
  using assms
proof (induction ops arbitrary: t st a)
  case (Cons op ops)
  obtain st' r a' r' where steps: "auth_step bcrypt cfg provider st op = (st', r)" "signin_step bcrypt cfg provider a op = (a', r')"
    by (meson prod.exhaust_sel)
  have "serves cfg (op_time op) st a" using Cons.prems by (auto intro: serves_later)
  from serves_step [OF this steps] have "r = r'" and "serves cfg (op_time op) st' a'" by simp_all
  with Cons.IH [of "op_time op" st' a'] Cons.prems(2) steps show ?case by simp
qed simp

section \<open>Properties\<close>

text \<open>
  C16. The sign-in maps implement the service: for calls in the order of their times, the
  code, whose requests, checks and tickers drop old entries, gives every answer the service
  gives that keeps everything. So a cookie runs as its user exactly while each use comes
  within the timeout of the one before, and never after a logout.
\<close>

theorem auth_refines_signin:
  assumes "sorted (map op_time ops)"
  shows "auth_run bcrypt cfg provider empty_auth ops = signin_run bcrypt cfg provider no_signin ops"
proof (cases ops)
  case (Cons op rest)
  then show ?thesis using assms serves_run [OF serves_empty, of "op_time op" ops] by simp
qed simp

definition demo_auth :: auth_config where
  "demo_auth = \<lparr>ac_timeout = 100, ac_max_attempts = 2, ac_lockout = 50, ac_hash = ''h'', ac_single_user = ''u''\<rparr>"

definition demo_bcrypt :: "string \<Rightarrow> string \<Rightarrow> bool" where
  "demo_bcrypt hash password \<longleftrightarrow> password = ''pw''"

definition demo_auth_ops :: "auth_op list" where
  "demo_auth_ops =
     [Login 0 ''ip'' (Some (''u'', ''no'')) None, Login 1 ''ip'' (Some (''u'', ''no'')) None,
      Login 2 ''ip'' (Some (''u'', ''pw'')) (Some ''abc''), CleanAttempts 60,
      Login 61 ''ip'' (Some (''u'', ''pw'')) (Some ''abc''), Request 150 ''YWJj'', CleanSessions 200,
      Request 240 ''YWJj'', Request 341 ''YWJj'', Logout 342 ''YWJj'']"

theorem auth_refines_signin_witness:
  "auth_run demo_bcrypt demo_auth (''h'', ''u'') empty_auth demo_auth_ops =
     signin_run demo_bcrypt demo_auth (''h'', ''u'') no_signin demo_auth_ops \<and>
   signin_run demo_bcrypt demo_auth (''h'', ''u'') no_signin demo_auth_ops =
     [Replied Unauthorized, Replied Unauthorized, Replied TooManyRequests, Quiet,
      Replied (LoggedIn ''YWJj'' ''u''), Runs_as (Some ''u''), Quiet, Runs_as (Some ''u''), Runs_as None, Quiet]"
proof
  show "auth_run demo_bcrypt demo_auth (''h'', ''u'') empty_auth demo_auth_ops =
     signin_run demo_bcrypt demo_auth (''h'', ''u'') no_signin demo_auth_ops"
    by (rule auth_refines_signin) (simp add: demo_auth_ops_def)
qed code_simp

section \<open>Guesses\<close>

definition from_address :: "string \<Rightarrow> auth_op \<Rightarrow> bool" where
  "from_address ip op = (case op of Login _ ip' _ _ \<Rightarrow> ip' = ip | _ \<Rightarrow> False)"

definition guessed :: "string \<Rightarrow> auth_op \<times> auth_answer \<Rightarrow> bool" where
  "guessed ip x \<longleftrightarrow> from_address ip (fst x) \<and> snd x = Replied Unauthorized"

definition in_window :: "duration \<Rightarrow> instant \<Rightarrow> instant \<Rightarrow> bool" where
  "in_window w t x \<longleftrightarrow> t - w < x \<and> x \<le> t"

lemma signin_step_failures:
  "signin_step bcrypt cfg provider a op = (a', r) \<Longrightarrow>
   failures a' ip = failures a ip @ (if guessed ip (op, r) then [op_time op] else []) \<and>
   (guessed ip (op, r) \<longrightarrow> \<not> locked_out cfg (op_time op) (failures a ip))"
  by (cases op) (auto simp: guessed_def from_address_def Let_def split: if_splits option.splits)

lemma window_bound_step:
  assumes bound: "\<And>t. int (length (filter (in_window w t) ts)) \<le> n" and past: "\<And>x. x \<in> set ts \<Longrightarrow> x \<le> now"
    and free: "int (length (filter (\<lambda>x. now - w < x) ts)) < n"
  shows "int (length (filter (in_window w t) (ts @ [now]))) \<le> n"
proof (cases "in_window w t now")
  case True
  have "length (filter (in_window w t) ts) = length (filter (in_window w t) (filter (\<lambda>x. now - w < x) ts))"
    unfolding filter_filter by (rule arg_cong [where f = length], rule filter_cong) (use True in \<open>auto simp: in_window_def\<close>)
  also have "\<dots> \<le> length (filter (\<lambda>x. now - w < x) ts)" by (rule length_filter_le)
  finally show ?thesis using free True by simp
next
  case False
  then show ?thesis using bound [of t] by simp
qed

lemma signin_run_guesses:
  assumes "sorted (t0 # map op_time ops)" and "0 < ac_max_attempts cfg"
    and "\<And>t. int (length (filter (in_window (ac_lockout cfg) t) (failures a ip))) \<le> ac_max_attempts cfg"
    and "\<And>x. x \<in> set (failures a ip) \<Longrightarrow> x \<le> t0"
  shows "int (length (filter (in_window (ac_lockout cfg) t) (failures a ip)) +
     length (filter (\<lambda>x. guessed ip x \<and> in_window (ac_lockout cfg) t (op_time (fst x))) (zip ops (signin_run bcrypt cfg provider a ops))))
     \<le> ac_max_attempts cfg"
  using assms
proof (induction ops arbitrary: t0 a)
  case (Cons op ops)
  obtain a' r where step: "signin_step bcrypt cfg provider a op = (a', r)" by (meson prod.exhaust_sel)
  note f = signin_step_failures [OF step, of ip]
  have "t0 \<le> op_time op" using Cons.prems(1) by simp
  with Cons.prems(4) have past: "\<And>x. x \<in> set (failures a ip) \<Longrightarrow> x \<le> op_time op" by force
  have "int (length (filter (in_window (ac_lockout cfg) t') (failures a' ip))) \<le> ac_max_attempts cfg" for t'
  proof (cases "guessed ip (op, r)")
    case True
    with f have "\<not> locked_out cfg (op_time op) (failures a ip)" by simp
    then have "int (length (filter (\<lambda>x. op_time op - ac_lockout cfg < x) (failures a ip))) < ac_max_attempts cfg"
      using Cons.prems(2) by (auto simp: locked_out_def Let_def)
    from window_bound_step [OF Cons.prems(3) past this] f True show ?thesis by simp
  next
    case False
    with f Cons.prems(3) show ?thesis by simp
  qed
  moreover have "\<And>x. x \<in> set (failures a' ip) \<Longrightarrow> x \<le> op_time op" using f past by (auto split: if_splits)
  ultimately have "int (length (filter (in_window (ac_lockout cfg) t) (failures a' ip)) +
     length (filter (\<lambda>x. guessed ip x \<and> in_window (ac_lockout cfg) t (op_time (fst x))) (zip ops (signin_run bcrypt cfg provider a' ops))))
     \<le> ac_max_attempts cfg"
    using Cons.IH [of "op_time op" a'] Cons.prems(1,2) by simp
  with f step show ?case by (auto split: if_splits)
qed simp



end
