(* ===== verification/Session_Store.thy ===== *)
theory Session_Store
  imports Go_Time
begin

text \<open>
  The files that keep terminal sessions across restarts (\<open>internal/terminal/manager.go\<close>):
  per session a main file, a write-ahead file and a backup. \<open>writePersistedSession\<close> is a
  sequence of atomic file operations (each writes a temporary file, syncs and renames it),
  so a crash or an I/O error leaves the files after some prefix of it; \<open>steps\<close> is the length
  of that prefix. A file holds a record, or \<open>None\<close> when its text does not decode.
\<close>

section \<open>Records and paths\<close>

record persisted_session =
  pe_id :: string
  pe_name :: string
  pe_username :: string
  pe_task :: string
  pe_project :: string
  pe_backend :: string
  pe_pid :: int
  pe_workdir :: string
  pe_created :: instant
  pe_last :: instant
  pe_updated :: instant

type_synonym fpath = "string \<times> string"
type_synonym files = "fpath \<Rightarrow> persisted_session option option"

definition storage_path_segment :: "string \<Rightarrow> string" where
  "storage_path_segment s = map (\<lambda>c. if c = CHR ''/'' then CHR ''_'' else c) s"

definition persisted_key :: "string \<Rightarrow> string \<Rightarrow> fpath" where
  "persisted_key username sid = (storage_path_segment username, storage_path_segment sid)"

definition main_path :: "fpath \<Rightarrow> fpath" where
  "main_path k = (fst k, snd k @ ''.json'')"

definition wal_path :: "fpath \<Rightarrow> fpath" where
  "wal_path k = (fst k, snd k @ ''.wal.json'')"

definition backup_path :: "fpath \<Rightarrow> fpath" where
  "backup_path k = (fst k, snd k @ ''.json.bak'')"

lemma paths_distinct [simp]:
  "main_path k \<noteq> wal_path k" "wal_path k \<noteq> main_path k" "main_path k \<noteq> backup_path k" "backup_path k \<noteq> main_path k"
  "wal_path k \<noteq> backup_path k" "backup_path k \<noteq> wal_path k"
  by (simp_all add: main_path_def wal_path_def backup_path_def)

section \<open>Writing\<close>

datatype disk_op = Put fpath persisted_session | PutRaw fpath "persisted_session option" | Del fpath

fun disk_apply :: "files \<Rightarrow> disk_op \<Rightarrow> files" where
  "disk_apply fs (Put p d) = fs(p \<mapsto> Some d)"
| "disk_apply fs (PutRaw p c) = fs(p \<mapsto> c)"
| "disk_apply fs (Del p) = fs(p := None)"

definition stamped :: "instant \<Rightarrow> persisted_session \<Rightarrow> persisted_session" where
  "stamped now d0 =
     (let d1 = (if is_zero (pe_last d0) then d0\<lparr>pe_last := pe_created d0\<rparr> else d0);
          d2 = (if is_zero (pe_last d1) then d1\<lparr>pe_last := now\<rparr> else d1)
      in if is_zero (pe_updated d2) then d2\<lparr>pe_updated := now\<rparr> else d2)"

definition write_ops :: "fpath \<Rightarrow> persisted_session \<Rightarrow> files \<Rightarrow> disk_op list" where
  "write_ops k d fs =
     Put (wal_path k) d #
     (case fs (main_path k) of None \<Rightarrow> [] | Some c \<Rightarrow> [PutRaw (backup_path k) c]) @
     [Put (main_path k) d, Del (wal_path k)]"

text \<open>The result is false when an operation before the removal of the write-ahead file failed.\<close>

definition write_persisted_session :: "nat \<Rightarrow> instant \<Rightarrow> persisted_session \<Rightarrow> files \<Rightarrow> files \<times> bool" where
  "write_persisted_session steps now data fs =
     (if pe_username data = [] \<or> pe_id data = [] then (fs, False)
      else let k = persisted_key (pe_username data) (pe_id data); ops = write_ops k (stamped now data) fs
           in (foldl disk_apply fs (take steps ops), length ops \<le> Suc steps))"

definition remove_persisted_session :: "string \<Rightarrow> string \<Rightarrow> files \<Rightarrow> files" where
  "remove_persisted_session username sid fs =
     (let k = persisted_key username sid in fs(main_path k := None, wal_path k := None, backup_path k := None))"

section \<open>Reading\<close>

definition persisted_session_recency :: "persisted_session \<Rightarrow> instant" where
  "persisted_session_recency d =
     (if \<not> is_zero (pe_updated d) then pe_updated d else if \<not> is_zero (pe_last d) then pe_last d else pe_created d)"

definition prefer_persisted_session :: "persisted_session \<Rightarrow> persisted_session \<Rightarrow> bool" where
  "prefer_persisted_session candidate current =
     (let a = persisted_session_recency candidate; b = persisted_session_recency current in
      if \<not> is_zero a \<and> \<not> is_zero b then (if a = b then True else b < a)
      else if \<not> is_zero a \<and> is_zero b then True
      else if is_zero a \<and> \<not> is_zero b then False
      else True)"

text \<open>The record, whether it exists, whether the file must go because it does not decode.\<close>

definition read_persisted_session_data :: "files \<Rightarrow> fpath \<Rightarrow> persisted_session option \<times> bool" where
  "read_persisted_session_data fs p =
     (case fs p of None \<Rightarrow> (None, False) | Some None \<Rightarrow> (None, True) | Some (Some d) \<Rightarrow> (Some d, False))"

datatype selection = From_Main persisted_session bool | From_Wal persisted_session

text \<open>
  The choice of \<open>loadPersistedSessions\<close> between the two files, with the files that do
  not decode removed. \<open>From_Main d stale\<close>: \<open>stale\<close> tells that an older write-ahead file is there.
\<close>

definition select_persisted :: "fpath \<Rightarrow> files \<Rightarrow> files \<times> selection option" where
  "select_persisted k fs =
     (let (main, bad) = read_persisted_session_data fs (main_path k);
          fs = (if bad then fs(main_path k := None) else fs);
          (wal, bad) = read_persisted_session_data fs (wal_path k);
          fs = (if bad then fs(wal_path k := None) else fs)
      in (fs, (case (main, wal) of
                 (None, None) \<Rightarrow> None
               | (None, Some w) \<Rightarrow> Some (From_Wal w)
               | (Some d, None) \<Rightarrow> Some (From_Main d False)
               | (Some d, Some w) \<Rightarrow> Some (if prefer_persisted_session w d then From_Wal w else From_Main d True))))"

fun selected :: "selection \<Rightarrow> persisted_session" where
  "selected (From_Main d _) = d"
| "selected (From_Wal d) = d"

section \<open>Writes cut anywhere\<close>

text \<open>
  \<open>logged k fs\<close> is what a restart would restore for the key. \<open>writes fs ws\<close> is a history of
  attempts to write one session, each cut after some number of operations.
\<close>

definition logged :: "fpath \<Rightarrow> files \<Rightarrow> persisted_session option" where
  "logged k fs = map_option selected (snd (select_persisted k fs))"

lemma logged_cases:
  "logged k fs = (case (fst (read_persisted_session_data fs (main_path k)), fst (read_persisted_session_data fs (wal_path k))) of
      (None, w) \<Rightarrow> w | (Some d, None) \<Rightarrow> Some d | (Some d, Some w) \<Rightarrow> Some (if prefer_persisted_session w d then w else d))"
  by (auto simp: logged_def select_persisted_def read_persisted_session_data_def Let_def split: option.splits)

text \<open>No file of the key is newer than \<open>t\<close>.\<close>

definition not_newer :: "instant \<Rightarrow> fpath \<Rightarrow> files \<Rightarrow> bool" where
  "not_newer t k fs \<longleftrightarrow> (\<forall>p \<in> {main_path k, wal_path k}. \<forall>d. fs p = Some (Some d) \<longrightarrow>
     \<not> is_zero (persisted_session_recency d) \<and> persisted_session_recency d \<le> t)"

lemma prefer_not_older:
  "persisted_session_recency d \<le> persisted_session_recency w \<Longrightarrow> \<not> is_zero (persisted_session_recency w) \<Longrightarrow>
   prefer_persisted_session w d"
  by (auto simp: prefer_persisted_session_def Let_def)

lemma write_cut_cases:
  "foldl disk_apply fs (take steps (write_ops k d fs)) (main_path k) \<in> {fs (main_path k), Some (Some d)}"
  "0 < steps \<Longrightarrow> foldl disk_apply fs (take steps (write_ops k d fs)) (wal_path k) = Some (Some d) \<or>
     foldl disk_apply fs (take steps (write_ops k d fs)) (wal_path k) = None \<and>
     foldl disk_apply fs (take steps (write_ops k d fs)) (main_path k) = Some (Some d)"
  by (auto simp: write_ops_def take_Cons' split: option.splits)

lemma write_cut_logged:
  assumes "not_newer t k fs" and "t \<le> persisted_session_recency d" and "\<not> is_zero (persisted_session_recency d)" and "0 < steps"
  shows "logged k (foldl disk_apply fs (take steps (write_ops k d fs))) = Some d"
proof -
  let ?fs = "foldl disk_apply fs (take steps (write_ops k d fs))"
  have main: "?fs (main_path k) \<in> {fs (main_path k), Some (Some d)}" by (rule write_cut_cases)
  have old: "prefer_persisted_session d e" if "fs (main_path k) = Some (Some e)" for e
    by (rule prefer_not_older) (use assms that in \<open>auto simp: not_newer_def\<close>)
  have same: "prefer_persisted_session d d" by (rule prefer_not_older) (use assms in simp_all)
  from write_cut_cases(2) [OF assms(4), of fs k d] main old same show ?thesis
    by (auto simp: logged_cases read_persisted_session_data_def split: option.splits)
qed

lemma write_cut_not_newer:
  assumes "not_newer t k fs" and "t \<le> persisted_session_recency d" and "\<not> is_zero (persisted_session_recency d)"
  shows "not_newer (persisted_session_recency d) k (foldl disk_apply fs (take steps (write_ops k d fs)))"
proof (cases "steps = 0")
  case True
  then show ?thesis using assms(1,2) by (fastforce simp: not_newer_def)
next
  case False
  let ?fs = "foldl disk_apply fs (take steps (write_ops k d fs))"
  have "?fs (wal_path k) \<in> {None, Some (Some d)}" using write_cut_cases(2) [of steps fs k d] False by auto
  moreover have "?fs (main_path k) \<in> {fs (main_path k), Some (Some d)}" by (rule write_cut_cases)
  ultimately show ?thesis using assms by (fastforce simp: not_newer_def)
qed

end
