(* ===== verification/Session_Status.thy ===== *)
theory Session_Status
  imports Session_Store "HOL-Library.AList"
begin

text \<open>
  What a terminal session is shown as (\<open>internal/terminal/status.go\<close>, \<open>SessionInfo\<close> in
  \<open>manager.go\<close>): the status from its times, the observations \<open>tmux list-panes\<close> prints,
  and the read-only inventory of the stored records and the observed sessions. Running
  tmux is outside; its output is an argument.
\<close>

section \<open>Classification\<close>

datatype session_status = StActive | StIdle | StExited | StDetached | StNone

record session_info =
  si_id :: string
  si_name :: string
  si_task :: string
  si_project :: string
  si_last :: instant
  si_idle :: int
  si_status :: session_status
  si_detached :: "instant option"
  si_backend :: string
  si_created :: instant

record tmux_observation =
  to_created :: instant
  to_activity :: instant
  to_detached :: "instant option"
  to_alive :: bool

text \<open>\<open>Time.Sub\<close> saturates at the ends of a 64-bit duration.\<close>

definition time_sub :: "instant \<Rightarrow> instant \<Rightarrow> duration" where
  "time_sub a b = max (- int64_max - 1) (min int64_max (a - b))"

definition classify_session :: "session_info \<Rightarrow> instant \<Rightarrow> bool \<Rightarrow> session_info" where
  "classify_session info0 now alive =
     (let info = (if is_zero (si_last info0) then info0\<lparr>si_last := si_created info0\<rparr> else info0);
          idle = time_sub now (si_last info) div second
      in info\<lparr>si_idle := (if idle < 0 then 0 else idle),
          si_status :=
            (if \<not> alive then StExited
             else if (case si_detached info of None \<Rightarrow> False | Some d \<Rightarrow> 24 * hour < time_sub now d) then StDetached
             else if 2 * hour < time_sub now (si_last info) then StIdle
             else StActive)\<rparr>)"

definition apply_tmux_observation :: "session_info \<Rightarrow> tmux_observation \<Rightarrow> instant \<Rightarrow> session_info" where
  "apply_tmux_observation info0 ob now =
     (let info1 = info0\<lparr>si_backend := ''tmux''\<rparr>;
          info2 = (if is_zero (si_created info1) then info1\<lparr>si_created := to_created ob\<rparr> else info1);
          info3 = (if si_last info2 < to_activity ob then info2\<lparr>si_last := to_activity ob\<rparr> else info2)
      in classify_session (info3\<lparr>si_detached := to_detached ob\<rparr>) now (to_alive ob))"

section \<open>Observation\<close>

definition no_observation :: tmux_observation where
  "no_observation = \<lparr>to_created = zero_time, to_activity = zero_time, to_detached = None, to_alive = False\<rparr>"

type_synonym observations = "(string \<times> tmux_observation) list"

definition observe_line :: "observations \<Rightarrow> string \<Rightarrow> (string, observations) result" where
  "observe_line obs line =
     (case split_char (CHR 0x09) line of
        [name, created, session_activity, window_activity, attached, detached_at, pane_dead] \<Rightarrow>
          (case parse_int created of (secs, ok) \<Rightarrow>
             if \<not> ok then Inl ''invalid tmux creation time''
             else let old = (case map_of obs name of None \<Rightarrow> no_observation | Some o' \<Rightarrow> o');
                      stamps = map (\<lambda>raw. fst (parse_int raw) * second) [created, session_activity, window_activity];
                      since = fst (parse_int detached_at)
               in Inr (AList.update name
                   \<lparr>to_created = secs * second,
                    to_activity = foldl (\<lambda>a t. if a < t then t else a) (to_activity old) stamps,
                    to_detached = (if attached = ''0'' then (if 0 < since then Some (since * second) else to_detached old) else None),
                    to_alive = (to_alive old \<or> pane_dead = ''0'')\<rparr> obs))
      | _ \<Rightarrow> Inl ''unexpected tmux observation'')"

fun observe_lines :: "observations \<Rightarrow> string list \<Rightarrow> (string, observations) result" where
  "observe_lines obs [] = Inr obs"
| "observe_lines obs (l # ls) = and_then (observe_line obs l) (\<lambda>obs'. observe_lines obs' ls)"

text \<open>\<open>failed\<close> tells that the command failed, \<open>absent\<close> that there is no tmux binary.\<close>

definition observe_tmux_sessions :: "bool \<Rightarrow> bool \<Rightarrow> string \<Rightarrow> (string, observations) result" where
  "observe_tmux_sessions failed absent output =
     (if failed then
        if absent \<or> str_contains output ''no server running'' \<or> str_contains output ''No such file or directory'' then Inr []
        else Inl (''observe tmux: '' @ trim_space output)
      else observe_lines [] (split_char (CHR 0x0A) (trim_suffix output [CHR 0x0A])))"

section \<open>The inventory\<close>

type_synonym records = "(string \<times> persisted_session) list"

text \<open>A directory entry: its name and whether it is a directory.\<close>

fun read_records :: "string \<Rightarrow> string \<Rightarrow> files \<Rightarrow> (string \<times> bool) list \<Rightarrow> records \<Rightarrow> (string, records) result" where
  "read_records dir username fs [] rs = Inr rs"
| "read_records dir username fs ((name, is_dir) # es) rs =
     (if is_dir \<or> \<not> has_suffix name ''.json'' then read_records dir username fs es rs
      else case read_persisted_session_data fs (dir, name) of
        (_, True) \<Rightarrow> Inl (''read session '' @ name)
      | (None, False) \<Rightarrow> read_records dir username fs es rs
      | (Some d, False) \<Rightarrow>
          if pe_id d = [] \<or> pe_username d \<noteq> username then read_records dir username fs es rs
          else case map_of rs (pe_id d) of
            Some old \<Rightarrow> read_records dir username fs es
              (if prefer_persisted_session d old then AList.update (pe_id d) d rs else rs)
          | None \<Rightarrow> read_records dir username fs es (AList.update (pe_id d) d rs))"

definition record_info :: "persisted_session \<Rightarrow> session_info" where
  "record_info d = \<lparr>si_id = pe_id d, si_name = pe_name d, si_task = pe_task d, si_project = pe_project d, si_last = pe_last d,
     si_idle = 0, si_status = StNone, si_detached = None,
     si_backend = (if pe_backend d = [] then ''tmux'' else pe_backend d), si_created = pe_created d\<rparr>"

definition observed_info :: "string \<Rightarrow> session_info" where
  "observed_info sid = \<lparr>si_id = sid, si_name = sid, si_task = [], si_project = [], si_last = zero_time, si_idle = 0,
     si_status = StNone, si_detached = None, si_backend = [], si_created = zero_time\<rparr>"

definition record_status :: "(int \<Rightarrow> bool) \<Rightarrow> instant \<Rightarrow> observations \<Rightarrow> persisted_session \<Rightarrow> session_info" where
  "record_status pid_alive now obs d =
     (let info = record_info d in
      case map_of obs (pe_id d) of
        Some ob \<Rightarrow> if si_backend info = ''tmux'' then apply_tmux_observation info ob now
          else classify_session info now (si_backend info = ''pty'' \<and> 0 < pe_pid d \<and> pid_alive (pe_pid d))
      | None \<Rightarrow> classify_session info now (si_backend info = ''pty'' \<and> 0 < pe_pid d \<and> pid_alive (pe_pid d)))"

definition read_session_statuses ::
  "(int \<Rightarrow> bool) \<Rightarrow> instant \<Rightarrow> string \<Rightarrow> files \<Rightarrow> (string \<times> bool) list \<Rightarrow> (string, observations) result \<Rightarrow> (string, session_info list) result" where
  "read_session_statuses pid_alive now username fs entries observe =
     and_then (read_records (storage_path_segment username) username fs entries []) (\<lambda>rs.
     and_then observe (\<lambda>obs.
       Inr (sort_key (\<lambda>i. (si_name i, si_id i))
         (map (record_status pid_alive now obs \<circ> snd) rs @
          map (\<lambda>(sid, ob). apply_tmux_observation (observed_info sid) ob now)
            (filter (\<lambda>(sid, _). map_of rs sid = None \<and> has_prefix sid ''lt-'') obs)))))"

end
