(* ===== verification/Session_Manager.thy ===== *)
theory Session_Manager
  imports Session_Status
begin

text \<open>
  The terminal manager (\<open>Manager\<close> in \<open>internal/terminal/manager.go\<close>): the table of
  sessions with their owners, attachment, typing, renaming, task binding, ending, idle
  clean-up, persistence and the restore after a restart.

  The operating system is an argument: which tmux sessions exist (\<open>exists_tmux\<close>), whether
  starting a process works, and after how many file operations the disk fails (\<open>disk\<close>).
  What the manager does to the outside is recorded in the state: the keys it types and the
  calls of the session-ended handler. An operation reads the clock once.
\<close>

section \<open>State\<close>

datatype term_error = ErrMaxSessions | ErrNoSession | ErrForbidden | TermFailure string

record session =
  ss_info :: session_info
  ss_user :: string
  ss_workdir :: string
  ss_last :: instant
  ss_cmd :: "int option"
  ss_pty :: "nat option"
  ss_replaced :: "nat list"
  ss_dirty :: bool

datatype typed = Typed string | Key string

record manager =
  mg_sessions :: "(string \<times> session) list"
  mg_files :: files
  mg_typed :: "(string \<times> typed) list"
  mg_ended :: "(string \<times> string) list"

record manager_config =
  mc_max_sessions :: int
  mc_idle_timeout :: duration
  mc_persist_max :: int
  mc_tmux :: bool

definition session_of :: "string \<Rightarrow> manager \<Rightarrow> session option" where
  "session_of sid m = map_of (mg_sessions m) sid"

definition put_session :: "string \<Rightarrow> session \<Rightarrow> manager \<Rightarrow> manager" where
  "put_session sid s m = m\<lparr>mg_sessions := AList.update sid s (mg_sessions m)\<rparr>"

definition session_for_user :: "string \<Rightarrow> string \<Rightarrow> manager \<Rightarrow> (term_error, session) result" where
  "session_for_user username sid m =
     (case session_of sid m of
        None \<Rightarrow> Inl ErrNoSession
      | Some s \<Rightarrow> if ss_user s \<noteq> username then Inl ErrForbidden else Inr s)"

section \<open>Names\<close>

definition normalize_session_name :: "string \<Rightarrow> (term_error, string) result" where
  "normalize_session_name name =
     (let normalized = join_space (str_fields name) in
      if normalized = [] then Inr []
      else if 80 < int (length normalized) then Inl (TermFailure ''terminal name must be 80 characters or less'')
      else Inr normalized)"

text \<open>The number of \<open>(?i)^Term (\d+)$\<close>, when it fits.\<close>

definition default_name_number :: "string \<Rightarrow> int option" where
  "default_name_number name =
     (if has_prefix (to_lower (take 5 name)) ''term '' \<and> drop 5 name \<noteq> [] \<and> list_all is_digit (drop 5 name)
      then (case parse_int (drop 5 name) of (n, ok) \<Rightarrow> if ok then Some n else None)
      else None)"

definition next_default_name :: "string \<Rightarrow> manager \<Rightarrow> string" where
  "next_default_name username m =
     ''Term '' @ show_int (wrap64 (1 +
       foldl max 0 (List.map_filter (\<lambda>(_, s). default_name_number (si_name (ss_info s)))
         (filter (\<lambda>(_, s). ss_user s = username) (mg_sessions m)))))"

definition generate_id :: "string \<Rightarrow> string" where
  "generate_id bytes = ''lt-'' @ hex_encode bytes"

section \<open>Ending a session\<close>

definition kill_session :: "string \<Rightarrow> manager \<Rightarrow> manager \<times> (term_error, unit) result" where
  "kill_session sid m =
     (case session_of sid m of
        None \<Rightarrow> (m, Inl ErrNoSession)
      | Some s \<Rightarrow>
          (m\<lparr>mg_sessions := AList.delete sid (mg_sessions m),
             mg_files := remove_persisted_session (ss_user s) sid (mg_files m),
             mg_ended := mg_ended m @ [(ss_user s, sid)]\<rparr>, Inr ()))"

definition kill_session_for_user :: "string \<Rightarrow> string \<Rightarrow> manager \<Rightarrow> manager \<times> (term_error, unit) result" where
  "kill_session_for_user username sid m =
     (case session_for_user username sid m of Inl e \<Rightarrow> (m, Inl e) | Inr _ \<Rightarrow> kill_session sid m)"

definition prune_missing :: "manager_config \<Rightarrow> (string \<Rightarrow> bool) \<Rightarrow> string \<Rightarrow> manager \<Rightarrow> manager \<times> bool" where
  "prune_missing cfg exists_tmux sid m =
     (if \<not> mc_tmux cfg \<or> sid = [] then (m, False)
      else if exists_tmux sid then (m, False)
      else (fst (kill_session sid m), True))"

section \<open>Persistence\<close>

definition persisted_of :: "manager_config \<Rightarrow> session \<Rightarrow> persisted_session" where
  "persisted_of cfg s =
     \<lparr>pe_id = si_id (ss_info s), pe_name = si_name (ss_info s), pe_username = ss_user s, pe_task = si_task (ss_info s),
      pe_project = si_project (ss_info s), pe_backend = (if mc_tmux cfg then ''tmux'' else ''pty''),
      pe_pid = (if mc_tmux cfg then 0 else case ss_cmd s of None \<Rightarrow> 0 | Some pid \<Rightarrow> pid),
      pe_workdir = ss_workdir s, pe_created = si_created (ss_info s), pe_last = ss_last s, pe_updated = zero_time\<rparr>"

definition persist_session :: "manager_config \<Rightarrow> nat \<Rightarrow> instant \<Rightarrow> string \<Rightarrow> manager \<Rightarrow> manager \<times> (term_error, unit) result" where
  "persist_session cfg disk now sid m =
     (case session_of sid m of
        None \<Rightarrow> (m, Inl ErrNoSession)
      | Some s \<Rightarrow>
          (let data = persisted_of cfg s in
           case write_persisted_session disk now data (mg_files m) of
             (fs, False) \<Rightarrow> (m\<lparr>mg_files := fs\<rparr>, Inl (TermFailure ''persist session''))
           | (fs, True) \<Rightarrow>
               (put_session sid
                  (s\<lparr>ss_dirty := (si_name (ss_info s) \<noteq> pe_name data \<or> ss_workdir s \<noteq> pe_workdir data \<or>
                     si_created (ss_info s) \<noteq> pe_created data \<or> ss_last s \<noteq> pe_last data)\<rparr>)
                  (m\<lparr>mg_files := fs\<rparr>), Inr ())))"

text \<open>\<open>stored\<close> is the total size of the main files under the directory.\<close>

definition oldest_session_id :: "manager \<Rightarrow> string option" where
  "oldest_session_id m =
     (case sort_key (\<lambda>(sid, s). (ss_last s, sid)) (mg_sessions m) of [] \<Rightarrow> None | (sid, _) # _ \<Rightarrow> Some sid)"

lemma delete_shorter: "map_of al k = Some v \<Longrightarrow> length (AList.delete k al) < length al"
  by (induction al) (auto simp: AList.delete_eq le_imp_less_Suc)

lemma oldest_in: "oldest_session_id m = Some sid \<Longrightarrow> \<exists>s. (sid, s) \<in> set (mg_sessions m)"
  by (auto simp: oldest_session_id_def split: list.splits) (metis list.set_intros(1) set_sort)

function enforce_storage_limit :: "manager_config \<Rightarrow> (files \<Rightarrow> int) \<Rightarrow> manager \<Rightarrow> manager" where
  "enforce_storage_limit cfg stored m =
     (if mc_persist_max cfg \<le> 0 \<or> stored (mg_files m) \<le> mc_persist_max cfg then m
      else case oldest_session_id m of
        None \<Rightarrow> m
      | Some victim \<Rightarrow> enforce_storage_limit cfg stored (fst (kill_session victim m)))"
  by pat_completeness auto
termination
proof (relation "measure (\<lambda>(cfg, stored, m). length (mg_sessions m))")
  fix cfg :: manager_config and stored :: "files \<Rightarrow> int" and m :: manager and victim
  assume "oldest_session_id m = Some victim"
  then obtain s where "(victim, s) \<in> set (mg_sessions m)" using oldest_in by blast
  then obtain s' where "map_of (mg_sessions m) victim = Some s'" by (meson weak_map_of_SomeI)
  then show "((cfg, stored, fst (kill_session victim m)), cfg, stored, m) \<in> measure (\<lambda>(cfg, stored, m). length (mg_sessions m))"
    using delete_shorter by (simp add: kill_session_def session_of_def)
qed simp

declare enforce_storage_limit.simps [simp del]

fun persist_each :: "manager_config \<Rightarrow> nat \<Rightarrow> instant \<Rightarrow> string list \<Rightarrow> manager \<Rightarrow> manager" where
  "persist_each cfg disk now [] m = m"
| "persist_each cfg disk now (sid # sids) m =
     (case persist_session cfg disk now sid m of
        (m', Inr _) \<Rightarrow> persist_each cfg disk now sids m'
      | (m', Inl _) \<Rightarrow> persist_each cfg disk now sids
          (case session_of sid m' of None \<Rightarrow> m' | Some s \<Rightarrow> put_session sid (s\<lparr>ss_dirty := True\<rparr>) m'))"

definition flush_dirty_sessions :: "manager_config \<Rightarrow> (files \<Rightarrow> int) \<Rightarrow> nat \<Rightarrow> instant \<Rightarrow> manager \<Rightarrow> manager" where
  "flush_dirty_sessions cfg stored disk now m =
     (let dirty = map fst (filter (\<lambda>(_, s). ss_dirty s) (mg_sessions m)) in
      if dirty = [] then m else enforce_storage_limit cfg stored (persist_each cfg disk now dirty m))"

definition cleanup_tick :: "manager_config \<Rightarrow> (files \<Rightarrow> int) \<Rightarrow> nat \<Rightarrow> instant \<Rightarrow> manager \<Rightarrow> manager" where
  "cleanup_tick cfg stored disk now m =
     (let m = flush_dirty_sessions cfg stored disk now m;
          idle = map fst (filter (\<lambda>(_, s). mc_idle_timeout cfg < time_sub now (ss_last s)) (mg_sessions m))
      in foldl (\<lambda>m sid. fst (kill_session sid m)) m idle)"

section \<open>Creating and listing\<close>

record create_options =
  oc_workdir :: string
  oc_name :: string
  oc_task :: string
  oc_project :: string

definition shown_info :: "manager_config \<Rightarrow> instant \<Rightarrow> session \<Rightarrow> session_info" where
  "shown_info cfg now s =
     classify_session ((ss_info s)\<lparr>si_last := ss_last s, si_backend := (if mc_tmux cfg then ''tmux'' else ''pty'')\<rparr>) now
       (ss_cmd s \<noteq> None \<or> mc_tmux cfg)"

definition fresh_session :: "string \<Rightarrow> string \<Rightarrow> string \<Rightarrow> create_options \<Rightarrow> string \<Rightarrow> instant \<Rightarrow> session" where
  "fresh_session sid name username opts workdir now =
     \<lparr>ss_info = \<lparr>si_id = sid, si_name = name, si_task = trim_space (oc_task opts), si_project = trim_space (oc_project opts),
        si_last = zero_time, si_idle = 0, si_status = StNone, si_detached = None, si_backend = [], si_created = now\<rparr>,
      ss_user = username, ss_workdir = workdir, ss_last = now, ss_cmd = None, ss_pty = None, ss_replaced = [], ss_dirty = False\<rparr>"

text \<open>
  \<open>admit\<close> is the refusal of the resource policy, \<open>cgroup\<close> of the cgroup manager, \<open>spawn\<close> of
  tmux, each \<open>None\<close> when there is none; \<open>workdir\<close> is the directory resolved for the options.
\<close>

definition create_terminal_session ::
  "manager_config \<Rightarrow> (files \<Rightarrow> int) \<Rightarrow> nat \<Rightarrow> instant \<Rightarrow> string \<Rightarrow> term_error option \<Rightarrow> term_error option \<Rightarrow> string option \<Rightarrow> string \<Rightarrow>
   string \<Rightarrow> create_options \<Rightarrow> manager \<Rightarrow> manager \<times> (term_error, session_info) result" where
  "create_terminal_session cfg stored disk now bytes admit cgroup spawn workdir username opts m =
     (case admit of Some e \<Rightarrow> (m, Inl e) | None \<Rightarrow>
      if 0 < mc_max_sessions cfg \<and> mc_max_sessions cfg \<le> int (length (filter (\<lambda>(_, s). ss_user s = username) (mg_sessions m)))
      then (m, Inl ErrMaxSessions)
      else (case cgroup of Some e \<Rightarrow> (m, Inl e) | None \<Rightarrow>
      (case normalize_session_name (oc_name opts) of Inl e \<Rightarrow> (m, Inl e)
      | Inr given \<Rightarrow>
          let sid = generate_id bytes;
              name = (if given = [] then next_default_name username m else given);
              s = fresh_session sid name username opts workdir now;
              m1 = put_session sid s m
          in case (if mc_tmux cfg then spawn else None) of
               Some msg \<Rightarrow> (m1\<lparr>mg_sessions := AList.delete sid (mg_sessions m1)\<rparr>, Inl (TermFailure (''tmux new-session: '' @ msg)))
             | None \<Rightarrow>
                 (case persist_session cfg disk now sid m1 of
                    (m2, Inl e) \<Rightarrow> (fst (kill_session sid m2), Inl (TermFailure ''persist session''))
                  | (m2, Inr _) \<Rightarrow> (enforce_storage_limit cfg stored m2, Inr (shown_info cfg now s))))))"

fun list_live :: "manager_config \<Rightarrow> (string \<Rightarrow> bool) \<Rightarrow> observations \<Rightarrow> instant \<Rightarrow> session_info list \<Rightarrow> manager \<Rightarrow> manager \<times> session_info list" where
  "list_live cfg exists_tmux obs now [] m = (m, [])"
| "list_live cfg exists_tmux obs now (i # infos) m =
     (case prune_missing cfg exists_tmux (si_id i) m of
        (m', True) \<Rightarrow> list_live cfg exists_tmux obs now infos m'
      | (m', False) \<Rightarrow>
          (case list_live cfg exists_tmux obs now infos m' of (m'', out) \<Rightarrow>
             (m'', (case map_of obs (si_id i) of None \<Rightarrow> i | Some ob \<Rightarrow> apply_tmux_observation i ob now) # out)))"

definition list_sessions ::
  "manager_config \<Rightarrow> (string \<Rightarrow> bool) \<Rightarrow> (string, observations) result \<Rightarrow> instant \<Rightarrow> string \<Rightarrow> manager \<Rightarrow> manager \<times> session_info list" where
  "list_sessions cfg exists_tmux observe now username m =
     (let infos = map (\<lambda>(_, s). shown_info cfg now s) (filter (\<lambda>(_, s). ss_user s = username) (mg_sessions m));
          (m', out) = (if mc_tmux cfg
            then list_live cfg exists_tmux (case observe of Inl _ \<Rightarrow> [] | Inr obs \<Rightarrow> obs) now infos m else (m, infos))
      in (m', sort_key (\<lambda>i. (si_created i, si_id i)) out))"

section \<open>Using a session\<close>

definition touch_session :: "instant \<Rightarrow> string \<Rightarrow> string \<Rightarrow> manager \<Rightarrow> manager" where
  "touch_session now username sid m =
     (case session_of sid m of
        None \<Rightarrow> m
      | Some s \<Rightarrow> if ss_user s \<noteq> username then m else put_session sid (s\<lparr>ss_last := now, ss_dirty := True\<rparr>) m)"

definition type_keys :: "string \<Rightarrow> typed list \<Rightarrow> manager \<Rightarrow> manager" where
  "type_keys sid ts m = m\<lparr>mg_typed := mg_typed m @ map (Pair sid) ts\<rparr>"

text \<open>
  \<open>accepts k\<close> tells whether tmux or the pseudo-terminal takes the k-th write of the call.
\<close>

definition send_keys ::
  "manager_config \<Rightarrow> (string \<Rightarrow> bool) \<Rightarrow> (nat \<Rightarrow> bool) \<Rightarrow> instant \<Rightarrow> string \<Rightarrow> string \<Rightarrow> string \<Rightarrow> bool \<Rightarrow> manager \<Rightarrow>
   manager \<times> (term_error, unit) result" where
  "send_keys cfg exists_tmux accepts now username sid txt with_enter m =
     (case session_for_user username sid m of
        Inl e \<Rightarrow> (m, Inl e)
      | Inr s \<Rightarrow>
          (case prune_missing cfg exists_tmux sid m of
             (m', True) \<Rightarrow> (m', Inl ErrNoSession)
           | (m', False) \<Rightarrow>
               if \<not> mc_tmux cfg \<and> ss_pty s = None
               then (m', Inl (TermFailure ''terminal is not currently attached; install tmux for persistent command injection''))
               else if \<not> accepts 0 then (m', Inl (TermFailure ''write''))
               else let m1 = type_keys sid [Typed txt] m' in
                 if \<not> with_enter then (touch_session now username sid m1, Inr ())
                 else if \<not> accepts 1 then (m1, Inl (TermFailure ''write return''))
                 else (touch_session now username sid
                    (type_keys sid [if mc_tmux cfg then Key ''Enter'' else Typed [CHR 0x0D]] m1), Inr ())))"

definition rename_session ::
  "manager_config \<Rightarrow> nat \<Rightarrow> instant \<Rightarrow> string \<Rightarrow> string \<Rightarrow> string \<Rightarrow> manager \<Rightarrow> manager \<times> (term_error, unit) result" where
  "rename_session cfg disk now username sid name m =
     (case normalize_session_name name of
        Inl e \<Rightarrow> (m, Inl e)
      | Inr normalized \<Rightarrow>
          (case session_for_user username sid m of
             Inl e \<Rightarrow> (m, Inl e)
           | Inr s \<Rightarrow>
               (case persist_session cfg disk now sid
                       (put_session sid (s\<lparr>ss_info := (ss_info s)\<lparr>si_name := normalized\<rparr>, ss_dirty := True\<rparr>) m) of
                  (m', Inl e) \<Rightarrow>
                    ((case session_of sid m' of None \<Rightarrow> m'
                      | Some s' \<Rightarrow> if ss_user s' = username
                          then put_session sid (s'\<lparr>ss_info := (ss_info s')\<lparr>si_name := si_name (ss_info s)\<rparr>, ss_dirty := True\<rparr>) m'
                          else m'), Inl e)
                | (m', Inr _) \<Rightarrow> (m', Inr ()))))"

definition bind_session_task ::
  "manager_config \<Rightarrow> nat \<Rightarrow> instant \<Rightarrow> string \<Rightarrow> string \<Rightarrow> string \<Rightarrow> string \<Rightarrow> manager \<Rightarrow> manager \<times> (term_error, unit) result" where
  "bind_session_task cfg disk now username sid task_id project_id m =
     (case session_for_user username sid m of
        Inl e \<Rightarrow> (m, Inl e)
      | Inr s \<Rightarrow> persist_session cfg disk now sid (put_session sid
          (s\<lparr>ss_info := (ss_info s)\<lparr>si_task := trim_space task_id, si_project := trim_space project_id\<rparr>, ss_dirty := True\<rparr>) m))"

section \<open>Attaching\<close>

text \<open>
  \<open>start\<close> is the outcome of starting the attached command: its process and the handle of
  its pseudo-terminal.
\<close>

definition attach_session ::
  "manager_config \<Rightarrow> (string \<Rightarrow> bool) \<Rightarrow> nat \<Rightarrow> instant \<Rightarrow> (int \<times> nat) option \<Rightarrow> string \<Rightarrow> string \<Rightarrow> manager \<Rightarrow>
   manager \<times> (term_error, nat) result" where
  "attach_session cfg exists_tmux disk now start username sid m =
     (case session_for_user username sid m of
        Inl e \<Rightarrow> (m, Inl e)
      | Inr s \<Rightarrow>
          (case prune_missing cfg exists_tmux sid m of
             (m', True) \<Rightarrow> (m', Inl ErrNoSession)
           | (m', False) \<Rightarrow>
               let s1 = (case ss_pty s of None \<Rightarrow> s
                   | Some p \<Rightarrow> s\<lparr>ss_replaced := (if p \<in> set (ss_replaced s) then ss_replaced s else p # ss_replaced s), ss_pty := None\<rparr>);
                   s2 = s1\<lparr>ss_cmd := None\<rparr>; m2 = put_session sid s2 m'
               in case start of
                    None \<Rightarrow> (m2, Inl (TermFailure ''pty start''))
                  | Some (pid, p) \<Rightarrow>
                      (fst (persist_session cfg disk now sid
                         (put_session sid (s2\<lparr>ss_cmd := Some pid, ss_pty := Some p, ss_last := now, ss_dirty := True\<rparr>) m2)), Inr p)))"

definition consume_attach_replacement :: "string \<Rightarrow> string \<Rightarrow> nat option \<Rightarrow> manager \<Rightarrow> manager \<times> bool" where
  "consume_attach_replacement username sid pty m =
     (case pty of None \<Rightarrow> (m, False)
      | Some p \<Rightarrow>
          (case session_of sid m of
             None \<Rightarrow> (m, False)
           | Some s \<Rightarrow>
               if ss_user s \<noteq> username then (m, False)
               else if p \<in> set (ss_replaced s) then (put_session sid (s\<lparr>ss_replaced := removeAll p (ss_replaced s)\<rparr>) m, True)
               else (m, False)))"

text \<open>What \<open>reapAttachedCommand\<close> does once the command has exited.\<close>

definition reap_attached :: "string \<Rightarrow> int \<Rightarrow> nat option \<Rightarrow> manager \<Rightarrow> manager" where
  "reap_attached sid pid pty m =
     (case session_of sid m of
        None \<Rightarrow> m
      | Some s \<Rightarrow>
          let s1 = (if ss_cmd s = Some pid then s\<lparr>ss_cmd := None, ss_dirty := True\<rparr> else s)
          in put_session sid (if ss_pty s1 = pty then s1\<lparr>ss_pty := None\<rparr> else s1) m)"

section \<open>Restoring after a restart\<close>

text \<open>One key of \<open>loadPersistedSessions\<close>; \<open>resolve\<close> is the directory resolved for a record.\<close>

definition load_key ::
  "manager_config \<Rightarrow> (string \<Rightarrow> bool) \<Rightarrow> (persisted_session \<Rightarrow> string) \<Rightarrow> nat \<Rightarrow> instant \<Rightarrow> fpath \<Rightarrow> manager \<Rightarrow> manager" where
  "load_key cfg exists_tmux resolve disk now k m =
     (case select_persisted k (mg_files m) of
        (fs, None) \<Rightarrow> m\<lparr>mg_files := fs\<rparr>
      | (fs, Some sel) \<Rightarrow>
          let d0 = selected sel; drop_both = fs(main_path k := None, wal_path k := None) in
          if pe_id d0 = [] \<or> pe_username d0 = [] then m\<lparr>mg_files := drop_both\<rparr>
          else let d1 = (if is_zero (pe_last d0) then d0\<lparr>pe_last := pe_created d0\<rparr> else d0);
                   d = (if is_zero (pe_created d1) then d1\<lparr>pe_created := pe_last d1\<rparr> else d1)
            in if is_zero (pe_created d) then m\<lparr>mg_files := drop_both\<rparr>
            else if mc_idle_timeout cfg < time_sub now (pe_last d)
            then m\<lparr>mg_files := remove_persisted_session (pe_username d) (pe_id d) fs\<rparr>
            else if \<not> exists_tmux (pe_id d) then m\<lparr>mg_files := remove_persisted_session (pe_username d) (pe_id d) fs\<rparr>
            else let (fs', ok) = (case sel of
                         From_Wal _ \<Rightarrow> write_persisted_session disk now d fs
                       | From_Main _ True \<Rightarrow> (fs(wal_path k := None), True)
                       | From_Main _ False \<Rightarrow> (fs, True));
                     m' = m\<lparr>mg_files := fs'\<rparr>
              in if \<not> ok then m'
                 else if (case session_of (pe_id d) m of None \<Rightarrow> True | Some old \<Rightarrow> ss_last old < pe_last d)
                 then put_session (pe_id d)
                   \<lparr>ss_info = \<lparr>si_id = pe_id d, si_name = pe_name d, si_task = pe_task d, si_project = pe_project d,
                      si_last = zero_time, si_idle = 0, si_status = StNone, si_detached = None, si_backend = [], si_created = pe_created d\<rparr>,
                    ss_user = pe_username d, ss_workdir = resolve d, ss_last = pe_last d,
                    ss_cmd = None, ss_pty = None, ss_replaced = [], ss_dirty = False\<rparr> m'
                 else m')"

definition key_of_path :: "fpath \<Rightarrow> fpath option" where
  "key_of_path p =
     (if has_suffix (snd p) ''.wal.json'' then Some (fst p, trim_suffix (snd p) ''.wal.json'')
      else if has_suffix (snd p) ''.json'' then Some (fst p, trim_suffix (snd p) ''.json'')
      else None)"

text \<open>A tmux session without a record, and the listing of them; \<open>self\<close> is the process's user.\<close>

definition parse_tmux_session :: "string \<Rightarrow> (string \<times> instant \<times> instant) option" where
  "parse_tmux_session line0 =
     (let line = trim_space line0 in
      if line = [] then None
      else case split_char (CHR 0x09) line of
        sid # created # activity # _ \<Rightarrow>
          (case parse_int created of (c, ok) \<Rightarrow>
             if \<not> ok then None
             else let a = (case parse_int activity of (a, ok) \<Rightarrow> if ok then a else c)
               in Some (sid, c * second, if a * second < c * second then c * second else a * second))
      | _ \<Rightarrow> None)"

definition list_tmux_sessions :: "string option \<Rightarrow> (string \<times> instant \<times> instant) list" where
  "list_tmux_sessions output =
     (case output of None \<Rightarrow> [] | Some out \<Rightarrow> List.map_filter parse_tmux_session (split_char (CHR 0x0A) (trim_space out)))"

definition adopt_orphan ::
  "manager_config \<Rightarrow> nat \<Rightarrow> instant \<Rightarrow> string \<Rightarrow> manager \<Rightarrow> string \<times> instant \<times> instant \<Rightarrow> manager" where
  "adopt_orphan cfg disk now self m t =
     (case t of (sid, created, activity) \<Rightarrow>
        if \<not> has_prefix sid ''lt-'' then m
        else if mc_idle_timeout cfg < time_sub now activity then m
        else if session_of sid m \<noteq> None then m
        else fst (persist_session cfg disk now sid (put_session sid
          \<lparr>ss_info = \<lparr>si_id = sid, si_name = next_default_name self m, si_task = [], si_project = [],
             si_last = zero_time, si_idle = 0, si_status = StNone, si_detached = None, si_backend = [], si_created = created\<rparr>,
           ss_user = self, ss_workdir = [], ss_last = activity, ss_cmd = None, ss_pty = None, ss_replaced = [], ss_dirty = False\<rparr> m)))"

definition load_persisted_sessions ::
  "manager_config \<Rightarrow> (string \<Rightarrow> bool) \<Rightarrow> (persisted_session \<Rightarrow> string) \<Rightarrow> (files \<Rightarrow> int) \<Rightarrow> nat \<Rightarrow> instant \<Rightarrow> string \<Rightarrow> string option \<Rightarrow>
   fpath list \<Rightarrow> manager \<Rightarrow> manager" where
  "load_persisted_sessions cfg exists_tmux resolve stored disk now self output globbed m =
     (if \<not> mc_tmux cfg then m
      else let m1 = foldl (\<lambda>m k. load_key cfg exists_tmux resolve disk now k m) m (rev (remdups (rev (List.map_filter key_of_path globbed))));
               m2 = (if self = [] then m1 else foldl (adopt_orphan cfg disk now self) m1 (list_tmux_sessions output))
        in enforce_storage_limit cfg stored m2)"

end
