(* ===== verification/Session_Properties.thy ===== *)
theory Session_Properties
  imports Session_Manager
begin

text \<open>
  The terminal manager: a session survives crashes with the state that was last logged, a
  user reaches only sessions of their own, and the number of sessions is bounded.
\<close>

section \<open>Crashes\<close>

text \<open>A history of attempts to store one session, each cut after some file operations.\<close>

definition store_all :: "(nat \<times> instant \<times> persisted_session) list \<Rightarrow> files \<Rightarrow> files" where
  "store_all ws fs = foldl (\<lambda>fs (n, t, d). fst (write_persisted_session n t d fs)) fs ws"

definition last_logged :: "(nat \<times> instant \<times> persisted_session) list \<Rightarrow> persisted_session option" where
  "last_logged ws = (case filter (\<lambda>(n, _, _). 0 < n) (rev ws) of [] \<Rightarrow> None | (_, t, d) # _ \<Rightarrow> Some (stamped t d))"

definition stores_of :: "string \<Rightarrow> string \<Rightarrow> nat \<times> instant \<times> persisted_session \<Rightarrow> bool" where
  "stores_of u sid w \<longleftrightarrow> (case w of (_, t, d) \<Rightarrow> pe_username d = u \<and> pe_id d = sid \<and> is_zero (pe_updated d) \<and> \<not> is_zero t)"

lemma stamped_recency: "is_zero (pe_updated d) \<Longrightarrow> \<not> is_zero t \<Longrightarrow> persisted_session_recency (stamped t d) = t"
  by (simp add: stamped_def persisted_session_recency_def Let_def)

lemma stamped_same [simp]: "pe_id (stamped t d) = pe_id d" "pe_username (stamped t d) = pe_username d"
  by (simp_all add: stamped_def Let_def)

lemma store_all_logged:
  assumes "u \<noteq> []" and "sid \<noteq> []" and "\<forall>w \<in> set ws. stores_of u sid w" and "sorted (t0 # map (fst \<circ> snd) ws)"
    and "not_newer t0 (persisted_key u sid) fs"
  shows "logged (persisted_key u sid) (store_all ws fs) =
     (case last_logged ws of None \<Rightarrow> logged (persisted_key u sid) fs | Some d \<Rightarrow> Some d)"
  using assms(3-)
proof (induction ws arbitrary: fs t0)
  case Nil
  then show ?case by (simp add: store_all_def last_logged_def)
next
  case (Cons w ws)
  obtain n t d where w: "w = (n, t, d)" by (metis prod_cases3)
  let ?k = "persisted_key u sid" and ?fs = "fst (write_persisted_session n t d fs)"
  have d: "pe_username d = u" "pe_id d = sid" "is_zero (pe_updated d)" "\<not> is_zero t" "t0 \<le> t"
    using Cons.prems w by (auto simp: stores_of_def)
  have rec: "persisted_session_recency (stamped t d) = t" by (rule stamped_recency) (fact d)+
  have fs: "?fs = foldl disk_apply fs (take n (write_ops ?k (stamped t d) fs))"
    using d assms(1,2) by (simp add: write_persisted_session_def Let_def)
  have "not_newer t ?k ?fs"
    using write_cut_not_newer [OF Cons.prems(3), of "stamped t d" n] rec d(4,5) unfolding fs by simp
  then have rest: "logged ?k (store_all ws ?fs) = (case last_logged ws of None \<Rightarrow> logged ?k ?fs | Some d \<Rightarrow> Some d)"
    using Cons.IH [of t ?fs] Cons.prems(1,2) w by simp
  have "logged ?k ?fs = (if 0 < n then Some (stamped t d) else logged ?k fs)"
    using write_cut_logged [OF Cons.prems(3), of "stamped t d" n] rec d(4,5) unfolding fs by simp
  with rest w show ?case
    by (auto simp: store_all_def last_logged_def split: list.splits)
qed

lemma not_newer_empty: "not_newer t k (\<lambda>_. None)"
  by (simp add: not_newer_def)

lemma last_logged_in: "last_logged ws = Some d \<Longrightarrow> \<exists>n t d'. (n, t, d') \<in> set ws \<and> d = stamped t d'"
proof -
  assume "last_logged ws = Some d"
  then obtain n t d' xs where "filter (\<lambda>(n, _, _). 0 < n) (rev ws) = (n, t, d') # xs" and "d = stamped t d'"
    by (auto simp: last_logged_def split: list.splits)
  then have "(n, t, d') \<in> set (filter (\<lambda>(n, _, _). 0 < n) (rev ws))" by simp
  with \<open>d = stamped t d'\<close> show ?thesis by auto
qed

text \<open>What the restore makes of a selected record that is complete, recent and alive.\<close>

lemma load_key_restores:
  assumes "logged k (mg_files m) = Some d" and "pe_id d \<noteq> []" and "pe_username d \<noteq> []" and "\<not> is_zero (pe_created d)"
    and "\<not> is_zero (pe_last d)" and "time_sub now (pe_last d) \<le> mc_idle_timeout cfg" and "exists_tmux (pe_id d)"
    and "session_of (pe_id d) m = None" and "4 \<le> disk"
  shows "\<exists>s. session_of (pe_id d) (load_key cfg exists_tmux resolve disk now k m) = Some s \<and> ss_user s = pe_username d \<and>
     si_id (ss_info s) = pe_id d \<and> si_name (ss_info s) = pe_name d \<and> si_task (ss_info s) = pe_task d \<and>
     si_project (ss_info s) = pe_project d \<and> si_created (ss_info s) = pe_created d \<and> ss_last s = pe_last d"
proof -
  obtain fs sel where sel: "select_persisted k (mg_files m) = (fs, Some sel)" "selected sel = d"
    using assms(1) by (cases "select_persisted k (mg_files m)") (auto simp: logged_def)
  have ok: "snd (write_persisted_session disk now d fs)"
    using assms(2,3,9) by (auto simp: write_persisted_session_def write_ops_def Let_def split: option.split)
  have find: "session_of sid (put_session sid s m') = Some s" for sid s m'
    by (simp add: session_of_def put_session_def AList.update_conv)
  have idle: "\<not> mc_idle_timeout cfg < time_sub now (pe_last d)" using assms(6) by simp
  show ?thesis
  proof (cases sel)
    case (From_Main d' stale)
    with sel show ?thesis using assms idle
      by (cases stale) (simp_all add: load_key_def find Let_def)
  next
    case (From_Wal d')
    with sel ok show ?thesis using assms idle
      by (cases "write_persisted_session disk now d fs") (simp add: load_key_def find Let_def)
  qed
qed

text \<open>
  C14. A session survives crashes: after any history of attempts to store it, each cut by a
  crash or an I/O error after any number of file operations, the restore brings back the
  session as the last attempt that reached the disk at all had it, when its tmux session is
  alive and not idle.
\<close>

theorem session_survives_crashes:
  assumes "u \<noteq> []" and "sid \<noteq> []" and "\<forall>w \<in> set ws. stores_of u sid w" and "sorted (map (fst \<circ> snd) ws)"
    and "last_logged ws = Some d" and "\<not> is_zero (pe_created d)" and "\<not> is_zero (pe_last d)"
    and "mg_files m = store_all ws (\<lambda>_. None)" and "session_of sid m = None"
    and "time_sub now (pe_last d) \<le> mc_idle_timeout cfg" and "exists_tmux sid" and "4 \<le> disk"
  shows "\<exists>s. session_of sid (load_key cfg exists_tmux resolve disk now (persisted_key u sid) m) = Some s \<and> ss_user s = u \<and>
     si_id (ss_info s) = sid \<and> si_name (ss_info s) = pe_name d \<and> si_task (ss_info s) = pe_task d \<and>
     si_project (ss_info s) = pe_project d \<and> si_created (ss_info s) = pe_created d \<and> ss_last s = pe_last d"
proof -
  obtain n t d' where "(n, t, d') \<in> set ws" and d: "d = stamped t d'" using last_logged_in [OF assms(5)] by blast
  with assms(3) have who: "pe_username d = u" "pe_id d = sid" by (auto simp: stores_of_def)
  from assms(5) obtain w ws' where ws: "ws = w # ws'" by (cases ws) (auto simp: last_logged_def)
  have "logged (persisted_key u sid) (mg_files m) = Some d"
    unfolding assms(8)
    by (subst store_all_logged [OF assms(1-3), of "fst (snd w)"]) (use assms(4,5) ws not_newer_empty in simp_all)
  from load_key_restores [OF this, where cfg = cfg and now = now and exists_tmux = exists_tmux and disk = disk and resolve = resolve] show ?thesis
    using assms who by simp
qed

definition demo_stored :: "nat \<Rightarrow> string \<Rightarrow> persisted_session" where
  "demo_stored k task = \<lparr>pe_id = ''lt-1'', pe_name = ''Term 1'', pe_username = ''u'', pe_task = task, pe_project = [],
     pe_backend = ''tmux'', pe_pid = 0, pe_workdir = [], pe_created = 5, pe_last = 5 + int k, pe_updated = zero_time\<rparr>"

definition demo_writes :: "(nat \<times> instant \<times> persisted_session) list" where
  "demo_writes = [(3, 10, demo_stored 1 ''a''), (1, 11, demo_stored 2 ''b''), (0, 12, demo_stored 3 ''c'')]"

definition demo_terminals :: manager_config where
  "demo_terminals = \<lparr>mc_max_sessions = 1, mc_idle_timeout = 100, mc_persist_max = 1000, mc_tmux = True\<rparr>"

theorem session_survives_crashes_witness:
  "\<exists>s. session_of ''lt-1'' (load_key demo_terminals (\<lambda>_. True) pe_workdir 4 20 (persisted_key ''u'' ''lt-1'')
     \<lparr>mg_sessions = [], mg_files = store_all demo_writes (\<lambda>_. None), mg_typed = [], mg_ended = []\<rparr>) = Some s \<and> ss_user s = ''u'' \<and>
     si_id (ss_info s) = ''lt-1'' \<and> si_name (ss_info s) = pe_name (stamped 11 (demo_stored 2 ''b'')) \<and>
     si_task (ss_info s) = pe_task (stamped 11 (demo_stored 2 ''b'')) \<and> si_project (ss_info s) = pe_project (stamped 11 (demo_stored 2 ''b'')) \<and>
     si_created (ss_info s) = pe_created (stamped 11 (demo_stored 2 ''b'')) \<and> ss_last s = pe_last (stamped 11 (demo_stored 2 ''b''))"
  by (rule session_survives_crashes [where ws = demo_writes])
    (simp_all add: demo_writes_def demo_stored_def demo_terminals_def stores_of_def last_logged_def stamped_def
      is_zero_def zero_time_def second_def session_of_def time_sub_def int64_max_def)

section \<open>Ownership\<close>

lemma session_of_put [simp]: "session_of sid' (put_session sid s m) = (if sid' = sid then Some s else session_of sid' m)"
  by (simp add: session_of_def put_session_def AList.update_conv)

lemma put_session_rest [simp]:
  "mg_typed (put_session sid s m) = mg_typed m" "mg_ended (put_session sid s m) = mg_ended m" "mg_files (put_session sid s m) = mg_files m"
  by (simp_all add: put_session_def)

lemma session_of_files [simp]: "session_of sid (m\<lparr>mg_files := fs\<rparr>) = session_of sid m"
  by (simp add: session_of_def)

definition owned :: "string \<Rightarrow> string \<Rightarrow> manager \<Rightarrow> bool" where
  "owned u sid m \<longleftrightarrow> (\<exists>s. session_of sid m = Some s \<and> ss_user s = u)"

text \<open>Nobody gets a session that was not theirs, and the table stays a map.\<close>

definition shrinks :: "manager \<Rightarrow> manager \<Rightarrow> bool" where
  "shrinks m m' \<longleftrightarrow> (\<forall>v sid. owned v sid m' \<longrightarrow> owned v sid m) \<and>
     (distinct (map fst (mg_sessions m)) \<longrightarrow> distinct (map fst (mg_sessions m')))"

text \<open>What an operation for the user \<open>u\<close> may do.\<close>

definition isolates :: "string \<Rightarrow> manager \<Rightarrow> manager \<Rightarrow> bool" where
  "isolates u m m' \<longleftrightarrow>
     (\<forall>sid s. session_of sid m = Some s \<longrightarrow> ss_user s \<noteq> u \<longrightarrow> session_of sid m' = Some s) \<and>
     shrinks m m' \<and>
     (\<exists>ts. mg_typed m' = mg_typed m @ ts \<and> (\<forall>t \<in> set ts. owned u (fst t) m)) \<and>
     (\<exists>es. mg_ended m' = mg_ended m @ es \<and> (\<forall>e \<in> set es. fst e = u))"

lemma shrinks_refl [simp]: "shrinks m m"
  by (simp add: shrinks_def)

lemma shrinks_trans: "shrinks m m' \<Longrightarrow> shrinks m' m'' \<Longrightarrow> shrinks m m''"
  by (auto simp: shrinks_def)

lemma shrinks_put: "owned (ss_user s) sid m \<Longrightarrow> shrinks m (put_session sid s m)"
  by (auto simp: shrinks_def owned_def put_session_def AList.distinct_update session_of_def AList.update_conv split: if_splits)

lemma shrinks_files [simp]: "shrinks m (m\<lparr>mg_files := fs\<rparr>)"
  by (simp add: shrinks_def owned_def)

lemma shrinks_kill: "shrinks m (fst (kill_session sid m))"
  by (auto simp: shrinks_def kill_session_def owned_def session_of_def AList.delete_conv' AList.distinct_delete
    split: if_splits option.split)

lemma isolates_refl [simp]: "isolates u m m"
  by (simp add: isolates_def)

lemma isolates_trans:
  assumes "isolates u m m'" and "isolates u m' m''"
  shows "isolates u m m''"
proof -
  obtain ts es where 1: "mg_typed m' = mg_typed m @ ts" "\<forall>t \<in> set ts. owned u (fst t) m"
      "mg_ended m' = mg_ended m @ es" "\<forall>e \<in> set es. fst e = u"
    using assms(1) by (auto simp: isolates_def)
  obtain ts' es' where 2: "mg_typed m'' = mg_typed m' @ ts'" "\<forall>t \<in> set ts'. owned u (fst t) m'"
      "mg_ended m'' = mg_ended m' @ es'" "\<forall>e \<in> set es'. fst e = u"
    using assms(2) by (auto simp: isolates_def)
  have "mg_typed m'' = mg_typed m @ (ts @ ts') \<and> (\<forall>t \<in> set (ts @ ts'). owned u (fst t) m)"
    using 1 2 assms(1) by (auto simp: isolates_def shrinks_def)
  moreover have "mg_ended m'' = mg_ended m @ (es @ es') \<and> (\<forall>e \<in> set (es @ es'). fst e = u)" using 1 2 by auto
  moreover have "shrinks m m''" using assms shrinks_trans by (auto simp: isolates_def)
  ultimately show ?thesis using assms by (auto simp: isolates_def)
qed

lemma isolates_put: "owned u sid m \<Longrightarrow> ss_user s = u \<Longrightarrow> isolates u m (put_session sid s m)"
  by (auto simp: isolates_def intro: shrinks_put) (auto simp: owned_def)

lemma isolates_files: "isolates u m (m\<lparr>mg_files := fs\<rparr>)"
  by (simp add: isolates_def)

lemma isolates_type: "owned u sid m \<Longrightarrow> isolates u m (type_keys sid ts m)"
  by (auto simp: isolates_def shrinks_def type_keys_def owned_def session_of_def)

lemma isolates_kill: "owned u sid m \<Longrightarrow> isolates u m (fst (kill_session sid m))"
  using shrinks_kill [of m sid]
  by (auto simp: isolates_def kill_session_def owned_def session_of_def AList.delete_conv' split: if_splits)

lemma owned_put [simp]: "owned u sid' (put_session sid s m) \<longleftrightarrow> (if sid' = sid then ss_user s = u else owned u sid' m)"
  by (auto simp: owned_def)

lemma owned_type [simp]: "owned u sid' (type_keys sid ts m) \<longleftrightarrow> owned u sid' m"
  by (simp add: owned_def type_keys_def session_of_def)

lemma owned_files [simp]: "owned u sid' (m\<lparr>mg_files := fs\<rparr>) \<longleftrightarrow> owned u sid' m"
  by (simp add: owned_def)

lemma isolates_touch: "isolates u m (touch_session now u sid m)"
  by (auto simp: touch_session_def split: option.split intro!: isolates_put simp: owned_def)

lemma persist_cases:
  assumes "session_of sid m = Some s"
  shows "\<exists>fs s'. ss_user s' = ss_user s \<and> (fst (persist_session cfg disk now sid m) = m\<lparr>mg_files := fs\<rparr> \<or>
     fst (persist_session cfg disk now sid m) = put_session sid s' (m\<lparr>mg_files := fs\<rparr>))"
proof -
  obtain fs ok where "write_persisted_session disk now (persisted_of cfg s) (mg_files m) = (fs, ok)" by fastforce
  with assms have "fst (persist_session cfg disk now sid m) = m\<lparr>mg_files := fs\<rparr> \<or>
      (\<exists>b. fst (persist_session cfg disk now sid m) = put_session sid (s\<lparr>ss_dirty := b\<rparr>) (m\<lparr>mg_files := fs\<rparr>))"
    by (cases ok) (auto simp: persist_session_def Let_def)
  then show ?thesis
  proof (elim disjE exE)
    fix b
    assume "fst (persist_session cfg disk now sid m) = put_session sid (s\<lparr>ss_dirty := b\<rparr>) (m\<lparr>mg_files := fs\<rparr>)"
    then show ?thesis by (intro exI [of _ fs] exI [of _ "s\<lparr>ss_dirty := b\<rparr>"]) simp
  qed (intro exI [of _ fs] exI [of _ s], simp)
qed

lemma isolates_persist:
  assumes "owned u sid m"
  shows "isolates u m (fst (persist_session cfg disk now sid m))" and "owned u sid (fst (persist_session cfg disk now sid m))"
proof -
  obtain s where s: "session_of sid m = Some s" "ss_user s = u" using assms by (auto simp: owned_def)
  from persist_cases [OF s(1), of cfg disk now] obtain fs s' where
    c: "ss_user s' = u" "fst (persist_session cfg disk now sid m) = m\<lparr>mg_files := fs\<rparr> \<or>
      fst (persist_session cfg disk now sid m) = put_session sid s' (m\<lparr>mg_files := fs\<rparr>)" using s(2) by auto
  have "isolates u m (put_session sid s' (m\<lparr>mg_files := fs\<rparr>))"
    by (rule isolates_trans [OF isolates_files isolates_put]) (use assms c in simp_all)
  with c isolates_files show "isolates u m (fst (persist_session cfg disk now sid m))" by auto
  from c assms show "owned u sid (fst (persist_session cfg disk now sid m))" by auto
qed

lemma session_for_user_owned: "session_for_user u sid m = Inr s \<Longrightarrow> session_of sid m = Some s \<and> ss_user s = u \<and> owned u sid m"
  by (auto simp: session_for_user_def owned_def split: option.splits if_splits)

lemma isolates_prune: "owned u sid m \<Longrightarrow> isolates u m (fst (prune_missing cfg exists_tmux sid m))"
  by (simp add: prune_missing_def isolates_kill)

lemma prune_False: "prune_missing cfg exists_tmux sid m = (m', False) \<Longrightarrow> m' = m"
  by (auto simp: prune_missing_def split: if_splits)

text \<open>The operations a user has on a session.\<close>

datatype term_op =
  Touch | Send string bool | Rename string | Bind string string | Kill | Attach "(int \<times> nat) option" | Consume "nat option"

record world =
  wo_exists :: "string \<Rightarrow> bool"
  wo_accepts :: "nat \<Rightarrow> bool"
  wo_disk :: nat
  wo_now :: instant

fun user_step :: "manager_config \<Rightarrow> string \<Rightarrow> manager \<Rightarrow> world \<times> string \<times> term_op \<Rightarrow> manager" where
  "user_step cfg u m (w, sid, Touch) = touch_session (wo_now w) u sid m"
| "user_step cfg u m (w, sid, Send txt enter) = fst (send_keys cfg (wo_exists w) (wo_accepts w) (wo_now w) u sid txt enter m)"
| "user_step cfg u m (w, sid, Rename name) = fst (rename_session cfg (wo_disk w) (wo_now w) u sid name m)"
| "user_step cfg u m (w, sid, Bind task project) = fst (bind_session_task cfg (wo_disk w) (wo_now w) u sid task project m)"
| "user_step cfg u m (w, sid, Kill) = fst (kill_session_for_user u sid m)"
| "user_step cfg u m (w, sid, Attach start) = fst (attach_session cfg (wo_exists w) (wo_disk w) (wo_now w) start u sid m)"
| "user_step cfg u m (w, sid, Consume pty) = fst (consume_attach_replacement u sid pty m)"

lemma isolates_send: "isolates u m (fst (send_keys cfg ex acc now u sid txt enter m))"
proof (cases "session_for_user u sid m")
  case (Inr s)
  then have s: "owned u sid m" by (blast dest: session_for_user_owned)
  obtain m' b where p: "prune_missing cfg ex sid m = (m', b)" by fastforce
  have "isolates u m m'" using isolates_prune [OF s, of cfg ex] p by simp
  have typed: "isolates u m (type_keys sid ts m)" for ts by (rule isolates_type [OF s])
  have two: "isolates u m (touch_session now u sid (type_keys sid ts' (type_keys sid ts m)))" for ts ts'
    by (rule isolates_trans [OF typed isolates_trans [OF isolates_type isolates_touch]]) (simp add: s)
  have one: "isolates u m (touch_session now u sid (type_keys sid ts m))" for ts
    by (rule isolates_trans [OF typed isolates_touch])
  show ?thesis
  proof (cases b)
    case True
    with p Inr \<open>isolates u m m'\<close> show ?thesis by (simp add: send_keys_def)
  next
    case False
    with p have "m' = m" by (auto dest: prune_False)
    with False p Inr typed one two show ?thesis by (simp add: send_keys_def Let_def)
  qed
qed (simp add: send_keys_def)

lemma isolates_put_persist:
  assumes "owned u sid m" and "ss_user s = u"
  shows "isolates u m (fst (persist_session cfg disk now sid (put_session sid s m)))"
  by (rule isolates_trans [OF isolates_put [OF assms] isolates_persist(1)]) (simp add: assms(2))

lemma isolates_rename: "isolates u m (fst (rename_session cfg disk now u sid name m))"
proof (cases "normalize_session_name name")
  case (Inr normalized)
  show ?thesis
  proof (cases "session_for_user u sid m")
    case s: (Inr s)
    then have o: "owned u sid m" "ss_user s = u" by (auto dest: session_for_user_owned)
    let ?m = "put_session sid (s\<lparr>ss_info := (ss_info s)\<lparr>si_name := normalized\<rparr>, ss_dirty := True\<rparr>) m"
    obtain m' r where p: "persist_session cfg disk now sid ?m = (m', r)" by fastforce
    have m': "isolates u m m'" using isolates_put_persist [OF o(1), of "s\<lparr>ss_info := (ss_info s)\<lparr>si_name := normalized\<rparr>, ss_dirty := True\<rparr>" cfg disk now] o(2) p by simp
    have own: "owned u sid m'" using isolates_persist(2) [of u sid ?m cfg disk now] o(2) p by simp
    have "isolates u m (put_session sid s' m')" if "ss_user s' = u" for s'
      by (rule isolates_trans [OF m' isolates_put [OF own that]])
    with m' Inr s p show ?thesis by (auto simp: rename_session_def split: sum.split option.split)
  qed (simp add: rename_session_def Inr)
qed (simp add: rename_session_def)

lemma isolates_attach: "isolates u m (fst (attach_session cfg ex disk now start u sid m))"
proof (cases "session_for_user u sid m")
  case (Inr s)
  then have o: "owned u sid m" "ss_user s = u" by (auto dest: session_for_user_owned)
  obtain m' b where p: "prune_missing cfg ex sid m = (m', b)" by fastforce
  have pruned: "isolates u m m'" using isolates_prune [OF o(1), of cfg ex] p by simp
  show ?thesis
  proof (cases b)
    case True
    with p Inr pruned show ?thesis by (simp add: attach_session_def)
  next
    case False
    with p have m': "m' = m" by (auto dest: prune_False)
    define s1 where "s1 = (case ss_pty s of None \<Rightarrow> s
      | Some p \<Rightarrow> s\<lparr>ss_replaced := (if p \<in> set (ss_replaced s) then ss_replaced s else p # ss_replaced s), ss_pty := None\<rparr>)"
    define s2 where "s2 = s1\<lparr>ss_cmd := None\<rparr>"
    have u1: "ss_user s1 = u" by (simp add: s1_def o(2) split: option.split)
    then have u: "ss_user s2 = u" by (simp add: s2_def)
    note 1 = isolates_put [OF o(1) u]
    have 2: "isolates u m (fst (persist_session cfg disk now sid (put_session sid s3 (put_session sid s2 m))))" if "ss_user s3 = u" for s3
      by (rule isolates_trans [OF 1 isolates_put_persist]) (simp_all add: u that)
    show ?thesis
    proof (cases start)
      case None
      with 1 False p m' Inr show ?thesis by (simp add: attach_session_def Let_def s1_def [symmetric] s2_def)
    next
      case (Some pp)
      with 2 [of "s1\<lparr>ss_cmd := Some (fst pp), ss_pty := Some (snd pp), ss_last := now, ss_dirty := True\<rparr>"] u1 False p m' Inr
      show ?thesis by (cases pp) (simp add: attach_session_def Let_def s1_def [symmetric] s2_def)
    qed
  qed
qed (simp add: attach_session_def)

lemma isolates_user_step: "isolates u m (user_step cfg u m (w, sid, op'))"
proof (cases op')
  case (Bind task project)
  then show ?thesis
    by (auto simp: bind_session_task_def split: sum.split dest!: session_for_user_owned intro!: isolates_put_persist)
next
  case (Consume pty)
  then show ?thesis
    by (auto simp: consume_attach_replacement_def owned_def split: option.split intro!: isolates_put)
next
  case Kill
  then show ?thesis
    by (auto simp: kill_session_for_user_def split: sum.split dest!: session_for_user_owned intro: isolates_kill)
qed (simp_all add: isolates_touch isolates_send isolates_rename isolates_attach)

interpretation users: stepper "user_step cfg u" "isolates u m0" for cfg u m0
  by unfold_locales (metis isolates_trans isolates_user_step prod_cases3)



section \<open>The limit\<close>

definition sessions_for :: "string \<Rightarrow> manager \<Rightarrow> int" where
  "sessions_for u m = int (length (filter (\<lambda>(_, s). ss_user s = u) (mg_sessions m)))"

lemma count_map_of:
  "distinct (map fst al) \<Longrightarrow> length (filter (\<lambda>(_, v). P v) al) = card {k. \<exists>v. map_of al k = Some v \<and> P v}"
proof -
  assume d: "distinct (map fst al)"
  have "set (map fst (filter (\<lambda>(_, v). P v) al)) = {k. \<exists>v. map_of al k = Some v \<and> P v}"
    using d by (force simp: map_of_eq_Some_iff image_iff)
  moreover have "distinct (map fst (filter (\<lambda>(_, v). P v) al))" using d by (rule distinct_map_filter)
  ultimately show ?thesis by (metis distinct_card length_map)
qed

lemma sessions_for_card: "distinct (map fst (mg_sessions m)) \<Longrightarrow> sessions_for u m = int (card {sid. owned u sid m})"
  by (simp add: sessions_for_def owned_def session_of_def count_map_of)

lemma finite_owned: "finite {sid. owned u sid m}"
  by (rule finite_subset [of _ "fst ` set (mg_sessions m)"]) (auto simp: owned_def session_of_def dest: map_of_SomeD intro: rev_image_eqI)

definition table_ok :: "manager_config \<Rightarrow> manager \<Rightarrow> bool" where
  "table_ok cfg m \<longleftrightarrow> distinct (map fst (mg_sessions m)) \<and>
     (0 < mc_max_sessions cfg \<longrightarrow> (\<forall>u. sessions_for u m \<le> mc_max_sessions cfg))"

lemma shrinks_ok:
  assumes "shrinks m m'" and "table_ok cfg m"
  shows "table_ok cfg m'"
proof -
  have d: "distinct (map fst (mg_sessions m))" "distinct (map fst (mg_sessions m'))"
    using assms by (auto simp: shrinks_def table_ok_def)
  have "sessions_for u m' \<le> sessions_for u m" for u
    unfolding sessions_for_card [OF d(1)] sessions_for_card [OF d(2)]
    using card_mono [OF finite_owned, of "{sid. owned u sid m'}" u m] assms(1) by (auto simp: shrinks_def)
  with d assms(2) show ?thesis unfolding table_ok_def by (meson order_trans)
qed

lemma shrinks_persist: "shrinks m (fst (persist_session cfg disk now sid m))"
proof (cases "session_of sid m")
  case (Some s)
  then have "owned (ss_user s) sid m" by (simp add: owned_def)
  from isolates_persist(1) [OF this] show ?thesis by (simp add: isolates_def)
qed (simp add: persist_session_def)

lemma shrinks_enforce: "shrinks m (enforce_storage_limit cfg stored m)"
proof (induction cfg stored m rule: enforce_storage_limit.induct)
  case (1 cfg stored m)
  show ?case
    by (subst enforce_storage_limit.simps) (use 1 in \<open>auto split: option.split intro: shrinks_trans [OF shrinks_kill]\<close>)
qed

lemma shrinks_persist_each: "shrinks m (persist_each cfg disk now sids m)"
proof (induction cfg disk now sids m rule: persist_each.induct)
  case (2 cfg disk now sid sids m)
  obtain m' r where p: "persist_session cfg disk now sid m = (m', r)" by fastforce
  have m': "shrinks m m'" using shrinks_persist [of m cfg disk now sid] p by simp
  have put: "shrinks m' (put_session sid (s\<lparr>ss_dirty := True\<rparr>) m')" if "session_of sid m' = Some s" for s
    by (rule shrinks_put) (simp add: owned_def that)
  show ?case
  proof (cases r)
    case (Inl e)
    let ?n = "case session_of sid m' of None \<Rightarrow> m' | Some s \<Rightarrow> put_session sid (s\<lparr>ss_dirty := True\<rparr>) m'"
    have "shrinks m' ?n" using put by (simp split: option.split)
    from shrinks_trans [OF shrinks_trans [OF m' this]] 2(1) [OF p [symmetric] Inl] p Inl show ?thesis by simp
  qed (use 2(2) p m' in \<open>auto intro: shrinks_trans\<close>)
qed simp

lemma shrinks_kill_all: "shrinks m (foldl (\<lambda>m sid. fst (kill_session sid m)) m sids)"
  by (induction sids arbitrary: m) (auto intro: shrinks_trans [OF shrinks_kill])

lemma shrinks_cleanup: "shrinks m (cleanup_tick cfg stored disk now m)"
proof -
  have "shrinks m (flush_dirty_sessions cfg stored disk now m)"
    by (auto simp: flush_dirty_sessions_def Let_def intro: shrinks_trans [OF shrinks_persist_each shrinks_enforce])
  then show ?thesis by (auto simp: cleanup_tick_def Let_def intro: shrinks_trans [OF _ shrinks_kill_all])
qed

lemma shrinks_list: "shrinks m (fst (list_live cfg ex obs now infos m))"
proof (induction cfg ex obs now infos m rule: list_live.induct)
  case (2 cfg ex obs now i infos m)
  obtain m' b where p: "prune_missing cfg ex (si_id i) m = (m', b)" by fastforce
  then have "shrinks m m'" by (auto simp: prune_missing_def shrinks_kill split: if_splits dest: arg_cong [of _ _ fst])
  with 2 p show ?case by (cases b) (auto split: prod.splits intro: shrinks_trans)
qed simp

lemma create_cases:
  "(\<exists>s. ss_user s = username \<and> shrinks (put_session (generate_id bytes) s m)
       (fst (create_terminal_session cfg stored disk now bytes admit cgroup spawn workdir username opts m)) \<and>
     (0 < mc_max_sessions cfg \<longrightarrow> sessions_for username m < mc_max_sessions cfg)) \<or>
   fst (create_terminal_session cfg stored disk now bytes admit cgroup spawn workdir username opts m) = m"
proof (cases "admit = None \<and> cgroup = None \<and> (0 < mc_max_sessions cfg \<longrightarrow> sessions_for username m < mc_max_sessions cfg)")
  case True
  then have free: "\<not> (0 < mc_max_sessions cfg \<and> mc_max_sessions cfg \<le> int (length (filter (\<lambda>(_, s). ss_user s = username) (mg_sessions m))))"
    by (auto simp: sessions_for_def)
  show ?thesis
  proof (cases "normalize_session_name (oc_name opts)")
    case (Inl e)
    with True free show ?thesis by (simp add: create_terminal_session_def)
  next
    case (Inr given)
    let ?sid = "generate_id bytes"
    define s where "s = fresh_session ?sid (if given = [] then next_default_name username m else given) username opts workdir now"
    let ?m1 = "put_session ?sid s m"
    obtain m2 r where p: "persist_session cfg disk now ?sid ?m1 = (m2, r)" by fastforce
    have m2: "shrinks ?m1 m2" using shrinks_persist [of ?m1 cfg disk now ?sid] p by simp
    have del: "shrinks ?m1 (?m1\<lparr>mg_sessions := AList.delete ?sid (mg_sessions ?m1)\<rparr>)"
      by (auto simp: shrinks_def owned_def session_of_def AList.delete_conv' AList.distinct_delete split: if_splits)
    have "shrinks ?m1 (fst (create_terminal_session cfg stored disk now bytes admit cgroup spawn workdir username opts m))"
      using True Inr p del shrinks_trans [OF m2 shrinks_kill] shrinks_trans [OF m2 shrinks_enforce]
      unfolding create_terminal_session_def
      by (cases "if mc_tmux cfg then spawn else None"; cases r) (simp_all add: if_not_P [OF free] Let_def s_def [symmetric] split del: if_split)
    moreover have "ss_user s = username" by (simp add: s_def fresh_session_def)
    ultimately show ?thesis using True by blast
  qed
next
  case False
  then show ?thesis by (auto simp: create_terminal_session_def sessions_for_def not_less split: option.split)
qed

lemma put_new_ok:
  assumes "table_ok cfg m" and "0 < mc_max_sessions cfg \<longrightarrow> sessions_for (ss_user s) m < mc_max_sessions cfg"
  shows "table_ok cfg (put_session sid s m)"
proof -
  have d: "distinct (map fst (mg_sessions m))" "distinct (map fst (mg_sessions (put_session sid s m)))"
    using assms(1) by (simp_all add: table_ok_def put_session_def AList.distinct_update)
  have "sessions_for u (put_session sid s m) \<le> sessions_for u m + (if u = ss_user s then 1 else 0)" for u
  proof -
    have "card {sid'. owned u sid' (put_session sid s m)} \<le> card ({sid'. owned u sid' m} \<union> (if u = ss_user s then {sid} else {}))"
      by (rule card_mono) (auto simp: finite_owned split: if_splits)
    also have "\<dots> \<le> card {sid'. owned u sid' m} + (if u = ss_user s then 1 else 0)"
      by (rule order_trans [OF card_Un_le]) simp
    finally show ?thesis unfolding sessions_for_card [OF d(1)] sessions_for_card [OF d(2)]
      by (simp del: owned_put split: if_splits)
  qed
  note grows = this
  have "sessions_for u (put_session sid s m) \<le> mc_max_sessions cfg" if "0 < mc_max_sessions cfg" for u
  proof -
    have "sessions_for u m \<le> mc_max_sessions cfg" using assms(1) that by (simp add: table_ok_def)
    with grows [of u] assms(2) that show ?thesis by (auto split: if_splits)
  qed
  with d show ?thesis by (simp add: table_ok_def)
qed

text \<open>Everything the server calls on a running manager, and its two tickers.\<close>

datatype manager_call =
  Create instant nat string "term_error option" "term_error option" "string option" string string create_options
| Use string world string term_op
| List_Of string "string \<Rightarrow> bool" "(string, observations) result" instant
| Flush_Tick nat instant
| Cleanup_Tick nat instant

fun manager_step :: "manager_config \<Rightarrow> (files \<Rightarrow> int) \<Rightarrow> manager \<Rightarrow> manager_call \<Rightarrow> manager" where
  "manager_step cfg stored m (Create now disk bytes admit cgroup spawn workdir username opts) =
     fst (create_terminal_session cfg stored disk now bytes admit cgroup spawn workdir username opts m)"
| "manager_step cfg stored m (Use u w sid op') = user_step cfg u m (w, sid, op')"
| "manager_step cfg stored m (List_Of u ex ob now) = fst (list_sessions cfg ex ob now u m)"
| "manager_step cfg stored m (Flush_Tick disk now) = flush_dirty_sessions cfg stored disk now m"
| "manager_step cfg stored m (Cleanup_Tick disk now) = cleanup_tick cfg stored disk now m"

lemma manager_step_ok: "table_ok cfg m \<Longrightarrow> table_ok cfg (manager_step cfg stored m c)"
proof (cases c)
  case (Create now disk bytes admit cgroup spawn workdir username opts)
  assume ok: "table_ok cfg m"
  from create_cases [of username bytes m cfg stored disk now admit cgroup spawn workdir opts] ok show ?thesis
    unfolding Create manager_step.simps by (auto intro: shrinks_ok [OF _ put_new_ok])
next
  case (Use u w sid op')
  assume "table_ok cfg m"
  with isolates_user_step [of u m cfg w sid op'] show ?thesis
    by (auto simp: Use isolates_def simp del: user_step.simps intro: shrinks_ok)
next
  case (List_Of u ex ob now)
  assume "table_ok cfg m"
  moreover have "shrinks m (fst (list_sessions cfg ex ob now u m))"
    by (simp add: list_sessions_def Let_def shrinks_list split: prod.split) (metis fst_conv shrinks_list)
  ultimately show ?thesis by (auto simp: List_Of intro: shrinks_ok)
next
  case (Flush_Tick disk now)
  assume "table_ok cfg m"
  moreover have "shrinks m (flush_dirty_sessions cfg stored disk now m)"
    by (auto simp: flush_dirty_sessions_def Let_def intro: shrinks_trans [OF shrinks_persist_each shrinks_enforce])
  ultimately show ?thesis by (auto simp: Flush_Tick intro: shrinks_ok)
next
  case (Cleanup_Tick disk now)
  assume "table_ok cfg m"
  then show ?thesis unfolding Cleanup_Tick manager_step.simps by (rule shrinks_ok [OF shrinks_cleanup])
qed

interpretation terminals: stepper "manager_step cfg stored" "table_ok cfg" for cfg stored
  by unfold_locales (rule manager_step_ok)


definition demo_new_terminal :: "string \<Rightarrow> manager_call" where
  "demo_new_terminal bytes = Create 7 4 bytes None None None [] ''u'' \<lparr>oc_workdir = [], oc_name = [], oc_task = ''t'', oc_project = []\<rparr>"


end
