(* ===== verification/Telegram.thy ===== *)
theory Telegram
  imports Expiring Osc Session_Status
begin

text \<open>
  The Telegram bridge (\<open>internal/telegram\<close>): notifications go out as messages, the message
  identifiers are kept with the session they concern for a day (\<open>mapping.go\<close>,
  \<open>dispatcher.go\<close>), and a reply to one of them is typed into that session (\<open>handler.go\<close>),
  from the poller (\<open>poller.go\<close>) or the webhook (\<open>handleTelegramWebhook\<close> in \<open>server.go\<close>).

  The Bot API and the terminals are arguments: the identifier a sent message gets, the
  updates a poll returns, and whether typing into a session fails.
\<close>

section \<open>The mapping\<close>

record mapping_entry =
  me_session :: string
  me_name :: string
  me_chat :: int
  me_sent :: instant

type_synonym message_mapping = "(int, mapping_entry) store"

definition mapping_ttl :: "duration \<Rightarrow> duration" where
  "mapping_ttl ttl = (if ttl \<le> 0 then 24 * hour else ttl)"

definition store_message :: "instant \<Rightarrow> int \<Rightarrow> int \<Rightarrow> string \<Rightarrow> string \<Rightarrow> message_mapping \<Rightarrow> message_mapping" where
  "store_message now msg chat sid name m = m(msg \<mapsto> \<lparr>me_session = sid, me_name = name, me_chat = chat, me_sent = now\<rparr>)"

definition reply_deadline :: "duration \<Rightarrow> mapping_entry \<Rightarrow> instant" where
  "reply_deadline ttl e = me_sent e + ttl"

definition lookup_message :: "duration \<Rightarrow> instant \<Rightarrow> int \<Rightarrow> message_mapping \<Rightarrow> message_mapping \<times> mapping_entry option" where
  "lookup_message ttl now msg m =
     (case m msg of
        None \<Rightarrow> (m, None)
      | Some e \<Rightarrow> if ttl < now - me_sent e then (m(msg := None), None) else (m, Some e))"

definition cleanup_messages :: "duration \<Rightarrow> instant \<Rightarrow> message_mapping \<Rightarrow> message_mapping" where
  "cleanup_messages ttl now m = purge (reply_deadline ttl) now m"

section \<open>Out: notifications\<close>

definition session_name_by_id :: "string \<Rightarrow> session_info list \<Rightarrow> string" where
  "session_name_by_id sid sessions = (case List.find (\<lambda>s. si_id s = sid) sessions of None \<Rightarrow> sid | Some s \<Rightarrow> si_name s)"

definition escape_markdown :: "string \<Rightarrow> string" where
  "escape_markdown s = s"

abbreviation newline :: char where "newline \<equiv> CHR 0x0A"

definition desktop_glyph :: string where
  "desktop_glyph = map byte_char [0xF0, 0x9F, 0x96, 0xA5, 0xEF, 0xB8, 0x8F]"

definition format_notification :: "string \<Rightarrow> osc_notification \<Rightarrow> string" where
  "format_notification name n =
     (let title = trim_space (on_title n); body0 = trim_space (on_body n);
          body = (if body0 = [] \<and> title = [] then ''Terminal notification'' else body0)
      in (if name \<noteq> [] then desktop_glyph @ '' *'' @ escape_markdown name @ ''*'' @ [newline] else []) @
         (if title \<noteq> [] then ''*'' @ escape_markdown title @ ''*'' @ [newline] else []) @
         (if body \<noteq> [] then escape_markdown body else []) @
         [newline, newline] @ ''_Reply to this message to send a command back to the terminal._'')"

text \<open>\<open>send chat text\<close> is the identifier of the message sent, or \<open>None\<close> on an error.\<close>

definition dispatch :: "(int \<Rightarrow> string \<Rightarrow> int option) \<Rightarrow> int \<Rightarrow> instant \<Rightarrow> osc_notification \<Rightarrow> session_info list \<Rightarrow> message_mapping \<Rightarrow> message_mapping" where
  "dispatch send chat now n sessions m =
     (let name = session_name_by_id (on_session n) sessions in
      case send chat (format_notification name n) of
        None \<Rightarrow> m
      | Some msg \<Rightarrow> store_message now msg chat (on_session n) name m)"

section \<open>In: replies\<close>

record tg_message =
  tm_id :: int
  tm_chat :: int
  tm_text :: string
  tm_reply_to :: "int option"

record tg_update =
  tu_id :: int
  tu_message :: "tg_message option"

datatype tg_action = Inject string string | Answer int int string

definition ellipsis :: string where
  "ellipsis = map byte_char [0xE2, 0x80, 0xA6]"

definition summary_of :: "string \<Rightarrow> string" where
  "summary_of command = (if 120 < int (length command) then take (nat 120) command @ ellipsis else command)"

text \<open>\<open>typing sid command\<close> is the error of typing the command into the session, if any.\<close>

definition handle_update ::
  "(string \<Rightarrow> string \<Rightarrow> string option) \<Rightarrow> int \<Rightarrow> duration \<Rightarrow> instant \<Rightarrow> tg_update \<Rightarrow> message_mapping \<Rightarrow> message_mapping \<times> tg_action list" where
  "handle_update typing chat ttl now u m =
     (case tu_message u of
        None \<Rightarrow> (m, [])
      | Some msg \<Rightarrow>
          if tm_chat msg \<noteq> chat then (m, [])
          else if trim_space (tm_text msg) = [] then (m, [])
          else case tm_reply_to msg of
            None \<Rightarrow> (m, [Answer (tm_chat msg) (tm_id msg)
              ''Reply to a RoamBench notification to send a command to that terminal, or use: /to <session-id> <command>''])
          | Some original \<Rightarrow>
              (case lookup_message ttl now original m of
                 (m', None) \<Rightarrow> (m', [Answer (tm_chat msg) (tm_id msg)
                   ''Could not find the terminal for this message. It may have expired; wait for a new notification and reply to that.''])
               | (m', Some e) \<Rightarrow>
                   (let command = trim_space (tm_text msg) in
                    case typing (me_session e) command of
                      Some err \<Rightarrow> (m', [Inject (me_session e) command, Answer (tm_chat msg) (tm_id msg)
                        (''Failed to inject command into '' @ me_name e @ '': '' @ err)])
                    | None \<Rightarrow> (m', [Inject (me_session e) command, Answer (tm_chat msg) (tm_id msg)
                        (''Injected into '' @ me_name e @ '': '' @ summary_of command)]))))"

section \<open>Polling\<close>

fun poll_updates ::
  "(string \<Rightarrow> string \<Rightarrow> string option) \<Rightarrow> int \<Rightarrow> duration \<Rightarrow> instant \<Rightarrow> tg_update list \<Rightarrow> int \<Rightarrow> message_mapping \<Rightarrow>
   int \<times> message_mapping \<times> tg_action list" where
  "poll_updates typing chat ttl now [] offset m = (offset, m, [])"
| "poll_updates typing chat ttl now (u # us) offset m =
     (case handle_update typing chat ttl now u m of (m', acts) \<Rightarrow>
        case poll_updates typing chat ttl now us (if offset \<le> tu_id u then tu_id u + 1 else offset) m' of
          (offset', m'', acts') \<Rightarrow> (offset', m'', acts @ acts'))"

text \<open>The webhook's check of the secret; \<open>path\<close> is what follows the route's prefix.\<close>

definition webhook_authorized :: "string \<Rightarrow> string \<Rightarrow> string \<Rightarrow> bool" where
  "webhook_authorized secret0 header0 path =
     (let secret = trim_space secret0; got = trim_space header0 in
      secret = [] \<or> got = secret \<or> (got = [] \<and> path = secret))"

end
