(* ===== verification/Telegram_Properties.thy ===== *)
theory Telegram_Properties
  imports Telegram
begin

text \<open>
  Where a Telegram reply goes. The reference is the log of all notifications ever sent,
  newest first, from which nothing is dropped: a reply concerns the newest entry of the
  message it answers, for the time to live.
\<close>

datatype tg_op =
  Notify instant osc_notification "session_info list" "int \<Rightarrow> string \<Rightarrow> int option"
| Update instant tg_update "string \<Rightarrow> string \<Rightarrow> string option"
| Sweep instant

fun tg_time :: "tg_op \<Rightarrow> instant" where
  "tg_time (Notify t _ _ _) = t"
| "tg_time (Update t _ _) = t"
| "tg_time (Sweep t) = t"

fun tg_step :: "int \<Rightarrow> duration \<Rightarrow> message_mapping \<Rightarrow> tg_op \<Rightarrow> message_mapping \<times> tg_action list" where
  "tg_step chat ttl m (Notify now n sessions send) = (dispatch send chat now n sessions m, [])"
| "tg_step chat ttl m (Update now u typing) = handle_update typing chat ttl now u m"
| "tg_step chat ttl m (Sweep now) = (cleanup_messages ttl now m, [])"

fun tg_run :: "int \<Rightarrow> duration \<Rightarrow> message_mapping \<Rightarrow> tg_op list \<Rightarrow> tg_action list list" where
  "tg_run chat ttl m [] = []"
| "tg_run chat ttl m (x # xs) = (case tg_step chat ttl m x of (m', acts) \<Rightarrow> acts # tg_run chat ttl m' xs)"

text \<open>The commands a call types, with their sessions.\<close>

definition injections :: "tg_action list \<Rightarrow> (string \<times> string) list" where
  "injections acts = List.map_filter (\<lambda>a. case a of Inject sid command \<Rightarrow> Some (sid, command) | Answer _ _ _ \<Rightarrow> None) acts"

text \<open>The message an update answers and the command it carries, if it may carry one.\<close>

definition answered :: "int \<Rightarrow> tg_update \<Rightarrow> (int \<times> string) option" where
  "answered chat u =
     (case tu_message u of None \<Rightarrow> None
      | Some msg \<Rightarrow> if tm_chat msg = chat \<and> trim_space (tm_text msg) \<noteq> []
          then map_option (\<lambda>original. (original, trim_space (tm_text msg))) (tm_reply_to msg) else None)"

fun routed :: "int \<Rightarrow> duration \<Rightarrow> (int \<times> mapping_entry) list \<Rightarrow> tg_op list \<Rightarrow> (string \<times> string) list list" where
  "routed chat ttl log [] = []"
| "routed chat ttl log (Notify now n sessions send # xs) =
     [] # routed chat ttl
       (case send chat (format_notification (session_name_by_id (on_session n) sessions) n) of
          None \<Rightarrow> log
        | Some msg \<Rightarrow> (msg, \<lparr>me_session = on_session n, me_name = session_name_by_id (on_session n) sessions,
            me_chat = chat, me_sent = now\<rparr>) # log) xs"
| "routed chat ttl log (Update now u typing # xs) =
     (case answered chat u of
        None \<Rightarrow> []
      | Some (original, command) \<Rightarrow>
          (case map_of log original of
             None \<Rightarrow> []
           | Some e \<Rightarrow> if now \<le> me_sent e + ttl then [(me_session e, command)] else []))
     # routed chat ttl log xs"
| "routed chat ttl log (Sweep now # xs) = [] # routed chat ttl log xs"

lemma injections_simps [simp]:
  "injections [] = []" "injections (Inject sid c # as) = (sid, c) # injections as" "injections (Answer a b t # as) = injections as"
  by (simp_all add: injections_def)

lemma handle_update_routes:
  assumes "agree (unexpired (reply_deadline ttl)) now m (map_of log)" and "handle_update typing chat ttl now u m = (m', acts)"
  shows "agree (unexpired (reply_deadline ttl)) now m' (map_of log) \<and>
     injections acts = (case answered chat u of None \<Rightarrow> []
       | Some (original, command) \<Rightarrow> (case map_of log original of None \<Rightarrow> []
           | Some e \<Rightarrow> if now \<le> me_sent e + ttl then [(me_session e, command)] else []))"
proof (cases "answered chat u")
  case None
  with assms show ?thesis
    by (auto simp: handle_update_def answered_def split: option.splits if_splits)
next
  case (Some oc)
  then obtain msg original where msg: "tu_message u = Some msg" "tm_chat msg = chat" "trim_space (tm_text msg) \<noteq> []"
      "tm_reply_to msg = Some original" "oc = (original, trim_space (tm_text msg))"
    by (auto simp: answered_def split: option.splits if_splits)
  have view: "unexpired (reply_deadline ttl) now (m original) = unexpired (reply_deadline ttl) now (map_of log original)"
    by (rule dated.agree_view [OF assms(1)])
  show ?thesis
  proof (cases "unexpired (reply_deadline ttl) now (m original)")
    case None
    then have "agree (unexpired (reply_deadline ttl)) now (m(original := None)) (map_of log)"
      by (intro dated.agree_swap [OF assms(1)]) simp
    moreover have "m original = None \<or> (\<exists>e. m original = Some e \<and> ttl < now - me_sent e)"
      using None by (auto simp: unexpired_def reply_deadline_def split: option.splits if_splits)
    moreover have "map_of log original = None \<or> (\<exists>e. map_of log original = Some e \<and> \<not> now \<le> me_sent e + ttl)"
      using None view by (auto simp: unexpired_def reply_deadline_def split: option.splits if_splits)
    ultimately show ?thesis using assms msg Some
      by (auto simp: handle_update_def lookup_message_def)
  next
    case (Some e)
    then have e: "m original = Some e" "now \<le> me_sent e + ttl" by (auto simp: reply_deadline_def)
    from Some view have l: "map_of log original = Some e" by simp
    from e have "\<not> ttl < now - me_sent e" by simp
    with assms msg \<open>answered chat u = Some oc\<close> e l show ?thesis
      by (cases "typing (me_session e) (trim_space (tm_text msg))") (auto simp: handle_update_def lookup_message_def Let_def)
  qed
qed

lemma tg_run_routes:
  assumes "agree (unexpired (reply_deadline ttl)) t0 m (map_of log)" and "sorted (t0 # map tg_time xs)"
  shows "map injections (tg_run chat ttl m xs) = routed chat ttl log xs"
  using assms
proof (induction xs arbitrary: t0 m log)
  case (Cons x xs)
  have now: "agree (unexpired (reply_deadline ttl)) (tg_time x) m (map_of log)"
    by (rule dated.agree_later [OF Cons.prems(1)]) (use Cons.prems(2) in simp)
  have rest: "sorted (tg_time x # map tg_time xs)" using Cons.prems(2) by simp
  show ?case
  proof (cases x)
    case (Notify now n sessions send)
    let ?name = "session_name_by_id (on_session n) sessions"
    show ?thesis
    proof (cases "send chat (format_notification ?name n)")
      case None
      with Cons.IH [OF now rest] Notify show ?thesis by (simp add: dispatch_def Let_def)
    next
      case (Some msg)
      let ?e = "\<lparr>me_session = on_session n, me_name = ?name, me_chat = chat, me_sent = now\<rparr>"
      have "agree (unexpired (reply_deadline ttl)) (tg_time x) (m(msg \<mapsto> ?e)) (map_of ((msg, ?e) # log))"
        using dated.agree_put [OF now refl, of msg "Some ?e"] by simp
      from Cons.IH [OF this rest] Some Notify show ?thesis by (simp add: dispatch_def store_message_def Let_def del: fun_upd_apply)
    qed
  next
    case (Update now u typing)
    obtain m' acts where h: "handle_update typing chat ttl now u m = (m', acts)" by fastforce
    from Update \<open>agree _ (tg_time x) m _\<close> have "agree (unexpired (reply_deadline ttl)) now m (map_of log)" by simp
    from handle_update_routes [OF this h] Cons.IH [of now m' log] rest h Update show ?thesis by simp
  next
    case (Sweep now)
    with agree_purge_dated now have "agree (unexpired (reply_deadline ttl)) (tg_time x) (cleanup_messages ttl now m) (map_of log)"
      by (fastforce simp: cleanup_messages_def)
    from Cons.IH [OF this rest] Sweep show ?thesis by simp
  qed
qed simp

text \<open>
  C15. A reply reaches the session it answers and no other: for calls in the order of their
  times, a command is typed exactly when a non-blank message of the configured chat answers
  a notification not older than the time to live, and it goes to the session that
  notification came from.
\<close>

theorem replies_reach_their_session:
  assumes "sorted (map tg_time xs)"
  shows "map injections (tg_run chat ttl (\<lambda>_. None) xs) = routed chat ttl [] xs"
proof (cases xs)
  case (Cons x rest)
  have "agree (unexpired (reply_deadline ttl)) (tg_time x) (\<lambda>_. None) (map_of [])" by (simp add: agree_def)
  from tg_run_routes [OF this, of xs] assms Cons show ?thesis by simp
qed simp

definition demo_reply :: "int \<Rightarrow> int \<Rightarrow> tg_update" where
  "demo_reply chat original = \<lparr>tu_id = 5, tu_message = Some \<lparr>tm_id = 9, tm_chat = chat, tm_text = '' ls '', tm_reply_to = Some original\<rparr>\<rparr>"

definition demo_bridge :: "tg_op list" where
  "demo_bridge =
     [Notify 0 \<lparr>on_code = 9, on_title = ''done'', on_subtitle = [], on_body = [], on_session = ''lt-1'', on_time = 0\<rparr> [] (\<lambda>_ _. Some 7),
      Update 3 (demo_reply 1 7) (\<lambda>_ _. None), Update 4 (demo_reply 2 7) (\<lambda>_ _. None), Update 5 (demo_reply 1 8) (\<lambda>_ _. None),
      Sweep 11, Update 12 (demo_reply 1 7) (\<lambda>_ _. None)]"

theorem replies_reach_their_session_witness:
  "map injections (tg_run 1 10 (\<lambda>_. None) demo_bridge) = routed 1 10 [] demo_bridge \<and>
   routed 1 10 [] demo_bridge = [[], [(''lt-1'', ''ls'')], [], [], [], []]"
proof
  show "map injections (tg_run 1 10 (\<lambda>_. None) demo_bridge) = routed 1 10 [] demo_bridge"
    by (rule replies_reach_their_session) (simp add: demo_bridge_def)
qed code_simp

end
