(* ===== verification/Agent_Process.thy ===== *)
theory Agent_Process
  imports Go_Text
begin

text \<open>
  Which agent command line runs in a terminal (\<open>internal/terminal/agent.go\<close>): the process
  table \<open>ps\<close> prints, and the breadth-first walk from the pane's process to the first
  foreground process whose program is a known agent. The output of \<open>ps\<close> is an argument.
\<close>

section \<open>The process table\<close>

record os_process =
  pr_pid :: string
  pr_ppid :: string
  pr_stat :: string
  pr_start :: string
  pr_args :: string

record agent_process =
  ap_name :: string
  ap_pid :: string
  ap_start :: string

definition agent_signature :: "agent_process \<Rightarrow> string" where
  "agent_signature p = ap_pid p @ '':'' @ ap_start p"

definition format_agent_sig :: "agent_process \<Rightarrow> string" where
  "format_agent_sig p = ap_name p @ ''@'' @ agent_signature p"

definition known_agent_clis :: "string list" where
  "known_agent_clis = [''claude'', ''codex'', ''opencode'', ''gemini'', ''aider'', ''hermes'', ''kiro-cli'', ''cursor-agent'']"

definition agent_name_of_args :: "string \<Rightarrow> string" where
  "agent_name_of_args args0 =
     (let args = trim_space args0 in
      if args = [] then []
      else let argv0 = (case str_fields args of [] \<Rightarrow> [] | a # _ \<Rightarrow> a);
               base = to_lower (case after_last (CHR ''/'') argv0 of None \<Rightarrow> argv0 | Some b \<Rightarrow> b)
        in if base \<in> set known_agent_clis then base else [])"

definition parse_ps_line :: "string \<Rightarrow> os_process option" where
  "parse_ps_line line =
     (case str_fields (trim_space line) of
        pid # ppid # stat # a # b # c # d # e # f # args \<Rightarrow>
          Some \<lparr>pr_pid = pid, pr_ppid = ppid, pr_stat = stat, pr_start = join_space [a, b, c, d, e], pr_args = join_space (f # args)\<rparr>
      | _ \<Rightarrow> None)"

definition process_table :: "string \<Rightarrow> os_process list" where
  "process_table out = List.map_filter parse_ps_line (split_char (CHR 0x0A) out)"

text \<open>The later of two lines with one pid is the entry of \<open>procs\<close>; \<open>children\<close> keeps every line.\<close>

definition proc_of :: "os_process list \<Rightarrow> string \<Rightarrow> os_process option" where
  "proc_of ps pid = List.find (\<lambda>p. pr_pid p = pid) (rev ps)"

definition children_of :: "os_process list \<Rightarrow> string \<Rightarrow> string list" where
  "children_of ps pid = map pr_pid (filter (\<lambda>p. pr_ppid p = pid) ps)"

section \<open>The walk\<close>

text \<open>The agent a process is, if it reads the terminal.\<close>

definition agent_at :: "os_process \<Rightarrow> agent_process option" where
  "agent_at p =
     (if \<not> str_contains (pr_stat p) ''+'' then None
      else if agent_name_of_args (pr_args p) \<noteq> [] then
        Some \<lparr>ap_name = agent_name_of_args (pr_args p), ap_pid = pr_pid p, ap_start = pr_start p\<rparr>
      else None)"

function walk :: "os_process list \<Rightarrow> string list \<Rightarrow> string list \<Rightarrow> agent_process option" where
  "walk ps [] visited = None"
| "walk ps (pid # queue) visited =
     (if pid \<in> set visited then walk ps queue visited
      else case proc_of ps pid of
        None \<Rightarrow> walk ps queue (pid # visited)
      | Some p \<Rightarrow>
          (case agent_at p of
             Some a \<Rightarrow> Some a
           | None \<Rightarrow> walk ps (queue @ children_of ps pid) (pid # visited)))"
  by pat_completeness auto
termination
proof (relation "measures [\<lambda>(ps, queue, visited). card (set (map pr_pid ps) - set visited), \<lambda>(ps, queue, visited). length queue]")
  fix ps :: "os_process list" and pid queue visited p
  assume "pid \<notin> set visited" and "proc_of ps pid = Some p"
  then have "pid \<in> set (map pr_pid ps) - set visited" by (auto simp: proc_of_def dest!: find_SomeD)
  then have "card (set (map pr_pid ps) - set (pid # visited)) < card (set (map pr_pid ps) - set visited)"
    by (intro psubset_card_mono) auto
  then show "((ps, queue @ children_of ps pid, pid # visited), ps, pid # queue, visited)
      \<in> measures [\<lambda>(ps, queue, visited). card (set (map pr_pid ps) - set visited), \<lambda>(ps, queue, visited). length queue]"
    by simp
next
  fix ps :: "os_process list" and pid queue visited
  have "card (set (map pr_pid ps) - set (pid # visited)) \<le> card (set (map pr_pid ps) - set visited)"
    by (intro card_mono) auto
  then show "((ps, queue, pid # visited), ps, pid # queue, visited)
      \<in> measures [\<lambda>(ps, queue, visited). card (set (map pr_pid ps) - set visited), \<lambda>(ps, queue, visited). length queue]"
    by auto
qed auto

definition agent_process_under :: "os_process list \<Rightarrow> string \<Rightarrow> agent_process option" where
  "agent_process_under ps root = (if proc_of ps root = None then None else walk ps [root] [])"

section \<open>What the walk finds\<close>

text \<open>The processes below the pane's process, itself included.\<close>

inductive below :: "os_process list \<Rightarrow> string \<Rightarrow> os_process \<Rightarrow> bool" for ps root where
  here: "proc_of ps root = Some p \<Longrightarrow> below ps root p"
| child: "below ps root p \<Longrightarrow> c \<in> set (children_of ps (pr_pid p)) \<Longrightarrow> proc_of ps c = Some q \<Longrightarrow> below ps root q"

lemma proc_of_pid: "proc_of ps pid = Some p \<Longrightarrow> pr_pid p = pid"
  by (auto simp: proc_of_def dest!: find_SomeD)

lemma below_proc: "below ps root p \<Longrightarrow> proc_of ps (pr_pid p) = Some p"
  by (induction rule: below.induct) (auto dest: proc_of_pid)

lemma walk_finds:
  assumes "walk ps queue visited = Some a"
    and "\<forall>pid \<in> set queue. \<forall>p. proc_of ps pid = Some p \<longrightarrow> below ps root p"
  shows "\<exists>p. below ps root p \<and> agent_at p = Some a"
  using assms
proof (induction ps queue visited rule: walk.induct)
  case (2 ps pid queue visited)
  show ?case
  proof (cases "pid \<in> set visited")
    case True
    with 2(1) 2(4,5) show ?thesis by simp
  next
    case new: False
    show ?thesis
    proof (cases "proc_of ps pid")
      case None
      with new 2(2) 2(4,5) show ?thesis by simp
    next
      case (Some p)
      with 2(5) have p: "below ps root p" by simp
      show ?thesis
      proof (cases "agent_at p")
        case None
        have "\<forall>c \<in> set (queue @ children_of ps pid). \<forall>q. proc_of ps c = Some q \<longrightarrow> below ps root q"
          using 2(5) below.child [OF p] proc_of_pid [OF Some] by auto
        with 2(3) [OF new Some None] 2(4) new Some None show ?thesis by simp
      next
        case a: (Some a')
        with new Some 2(4) p show ?thesis by auto
      qed
    qed
  qed
qed simp

lemma walk_misses:
  assumes "walk ps queue visited = None" and "below ps root p" and "root \<in> set visited \<union> set queue"
    and "\<forall>pid \<in> set visited. \<forall>p. proc_of ps pid = Some p \<longrightarrow> agent_at p = None \<and> set (children_of ps pid) \<subseteq> set visited \<union> set queue"
  shows "agent_at p = None"
  using assms
proof (induction ps queue visited rule: walk.induct)
  case (1 ps visited)
  have "pr_pid p \<in> set visited"
    using 1(2)
  proof (induction rule: below.induct)
    case (here p)
    with 1(3) show ?case by (auto dest: proc_of_pid)
  next
    case (child p c q)
    with 1(4) below_proc [OF child(1)] have "c \<in> set visited" by auto
    with child show ?case by (auto dest: proc_of_pid)
  qed
  with 1 below_proc [OF 1(2)] show ?case by blast
next
  case (2 ps pid queue visited)
  show ?case
  proof (cases "pid \<in> set visited")
    case True
    then have "set visited \<union> set (pid # queue) = set visited \<union> set queue" by auto
    note same = this
    have "walk ps queue visited = None" using 2(4) True by simp
    from 2(1) [OF True this 2(5) 2(6) [unfolded same] 2(7) [unfolded same]] show ?thesis .
  next
    case new: False
    show ?thesis
    proof (cases "proc_of ps pid")
      case None
      with 2(4) new have w: "walk ps queue (pid # visited) = None" by simp
      have same: "set visited \<union> set (pid # queue) = set (pid # visited) \<union> set queue" by auto
      have inv: "\<forall>pid' \<in> set (pid # visited). \<forall>p. proc_of ps pid' = Some p \<longrightarrow>
          agent_at p = None \<and> set (children_of ps pid') \<subseteq> set (pid # visited) \<union> set queue"
        using 2(7) None unfolding same by simp
      from 2(2) [OF new None w 2(5) 2(6) [unfolded same] inv] show ?thesis .
    next
      case (Some q)
      with 2(4) new have no: "agent_at q = None" by (auto split: option.splits)
      with 2(4) new Some have w: "walk ps (queue @ children_of ps pid) (pid # visited) = None" by simp
      have same: "set visited \<union> set (pid # queue) \<subseteq> set (pid # visited) \<union> set (queue @ children_of ps pid)" by auto
      have inv: "\<forall>pid' \<in> set (pid # visited). \<forall>p. proc_of ps pid' = Some p \<longrightarrow>
          agent_at p = None \<and> set (children_of ps pid') \<subseteq> set (pid # visited) \<union> set (queue @ children_of ps pid)"
      proof (intro ballI allI impI)
        fix pid' r
        assume "pid' \<in> set (pid # visited)" and "proc_of ps pid' = Some r"
        then show "agent_at r = None \<and> set (children_of ps pid') \<subseteq> set (pid # visited) \<union> set (queue @ children_of ps pid)"
        proof (cases "pid' = pid")
          case True
          then show ?thesis using Some no \<open>proc_of ps pid' = Some r\<close> by auto
        next
          case False
          then have "pid' \<in> set visited" using \<open>pid' \<in> set (pid # visited)\<close> by simp
          with 2(7) \<open>proc_of ps pid' = Some r\<close> have "agent_at r = None" "set (children_of ps pid') \<subseteq> set visited \<union> set (pid # queue)" by blast+
          with same show ?thesis by blast
        qed
      qed
      from 2(6) same have root: "root \<in> set (pid # visited) \<union> set (queue @ children_of ps pid)" by blast
      from 2(3) [OF new Some no w 2(5) root inv] show ?thesis .
    qed
  qed
qed

text \<open>
  C34. The agent reported is one that reads the terminal: the walk ends on every process
  table, cyclic ones included; it reports an agent that is the pane's process or below it,
  in the foreground and with a known name, and reports none only if there is none.
\<close>

theorem agent_process_exact:
  "case agent_process_under ps root of
     Some a \<Rightarrow> \<exists>p. below ps root p \<and> agent_at p = Some a
   | None \<Rightarrow> \<not> (\<exists>p. below ps root p \<and> agent_at p \<noteq> None)"
proof (cases "proc_of ps root")
  case None
  have "\<not> below ps root p" for p
  proof
    assume "below ps root p"
    then show False by (induction rule: below.induct) (use None in auto)
  qed
  with None show ?thesis by (simp add: agent_process_under_def)
next
  case (Some r)
  show ?thesis
  proof (cases "walk ps [root] []")
    case None
    with walk_misses [OF None] Some show ?thesis by (auto simp: agent_process_under_def)
  next
    case (Some a)
    with walk_finds [OF Some, of root] \<open>proc_of ps root = Some r\<close> show ?thesis
      by (auto simp: agent_process_under_def intro: below.here)
  qed
qed

end
