(* ===== verification/Control_Types.thy ===== *)
theory Control_Types
  imports Go_Text
begin

text \<open>
  The data of project control (\<open>project_control.go\<close>, \<open>project_lifecycle.go\<close>): one record
  per struct of the stored state, the functions that bring texts of requests and files to
  the values the code knows, generated identifiers, and the event log with the activity
  ledger behind it. Times in this state are the texts the code stores. The legacy
  \<open>timeline\<close> and \<open>audit\<close> lists of a task, which no operation fills, are left out.
\<close>

section \<open>The stored structs\<close>

record milestone =
  mi_id :: string
  mi_name :: string
  mi_evidence :: string
  mi_status :: string

record lifecycle =
  lc_state :: string
  lc_milestone :: string
  lc_reason :: string
  lc_previous :: string

record takeover =
  tk_mode :: string
  tk_reason :: string

record project =
  po_brief :: "string \<times> string \<times> string \<times> string"
  po_milestones :: "milestone list"
  po_lifecycle :: lifecycle
  po_takeover :: takeover
  po_id :: string
  po_key :: string
  po_name :: string
  po_description :: string
  po_status :: string
  po_goal :: string
  po_repo :: string
  po_version :: int

record workstream =
  wk_id :: string
  wk_project :: string
  wk_title :: string
  wk_description :: string
  wk_priority :: string
  wk_status :: string
  wk_scope :: string
  wk_version :: int

record ctl_task =
  kt_description :: string
  kt_milestone :: string
  kt_depends :: "string list"
  kt_command :: "string list"
  kt_baseline :: string
  kt_passed :: bool
  kt_failures :: int
  kt_pause :: string
  kt_resume :: string
  kt_checkpoint_after :: string
  kt_restart :: bool
  kt_id :: string
  kt_project :: string
  kt_workstream :: string
  kt_title :: string
  kt_goal :: string
  kt_state :: string
  kt_acceptance :: string
  kt_acceptance_decision :: string
  kt_archive_decision :: string
  kt_origin :: string
  kt_dispatch :: string
  kt_claimed_by :: string
  kt_risk :: string
  kt_priority :: string
  kt_agent :: string
  kt_runtime :: string
  kt_skill :: string
  kt_runbook :: string
  kt_phase :: string
  kt_runbook_state :: string
  kt_auto :: "bool option"
  kt_missing :: "string list"
  kt_summary :: string
  kt_next :: string
  kt_files :: "string list"
  kt_diff :: string
  kt_sessions :: "string list"
  kt_evidence :: "(string \<times> string) list"
  kt_version :: int

record phase_attempt =
  pa_released :: bool
  pa_id :: string
  pa_task :: string
  pa_runbook :: string
  pa_phase :: string
  pa_session :: string
  pa_agent :: string
  pa_runtime :: string
  pa_workspace :: string
  pa_started :: string
  pa_completed :: string
  pa_status :: string
  pa_artifacts :: "string list"
  pa_failure :: string

record artifact =
  fa_id :: string
  fa_task :: string
  fa_attempt :: string
  fa_kind :: string
  fa_outcome :: string
  fa_label :: string
  fa_value :: string
  fa_created :: string

record tool_run =
  ur_id :: string
  ur_task :: string
  ur_attempt :: string
  ur_phase :: string
  ur_tool :: string
  ur_workspace :: string
  ur_status :: string
  ur_started :: string
  ur_completed :: string
  ur_artifact :: string
  ur_outcome :: string
  ur_summary :: string
  ur_error :: string
  ur_retries :: int
  ur_max_retries :: int

record tool_def =
  td_id :: string
  td_name :: string
  td_kind :: string
  td_command :: "string list"
  td_timeout :: int
  td_output :: int
  td_artifact_kind :: string
  td_artifact_label :: string
  td_phases :: "string list"
  td_max_retries :: int

record checkpoint =
  ck_id :: string
  ck_task :: string
  ck_kind :: string
  ck_title :: string
  ck_reason :: string
  ck_status :: string
  ck_requested :: string
  ck_resolved_by :: string
  ck_actions :: "string list"
  ck_summary :: string
  ck_version :: int

record ctl_decision =
  de_kind :: string
  de_id :: string
  de_type :: string
  de_actor :: string
  de_time :: string
  de_summary :: string
  de_project :: string
  de_workstream :: string
  de_task :: string
  de_checkpoint :: string

record ctl_event =
  ev_kind :: string
  ev_source :: string
  ev_id :: string
  ev_time :: string
  ev_actor :: string
  ev_action :: string
  ev_detail :: string
  ev_project :: string
  ev_workstream :: string
  ev_task :: string
  ev_checkpoint :: string

record activity =
  av_id :: string
  av_project :: string
  av_kind :: string

record task_memory =
  ym_task :: string
  ym_project :: string
  ym_workstream :: string
  ym_start :: string
  ym_end :: string
  ym_events :: int
  ym_artifacts :: int
  ym_attempts :: int
  ym_runs :: int
  ym_summary :: string
  ym_highlights :: "string list"
  ym_updated :: string

text \<open>
  The state of one user, with the clock that identifiers are stamped with: its readings
  in order and how many were taken.
\<close>

record ctl_state =
  pc_activity :: "activity list"
  pc_active :: string
  pc_projects :: "project list"
  pc_workstreams :: "workstream list"
  pc_tasks :: "ctl_task list"
  pc_tools :: "tool_def list"
  pc_attempts :: "phase_attempt list"
  pc_runs :: "tool_run list"
  pc_artifacts :: "artifact list"
  pc_checkpoints :: "checkpoint list"
  pc_decisions :: "ctl_decision list"
  pc_events :: "ctl_event list"
  pc_memories :: "task_memory list"
  pc_updated :: string
  pc_clock :: "nat \<Rightarrow> string"
  pc_reads :: nat

text \<open>
  Errors: \<open>CtlFailure\<close> is a plain error, \<open>CtlConflict\<close> a \<open>projectControlConflictError\<close>,
  \<open>CtlViolation\<close> a \<open>takeoverViolationError\<close> with its reason and detail.
\<close>

datatype ctl_error = CtlFailure string | CtlConflict string | CtlViolation string string

section \<open>Normal forms of texts\<close>

definition low_trim :: "string \<Rightarrow> string" where
  "low_trim v = trim_space (to_lower v)"

definition normal :: "string list \<Rightarrow> string \<Rightarrow> string \<Rightarrow> string" where
  "normal known other v = (if low_trim v \<in> set known then low_trim v else other)"

definition normalize_priority :: "string \<Rightarrow> string" where
  "normalize_priority = normal [''low'', ''medium'', ''high'', ''critical''] ''medium''"

definition normalize_risk :: "string \<Rightarrow> string" where
  "normalize_risk = normal [''low'', ''medium'', ''high'', ''critical''] ''medium''"

definition normalize_task_state :: "string \<Rightarrow> string" where
  "normalize_task_state = normal
     [''planned'', ''queued'', ''running'', ''waiting_review'', ''waiting_human'', ''blocked'', ''failed'',
      ''execution_complete'', ''archived'', ''cancelled''] ''planned''"

definition normalize_phase :: "string \<Rightarrow> string" where
  "normalize_phase = normal
     [''plan'', ''implement'', ''write'', ''test'', ''review'', ''fix_or_replan'', ''final_validation'', ''ready_for_acceptance''] []"

definition normalize_runbook_state :: "string \<Rightarrow> string" where
  "normalize_runbook_state = normal
     [''not_started'', ''in_progress'', ''waiting_review'', ''needs_fix'', ''ready_for_acceptance'', ''accepted'', ''archived''] []"

definition normalize_attempt_status :: "string \<Rightarrow> string" where
  "normalize_attempt_status = normal [''running'', ''completed'', ''failed'', ''cancelled''] ''running''"

definition normalize_run_status :: "string \<Rightarrow> string" where
  "normalize_run_status = normal [''running'', ''waiting'', ''completed'', ''failed'', ''cancelled''] ''running''"

definition normalize_artifact_kind :: "string \<Rightarrow> string" where
  "normalize_artifact_kind v = low_trim v"

definition normalize_acceptance :: "string \<Rightarrow> string" where
  "normalize_acceptance = normal
     [''not_ready'', ''ready_for_acceptance'', ''under_human_review'', ''accepted'', ''rejected''] ''not_ready''"

definition normalize_workstream_status :: "string \<Rightarrow> string" where
  "normalize_workstream_status = normal
     [''planned'', ''running'', ''blocked'', ''waiting_human'', ''failed'', ''completed'', ''archived''] ''planned''"

definition normalize_outcome :: "string \<Rightarrow> string" where
  "normalize_outcome v =
     (let l = low_trim v in
      if l \<in> set [''pass'', ''passed'', ''success'', ''ok'', ''clean'', ''no_objection'', ''approved''] then ''pass''
      else if l \<in> set [''fail'', ''failed'', ''error'', ''blocked'', ''objection'', ''rejected''] then ''fail''
      else ''recorded'')"

lemma normal_member: "normal known other v \<in> insert other (set known)"
  by (simp add: normal_def)

section \<open>Identifiers\<close>

definition slug_char :: "char \<Rightarrow> bool" where
  "slug_char c \<longleftrightarrow> CHR ''a'' \<le> c \<and> c \<le> CHR ''z'' \<or> CHR ''0'' \<le> c \<and> c \<le> CHR ''9''"

text \<open>Every run of other bytes becomes one dash.\<close>

fun slug_from :: "bool \<Rightarrow> string \<Rightarrow> string" where
  "slug_from dashed [] = []"
| "slug_from dashed (c # s) =
     (if slug_char c then c # slug_from False s
      else if dashed then slug_from True s
      else CHR ''-'' # slug_from True s)"

definition trim_dashes :: "string \<Rightarrow> string" where
  "trim_dashes s = rev (dropWhile (\<lambda>c. c = CHR ''-'') (rev (dropWhile (\<lambda>c. c = CHR ''-'') s)))"

definition slugify :: "string \<Rightarrow> string" where
  "slugify value =
     (let v = low_trim value; r = trim_dashes (slug_from False v)
      in if v = [] then ''item'' else if r = [] then ''item'' else r)"

definition control_id_text :: "string \<Rightarrow> string \<Rightarrow> string \<Rightarrow> string" where
  "control_id_text stamp0 prefix seed =
     (let stamp = filter (\<lambda>c. c \<noteq> CHR ''.'') stamp0;
          i = prefix @ ''-'' @ slugify seed @ ''-'' @ stamp;
          keep = 128 - (int (length prefix) + 1) - (int (length stamp) + 1)
      in if 128 < length i
         then prefix @ ''-'' @ trim_dashes (take (nat (max 0 keep)) (slugify seed)) @ ''-'' @ stamp
         else i)"

text \<open>An identifier takes the next reading of the clock.\<close>

definition control_id :: "string \<Rightarrow> string \<Rightarrow> ctl_state \<Rightarrow> string \<times> ctl_state" where
  "control_id prefix seed st =
     (control_id_text (pc_clock st (pc_reads st)) prefix seed, st\<lparr>pc_reads := pc_reads st + 1\<rparr>)"

definition append_unique :: "string list \<Rightarrow> string \<Rightarrow> string list" where
  "append_unique items v = (if v \<in> set items then items else items @ [v])"

definition valid_control_id :: "string \<Rightarrow> bool" where
  "valid_control_id i \<longleftrightarrow> list_all (\<lambda>c. slug_char c \<or> CHR ''A'' \<le> c \<and> c \<le> CHR ''Z'' \<or> c = CHR ''-'' \<or> c = CHR ''_'') i"

section \<open>Looking up\<close>

definition control_project :: "ctl_state \<Rightarrow> string \<Rightarrow> project option" where
  "control_project st i = List.find (\<lambda>p. po_id p = i) (pc_projects st)"

definition control_task :: "ctl_state \<Rightarrow> string \<Rightarrow> ctl_task option" where
  "control_task st i = List.find (\<lambda>t. kt_id t = i) (pc_tasks st)"

definition takeover_mode :: "ctl_state \<Rightarrow> string \<Rightarrow> string" where
  "takeover_mode st i = (case control_project st i of None \<Rightarrow> [] | Some p \<Rightarrow> tk_mode (po_takeover p))"

definition managed_project :: "ctl_state \<Rightarrow> ctl_task \<Rightarrow> bool" where
  "managed_project st t \<longleftrightarrow> takeover_mode st (kt_project t) \<noteq> []"

definition project_exists :: "ctl_state \<Rightarrow> string \<Rightarrow> bool" where
  "project_exists st i \<longleftrightarrow> (\<exists>p \<in> set (pc_projects st). po_id p = i)"

definition workstream_exists :: "ctl_state \<Rightarrow> string \<Rightarrow> string \<Rightarrow> bool" where
  "workstream_exists st i project \<longleftrightarrow> (\<exists>w \<in> set (pc_workstreams st). wk_id w = i \<and> wk_project w = project)"

definition checkpoint_project :: "ctl_state \<Rightarrow> string \<Rightarrow> string" where
  "checkpoint_project st i = (case control_task st i of None \<Rightarrow> [] | Some t \<Rightarrow> kt_project t)"

definition checkpoint_workstream :: "ctl_state \<Rightarrow> string \<Rightarrow> string" where
  "checkpoint_workstream st i = (case control_task st i of None \<Rightarrow> [] | Some t \<Rightarrow> kt_workstream t)"

section \<open>Events\<close>

definition activity_kind :: "string \<Rightarrow> string" where
  "activity_kind kind =
     (if kind \<in> set [''plan'', ''plan_summary'', ''design'', ''design_review'', ''requirements''] then ''design''
      else if kind \<in> set [''test'', ''test_result'', ''test_report'', ''test_output'', ''validation'', ''validation_result'',
        ''final_validation'', ''final_acceptance''] then ''test''
      else if kind \<in> set [''coding'', ''diff_summary'', ''code'', ''patch'', ''implementation''] then ''coding''
      else ''uncategorized'')"

definition trim_activity :: "activity list \<Rightarrow> activity list" where
  "trim_activity xs = (if 4096 < length xs then drop (length xs - 4096) xs else xs)"

definition record_activity :: "ctl_event \<Rightarrow> ctl_state \<Rightarrow> ctl_state" where
  "record_activity ev st0 =
     (let st = st0\<lparr>pc_activity := trim_activity (pc_activity st0)\<rparr>;
          source = (if ev_source ev \<noteq> [] then ev_source ev else if ev_checkpoint ev \<noteq> [] then ev_checkpoint ev else ev_id ev);
          i = ev_action ev @ '':'' @ source
      in if ev_action ev \<noteq> ''checkpoint_resolved'' \<and> ev_action ev \<noteq> ''artifact_recorded'' then st
         else if \<exists>a \<in> set (pc_activity st). av_id a = i then st
         else st\<lparr>pc_activity := trim_activity (pc_activity st @
           [\<lparr>av_id = i,
             av_project = (if ev_project ev \<noteq> [] then ev_project ev else checkpoint_project st (ev_task ev)),
             av_kind = (if ev_kind ev \<noteq> [] then ev_kind ev else ''uncategorized'')\<rparr>])\<rparr>)"

definition append_event :: "ctl_event \<Rightarrow> ctl_state \<Rightarrow> ctl_state" where
  "append_event ev0 st0 =
     (let (ev, st) = (if trim_space (ev_id ev0) = []
            then (let (i, st) = control_id ''event'' (ev_action ev0) st0 in (ev0\<lparr>ev_id := i\<rparr>, st))
            else (ev0, st0));
          st1 = record_activity ev st
      in st1\<lparr>pc_events := pc_events st1 @ [ev]\<rparr>)"

text \<open>The shape of every call: a fresh identifier with a seed, then the event.\<close>

definition emit :: "string \<Rightarrow> ctl_event \<Rightarrow> ctl_state \<Rightarrow> ctl_state" where
  "emit seed ev st = (let (i, st1) = control_id ''event'' seed st in append_event (ev\<lparr>ev_id := i\<rparr>) st1)"

definition task_event :: "string \<Rightarrow> string \<Rightarrow> string \<Rightarrow> string \<Rightarrow> ctl_task \<Rightarrow> ctl_event" where
  "task_event now actor action detail t =
     \<lparr>ev_kind = [], ev_source = [], ev_id = [], ev_time = now, ev_actor = actor, ev_action = action, ev_detail = detail,
      ev_project = kt_project t, ev_workstream = kt_workstream t, ev_task = kt_id t, ev_checkpoint = []\<rparr>"

text \<open>Events touch only the log, the ledger and the clock.\<close>

definition same_but_log :: "ctl_state \<Rightarrow> ctl_state \<Rightarrow> bool" where
  "same_but_log st st' \<longleftrightarrow> pc_active st' = pc_active st \<and> pc_projects st' = pc_projects st \<and> pc_workstreams st' = pc_workstreams st \<and>
     pc_tasks st' = pc_tasks st \<and> pc_tools st' = pc_tools st \<and> pc_attempts st' = pc_attempts st \<and> pc_runs st' = pc_runs st \<and>
     pc_artifacts st' = pc_artifacts st \<and> pc_checkpoints st' = pc_checkpoints st \<and> pc_decisions st' = pc_decisions st \<and>
     pc_memories st' = pc_memories st \<and> pc_updated st' = pc_updated st \<and>
     pc_clock st' = pc_clock st \<and> pc_reads st \<le> pc_reads st'"

lemma control_id_same: "control_id prefix seed st = (i, st') \<Longrightarrow> same_but_log st st'"
  by (auto simp: control_id_def same_but_log_def)

lemma record_activity_same: "same_but_log st (record_activity ev st)"
  by (simp add: record_activity_def same_but_log_def Let_def)

lemma same_but_log_trans [trans]: "same_but_log a b \<Longrightarrow> same_but_log b c \<Longrightarrow> same_but_log a c"
  by (simp add: same_but_log_def)

lemma append_event_same: "same_but_log st (append_event ev st)"
proof -
  have *: "same_but_log st (a\<lparr>pc_events := x\<rparr>)" if "same_but_log st a" for a x
    using that by (simp add: same_but_log_def)
  show ?thesis
    by (auto simp: append_event_def Let_def split: prod.splits if_splits
        intro!: * intro: record_activity_same same_but_log_trans [OF control_id_same record_activity_same])
qed

lemma emit_same: "same_but_log st (emit seed ev st)"
  by (auto simp: emit_def split: prod.splits intro: same_but_log_trans [OF control_id_same append_event_same])

lemma emit_simps [simp]:
  "pc_active (emit seed ev st) = pc_active st" "pc_projects (emit seed ev st) = pc_projects st"
  "pc_workstreams (emit seed ev st) = pc_workstreams st" "pc_tasks (emit seed ev st) = pc_tasks st"
  "pc_tools (emit seed ev st) = pc_tools st" "pc_attempts (emit seed ev st) = pc_attempts st"
  "pc_runs (emit seed ev st) = pc_runs st" "pc_artifacts (emit seed ev st) = pc_artifacts st"
  "pc_checkpoints (emit seed ev st) = pc_checkpoints st" "pc_decisions (emit seed ev st) = pc_decisions st"
  "pc_memories (emit seed ev st) = pc_memories st" "pc_updated (emit seed ev st) = pc_updated st"
  "pc_clock (emit seed ev st) = pc_clock st" "pc_reads st \<le> pc_reads (emit seed ev st)"
  using emit_same [of st seed ev] by (simp_all add: same_but_log_def)

end
