(* ===== verification/Control_Rules.thy ===== *)
theory Control_Rules
  imports Control_Types
begin

text \<open>
  The rules of project control that read no store: what an action of a request asks for,
  which transitions of workstreams, tasks and acceptance are legal, the runbooks with
  their phases and the evidence they need, and the contract of a task and of a project
  (\<open>project_control.go\<close>, \<open>project_lifecycle.go\<close>).
\<close>

section \<open>Requests\<close>

record workstream_update =
  uw_version :: int
  uw_action :: string
  uw_title :: string
  uw_description :: string
  uw_priority :: string
  uw_status :: string
  uw_scope :: string

record task_update =
  uq_lease :: string
  uq_milestone :: "string option"
  uq_depends :: "string list option"
  uq_command :: "string list option"
  uq_version :: int
  uq_action :: string
  uq_title :: string
  uq_goal :: string
  uq_priority :: string
  uq_risk :: string
  uq_state :: string
  uq_acceptance :: string
  uq_phase :: string
  uq_artifact_kind :: string
  uq_artifact_outcome :: string
  uq_artifact_label :: string
  uq_artifact_value :: string
  uq_failure :: string
  uq_tool :: string
  uq_pause :: string
  uq_clear_pause :: bool

definition apply_workstream_action :: "workstream \<Rightarrow> workstream_update \<Rightarrow> (ctl_error, workstream_update) result" where
  "apply_workstream_action w req =
     (let action = low_trim (uw_action req);
          fill = (\<lambda>r. if trim_space (uw_priority r) = [] then r\<lparr>uw_priority := wk_priority w\<rparr> else r)
      in if action = [] then Inr req
         else if action \<in> set [''start_execution'', ''resume_execution'', ''resume''] then Inr (fill (req\<lparr>uw_status := ''running''\<rparr>))
         else if action = ''mark_blocked'' then Inr (fill (req\<lparr>uw_status := ''blocked''\<rparr>))
         else if action = ''request_human_input'' then Inr (fill (req\<lparr>uw_status := ''waiting_human''\<rparr>))
         else if action = ''mark_completed'' then Inr (fill (req\<lparr>uw_status := ''completed''\<rparr>))
         else if action = ''archive'' then Inr (fill (req\<lparr>uw_status := ''archived''\<rparr>))
         else Inl (CtlFailure (''invalid workstream action: '' @ action)))"

definition is_phase_action :: "string \<Rightarrow> bool" where
  "is_phase_action action \<longleftrightarrow> low_trim action \<in> set [''start_phase'', ''complete_phase'', ''fail_phase'', ''run_tool'', ''start_execution'']"

text \<open>What each action other than the phase actions writes into the request.\<close>

definition action_effect :: "ctl_task \<Rightarrow> string \<Rightarrow> task_update \<Rightarrow> task_update option" where
  "action_effect t action req =
     (if action = ''pause_task'' then Some (req\<lparr>uq_pause := ''paused_by_user''\<rparr>)
      else if action = ''resume_task'' then Some (req\<lparr>uq_pause := '' '', uq_clear_pause := True\<rparr>)
      else if action = ''cancel_task'' then Some (req\<lparr>uq_state := ''cancelled'', uq_acceptance := ''not_ready'', uq_pause := [], uq_clear_pause := True\<rparr>)
      else if action = ''queue_task'' then Some (req\<lparr>uq_state := ''queued'', uq_acceptance := ''not_ready''\<rparr>)
      else if action = ''resume_execution'' then Some (req\<lparr>uq_state := ''running'', uq_acceptance := ''not_ready''\<rparr>)
      else if action = ''request_human_input'' then Some (req\<lparr>uq_state := ''waiting_human''\<rparr>)
      else if action = ''mark_waiting_review'' then Some (req\<lparr>uq_state := ''waiting_review''\<rparr>)
      else if action = ''mark_blocked'' then Some (req\<lparr>uq_state := ''blocked''\<rparr>)
      else if action = ''mark_execution_complete'' then Some (req\<lparr>uq_state := ''execution_complete''\<rparr>)
      else if action = ''mark_ready_for_acceptance'' then Some (req\<lparr>uq_state := ''execution_complete'', uq_acceptance := ''ready_for_acceptance''\<rparr>)
      else if action = ''request_acceptance_review'' then Some (req\<lparr>uq_state := ''execution_complete'', uq_acceptance := ''under_human_review''\<rparr>)
      else if action = ''reopen_task'' then Some (req\<lparr>uq_state := ''running'', uq_acceptance := ''not_ready''\<rparr>)
      else if action = ''archive'' then Some (req\<lparr>uq_state := ''archived''\<rparr>)
      else if action = ''request_archive_override'' then Some (req\<lparr>uq_state := ''execution_complete''\<rparr>)
      else if action = ''unarchive'' then
        Some (if kt_acceptance t \<noteq> ''accepted'' then req\<lparr>uq_state := ''planned'', uq_acceptance := ''not_ready''\<rparr> else req\<lparr>uq_state := ''planned''\<rparr>)
      else if is_phase_action action then Some req
      else None)"

definition apply_task_action :: "ctl_task \<Rightarrow> task_update \<Rightarrow> (ctl_error, task_update) result" where
  "apply_task_action t req =
     (let action = low_trim (uq_action req)
      in if action = [] then Inr req
         else and_then (require (CtlFailure (''invalid task action: '' @ action)) (action_effect t action req)) (\<lambda>r.
           let r1 = (if trim_space (uq_priority r) = [] then r\<lparr>uq_priority := kt_priority t\<rparr> else r)
           in Inr (if trim_space (uq_risk r1) = [] then r1\<lparr>uq_risk := kt_risk t\<rparr> else r1)))"

section \<open>Transitions\<close>

definition allowed_workstream_transition :: "string \<Rightarrow> string \<Rightarrow> bool" where
  "allowed_workstream_transition from0 to0 =
     (let from = normalize_workstream_status from0; to = normalize_workstream_status to0 in
      if from = to then True
      else if from = ''planned'' then to = ''running''
      else if from = ''running'' then to \<in> set [''blocked'', ''waiting_human'', ''failed'', ''completed'']
      else if from \<in> set [''blocked'', ''waiting_human'', ''failed''] then to = ''running''
      else if from = ''completed'' then to = ''archived''
      else False)"

definition allowed_task_transition :: "string \<Rightarrow> string \<Rightarrow> bool" where
  "allowed_task_transition from0 to0 =
     (let from = normalize_task_state from0; to = normalize_task_state to0 in
      if from = to then True
      else if from = ''planned'' then to \<in> set [''queued'', ''running'', ''cancelled'']
      else if from = ''queued'' then to \<in> set [''planned'', ''running'', ''cancelled'']
      else if from = ''running'' then
        to \<in> set [''waiting_review'', ''waiting_human'', ''blocked'', ''failed'', ''execution_complete'', ''cancelled'']
      else if from \<in> set [''waiting_review'', ''waiting_human'', ''blocked'', ''failed''] then to \<in> set [''running'', ''cancelled'']
      else if from = ''cancelled'' then to = ''running''
      else if from = ''execution_complete'' then to \<in> set [''archived'', ''running'', ''blocked'']
      else if from = ''archived'' then to = ''planned''
      else False)"

definition validate_acceptance_transition :: "string \<Rightarrow> string \<Rightarrow> string \<Rightarrow> bool \<Rightarrow> (ctl_error, unit) result" where
  "validate_acceptance_transition from0 to0 task_state decided =
     (let from = normalize_acceptance from0; to = normalize_acceptance to0;
          complete = (normalize_task_state task_state = ''execution_complete'')
      in if from = to then Inr ()
         else if to = ''accepted'' \<or> to = ''rejected'' then
           ensure (CtlFailure ''accepted and rejected require explicit final acceptance decision'') decided
         else if to = ''ready_for_acceptance'' \<and> \<not> complete then Inl (CtlFailure ''ready_for_acceptance requires execution_complete state'')
         else if to = ''under_human_review'' \<and> \<not> complete then Inl (CtlFailure ''under_human_review requires execution_complete state'')
         else if from = ''not_ready'' \<and> to = ''ready_for_acceptance'' then Inr ()
         else if from = ''ready_for_acceptance'' then
           ensure (CtlFailure ''under_human_review requires explicit checkpoint workflow'') (to = ''not_ready'' \<or> to = ''under_human_review'')
         else if (from = ''under_human_review'' \<or> from = ''rejected'') \<and> to = ''not_ready'' then Inr ()
         else Inl (CtlFailure (''illegal acceptance transition: '' @ from @ '' -> '' @ to)))"

section \<open>Skills and runbooks\<close>

record skill =
  sl_id :: string
  sl_name :: string
  sl_version :: string
  sl_default :: string
  sl_allowed :: "string list"
  sl_required :: "string list"
  sl_permissions :: "(string \<times> string) list"

record runbook_phase =
  rp_id :: string
  rp_role :: string
  rp_write :: string
  rp_required :: "string list"

record runbook =
  rb_id :: string
  rb_skill :: string
  rb_version :: string
  rb_phases :: "runbook_phase list"
  rb_rules :: "string list"

definition code_skill :: skill where
  "code_skill = \<lparr>sl_id = ''code_change'', sl_name = ''Code Change'', sl_version = ''0.1'', sl_default = ''code_change_default'',
     sl_allowed = [''code_change_default''],
     sl_required = [''plan'', ''diff_summary'', ''test_result'', ''review_result'', ''completion_check''],
     sl_permissions = [(''plan'', ''read_only''), (''implement'', ''scoped_write''), (''test'', ''read_only''),
       (''review'', ''read_only''), (''fix_or_replan'', ''scoped_write''), (''final_validation'', ''read_only'')]\<rparr>"

definition docs_skill :: skill where
  "docs_skill = \<lparr>sl_id = ''docs_update'', sl_name = ''Docs Update'', sl_version = ''0.1'', sl_default = ''docs_update_default'',
     sl_allowed = [''docs_update_default''],
     sl_required = [''plan'', ''doc_summary'', ''review_result'', ''completion_check''],
     sl_permissions = [(''plan'', ''read_only''), (''write'', ''scoped_write''), (''fix_or_replan'', ''scoped_write''),
       (''review'', ''read_only''), (''final_validation'', ''read_only'')]\<rparr>"

definition default_skills :: "skill list" where
  "default_skills = [code_skill, docs_skill]"

definition code_runbook :: runbook where
  "code_runbook = \<lparr>rb_id = ''code_change_default'', rb_skill = ''code_change'', rb_version = ''0.1'',
     rb_phases =
       [\<lparr>rp_id = ''plan'', rp_role = ''plan'', rp_write = ''read_only'', rp_required = [''plan'']\<rparr>,
        \<lparr>rp_id = ''implement'', rp_role = ''implement'', rp_write = ''scoped_write'', rp_required = [''diff_summary'']\<rparr>,
        \<lparr>rp_id = ''test'', rp_role = ''test'', rp_write = ''read_only'', rp_required = [''test_result'']\<rparr>,
        \<lparr>rp_id = ''review'', rp_role = ''review'', rp_write = ''read_only'', rp_required = [''review_result'']\<rparr>,
        \<lparr>rp_id = ''fix_or_replan'', rp_role = ''implement'', rp_write = ''scoped_write'', rp_required = [''diff_summary'']\<rparr>,
        \<lparr>rp_id = ''final_validation'', rp_role = ''verify'', rp_write = ''read_only'', rp_required = [''completion_check'']\<rparr>],
     rb_rules = [''plan'', ''diff_summary'', ''test_result'', ''review_result'', ''completion_check'']\<rparr>"

definition docs_runbook :: runbook where
  "docs_runbook = \<lparr>rb_id = ''docs_update_default'', rb_skill = ''docs_update'', rb_version = ''0.1'',
     rb_phases =
       [\<lparr>rp_id = ''plan'', rp_role = ''plan'', rp_write = ''read_only'', rp_required = [''plan'']\<rparr>,
        \<lparr>rp_id = ''write'', rp_role = ''implement'', rp_write = ''scoped_write'', rp_required = [''doc_summary'']\<rparr>,
        \<lparr>rp_id = ''review'', rp_role = ''review'', rp_write = ''read_only'', rp_required = [''review_result'']\<rparr>,
        \<lparr>rp_id = ''fix_or_replan'', rp_role = ''implement'', rp_write = ''scoped_write'', rp_required = [''doc_summary'']\<rparr>,
        \<lparr>rp_id = ''final_validation'', rp_role = ''verify'', rp_write = ''read_only'', rp_required = [''completion_check'']\<rparr>],
     rb_rules = [''plan'', ''doc_summary'', ''review_result'', ''completion_check'']\<rparr>"

definition default_runbooks :: "runbook list" where
  "default_runbooks = [code_runbook, docs_runbook]"

definition default_runbook :: runbook where
  "default_runbook = (case List.find (\<lambda>r. rb_id r = ''code_change_default'') default_runbooks of Some r \<Rightarrow> r | None \<Rightarrow> code_runbook)"

definition find_skill :: "string \<Rightarrow> skill option" where
  "find_skill i = List.find (\<lambda>s. low_trim (sl_id s) = low_trim i) default_skills"

definition find_runbook :: "string \<Rightarrow> runbook option" where
  "find_runbook i = List.find (\<lambda>r. low_trim (rb_id r) = low_trim i) default_runbooks"

definition skill_allows :: "skill \<Rightarrow> string \<Rightarrow> bool" where
  "skill_allows s i =
     (let r = low_trim i in
      r \<noteq> [] \<and> (low_trim (sl_default s) = r \<or> (\<exists>a \<in> set (sl_allowed s). low_trim a = r)))"

text \<open>The task gets the names of the skill and runbook it resolves to.\<close>

definition resolve_skill_and_runbook :: "ctl_task \<Rightarrow> ctl_task \<times> skill \<times> runbook" where
  "resolve_skill_and_runbook t =
     (let s = (case find_skill (kt_skill t) of Some s \<Rightarrow> s | None \<Rightarrow> code_skill);
          wanted = (if trim_space (kt_runbook t) \<noteq> [] then kt_runbook t else sl_default s);
          fallback = (case find_runbook (sl_default s) of Some r \<Rightarrow> r | None \<Rightarrow> default_runbook);
          r = (case find_runbook wanted of
                 None \<Rightarrow> fallback
               | Some r \<Rightarrow> if low_trim (rb_skill r) \<noteq> low_trim (sl_id s) \<or> \<not> skill_allows s (rb_id r) then fallback else r)
      in (t\<lparr>kt_skill := sl_id s, kt_runbook := rb_id r\<rparr>, s, r))"

definition validate_selection :: "string \<Rightarrow> string \<Rightarrow> (ctl_error, skill \<times> runbook) result" where
  "validate_selection selected i =
     (let skill_id = (if low_trim selected = [] then ''code_change'' else low_trim selected) in
      and_then (require (CtlFailure (''unknown skill: '' @ skill_id)) (find_skill skill_id)) (\<lambda>s.
      let runbook_id = (if low_trim i = [] then sl_default s else low_trim i) in
      and_then (require (CtlFailure (''unknown runbook: '' @ runbook_id)) (find_runbook runbook_id)) (\<lambda>r.
      if low_trim (rb_skill r) \<noteq> low_trim (sl_id s) \<or> \<not> skill_allows s (rb_id r)
      then Inl (CtlFailure (''runbook '' @ rb_id r @ '' is not allowed for skill '' @ sl_id s))
      else Inr (s, r))))"

definition runbook_for :: "ctl_task \<Rightarrow> runbook" where
  "runbook_for t = snd (snd (resolve_skill_and_runbook t))"

definition find_phase :: "runbook \<Rightarrow> string \<Rightarrow> runbook_phase option" where
  "find_phase rb i = List.find (\<lambda>p. rp_id p = normalize_phase i) (rb_phases rb)"

definition is_recovery_phase :: "string \<Rightarrow> bool" where
  "is_recovery_phase i \<longleftrightarrow> normalize_phase i = ''fix_or_replan''"

text \<open>The first phase after one that satisfies a test which is neither unknown nor the recovery.\<close>

definition phase_after :: "(string \<Rightarrow> bool) \<Rightarrow> runbook \<Rightarrow> string" where
  "phase_after here rb =
     (case dropWhile (\<lambda>p. \<not> here (normalize_phase (rp_id p))) (rb_phases rb) of
        [] \<Rightarrow> []
      | _ # later \<Rightarrow>
          (case List.find (\<lambda>p. normalize_phase (rp_id p) \<noteq> [] \<and> \<not> is_recovery_phase (rp_id p)) later of
             None \<Rightarrow> ''ready_for_acceptance'' | Some p \<Rightarrow> normalize_phase (rp_id p)))"

definition recovery_target :: "runbook \<Rightarrow> string" where
  "recovery_target rb =
     (case List.find (\<lambda>i. find_phase rb i \<noteq> None) [''test'', ''review'', ''final_validation''] of
        Some i \<Rightarrow> i
      | None \<Rightarrow> phase_after is_recovery_phase rb)"

definition next_phase :: "runbook \<Rightarrow> string \<Rightarrow> string" where
  "next_phase rb i =
     (let p = normalize_phase i in
      if p = [] \<or> p = ''ready_for_acceptance'' then []
      else if p = ''fix_or_replan'' then recovery_target rb
      else phase_after (\<lambda>q. q = p) rb)"

definition infer_phase :: "ctl_task \<Rightarrow> string" where
  "infer_phase t =
     (let p = normalize_phase (kt_phase t); s = normalize_task_state (kt_state t) in
      if p \<noteq> [] then p
      else if s \<in> set [''planned'', ''queued''] then ''plan''
      else if s = ''waiting_review'' then ''review''
      else if s \<in> set [''blocked'', ''failed''] then ''fix_or_replan''
      else if s \<in> set [''execution_complete'', ''archived''] then ''ready_for_acceptance''
      else ''implement'')"

definition infer_runbook_state :: "ctl_task \<Rightarrow> string" where
  "infer_runbook_state t =
     (let r = normalize_runbook_state (kt_runbook_state t); s = normalize_task_state (kt_state t) in
      if r \<noteq> [] then r
      else if s \<in> set [''planned'', ''queued''] then ''not_started''
      else if s = ''waiting_review'' then ''waiting_review''
      else if s \<in> set [''blocked'', ''failed''] then ''needs_fix''
      else if s = ''execution_complete'' then (if kt_acceptance t = ''accepted'' then ''accepted'' else ''ready_for_acceptance'')
      else if s = ''archived'' then ''archived''
      else ''in_progress'')"

section \<open>Evidence\<close>

definition outcome_passes :: "string \<Rightarrow> string \<Rightarrow> bool" where
  "outcome_passes kind outcome =
     (if normalize_artifact_kind kind \<in> set [''test_result'', ''review_result'', ''completion_check'']
      then normalize_outcome outcome = ''pass'' else normalize_outcome outcome \<noteq> ''fail'')"

definition evidence_requirement :: "string \<Rightarrow> string" where
  "evidence_requirement kind =
     (let k = normalize_artifact_kind kind in
      if k \<in> set [''test_result'', ''review_result'', ''completion_check''] then k @ '':pass'' else k)"

definition evidence_present :: "string \<Rightarrow> artifact list \<Rightarrow> string \<Rightarrow> bool" where
  "evidence_present task_id artifacts kind \<longleftrightarrow>
     (\<exists>a \<in> set artifacts. fa_task a = task_id \<and> normalize_artifact_kind (fa_kind a) = kind \<and>
        outcome_passes (normalize_artifact_kind (fa_kind a)) (fa_outcome a))"

definition missing_evidence :: "ctl_task \<Rightarrow> artifact list \<Rightarrow> runbook \<Rightarrow> string \<Rightarrow> string \<Rightarrow> string list" where
  "missing_evidence t artifacts rb extra_kind extra_outcome =
     (let present = (\<lambda>k. evidence_present (kt_id t) artifacts k \<or>
        extra_kind \<noteq> [] \<and> k = normalize_artifact_kind extra_kind \<and> outcome_passes k extra_outcome)
      in map evidence_requirement (filter (\<lambda>k. k \<noteq> [] \<and> \<not> present k) (map normalize_artifact_kind (rb_rules rb))))"

definition refresh_task :: "artifact list \<Rightarrow> ctl_task \<Rightarrow> ctl_task" where
  "refresh_task artifacts t =
     (let (t1, _, rb) = resolve_skill_and_runbook t;
          t2 = t1\<lparr>kt_phase := infer_phase t1\<rparr>;
          t3 = t2\<lparr>kt_runbook_state := infer_runbook_state t2\<rparr>
      in t3\<lparr>kt_missing := missing_evidence t3 artifacts rb [] []\<rparr>)"

end
