(* ===== verification/Control_Contract.thy ===== *)
theory Control_Contract
  imports Control_Rules Task_Claims
begin

text \<open>
  The contract of a project and its tasks (\<open>project_lifecycle.go\<close>): milestones in order,
  task dependencies without cycles, when a task may be claimed and executed, the life
  cycle of a project, and pausing.
\<close>

section \<open>Milestones\<close>

definition milestone_error :: "ctl_error" where
  "milestone_error = CtlFailure ''milestones require unique id and name''"

fun check_milestones :: "string list \<Rightarrow> nat \<Rightarrow> bool \<Rightarrow> milestone list \<Rightarrow> (ctl_error, unit) result" where
  "check_milestones seen current todo [] = Inr ()"
| "check_milestones seen current todo (m # ms) =
     (if trim_space (mi_id m) = [] \<or> trim_space (mi_name m) = [] \<or> mi_id m \<in> set seen then Inl milestone_error
      else if mi_status m = ''done'' then
        (if 0 < current \<or> todo \<or> trim_space (mi_evidence m) = []
         then Inl (CtlFailure ''done milestones require evidence and must precede current/todo'')
         else check_milestones (mi_id m # seen) current todo ms)
      else if mi_status m = ''current'' then
        (if 1 < current + 1 \<or> todo then Inl (CtlFailure ''only one current milestone may precede todo milestones'')
         else check_milestones (mi_id m # seen) (current + 1) todo ms)
      else if mi_status m = ''todo'' then check_milestones (mi_id m # seen) current True ms
      else Inl (CtlFailure ''milestone status must be todo, current or done''))"

definition validate_milestones :: "milestone list \<Rightarrow> (ctl_error, unit) result" where
  "validate_milestones ms = check_milestones [] 0 False ms"

section \<open>Dependencies\<close>

text \<open>
  The depth-first search of the dependencies: \<open>visiting\<close> holds the path from the task, so
  the search of a list of dependencies ends as the path grows into the stored tasks.
\<close>

function visit_all :: "ctl_task list \<Rightarrow> string \<Rightarrow> string list \<Rightarrow> string list \<Rightarrow> (ctl_error, unit) result" where
  "visit_all ts project visiting [] = Inr ()"
| "visit_all ts project visiting (i # ids) =
     (if i \<in> set visiting then Inl (CtlFailure ''cyclic task dependencies'')
      else case List.find (\<lambda>t. kt_id t = i) ts of
        None \<Rightarrow> Inl (CtlFailure ''dependency does not belong to project'')
      | Some dep \<Rightarrow>
          if kt_project dep \<noteq> project then Inl (CtlFailure ''dependency does not belong to project'')
          else case visit_all ts project (i # visiting) (kt_depends dep) of
            Inl e \<Rightarrow> Inl e
          | Inr _ \<Rightarrow> visit_all ts project visiting ids)"
  by pat_completeness auto
termination
proof (relation "measures [\<lambda>(ts, project, visiting, ids). card (set (map kt_id ts) - set visiting), \<lambda>(ts, project, visiting, ids). length ids]")
  fix ts project visiting i ids and dep :: ctl_task
  assume "i \<notin> set visiting" and "List.find (\<lambda>t. kt_id t = i) ts = Some dep"
  then have "i \<in> set (map kt_id ts) - set visiting" by (auto dest!: find_SomeD)
  then have "card (set (map kt_id ts) - set (i # visiting)) < card (set (map kt_id ts) - set visiting)"
    by (intro psubset_card_mono) auto
  then show "((ts, project, i # visiting, kt_depends dep), ts, project, visiting, i # ids)
      \<in> measures [\<lambda>(ts, project, visiting, ids). card (set (map kt_id ts) - set visiting), \<lambda>(ts, project, visiting, ids). length ids]"
    by simp
qed auto

definition validate_task_contract :: "ctl_state \<Rightarrow> ctl_task \<Rightarrow> (ctl_error, unit) result" where
  "validate_task_contract st t =
     (let milestones = (case control_project st (kt_project t) of None \<Rightarrow> [] | Some p \<Rightarrow> po_milestones p) in
      if kt_command t \<noteq> [] \<and> trim_space (hd (kt_command t)) = [] then Inl (CtlFailure ''acceptanceCommand requires an executable'')
      else if kt_milestone t \<noteq> [] \<and> \<not> (\<exists>m \<in> set milestones. mi_id m = kt_milestone t)
      then Inl (CtlFailure ''milestone does not belong to project'')
      else visit_all (pc_tasks st) (kt_project t) [kt_id t] (kt_depends t))"

definition dependencies_passed :: "ctl_state \<Rightarrow> ctl_task \<Rightarrow> bool" where
  "dependencies_passed st t \<longleftrightarrow>
     list_all (\<lambda>i. case control_task st i of
       None \<Rightarrow> False
     | Some dep \<Rightarrow> kt_pause dep = [] \<and> kt_dispatch dep = ''done'' \<and> (kt_command dep \<noteq> [] \<longrightarrow> kt_passed dep)) (kt_depends t)"

section \<open>Claiming and executing\<close>

definition high_risk_task :: "string \<Rightarrow> bool" where
  "high_risk_task level \<longleftrightarrow> level = ''high'' \<or> level = ''critical''"

definition needs_dispatch_approval :: "ctl_task \<Rightarrow> bool" where
  "needs_dispatch_approval t \<longleftrightarrow> trim_space (kt_origin t) = ''agent''"

definition task_claimable :: "ctl_task \<Rightarrow> bool" where
  "task_claimable t \<longleftrightarrow>
     (if kt_dispatch t = ''ready'' then True
      else if needs_dispatch_approval t then False
      else kt_dispatch t = ''awaiting_approval'')"

definition takeover_running :: "ctl_state \<Rightarrow> ctl_task \<Rightarrow> bool" where
  "takeover_running st t \<longleftrightarrow> takeover_mode st (kt_project t) \<in> set [''active'', ''paused'']"

definition task_claim_allowed :: "ctl_state \<Rightarrow> ctl_task \<Rightarrow> bool" where
  "task_claim_allowed st t =
     (if kt_pause t \<noteq> [] then False
      else let p = control_project st (kt_project t);
               life = (case p of None \<Rightarrow> \<lparr>lc_state = [], lc_milestone = [], lc_reason = [], lc_previous = []\<rparr> | Some p \<Rightarrow> po_lifecycle p)
      in if kt_origin t \<noteq> ''agent'' then
        (if normalize_task_state (kt_state t) \<notin> set [''planned'', ''queued'', ''running'', ''waiting_review'', ''waiting_human'', ''blocked'', ''failed'']
         then False
         else if high_risk_task (kt_risk t) then False
         else dependencies_passed st t)
      else if takeover_mode st (kt_project t) \<noteq> ''active'' \<or> lc_state life \<noteq> ''executing'' \<or> kt_command t = [] \<or> high_risk_task (kt_risk t)
      then False
      else if lc_milestone life \<noteq> [] \<and> kt_milestone t \<noteq> lc_milestone life then False
      else dependencies_passed st t)"

definition execution_closed :: "ctl_state \<Rightarrow> ctl_task \<Rightarrow> bool" where
  "execution_closed st t =
     (if kt_pause t \<noteq> [] then True
      else if kt_dispatch t = ''released'' \<or> kt_state t = ''cancelled'' then True
      else if takeover_mode st (kt_project t) \<in> set [''manual'', ''paused''] then needs_dispatch_approval t
      else False)"

text \<open>The gates ask the lease table of the claim store, if there is one.\<close>

definition lease_live :: "instant \<Rightarrow> task_claim \<Rightarrow> bool" where
  "lease_live now c \<longleftrightarrow> now < tc_lease c"

definition execution_gate :: "claims option \<Rightarrow> instant \<Rightarrow> string \<Rightarrow> ctl_state \<Rightarrow> ctl_task \<Rightarrow> (ctl_error, unit) result" where
  "execution_gate leases now username st t =
     (if \<not> managed_project st t then Inr ()
      else if takeover_mode st (kt_project t) = ''manual'' \<and> kt_pause t = [] then Inr ()
      else if \<not> task_claim_allowed st t \<or> kt_dispatch t \<noteq> ''claimed''
      then Inl (CtlFailure ''execution paused; resume and claim the task first'')
      else case leases of
        None \<Rightarrow> Inl (CtlFailure ''claim store unavailable'')
      | Some rows \<Rightarrow>
          (case active_claim_for_task username (kt_id t) rows of
             Inl _ \<Rightarrow> Inl (CtlFailure ''active lease required'')
           | Inr c \<Rightarrow> ensure (CtlFailure ''active lease required'') (lease_live now c)))"

definition require_managed_lease :: "claims option \<Rightarrow> instant \<Rightarrow> string \<Rightarrow> ctl_state \<Rightarrow> ctl_task \<Rightarrow> string \<Rightarrow> (ctl_error, unit) result" where
  "require_managed_lease leases now username st t lease =
     (if \<not> managed_project st t then Inr ()
      else if \<not> task_claim_allowed st t \<or> kt_dispatch t \<noteq> ''claimed''
      then Inl (CtlFailure ''agent execution entrance is closed'')
      else case leases of
        None \<Rightarrow> Inl (CtlFailure ''claim store unavailable'')
      | Some rows \<Rightarrow>
          (case get_claim username lease rows of
             Inl _ \<Rightarrow> Inl (CtlFailure ''active task lease required'')
           | Inr c \<Rightarrow> ensure (CtlFailure ''active task lease required'')
               (tc_task c = kt_id t \<and> tc_status c = ClActive \<and> lease_live now c)))"

section \<open>The life cycle of a project\<close>

definition next_lifecycle :: "string \<Rightarrow> string" where
  "next_lifecycle from =
     (case map_of [(''delegated'', ''reconnaissance''), (''reconnaissance'', ''planning''), (''planning'', ''awaiting_confirmation''),
        (''awaiting_confirmation'', ''executing''), (''executing'', ''awaiting_milestone_acceptance'')] from of
        None \<Rightarrow> [] | Some to \<Rightarrow> to)"

text \<open>The milestone marked current; the last one, if several are.\<close>

definition current_milestone :: "milestone list \<Rightarrow> string" where
  "current_milestone ms =
     (case filter (\<lambda>m. mi_status m = ''current'') ms of [] \<Rightarrow> [] | cs \<Rightarrow> mi_id (last cs))"

definition lifecycle_transition :: "string \<Rightarrow> string \<Rightarrow> project \<Rightarrow> (ctl_error, project) result" where
  "lifecycle_transition to reason p =
     (let life = po_lifecycle p; from = (if lc_state life = [] then ''delegated'' else lc_state life);
          current = current_milestone (po_milestones p)
      in if to = [] \<or> to = from then Inr p
         else if to = ''blocked'' then
           and_then (ensure (CtlFailure ''blocked lifecycle requires reason'') (trim_space reason \<noteq> [])) (\<lambda>_.
             Inr (p\<lparr>po_lifecycle := life\<lparr>lc_previous := from, lc_state := to, lc_reason := reason\<rparr>\<rparr>))
         else
           and_then (if from = ''blocked'' then
               ensure (CtlFailure ''blocked lifecycle must return to previous state'') (to = lc_previous life)
             else if from = ''awaiting_milestone_acceptance'' then
               ensure (CtlFailure ''milestone must be accepted before continuing'') (to = ''executing'' \<or> to = ''completed'')
             else ensure (CtlFailure (''illegal lifecycle transition: '' @ from @ '' -> '' @ to)) (next_lifecycle from = to)) (\<lambda>_.
           and_then (if to = ''executing'' then
               and_then (ensure (CtlFailure ''execution requires a current milestone'') (current \<noteq> [])) (\<lambda>_.
               ensure (CtlFailure ''accept current milestone before continuing'')
                 (\<not> (from = ''awaiting_milestone_acceptance'' \<and> current = lc_milestone life)))
             else Inr ()) (\<lambda>_.
           and_then (if to = ''completed'' then
               and_then (ensure (CtlFailure ''completion requires milestones'') (po_milestones p \<noteq> [])) (\<lambda>_.
               ensure (CtlFailure ''all milestones must be accepted'') (list_all (\<lambda>m. mi_status m = ''done'') (po_milestones p)))
             else Inr ()) (\<lambda>_.
           Inr (p\<lparr>po_lifecycle := \<lparr>lc_state = to, lc_milestone = (if to = ''executing'' then current else lc_milestone life),
             lc_reason = [], lc_previous = []\<rparr>\<rparr>)))))"

end
