(* ===== verification/Go_Path.thy ===== *)
theory Go_Path
  imports Go_Text
begin

text \<open>
  \<open>filepath.Clean\<close> for slash-separated paths, and cutting a text to a number of bytes
  rune by rune, as the code does with labels and tool output.
\<close>

section \<open>Paths\<close>

text \<open>The components kept so far, the last one first.\<close>

fun clean_parts :: "bool \<Rightarrow> string list \<Rightarrow> string list \<Rightarrow> string list" where
  "clean_parts rooted kept [] = rev kept"
| "clean_parts rooted kept (c # cs) =
     (if c = [] \<or> c = ''.'' then clean_parts rooted kept cs
      else if c = ''..'' then
        (case kept of
           [] \<Rightarrow> if rooted then clean_parts rooted [] cs else clean_parts rooted [''..''] cs
         | k # ks \<Rightarrow> if k = ''..'' then clean_parts rooted (c # kept) cs else clean_parts rooted ks cs)
      else clean_parts rooted (c # kept) cs)"

fun join_slash :: "string list \<Rightarrow> string" where
  "join_slash [] = []"
| "join_slash [w] = w"
| "join_slash (w # v # ws) = w @ ''/'' @ join_slash (v # ws)"

definition path_clean :: "string \<Rightarrow> string" where
  "path_clean p =
     (let rooted = has_prefix p ''/''; body = join_slash (clean_parts rooted [] (split_char (CHR ''/'') p))
      in if rooted then CHR ''/'' # body else if body = [] then ''.'' else body)"

section \<open>Cutting at a rune\<close>

text \<open>
  The runes of a text, each in the form \<open>string([]rune)\<close> gives it: a byte that starts no
  valid encoding becomes the replacement character.
\<close>

function rune_texts :: "string \<Rightarrow> string list" where
  "rune_texts s =
     (if s = [] then []
      else let n = rune_len (map byte_of s) in
        (if n = 1 \<and> 0x80 \<le> byte_of (hd s) then map byte_char [0xEF, 0xBF, 0xBD] else take n s) # rune_texts (drop n s))"
  by pat_completeness auto
termination
proof (relation "measure length")
  fix s n assume "s \<noteq> []" and n: "n = rune_len (map byte_of s)"
  with rune_len_pos [of "map byte_of s"] show "(drop n s, s) \<in> measure length" by simp
qed simp

declare rune_texts.simps [simp del]

text \<open>Runes are dropped from the end until the rest fits.\<close>

fun fit_runes :: "nat \<Rightarrow> string list \<Rightarrow> string list" where
  "fit_runes room [] = []"
| "fit_runes room (r # rs) = (if length r \<le> room then r # fit_runes (room - length r) rs else [])"

definition cut_runes :: "nat \<Rightarrow> string \<Rightarrow> string" where
  "cut_runes room s = concat (fit_runes room (rune_texts s))"

lemma length_fit_runes: "length (concat (fit_runes room rs)) \<le> room"
proof (induction rs arbitrary: room)
  case (Cons r rs)
  show ?case using Cons [of "room - length r"] by (auto simp del: length_concat)
qed simp

text \<open>It is the longest such beginning: what is dropped would not have fitted.\<close>

lemma fit_runes_longest:
  "take n rs = xs \<Longrightarrow> length (concat xs) \<le> room \<Longrightarrow> \<exists>ys. fit_runes room rs = xs @ ys"
proof (induction rs arbitrary: room n xs)
  case (Cons r rs)
  show ?case
  proof (cases n)
    case (Suc m)
    with Cons.prems obtain xs' where xs: "xs = r # xs'" "take m rs = xs'" "length r + length (concat xs') \<le> room" by auto
    from Cons.IH [OF xs(2), of "room - length r"] xs show ?thesis by auto
  qed (use Cons.prems in simp)
qed simp

end
