(* ===== verification/Control_Phases.thy ===== *)
theory Control_Phases
  imports Control_Contract Go_Path
begin

text \<open>
  The runbook engine (\<open>project_control.go\<close>): phases are started, completed with their
  evidence or failed, and tools are started in them. A function that may fail after it
  changed the task returns the state and the task as they then are, with the result,
  because its callers may go on.
\<close>

type_synonym 'a phase_result = "ctl_state \<times> ctl_task \<times> (ctl_error, 'a) result"

section \<open>Phases and their sessions\<close>

definition phase_agent :: "runbook_phase \<Rightarrow> string" where
  "phase_agent p =
     (if rp_role p = ''review'' then ''reviewer'' else if rp_role p = ''verify'' then ''verifier''
      else if rp_role p = ''test'' then ''tester'' else ''worker'')"

definition normalize_workspace_kind :: "string \<Rightarrow> string" where
  "normalize_workspace_kind = normal [''shared_repo'', ''read_only_snapshot''] []"

definition phase_workspace_kind :: "runbook_phase \<Rightarrow> string" where
  "phase_workspace_kind p = (if rp_write p = ''scoped_write'' then ''shared_repo'' else ''read_only_snapshot'')"

definition workspace_ref :: "string \<Rightarrow> string \<Rightarrow> string" where
  "workspace_ref kind0 dir0 =
     (let kind = normalize_workspace_kind kind0; dir = trim_space dir0
      in if kind = [] then [] else if dir = [] then kind else kind @ '':'' @ path_clean dir)"

definition parse_workspace_ref :: "string \<Rightarrow> string \<times> string" where
  "parse_workspace_ref ref0 =
     (let ref = trim_space ref0; (lead, rest, found) = cut_at (CHR '':'') ref; kind = normalize_workspace_kind lead
      in if found \<and> lead \<noteq> [] \<and> kind \<noteq> [] then (kind, if trim_space rest = [] then [] else path_clean (trim_space rest))
         else (normalize_workspace_kind ref, []))"

definition allows_terminal :: "runbook_phase \<Rightarrow> bool" where
  "allows_terminal p \<longleftrightarrow> low_trim (rp_write p) = ''scoped_write''"

definition session_of_terminal :: "string \<Rightarrow> string" where
  "session_of_terminal i = (if trim_space i = [] then [] else ''session-live-'' @ trim_space i)"

definition terminal_of_session :: "string \<Rightarrow> string" where
  "terminal_of_session i =
     (let s = trim_space i in if has_prefix s ''session-live-'' then trim_space (drop (length ''session-live-'') s) else [])"

definition truncate_label :: "string \<Rightarrow> nat \<Rightarrow> string" where
  "truncate_label value room =
     (let v = join_space (str_fields value) in if room < 1 \<or> length v \<le> room then v else trim_space (cut_runes room v))"

definition phase_session_name :: "ctl_task \<Rightarrow> string \<Rightarrow> string" where
  "phase_session_name t i =
     (let p = map (\<lambda>c. if c = CHR ''_'' then CHR '' '' else c) (normalize_phase i);
          name = trim_space ((if p = [] then ''phase'' else p) @ '' - '' @ trim_space (kt_title t))
      in truncate_label (if name = [] then ''Runbook phase'' else name) 80)"

text \<open>
  The terminal manager, when the caller has one: it is asked for a session in a directory
  with a name, for a task of a project, and answers with its identifier or an error text.
\<close>

type_synonym terminal_maker = "(string \<Rightarrow> string \<Rightarrow> string \<Rightarrow> string \<Rightarrow> (string, string) result) option"

definition create_phase_session :: "terminal_maker \<Rightarrow> ctl_task \<Rightarrow> runbook_phase \<Rightarrow> string \<Rightarrow> ctl_state \<Rightarrow> ctl_state \<times> (ctl_error, string) result" where
  "create_phase_session terminals t p dir st =
     (let made = (let (i, st1) = control_id ''session'' (kt_id t @ ''-'' @ normalize_phase (rp_id p)) st in (st1, Inr i))
      in case terminals of
        None \<Rightarrow> made
      | Some mk \<Rightarrow>
          if \<not> allows_terminal p \<or> trim_space dir = [] then made
          else (case mk dir (phase_session_name t (normalize_phase (rp_id p))) (kt_id t) (kt_project t) of
            Inl e \<Rightarrow> (st, Inl (CtlFailure (''create phase session: '' @ e)))
          | Inr i \<Rightarrow> (st, Inr (session_of_terminal i))))"

definition state_for_phase :: "string \<Rightarrow> string" where
  "state_for_phase i = (if normalize_phase i = ''review'' then ''waiting_review'' else ''running'')"

definition can_start_phase :: "ctl_task \<Rightarrow> string \<Rightarrow> runbook \<Rightarrow> (ctl_error, unit) result" where
  "can_start_phase t i rb =
     (let p = normalize_phase i; current = infer_phase t in
      if p = [] \<or> p = ''ready_for_acceptance'' then Inl (CtlFailure ''valid phaseId is required'')
      else if find_phase rb p = None then Inl (CtlFailure (''unknown runbook phase: '' @ p))
      else if normalize_task_state (kt_state t) = ''archived'' then Inl (CtlFailure ''archived task cannot start a runbook phase'')
      else if normalize_acceptance (kt_acceptance t) = ''accepted'' then Inl (CtlFailure ''accepted task cannot start a runbook phase'')
      else if current = ''ready_for_acceptance'' then Inl (CtlFailure ''task is already ready for acceptance'')
      else if p \<noteq> current then Inl (CtlFailure (''cannot start phase '' @ p @ '' while current phase is '' @ current))
      else Inr ())"

definition running_attempt :: "phase_attempt list \<Rightarrow> string \<Rightarrow> string \<Rightarrow> nat option" where
  "running_attempt attempts task phase =
     (case filter (\<lambda>i. pa_task (attempts ! i) = task \<and> pa_phase (attempts ! i) = phase \<and> pa_status (attempts ! i) = ''running'')
        [0..<length attempts] of
        [] \<Rightarrow> None | is \<Rightarrow> Some (last is))"

lemma running_attempt_Some:
  assumes "running_attempt xs task phase = Some i"
  shows "i < length xs \<and> pa_task (xs ! i) = task \<and> pa_phase (xs ! i) = phase \<and> pa_status (xs ! i) = ''running''"
proof -
  define run where "run = (\<lambda>i. pa_task (xs ! i) = task \<and> pa_phase (xs ! i) = phase \<and> pa_status (xs ! i) = ''running'')"
  define found where "found = filter run [0..<length xs]"
  have "(case found of [] \<Rightarrow> None | is \<Rightarrow> Some (last is)) = Some i"
    using assms unfolding running_attempt_def found_def run_def .
  then have "found \<noteq> []" and "i = last found" by (cases found; simp)+
  then have "i \<in> set found" by simp
  then show ?thesis by (simp add: found_def run_def)
qed

text \<open>Two writers may not share the directory of a project.\<close>

definition writable_phase :: "ctl_task \<Rightarrow> bool" where
  "writable_phase t \<longleftrightarrow> kt_phase t \<notin> set [''review'', ''final_validation'']"

definition shared_conflict :: "ctl_state \<Rightarrow> ctl_task \<Rightarrow> bool" where
  "shared_conflict st t \<longleftrightarrow> writable_phase t \<and>
     (\<exists>o' \<in> set (pc_tasks st). kt_id o' \<noteq> kt_id t \<and> kt_project o' = kt_project t \<and> kt_dispatch o' = ''claimed'' \<and> writable_phase o')"

definition start_phase ::
  "(ctl_task \<Rightarrow> runbook_phase \<Rightarrow> string \<Rightarrow> (ctl_error, string) result) \<Rightarrow> terminal_maker \<Rightarrow> string \<Rightarrow> string \<Rightarrow>
   ctl_state \<Rightarrow> ctl_task \<Rightarrow> unit phase_result" where
  "start_phase workspace terminals now phase_id st t0 =
     (if managed_project st t0 \<and> shared_conflict st (t0\<lparr>kt_phase := phase_id\<rparr>)
      then (st, t0, Inl (CtlViolation ''shared_directory_conflict'' ''shared project directory already has a writer''))
      else let t = refresh_task (pc_artifacts st) t0; rb = runbook_for t;
               i = (if normalize_phase phase_id = [] then kt_phase t else normalize_phase phase_id)
      in case can_start_phase t i rb of Inl e \<Rightarrow> (st, t, Inl e) | Inr _ \<Rightarrow>
      if running_attempt (pc_attempts st) (kt_id t) i \<noteq> None
      then (st, t, Inl (CtlFailure (''phase '' @ i @ '' is already running'')))
      else case find_phase rb i of None \<Rightarrow> (st, t, Inl (CtlFailure [])) | Some p \<Rightarrow>
      let (aid, st1) = control_id ''phase-attempt'' (kt_id t @ ''-'' @ i) st
      in case workspace t p aid of Inl e \<Rightarrow> (st1, t, Inl e) | Inr dir \<Rightarrow>
      case create_phase_session terminals t p dir st1 of (st2, Inl e) \<Rightarrow> (st2, t, Inl e) | (st2, Inr sid) \<Rightarrow>
      let a = \<lparr>pa_released = False, pa_id = aid, pa_task = kt_id t, pa_runbook = kt_runbook t, pa_phase = i, pa_session = sid,
               pa_agent = phase_agent p, pa_runtime = kt_runtime t, pa_workspace = workspace_ref (phase_workspace_kind p) dir,
               pa_started = now, pa_completed = [], pa_status = ''running'', pa_artifacts = [], pa_failure = []\<rparr>;
          live = terminal_of_session sid \<noteq> [];
          t' = t\<lparr>kt_state := state_for_phase i, kt_acceptance := ''not_ready'', kt_phase := i, kt_runbook_state := ''in_progress'',
                 kt_sessions := append_unique (kt_sessions t) sid, kt_summary := ''Runbook phase '' @ i @ '' started.'',
                 kt_next := (if live then ''Use session '' @ sid @ '' to complete '' @ i @ '' with required evidence.''
                             else ''Complete '' @ i @ '' with required evidence.'')\<rparr>
      in (emit ''phase-started'' (task_event now ''runbook_engine'' ''phase_started''
            (if live then ''Started runbook phase '' @ i @ '' in session '' @ sid @ ''.'' else ''Started runbook phase '' @ i @ ''.'') t')
            (st2\<lparr>pc_attempts := pc_attempts st2 @ [a]\<rparr>), t', Inr ()))"

section \<open>Evidence\<close>

definition requires_artifact :: "runbook_phase \<Rightarrow> string \<Rightarrow> bool" where
  "requires_artifact p kind \<longleftrightarrow> (\<exists>r \<in> set (rp_required p). normalize_artifact_kind r = normalize_artifact_kind kind)"

definition artifact_allowed :: "runbook_phase \<Rightarrow> string \<Rightarrow> bool" where
  "artifact_allowed p kind \<longleftrightarrow> rp_required p = [] \<or> (\<exists>r \<in> set (rp_required p). normalize_artifact_kind r = kind)"

definition record_artifact ::
  "string \<Rightarrow> string \<Rightarrow> string \<Rightarrow> string \<Rightarrow> string \<Rightarrow> string \<Rightarrow> string \<Rightarrow> ctl_state \<Rightarrow> ctl_task \<Rightarrow> phase_attempt \<Rightarrow>
   ctl_state \<times> ctl_task \<times> phase_attempt \<times> artifact" where
  "record_artifact phase_id kind outcome label0 value0 actor0 now st t a =
     (let label = (if trim_space label0 = [] then kind else trim_space label0);
          value = (if trim_space value0 = [] then ''Recorded '' @ kind @ '' for phase '' @ phase_id @ ''.'' else trim_space value0);
          actor = (if trim_space actor0 = [] then ''runbook_engine'' else actor0);
          (fid, st1) = control_id ''artifact'' (kt_id t @ ''-'' @ kind) st;
          f = \<lparr>fa_id = fid, fa_task = kt_id t, fa_attempt = pa_id a, fa_kind = kind, fa_outcome = outcome, fa_label = label,
               fa_value = value, fa_created = now\<rparr>;
          t1 = t\<lparr>kt_evidence := kt_evidence t @ [(label, value)]\<rparr>;
          t' = (if kind = ''diff_summary'' then t1\<lparr>kt_diff := value\<rparr> else t1);
          ev = (task_event now actor ''artifact_recorded'' (''Recorded '' @ kind @ '' artifact for phase '' @ phase_id @ ''.'') t')
                 \<lparr>ev_kind := activity_kind kind, ev_source := fid\<rparr>
      in (emit ''artifact-recorded'' ev (st1\<lparr>pc_artifacts := pc_artifacts st1 @ [f]\<rparr>), t',
          a\<lparr>pa_artifacts := pa_artifacts a @ [fid]\<rparr>, f))"

section \<open>Completing and failing a phase\<close>

fun join_comma :: "string list \<Rightarrow> string" where
  "join_comma [] = []"
| "join_comma [w] = w"
| "join_comma (w # v # ws) = w @ '','' @ join_comma (v # ws)"

definition completion_error :: "ctl_state \<Rightarrow> ctl_task \<Rightarrow> runbook \<Rightarrow> runbook_phase \<Rightarrow> string \<Rightarrow> string \<Rightarrow> string \<Rightarrow> (ctl_error, unit) result" where
  "completion_error st t rb p i kind outcome =
     (let missing = missing_evidence t (pc_artifacts st) rb kind outcome in
      if rp_required p \<noteq> [] \<and> kind = [] then Inl (CtlFailure (''phase '' @ i @ '' requires artifact '' @ join_comma (rp_required p)))
      else if rp_required p \<noteq> [] \<and> \<not> artifact_allowed p kind
      then Inl (CtlFailure (''phase '' @ i @ '' does not accept artifact '' @ kind))
      else if kind \<noteq> [] \<and> \<not> outcome_passes kind outcome
      then Inl (CtlFailure (''phase '' @ i @ '' artifact '' @ kind @ '' outcome must pass before completing the phase''))
      else if i = ''final_validation'' \<and> missing \<noteq> []
      then Inl (CtlFailure (''completion rules not satisfied: missing '' @ join_comma missing))
      else ensure (CtlFailure (''phase '' @ i @ '' has no next phase in runbook '' @ rb_id rb)) (next_phase rb i \<noteq> []))"

definition advance_task :: "ctl_state \<Rightarrow> runbook \<Rightarrow> string \<Rightarrow> ctl_task \<Rightarrow> ctl_task" where
  "advance_task st rb i t =
     (let n = next_phase rb i in
      if n = ''ready_for_acceptance'' then
        t\<lparr>kt_state := ''execution_complete'', kt_acceptance := ''ready_for_acceptance'', kt_phase := ''ready_for_acceptance'',
          kt_runbook_state := ''ready_for_acceptance'',
          kt_summary := ''Runbook completion rules passed; task is ready for human acceptance.'',
          kt_next := ''Request final acceptance review to create the human checkpoint.'', kt_missing := []\<rparr>
      else
        t\<lparr>kt_phase := n, kt_runbook_state := ''in_progress'', kt_state := state_for_phase n,
          kt_summary := ''Completed '' @ i @ ''; next phase is '' @ n @ ''.'',
          kt_next := ''Start '' @ n @ '' and record its required evidence.'',
          kt_missing := missing_evidence t (pc_artifacts st) rb [] []\<rparr>)"

definition complete_phase :: "task_update \<Rightarrow> string \<Rightarrow> ctl_state \<Rightarrow> ctl_task \<Rightarrow> unit phase_result" where
  "complete_phase req now st t0 =
     (let t = refresh_task (pc_artifacts st) t0; rb = runbook_for t;
          i = (if normalize_phase (uq_phase req) = [] then kt_phase t else normalize_phase (uq_phase req));
          kind = normalize_artifact_kind (uq_artifact_kind req); outcome = normalize_outcome (uq_artifact_outcome req)
      in case find_phase rb i of None \<Rightarrow> (st, t, Inl (CtlFailure (''unknown runbook phase: '' @ i))) | Some p \<Rightarrow>
      case running_attempt (pc_attempts st) (kt_id t) i of
        None \<Rightarrow> (st, t, Inl (CtlFailure (''phase '' @ i @ '' has no running attempt'')))
      | Some k \<Rightarrow>
      (case completion_error st t rb p i kind outcome of Inl e \<Rightarrow> (st, t, Inl e) | Inr _ \<Rightarrow>
      let a = pc_attempts st ! k;
          (st1, t1, a1) = (if kind = [] then (st, t, a)
            else let (st1, t1, a1, f) = record_artifact i kind outcome (uq_artifact_label req) (uq_artifact_value req) ''runbook_engine'' now st t a
                 in (st1, t1, a1));
          st2 = st1\<lparr>pc_attempts := (pc_attempts st1)[k := a1\<lparr>pa_status := ''completed'', pa_completed := now\<rparr>]\<rparr>;
          t2 = advance_task st2 rb i t1
      in (emit ''phase-completed'' (task_event now ''runbook_engine'' ''phase_completed'' (''Completed runbook phase '' @ i @ ''.'') t2) st2,
          t2, Inr ())))"

definition fail_phase :: "string \<Rightarrow> string \<Rightarrow> string \<Rightarrow> ctl_state \<Rightarrow> ctl_task \<Rightarrow> unit phase_result" where
  "fail_phase phase_id reason0 now st t0 =
     (let t = refresh_task (pc_artifacts st) t0;
          i = (if normalize_phase phase_id = [] then kt_phase t else normalize_phase phase_id);
          reason = (if trim_space reason0 = [] then ''Phase failed without a detailed reason.'' else trim_space reason0)
      in case running_attempt (pc_attempts st) (kt_id t) i of
        None \<Rightarrow> (st, t, Inl (CtlFailure (''phase '' @ i @ '' has no running attempt'')))
      | Some k \<Rightarrow>
          let st1 = st\<lparr>pc_attempts := (pc_attempts st)[k := (pc_attempts st ! k)\<lparr>pa_status := ''failed'', pa_completed := now, pa_failure := reason\<rparr>]\<rparr>;
              rb = runbook_for t; target = next_phase rb ''fix_or_replan'';
              t1 = t\<lparr>kt_state := ''failed'', kt_phase := ''fix_or_replan'', kt_runbook_state := ''needs_fix'', kt_acceptance := ''not_ready'',
                 kt_summary := ''Runbook phase '' @ i @ '' failed.'',
                 kt_next := (if target = [] \<or> target = ''ready_for_acceptance'' then ''Start fix_or_replan and record recovery evidence.''
                             else ''Start fix_or_replan, then rerun '' @ target @ '' evidence.''),
                 kt_missing := missing_evidence t (pc_artifacts st) rb [] []\<rparr>
          in (emit ''phase-failed'' (task_event now ''runbook_engine'' ''phase_failed'' (''Phase '' @ i @ '' failed: '' @ reason) t1) st1, t1, Inr ()))"

end
