(* ===== verification/Control_Tools.thy ===== *)
theory Control_Tools
  imports Control_Phases
begin

text \<open>
  Tools of the runbook engine (\<open>project_control.go\<close>): which tool a phase may run, starting
  a run, what a finished run does to its phase, retries, and the automatic step to the
  next phase. Running the command itself is outside; its result is an argument.
\<close>

section \<open>The catalogue\<close>

definition default_tools :: "tool_def list" where
  "default_tools =
     [\<lparr>td_id = ''repo_status'', td_name = ''Repo Status'', td_kind = [], td_command = [''git'', ''status'', ''--short''], td_timeout = 0, td_output = 0,
       td_artifact_kind = ''repo_status'', td_artifact_label = ''Repo status'',
       td_phases = [''plan'', ''implement'', ''write'', ''test'', ''review'', ''fix_or_replan'', ''final_validation''], td_max_retries = 0\<rparr>,
      \<lparr>td_id = ''diff_capture'', td_name = ''Diff Capture'', td_kind = [], td_command = [''git'', ''diff'', ''--stat'', ''--find-renames''], td_timeout = 0, td_output = 0,
       td_artifact_kind = ''diff_summary'', td_artifact_label = ''Diff summary'',
       td_phases = [''implement'', ''write'', ''fix_or_replan'', ''review'', ''final_validation''], td_max_retries = 0\<rparr>,
      \<lparr>td_id = ''go_test'', td_name = ''Go Test'', td_kind = [], td_command = [''go'', ''test'', ''./...''], td_timeout = 0, td_output = 0,
       td_artifact_kind = ''test_result'', td_artifact_label = ''Go test'', td_phases = [''test'', ''final_validation''], td_max_retries = 1\<rparr>]"

definition is_agent_tool :: "tool_def \<Rightarrow> bool" where
  "is_agent_tool d \<longleftrightarrow> low_trim (td_kind d) = ''agent''"

definition find_tool :: "tool_def list \<Rightarrow> string \<Rightarrow> tool_def option" where
  "find_tool tools i = List.find (\<lambda>d. low_trim (td_id d) = low_trim i) tools"

definition tools_for_state :: "ctl_state \<Rightarrow> tool_def list" where
  "tools_for_state st = (if pc_tools st \<noteq> [] then pc_tools st else default_tools)"

definition tool_allowed_in_phase :: "string \<Rightarrow> string \<Rightarrow> tool_def list \<Rightarrow> bool" where
  "tool_allowed_in_phase tool0 phase0 tools =
     (let tool = low_trim tool0; phase = normalize_phase phase0 in
      if tool = [] \<or> phase = [] then False
      else case find_tool tools tool of
        None \<Rightarrow> False
      | Some d \<Rightarrow> td_phases d = [] \<or> (\<exists>a \<in> set (td_phases d). normalize_phase a = phase))"

definition validate_tool_for_phase :: "string \<Rightarrow> runbook_phase \<Rightarrow> phase_attempt \<Rightarrow> tool_def list \<Rightarrow> (ctl_error, unit) result" where
  "validate_tool_for_phase tool0 p a tools =
     (let tool = low_trim tool0; phase = normalize_phase (rp_id p); expected = phase_workspace_kind p;
          actual = fst (parse_workspace_ref (pa_workspace a))
      in if \<not> tool_allowed_in_phase tool phase tools then Inl (CtlFailure (''tool '' @ tool @ '' is not allowed in phase '' @ phase))
         else if actual \<noteq> [] \<and> expected \<noteq> [] \<and> actual \<noteq> expected
         then Inl (CtlFailure (''tool '' @ tool @ '' cannot run in workspace '' @ pa_workspace a @ '' for phase '' @ phase))
         else if tool = ''diff_capture'' \<and> rp_write p \<noteq> ''scoped_write''
         then Inl (CtlFailure (''tool '' @ tool @ '' requires scoped write phase context''))
         else if tool \<in> set [''go_test'', ''repo_status''] \<and> pa_workspace a = []
         then Inl (CtlFailure (''tool '' @ tool @ '' requires a workspace reference''))
         else Inr ())"

definition tool_for_phase :: "tool_def list \<Rightarrow> runbook_phase \<Rightarrow> tool_def option" where
  "tool_for_phase tools p =
     (case rp_required p of
        [] \<Rightarrow> None
      | r # _ \<Rightarrow> List.find (\<lambda>d. normalize_artifact_kind (td_artifact_kind d) = normalize_artifact_kind r \<and>
          (\<exists>a \<in> set (td_phases d). normalize_phase a = normalize_phase (rp_id p))) tools)"

section \<open>Starting a run\<close>

definition running_tool :: "tool_run list \<Rightarrow> string \<Rightarrow> string \<Rightarrow> string \<Rightarrow> tool_run option" where
  "running_tool runs task attempt tool0 =
     (let tool = low_trim tool0 in
      List.find (\<lambda>r. ur_task r = task \<and> ur_attempt r = attempt \<and> (tool = [] \<or> ur_tool r = tool) \<and> ur_status r = ''running'') runs)"

text \<open>The identifier of the run to carry out, empty when an agent is to do it.\<close>

definition start_tool :: "string \<Rightarrow> string \<Rightarrow> string \<Rightarrow> ctl_state \<Rightarrow> ctl_task \<Rightarrow> string phase_result" where
  "start_tool phase_id tool_id now st t0 =
     (let t = refresh_task (pc_artifacts st) t0; rb = runbook_for t; tools = tools_for_state st;
          i = (if normalize_phase phase_id = [] then kt_phase t else normalize_phase phase_id); tool = low_trim tool_id
      in case find_phase rb i of None \<Rightarrow> (st, t, Inl (CtlFailure (''unknown runbook phase: '' @ i))) | Some p \<Rightarrow>
      case running_attempt (pc_attempts st) (kt_id t) i of
        None \<Rightarrow> (st, t, Inl (CtlFailure (''phase '' @ i @ '' has no running attempt'')))
      | Some k \<Rightarrow>
      let a = pc_attempts st ! k in
      if tool = [] then (st, t, Inl (CtlFailure ''valid toolId is required''))
      else if trim_space (pa_workspace a) = [] then (st, t, Inl (CtlFailure ''workspace is unavailable for tool execution''))
      else case validate_tool_for_phase tool p a tools of
        Inl e \<Rightarrow> (st, t, Inl (if managed_project st t
          then (case e of CtlFailure d \<Rightarrow> CtlViolation ''tool_violation'' d | _ \<Rightarrow> e) else e))
      | Inr _ \<Rightarrow>
      (case running_tool (pc_runs st) (kt_id t) (pa_id a) [] of
        Some r \<Rightarrow> (st, t, Inl (CtlFailure (''tool '' @ ur_tool r @ '' is already running for phase '' @ i)))
      | None \<Rightarrow>
      let d = find_tool tools tool; agent = (case d of None \<Rightarrow> False | Some d \<Rightarrow> is_agent_tool d);
          (rid, st1) = control_id ''tool-run'' (kt_id t @ ''-'' @ i @ ''-'' @ tool) st;
          r = \<lparr>ur_id = rid, ur_task = kt_id t, ur_attempt = pa_id a, ur_phase = i, ur_tool = tool, ur_workspace = pa_workspace a,
               ur_status = (if agent then ''waiting'' else ''running''), ur_started = now, ur_completed = [], ur_artifact = [],
               ur_outcome = [], ur_summary = (if agent then ''Waiting for agent to complete '' @ tool @ ''.''
                 else ''Running '' @ tool @ '' for '' @ i @ ''.''), ur_error = [], ur_retries = 0,
               ur_max_retries = (case d of None \<Rightarrow> 0 | Some d \<Rightarrow> td_max_retries d)\<rparr>;
          t' = t\<lparr>kt_summary := ''Tool '' @ tool @ '' started for '' @ i @ ''.'',
                 kt_next := ''Wait for '' @ tool @ '' to finish, then review the recorded evidence.''\<rparr>
      in (emit ''tool-run-started'' (task_event now ''tool_gateway'' ''tool_run_started'' (''Started '' @ tool @ '' for phase '' @ i @ ''.'') t')
            (st1\<lparr>pc_runs := pc_runs st1 @ [r]\<rparr>), t', Inr (if agent then [] else rid))))"

section \<open>The result of a run\<close>

record tool_result =
  tr_tool :: string
  tr_kind :: string
  tr_outcome :: string
  tr_label :: string
  tr_value :: string

definition phase_request :: "string \<Rightarrow> string \<Rightarrow> string \<Rightarrow> string \<Rightarrow> string \<Rightarrow> task_update" where
  "phase_request phase kind outcome label value =
     \<lparr>uq_lease = [], uq_milestone = None, uq_depends = None, uq_command = None, uq_version = 0, uq_action = [], uq_title = [],
      uq_goal = [], uq_priority = [], uq_risk = [], uq_state = [], uq_acceptance = [], uq_phase = phase, uq_artifact_kind = kind,
      uq_artifact_outcome = outcome, uq_artifact_label = label, uq_artifact_value = value, uq_failure = [], uq_tool = [],
      uq_pause = [], uq_clear_pause = False\<rparr>"

text \<open>
  Evidence the phase requires completes it or, when it does not pass, sends it to recovery;
  any other artifact is only recorded. The run comes back with its outcome.
\<close>

definition apply_tool_result :: "tool_result \<Rightarrow> string \<Rightarrow> tool_run \<Rightarrow> ctl_state \<Rightarrow> ctl_task \<Rightarrow> tool_run phase_result" where
  "apply_tool_result res0 now run st t =
     (let rb = runbook_for t; i = normalize_phase (ur_phase run);
          kind = normalize_artifact_kind (tr_kind res0); outcome = normalize_outcome (tr_outcome res0);
          tool = (if low_trim (tr_tool res0) = [] then ur_tool run else low_trim (tr_tool res0))
      in case find_phase rb i of None \<Rightarrow> (st, t, Inl (CtlFailure (''unknown runbook phase: '' @ i))) | Some p \<Rightarrow>
      case running_attempt (pc_attempts st) (kt_id t) i of
        None \<Rightarrow> (st, t, Inl (CtlFailure (''phase '' @ i @ '' has no running attempt'')))
      | Some k \<Rightarrow>
      if kind = [] then (st, t, Inl (CtlFailure (''tool '' @ ur_tool run @ '' did not produce an artifact kind'')))
      else let st1 = emit ''tool-executed'' (task_event now ''tool_gateway'' ''tool_executed''
             (''Ran '' @ tool @ '' for phase '' @ i @ '' with outcome '' @ outcome @ ''.'') t) st
      in if requires_artifact p kind \<and> outcome_passes kind outcome then
           (case complete_phase (phase_request i kind outcome (tr_label res0) (tr_value res0)) now st1 t of
              (st2, t2, Inl e) \<Rightarrow> (st2, t2, Inl e)
            | (st2, t2, Inr _) \<Rightarrow>
                (st2, t2, Inr (run\<lparr>ur_artifact := (if length (pc_artifacts st1) < length (pc_artifacts st2)
                     then fa_id (last (pc_artifacts st2)) else ur_artifact run),
                   ur_status := ''completed'', ur_outcome := outcome, ur_completed := now,
                   ur_summary := ''Tool '' @ ur_tool run @ '' completed and advanced phase '' @ i @ ''.''\<rparr>)))
         else let (st2, t2, a, f) = record_artifact i kind outcome (tr_label res0) (tr_value res0) ''tool_gateway'' now st1 t (pc_attempts st1 ! k);
                  st3 = st2\<lparr>pc_attempts := (pc_attempts st2)[k := a]\<rparr>;
                  run1 = run\<lparr>ur_artifact := fa_id f, ur_outcome := outcome, ur_completed := now\<rparr>
         in if requires_artifact p kind \<and> \<not> outcome_passes kind outcome then
              (case fail_phase i (''Tool '' @ ur_tool run @ '' failed.'') now st3 t2 of
                 (st4, t4, Inl e) \<Rightarrow> (st4, t4, Inl e)
               | (st4, t4, Inr _) \<Rightarrow> (st4, t4, Inr (run1\<lparr>ur_status := ''failed'',
                   ur_summary := ''Tool '' @ ur_tool run @ '' failed and routed the phase to recovery.''\<rparr>)))
            else (st3, t2\<lparr>kt_summary := ''Tool '' @ ur_tool run @ '' recorded '' @ kind @ '' evidence.'',
                    kt_next := ''Continue '' @ i @ '' or complete the phase with required evidence.'',
                    kt_missing := missing_evidence t2 (pc_artifacts st3) rb [] []\<rparr>,
                  Inr (run1\<lparr>ur_status := ''completed'', ur_summary := ''Tool '' @ ur_tool run @ '' recorded '' @ kind @ '' evidence.''\<rparr>)))"

section \<open>Going on without a human\<close>

definition auto_progress_enabled :: "ctl_task \<Rightarrow> bool" where
  "auto_progress_enabled t \<longleftrightarrow> kt_auto t \<noteq> Some False"

text \<open>Every error ends the automatic step without an error; what it did so far stays.\<close>

definition auto_progress ::
  "(ctl_task \<Rightarrow> runbook_phase \<Rightarrow> string \<Rightarrow> (ctl_error, string) result) \<Rightarrow> terminal_maker \<Rightarrow> string \<Rightarrow>
   ctl_state \<Rightarrow> ctl_task \<Rightarrow> ctl_state \<times> ctl_task \<times> string" where
  "auto_progress workspace terminals now st t =
     (let n = normalize_phase (kt_phase t); rb = runbook_for t in
      if managed_project st t \<or> \<not> auto_progress_enabled t \<or> n = [] \<or> n = ''ready_for_acceptance'' then (st, t, [])
      else case find_phase rb n of None \<Rightarrow> (st, t, []) | Some p \<Rightarrow>
      case tool_for_phase (tools_for_state st) p of None \<Rightarrow> (st, t, []) | Some d \<Rightarrow>
      (case start_phase workspace terminals now n st t of
         (st1, t1, Inl _) \<Rightarrow> (st1, t1, [])
       | (st1, t1, Inr _) \<Rightarrow>
          (case start_tool n (td_id d) now st1 t1 of
             (st2, t2, Inl _) \<Rightarrow> (st2, t2, [])
           | (st2, t2, Inr rid) \<Rightarrow>
               (emit ''auto-progress'' (task_event now ''auto_progress'' ''auto_progress''
                 (''Auto-progressed to phase '' @ n @ '' and started tool '' @ td_id d @ ''.'') t2) st2, t2, rid))))"

end
