(* ===== verification/Control_Checkpoints.thy ===== *)
theory Control_Checkpoints
  imports Control_Tools
begin

text \<open>
  Checkpoints (\<open>project_control.go\<close>): the gates a human decides. After every change of a
  task three functions raise or close its gates for final acceptance, archiving without
  acceptance, and dispatch; a decision on a gate moves the task.
\<close>

section \<open>Raising and closing gates\<close>

definition pending_gate :: "string \<Rightarrow> string \<Rightarrow> checkpoint \<Rightarrow> bool" where
  "pending_gate task kind c \<longleftrightarrow> ck_task c = task \<and> ck_kind c = kind \<and> ck_status c = ''pending''"

text \<open>The first checkpoint that satisfies a test is replaced.\<close>

fun update_first :: "('a \<Rightarrow> bool) \<Rightarrow> ('a \<Rightarrow> 'a) \<Rightarrow> 'a list \<Rightarrow> 'a list" where
  "update_first P f [] = []"
| "update_first P f (x # xs) = (if P x then f x # xs else x # update_first P f xs)"

definition gate_event :: "string \<Rightarrow> string \<Rightarrow> string \<Rightarrow> ctl_task \<Rightarrow> string \<Rightarrow> ctl_event" where
  "gate_event now action detail t checkpoint_id = (task_event now ''policy_engine'' action detail t)\<lparr>ev_checkpoint := checkpoint_id\<rparr>"

definition new_gate :: "string \<Rightarrow> string \<Rightarrow> string \<Rightarrow> string \<Rightarrow> string \<Rightarrow> string \<Rightarrow> string list \<Rightarrow> checkpoint" where
  "new_gate i task kind title reason now actions =
     \<lparr>ck_id = i, ck_task = task, ck_kind = kind, ck_title = title, ck_reason = reason, ck_status = ''pending'', ck_requested = now,
      ck_resolved_by = [], ck_actions = actions, ck_summary = [], ck_version = 1\<rparr>"

definition expire_gate :: "string \<Rightarrow> checkpoint \<Rightarrow> checkpoint" where
  "expire_gate summary c = c\<lparr>ck_status := ''expired'', ck_actions := [], ck_summary := summary, ck_version := ck_version c + 1\<rparr>"

definition expire_pending :: "string \<Rightarrow> string \<Rightarrow> string \<Rightarrow> ctl_task \<Rightarrow> ctl_state \<Rightarrow> ctl_state" where
  "expire_pending kind summary now t st =
     (case List.find (pending_gate (kt_id t) kind) (pc_checkpoints st) of
        None \<Rightarrow> st
      | Some c \<Rightarrow> emit ''checkpoint-expired'' (gate_event now ''checkpoint_expired'' summary t (ck_id c))
          (st\<lparr>pc_checkpoints := update_first (pending_gate (kt_id t) kind) (expire_gate summary) (pc_checkpoints st)\<rparr>))"

definition sync_acceptance_gate :: "string \<Rightarrow> ctl_task \<Rightarrow> ctl_state \<Rightarrow> ctl_state" where
  "sync_acceptance_gate now t st =
     (let pending = List.find (pending_gate (kt_id t) ''final_acceptance'') (pc_checkpoints st) in
      if kt_acceptance t = ''under_human_review'' then
        (if pending \<noteq> None then st
         else let (i, st1) = control_id ''checkpoint'' (kt_id t @ ''-final-acceptance'') st;
                  c = new_gate i (kt_id t) ''final_acceptance'' ''Final acceptance required''
                    ''Task entered human acceptance review after reaching ready_for_acceptance.'' now [''approve'', ''reject'', ''reroute'']
              in emit ''checkpoint-raised''
                   (gate_event now ''checkpoint_raised'' ''Generated final_acceptance checkpoint after entering under_human_review.'' t i)
                   (st1\<lparr>pc_checkpoints := pc_checkpoints st1 @ [c]\<rparr>))
      else if kt_acceptance t \<in> set [''not_ready'', ''accepted'', ''rejected''] then
        expire_pending ''final_acceptance'' ''Expired after task left acceptance review prerequisites.'' now t st
      else st)"

definition sync_archive_gate :: "string \<Rightarrow> ctl_task \<Rightarrow> ctl_state \<Rightarrow> ctl_state" where
  "sync_archive_gate now t st =
     (if kt_state t = ''execution_complete'' \<and> kt_acceptance t = ''not_ready'' then st
      else expire_pending ''archive_override'' ''Expired after task left archive override review prerequisites.'' now t st)"

definition task_origin :: "string \<Rightarrow> string" where
  "task_origin o' = (if low_trim o' = ''agent'' then ''agent'' else ''human'')"

definition approve_gate :: "checkpoint \<Rightarrow> checkpoint" where
  "approve_gate c = c\<lparr>ck_status := ''approved'', ck_actions := [],
     ck_summary := ''Dispatch approved automatically (task raised by a human).'', ck_version := ck_version c + 1\<rparr>"

text \<open>One pass over the checkpoints; the event of each approval is logged as it is made.\<close>

fun approve_gates :: "string \<Rightarrow> ctl_task \<Rightarrow> checkpoint list \<Rightarrow> checkpoint list \<Rightarrow> ctl_state \<Rightarrow> ctl_state" where
  "approve_gates now t done_rev [] st = st\<lparr>pc_checkpoints := rev done_rev\<rparr>"
| "approve_gates now t done_rev (c # cs) st =
     (if pending_gate (kt_id t) ''dispatch'' c
      then approve_gates now t (approve_gate c # done_rev) cs
        (emit ''checkpoint-auto-approved-dispatch'' (gate_event now ''checkpoint_approved''
          ''Dispatch approval granted automatically because the task was raised by a human.'' t (ck_id c)) st)
      else approve_gates now t (c # done_rev) cs st)"

definition dispatched :: "ctl_task \<Rightarrow> ctl_task" where
  "dispatched t = t\<lparr>kt_dispatch := ''ready'', kt_next := ''Task is ready for an agent runtime to claim.'',
     kt_summary := ''Dispatched automatically; the task was raised by a human.''\<rparr>"

definition undispatched :: "string \<Rightarrow> ctl_task \<Rightarrow> bool" where
  "undispatched i t \<longleftrightarrow> kt_id t = i \<and> trim_space (kt_dispatch t) \<notin> set [''ready'', ''claimed'', ''done'']"

fun dispatch_tasks :: "string \<Rightarrow> ctl_task \<Rightarrow> ctl_task list \<Rightarrow> ctl_task list \<Rightarrow> ctl_state \<Rightarrow> ctl_state" where
  "dispatch_tasks now t done_rev [] st = st\<lparr>pc_tasks := rev done_rev\<rparr>"
| "dispatch_tasks now t done_rev (u # us) st =
     (if undispatched (kt_id t) u
      then dispatch_tasks now t ((dispatched u)\<lparr>kt_version := kt_version u + 1\<rparr> # done_rev) us
        (emit ''dispatch-auto-approved'' (task_event now ''policy_engine'' ''dispatch_auto_approved''
          ''Task dispatched automatically because it was raised by a human.'' t) st)
      else dispatch_tasks now t (u # done_rev) us st)"

definition auto_approve_dispatch :: "string \<Rightarrow> ctl_task \<Rightarrow> ctl_state \<Rightarrow> ctl_state" where
  "auto_approve_dispatch now t st =
     (let st1 = approve_gates now t [] (pc_checkpoints st) st in dispatch_tasks now t [] (pc_tasks st1) st1)"

definition sync_dispatch_gate :: "string \<Rightarrow> ctl_task \<Rightarrow> ctl_state \<Rightarrow> ctl_state" where
  "sync_dispatch_gate now t st =
     (if kt_state t \<noteq> ''planned'' \<and> kt_state t \<noteq> ''queued'' then st
      else if \<not> needs_dispatch_approval t then auto_approve_dispatch now t st
      else if (if trim_space (kt_dispatch t) = [] then ''none'' else trim_space (kt_dispatch t)) \<noteq> ''none'' then st
      else if \<exists>c \<in> set (pc_checkpoints st). pending_gate (kt_id t) ''dispatch'' c then st
      else let (i, st1) = control_id ''checkpoint'' (kt_id t @ ''-dispatch'') st;
               c = new_gate i (kt_id t) ''dispatch'' ''Dispatch approval required''
                 ''Task is ready for agent dispatch; approve to make it claimable by an agent runtime.'' now [''approve'', ''reject''];
               t' = t\<lparr>kt_dispatch := ''awaiting_approval'',
                 kt_summary := ''Dispatch approval requested; waiting for a human decision before an agent can claim this task.'',
                 kt_next := ''Approve or reject the dispatch checkpoint in the approvals inbox.'', kt_version := kt_version t + 1\<rparr>
           in emit ''checkpoint-raised-dispatch''
                (gate_event now ''checkpoint_raised'' ''Generated dispatch checkpoint for explicit dispatch approval.'' t' i)
                (st1\<lparr>pc_checkpoints := pc_checkpoints st1 @ [c], pc_tasks := update_first (\<lambda>u. kt_id u = kt_id t) (\<lambda>_. t') (pc_tasks st1)\<rparr>))"

text \<open>The order every caller uses.\<close>

definition sync_gates :: "string \<Rightarrow> ctl_task \<Rightarrow> ctl_state \<Rightarrow> ctl_state" where
  "sync_gates now t st = sync_dispatch_gate now t (sync_archive_gate now t (sync_acceptance_gate now t st))"

definition request_archive_override :: "string \<Rightarrow> ctl_task \<Rightarrow> ctl_state \<Rightarrow> (ctl_error, ctl_state) result" where
  "request_archive_override now t st =
     (if kt_state t \<noteq> ''execution_complete'' then Inl (CtlFailure ''archive override requires execution_complete task'')
      else if kt_acceptance t = ''accepted'' then Inl (CtlFailure ''archive override is only for unaccepted tasks'')
      else if kt_acceptance t = ''under_human_review'' then Inl (CtlFailure ''archive override unavailable while final acceptance review is pending'')
      else if \<exists>c \<in> set (pc_checkpoints st). pending_gate (kt_id t) ''archive_override'' c
      then Inl (CtlFailure ''archive override review already pending'')
      else let (i, st1) = control_id ''checkpoint'' (kt_id t @ ''-archive-override'') st;
               c = new_gate i (kt_id t) ''archive_override'' ''Archive override requested''
                 ''Task is execution-complete but not accepted; explicit human archive override is required.'' now [''approve'', ''reject'']
           in Inr (emit ''checkpoint-raised''
                (gate_event now ''checkpoint_raised'' ''Generated archive_override checkpoint for explicit archive approval.'' t i)
                (st1\<lparr>pc_checkpoints := pc_checkpoints st1 @ [c]\<rparr>)))"

section \<open>Deciding\<close>

definition validate_final_approval :: "ctl_state \<Rightarrow> checkpoint \<Rightarrow> (ctl_error, unit) result" where
  "validate_final_approval st c =
     (case control_task st (ck_task c) of
        None \<Rightarrow> Inl (CtlFailure ''checkpoint task not found'')
      | Some t \<Rightarrow>
          if normalize_task_state (kt_state t) \<noteq> ''execution_complete''
          then Inl (CtlFailure ''final acceptance approval requires execution_complete task'')
          else let missing = missing_evidence t (pc_artifacts st) (runbook_for t) [] [] in
            ensure (CtlFailure (''completion rules not satisfied: missing '' @ join_comma missing)) (missing = []))"

definition decision_name :: "string \<Rightarrow> string \<Rightarrow> string" where
  "decision_name kind action =
     (if action = ''approve'' then
        (if kind = ''archive_override'' then ''archive_override_approved''
         else if kind = ''final_acceptance'' then ''final_acceptance_approved'' else ''checkpoint_approved'')
      else if action = ''reject'' then
        (if kind = ''archive_override'' then ''archive_override_rejected''
         else if kind = ''final_acceptance'' then ''final_acceptance_rejected'' else ''checkpoint_rejected'')
      else ''checkpoint_rerouted'')"

definition decide_gate :: "string \<Rightarrow> checkpoint \<Rightarrow> checkpoint" where
  "decide_gate action c =
     (let archive = (ck_kind c = ''archive_override'') in
      if action = ''approve'' then c\<lparr>ck_status := ''approved'', ck_actions := [],
        ck_summary := (if archive then ''Archive override approved by human operator'' else ''Accepted by human operator'')\<rparr>
      else if action = ''reject'' then c\<lparr>ck_status := ''rejected'', ck_actions := [],
        ck_summary := (if archive then ''Archive override rejected by human operator'' else ''Rejected by human operator'')\<rparr>
      else c\<lparr>ck_status := ''rerouted'', ck_actions := [], ck_summary := ''Rerouted by human operator''\<rparr>)"

text \<open>What the decision does to the task; the fingerprint of the acceptance inputs is read from the disk.\<close>

definition decide_task :: "(ctl_task \<Rightarrow> (ctl_error, string) result) \<Rightarrow> string \<Rightarrow> string \<Rightarrow> string \<Rightarrow> ctl_task \<Rightarrow> (ctl_error, ctl_task) result" where
  "decide_task fingerprint kind action decision t =
     (if action = ''approve'' then
        (let t1 = (if kind = ''archive_override'' then
               t\<lparr>kt_state := ''archived'', kt_acceptance := ''not_ready'', kt_acceptance_decision := [], kt_archive_decision := decision,
                 kt_summary := ''Task archived via explicit archive override decision after approvals inbox review.'',
                 kt_next := ''Review archive override rationale if this work needs to be reopened later.''\<rparr>
             else t\<lparr>kt_acceptance := ''accepted'', kt_acceptance_decision := decision,
                 kt_summary := ''Task accepted by human operator; execution remains visible for audit.'',
                 kt_next := ''Archive or hide accepted work with board filters.''\<rparr>)
         in if kind = ''dispatch'' then
              and_then (fingerprint t1) (\<lambda>baseline. Inr (t1\<lparr>kt_baseline := baseline, kt_dispatch := ''ready'',
                kt_summary := ''Dispatch approved by human operator; task is ready to be claimed.'',
                kt_next := ''An agent runtime can now claim this task via /api/agent/v1/claim.''\<rparr>))
            else Inr t1)
      else if action = ''reject'' then
        (let t1 = (if kind = ''archive_override'' then
               t\<lparr>kt_archive_decision := decision,
                 kt_summary := ''Archive override rejected; task remains execution_complete until accepted or reopened.'',
                 kt_next := ''Either reopen for more work or send through final acceptance instead of archiving.''\<rparr>
             else t\<lparr>kt_state := ''running'', kt_acceptance := ''rejected'', kt_acceptance_decision := decision,
                 kt_summary := ''Task rejected during final acceptance and sent back for revision.'',
                 kt_next := ''Revise the work, regenerate evidence, and resubmit for acceptance.''\<rparr>)
         in Inr (if kind = ''dispatch'' then
              t1\<lparr>kt_dispatch := ''none'', kt_summary := ''Dispatch rejected by human operator; task cannot be claimed.'',
                kt_next := ''Request a new dispatch checkpoint when the task is ready for agent handoff.''\<rparr>
            else t1))
      else Inr (t\<lparr>kt_state := ''blocked'', kt_acceptance := ''not_ready'', kt_acceptance_decision := [],
        kt_summary := ''Task rerouted back into planning.'', kt_next := ''Clarify direction, then reopen execution with updated scope.''\<rparr>))"

definition store_task :: "ctl_task \<Rightarrow> ctl_state \<Rightarrow> ctl_state" where
  "store_task t st = st\<lparr>pc_tasks := update_first (\<lambda>u. kt_id u = kt_id t) (\<lambda>_. t) (pc_tasks st)\<rparr>"

definition decide_owner :: "(ctl_task \<Rightarrow> (ctl_error, string) result) \<Rightarrow> string \<Rightarrow> checkpoint \<Rightarrow> string \<Rightarrow> string \<Rightarrow> ctl_state \<Rightarrow> (ctl_error, ctl_state) result" where
  "decide_owner fingerprint now c action decision st =
     (case control_task st (ck_task c) of
        None \<Rightarrow> Inr st
      | Some t \<Rightarrow>
          let name = decision_name (ck_kind c) action;
              st1 = (if action = ''approve'' \<and> ck_kind c = ''archive_override'' then
                emit ''task-state-changed'' (task_event now ''human'' ''task_state_changed''
                  (''Task state changed from '' @ kt_state t @ '' to archived via approve.'') t) st else st)
          in and_then (decide_task fingerprint (ck_kind c) action decision t) (\<lambda>t1.
             let t2 = t1\<lparr>kt_version := kt_version t1 + 1\<rparr>;
                 st2 = store_task t2 (sync_gates now t2 st1);
                 st3 = emit ''decision-made'' ((task_event now ''human'' ''decision_made''
                   (''Recorded decision '' @ name @ '' for checkpoint '' @ ck_id c @ ''.'') t2)\<lparr>ev_checkpoint := ck_id c\<rparr>) st2
             in Inr (emit name ((task_event now ''human'' name (ck_summary c) t2)\<lparr>ev_checkpoint := ck_id c\<rparr>) st3)))"

definition decide_checkpoint ::
  "(ctl_task \<Rightarrow> (ctl_error, string) result) \<Rightarrow> string \<Rightarrow> string \<Rightarrow> string \<Rightarrow> ctl_state \<Rightarrow> (ctl_error, ctl_state) result" where
  "decide_checkpoint fingerprint now checkpoint_id action0 st =
     (let action = low_trim action0 in
      if action \<notin> set [''approve'', ''reject'', ''reroute''] then Inl (CtlFailure ''invalid action'')
      else case List.find (\<lambda>c. ck_id c = checkpoint_id) (pc_checkpoints st) of
        None \<Rightarrow> Inl (CtlFailure ''checkpoint not found'')
      | Some c0 \<Rightarrow>
          if ck_status c0 \<noteq> ''pending'' then Inl (CtlFailure ''checkpoint is not pending'')
          else if action \<notin> set (ck_actions c0) then Inl (CtlFailure ''action not allowed for checkpoint'')
          else if ck_kind c0 = ''archive_override'' \<and> action = ''reroute'' then Inl (CtlFailure ''reroute not allowed for archive override'')
          else and_then (if ck_kind c0 = ''final_acceptance'' \<and> action = ''approve'' then validate_final_approval st c0 else Inr ()) (\<lambda>_.
          let c1 = decide_gate action c0; name = decision_name (ck_kind c0) action;
              (did, st1) = control_id ''decision'' name st;
              d = \<lparr>de_kind = activity_kind (ck_kind c0), de_id = did, de_type = name, de_actor = ''human'', de_time = now,
                   de_summary = ck_summary c1, de_project = checkpoint_project st (ck_task c0),
                   de_workstream = checkpoint_workstream st (ck_task c0), de_task = ck_task c0, de_checkpoint = ck_id c0\<rparr>;
              c2 = c1\<lparr>ck_resolved_by := did, ck_version := ck_version c0 + 1\<rparr>;
              st2 = st1\<lparr>pc_decisions := pc_decisions st1 @ [d],
                pc_checkpoints := update_first (\<lambda>c. ck_id c = checkpoint_id) (\<lambda>_. c2) (pc_checkpoints st1)\<rparr>;
              st3 = emit ''checkpoint-resolved'' \<lparr>ev_kind = activity_kind (ck_kind c0), ev_source = ck_id c0, ev_id = [], ev_time = now,
                ev_actor = ''human'', ev_action = ''checkpoint_resolved'',
                ev_detail = ''Resolved checkpoint '' @ ck_id c0 @ '' as '' @ ck_status c1 @ ''.'',
                ev_project = checkpoint_project st (ck_task c0), ev_workstream = checkpoint_workstream st (ck_task c0),
                ev_task = ck_task c0, ev_checkpoint = ck_id c0\<rparr> st2
          in decide_owner fingerprint now c2 action did st3))"

end
