(* ===== verification/Control_Store.thy ===== *)
theory Control_Store
  imports Control_Checkpoints
begin

text \<open>
  The operations of project control on its state (\<open>project_control.go\<close>): creating projects,
  workstreams and tasks, and updating workstreams and tasks. Each is the function the
  store runs under its lock; on an error the state is not saved. What the operations ask
  of the world around them is an environment.
\<close>

section \<open>The environment of a call\<close>

text \<open>
  The user, the time as a text of seconds and of nanoseconds and as an instant, the lease table of the claim store if
  there is one, the directory prepared for a phase, the terminal manager, the fingerprint
  of the acceptance inputs, the resolution of a repository path on disk, the root directory
  of the runtime as configured and as found on disk, and the check that the directory of a
  tool run lies inside the approved ones.
\<close>

record ctl_env =
  en_user :: string
  en_now :: string
  en_nano :: string
  en_instant :: instant
  en_leases :: "claims option"
  en_workspace :: "ctl_task \<Rightarrow> runbook_phase \<Rightarrow> string \<Rightarrow> (ctl_error, string) result"
  en_terminals :: terminal_maker
  en_fingerprint :: "ctl_task \<Rightarrow> (ctl_error, string) result"
  en_repo :: "string \<Rightarrow> (ctl_error, string) result"
  en_root :: string
  en_runtime :: "(ctl_error, string) result"
  en_inside :: "ctl_state \<Rightarrow> ctl_task \<Rightarrow> tool_run \<Rightarrow> (ctl_error, unit) result"

section \<open>Projects and workstreams\<close>

record project_create =
  pq_brief :: "string \<times> string \<times> string \<times> string"
  pq_milestones :: "milestone list"
  pq_key :: string
  pq_name :: string
  pq_description :: string
  pq_goal :: string
  pq_repo :: string

definition project_event :: "string \<Rightarrow> string \<Rightarrow> string \<Rightarrow> string \<Rightarrow> ctl_event" where
  "project_event now action detail i =
     \<lparr>ev_kind = [], ev_source = [], ev_id = [], ev_time = now, ev_actor = ''human'', ev_action = action, ev_detail = detail,
      ev_project = i, ev_workstream = [], ev_task = [], ev_checkpoint = []\<rparr>"

definition create_project :: "ctl_env \<Rightarrow> project_create \<Rightarrow> ctl_state \<Rightarrow> (ctl_error, ctl_state) result" where
  "create_project env req st =
     (let name = trim_space (pq_name req); key = (if trim_space (pq_key req) = [] then slugify name else trim_space (pq_key req)) in
      and_then (ensure (CtlFailure ''project name is required'') (name \<noteq> [])) (\<lambda>_.
      and_then (en_repo env (pq_repo req)) (\<lambda>repo.
      and_then (validate_milestones (pq_milestones req)) (\<lambda>_.
      let (i, st1) = control_id ''project'' name st;
          p = \<lparr>po_brief = pq_brief req, po_milestones = pq_milestones req,
               po_lifecycle = \<lparr>lc_state = ''delegated'', lc_milestone = [], lc_reason = [], lc_previous = []\<rparr>,
               po_takeover = \<lparr>tk_mode = ''manual'', tk_reason = []\<rparr>, po_id = i, po_key = key, po_name = name,
               po_description = trim_space (pq_description req), po_status = ''active'', po_goal = trim_space (pq_goal req),
               po_repo = repo, po_version = 1\<rparr>
      in Inr (emit ''project-created'' (project_event (en_now env) ''project_created'' (''Created project '' @ name @ ''.'') i)
           (st1\<lparr>pc_projects := pc_projects st1 @ [p], pc_active := i\<rparr>))))))"

definition workstream_event :: "string \<Rightarrow> string \<Rightarrow> string \<Rightarrow> workstream \<Rightarrow> ctl_event" where
  "workstream_event now action detail w = (project_event now action detail (wk_project w))\<lparr>ev_workstream := wk_id w\<rparr>"

definition create_workstream :: "ctl_env \<Rightarrow> workstream \<Rightarrow> ctl_state \<Rightarrow> (ctl_error, ctl_state) result" where
  "create_workstream env req st =
     (let project = trim_space (wk_project req); title = trim_space (wk_title req) in
      and_then (ensure (CtlFailure ''valid projectId is required'') (project \<noteq> [] \<and> project_exists st project)) (\<lambda>_.
      and_then (ensure (CtlFailure ''workstream title is required'') (title \<noteq> [])) (\<lambda>_.
      let (i, st1) = control_id ''workstream'' title st;
          w = \<lparr>wk_id = i, wk_project = project, wk_title = title, wk_description = trim_space (wk_description req),
               wk_priority = normalize_priority (wk_priority req), wk_status = ''planned'', wk_scope = trim_space (wk_scope req), wk_version = 1\<rparr>
      in Inr (emit ''workstream-created'' (workstream_event (en_now env) ''workstream_created'' (''Created workstream '' @ title @ ''.'') w)
           (st1\<lparr>pc_workstreams := pc_workstreams st1 @ [w], pc_active := project\<rparr>)))))"

definition conflict_text :: "string \<Rightarrow> int \<Rightarrow> int \<Rightarrow> ctl_error" where
  "conflict_text entity expected actual =
     CtlConflict (''row version conflict for '' @ entity @ '': expected '' @ show_int expected @ '', current '' @ show_int actual)"

definition given :: "string \<Rightarrow> string \<Rightarrow> string" where
  "given new old = (if trim_space new = [] then old else trim_space new)"

definition update_workstream :: "ctl_env \<Rightarrow> string \<Rightarrow> workstream_update \<Rightarrow> ctl_state \<Rightarrow> (ctl_error, ctl_state) result" where
  "update_workstream env i req0 st =
     (if uw_version req0 < 1 then Inl (CtlFailure ''expectedRowVersion must be provided'')
      else case List.find (\<lambda>w. wk_id w = i) (pc_workstreams st) of
        None \<Rightarrow> Inl (CtlFailure ''workstream not found'')
      | Some w \<Rightarrow>
          if uw_version req0 \<noteq> wk_version w then Inl (conflict_text ''workstream'' (uw_version req0) (wk_version w))
          else and_then (apply_workstream_action w req0) (\<lambda>req.
            let value = trim_space (uw_status req); candidate = normalize_workstream_status value;
                changes = (value \<noteq> [] \<and> value \<noteq> wk_status w);
                w1 = w\<lparr>wk_title := given (uw_title req) (wk_title w), wk_description := given (uw_description req) (wk_description w),
                  wk_scope := given (uw_scope req) (wk_scope w),
                  wk_priority := (if trim_space (uw_priority req) = [] then wk_priority w else normalize_priority (trim_space (uw_priority req)))\<rparr>
            in if changes \<and> \<not> allowed_workstream_transition (wk_status w) candidate
               then Inl (CtlFailure (''illegal workstream transition: '' @ wk_status w @ '' -> '' @ candidate))
               else let w2 = (if changes then w1\<lparr>wk_status := candidate\<rparr> else w1);
                        st1 = (if changes then emit ''workstream-state-changed''
                          (workstream_event (en_now env) ''workstream_state_changed''
                            (''Workstream state changed from '' @ wk_status w @ '' to '' @ candidate @ '' via '' @ low_trim (uw_action req) @ ''.'') w2) st
                          else st);
                        w3 = w2\<lparr>wk_version := wk_version w2 + 1\<rparr>
               in Inr (emit ''workstream-updated'' (workstream_event (en_now env) ''workstream_updated'' (''Updated workstream '' @ wk_title w3 @ ''.'') w3)
                    (st1\<lparr>pc_workstreams := update_first (\<lambda>u. wk_id u = i) (\<lambda>_. w3) (pc_workstreams st1)\<rparr>))))"

section \<open>Creating tasks\<close>

record task_create =
  cq_origin :: string
  cq_description :: string
  cq_milestone :: string
  cq_depends :: "string list"
  cq_command :: "string list"
  cq_project :: string
  cq_workstream :: string
  cq_title :: string
  cq_goal :: string
  cq_priority :: string
  cq_risk :: string
  cq_skill :: string
  cq_runbook :: string

definition fresh_task :: "string \<Rightarrow> skill \<Rightarrow> runbook \<Rightarrow> task_create \<Rightarrow> ctl_task" where
  "fresh_task i s rb req =
     \<lparr>kt_description = trim_space (cq_description req), kt_milestone = cq_milestone req, kt_depends = cq_depends req,
      kt_command = cq_command req, kt_baseline = [], kt_passed = False, kt_failures = 0, kt_pause = [], kt_resume = [],
      kt_checkpoint_after = [], kt_restart = False, kt_id = i, kt_project = trim_space (cq_project req),
      kt_workstream = trim_space (cq_workstream req), kt_title = trim_space (cq_title req), kt_goal = trim_space (cq_goal req),
      kt_state = ''planned'', kt_acceptance = ''not_ready'', kt_acceptance_decision = [], kt_archive_decision = [],
      kt_origin = task_origin (cq_origin req), kt_dispatch = [], kt_claimed_by = [], kt_risk = normalize_risk (cq_risk req),
      kt_priority = normalize_priority (cq_priority req), kt_agent = ''worker'', kt_runtime = ''runtime-local'',
      kt_skill = sl_id s, kt_runbook = rb_id rb, kt_phase = ''plan'', kt_runbook_state = ''not_started'', kt_auto = None,
      kt_missing = [], kt_summary = ''Task created from the Project Panel and waiting to be scheduled.'',
      kt_next = ''Open a session or connect a runtime-backed workflow to start execution.'', kt_files = [], kt_diff = [],
      kt_sessions = [], kt_evidence = [], kt_version = 1\<rparr>"

text \<open>The identifier of the new task comes with the state.\<close>

definition create_task_in_state :: "ctl_env \<Rightarrow> task_create \<Rightarrow> ctl_state \<Rightarrow> (ctl_error, ctl_state \<times> string) result" where
  "create_task_in_state env req st =
     (let project = trim_space (cq_project req); ws = trim_space (cq_workstream req); title = trim_space (cq_title req) in
      and_then (ensure (CtlFailure ''valid projectId is required'') (project \<noteq> [] \<and> project_exists st project)) (\<lambda>_.
      and_then (ensure (CtlFailure ''valid workstreamId is required'') (ws \<noteq> [] \<and> workstream_exists st ws project)) (\<lambda>_.
      and_then (ensure (CtlFailure ''task title is required'') (title \<noteq> [])) (\<lambda>_.
      and_then (validate_selection (cq_skill req) (cq_runbook req)) (\<lambda>(s, rb).
      let (i, st1) = control_id ''task'' title st; t0 = fresh_task i s rb req in
      and_then (validate_task_contract st1 t0) (\<lambda>_.
      let t = refresh_task (pc_artifacts st1) t0;
          st2 = emit ''task-created'' (task_event (en_now env) ''human'' ''task_created'' (''Created task '' @ title @ ''.'') t)
                  (st1\<lparr>pc_tasks := pc_tasks st1 @ [t], pc_active := project\<rparr>)
      in Inr (if needs_dispatch_approval t then sync_dispatch_gate (en_now env) t st2
              else emit ''dispatch-auto-approved'' (task_event (en_now env) ''policy_engine'' ''dispatch_auto_approved''
                ''Task dispatched automatically because it was raised by a human.'' t) (store_task (dispatched t) st2), i)))))))"

definition branch_request :: "ctl_task \<Rightarrow> string \<times> string \<Rightarrow> task_create" where
  "branch_request parent branch =
     \<lparr>cq_origin = ''human'', cq_description = [], cq_milestone = [],
      cq_depends = (if kt_dispatch parent \<noteq> ''claimed'' \<and> kt_state parent \<noteq> ''running'' then [kt_id parent] else []),
      cq_command = [], cq_project = kt_project parent, cq_workstream = kt_workstream parent, cq_title = trim_space (fst branch),
      cq_goal = trim_space (snd branch), cq_priority = kt_priority parent, cq_risk = [], cq_skill = [], cq_runbook = []\<rparr>"

definition at_branch :: "nat \<Rightarrow> string \<Rightarrow> ctl_error \<Rightarrow> ctl_error" where
  "at_branch k title e =
     (let place = ''branch '' @ show_int (int k) @ '' ('' @ title @ ''): '' in
      case e of CtlFailure m \<Rightarrow> CtlFailure (place @ m) | CtlConflict m \<Rightarrow> CtlFailure (place @ m) | CtlViolation r m \<Rightarrow> CtlFailure (place @ m))"

text \<open>All branches are created or none, since an error leaves the stored state alone.\<close>

fun create_branches :: "ctl_env \<Rightarrow> ctl_task \<Rightarrow> nat \<Rightarrow> (string \<times> string) list \<Rightarrow> ctl_state \<Rightarrow> (ctl_error, ctl_state) result" where
  "create_branches env parent k [] st = Inr st"
| "create_branches env parent k (b # bs) st =
     (if trim_space (fst b) = [] then Inl (CtlFailure (''branch '' @ show_int (int k) @ '': title is required''))
      else case create_task_in_state env (branch_request parent b) st of
        Inl e \<Rightarrow> Inl (at_branch k (trim_space (fst b)) e)
      | Inr (st', _) \<Rightarrow> create_branches env parent (k + 1) bs st')"

definition create_task_branches :: "ctl_env \<Rightarrow> string \<Rightarrow> (string \<times> string) list \<Rightarrow> ctl_state \<Rightarrow> (ctl_error, ctl_state) result" where
  "create_task_branches env parent branches st =
     (if branches = [] then Inl (CtlFailure ''at least one branch is required'')
      else and_then (require (CtlFailure ''parent task not found'') (control_task st parent)) (\<lambda>p. create_branches env p 1 branches st))"

fun join_with :: "string \<Rightarrow> string list \<Rightarrow> string" where
  "join_with sep [] = []"
| "join_with sep [w] = w"
| "join_with sep (w # v # ws) = w @ sep @ join_with sep (v # ws)"

text \<open>
  The sources in order: each must be stored and done. The parent is the first one, or the
  next one as long as its project is blank, and all others share its project.
\<close>

fun composed_parent :: "ctl_state \<Rightarrow> ctl_task option \<Rightarrow> string list \<Rightarrow> (ctl_error, ctl_task option) result" where
  "composed_parent st parent [] = Inr parent"
| "composed_parent st parent (i # is) =
     (case control_task st i of
        None \<Rightarrow> Inl (CtlFailure (''source task not found: '' @ i))
      | Some t \<Rightarrow>
          if kt_dispatch t \<noteq> ''done'' then Inl (CtlFailure (''source task '' @ i @ '' is not done yet''))
          else (case parent of
                  None \<Rightarrow> composed_parent st (Some t) is
                | Some p \<Rightarrow>
                    if kt_project p = [] then composed_parent st (Some t) is
                    else if kt_project t \<noteq> kt_project p then Inl (CtlFailure ''source tasks must belong to one project'')
                    else composed_parent st parent is))"

definition create_composed_task :: "ctl_env \<Rightarrow> string list \<Rightarrow> string \<Rightarrow> string \<Rightarrow> ctl_state \<Rightarrow> (ctl_error, ctl_state) result" where
  "create_composed_task env sources title goal st =
     (if sources = [] then Inl (CtlFailure ''at least one source task is required'')
      else and_then (composed_parent st None sources) (\<lambda>parent.
        let req = \<lparr>cq_origin = ''human'', cq_description = ''Synthesized from: ['' @ join_with '', '' sources @ '']'', cq_milestone = [],
              cq_depends = sources, cq_command = [], cq_project = (case parent of None \<Rightarrow> [] | Some p \<Rightarrow> kt_project p),
              cq_workstream = (case parent of None \<Rightarrow> [] | Some p \<Rightarrow> kt_workstream p), cq_title = title, cq_goal = goal,
              cq_priority = [], cq_risk = [], cq_skill = [], cq_runbook = []\<rparr>
        in and_then (create_task_in_state env req st) (\<lambda>(st', _). Inr st')))"

section \<open>Updating a task\<close>

definition update_contract :: "bool \<Rightarrow> task_update \<Rightarrow> ctl_state \<Rightarrow> ctl_task \<Rightarrow> (ctl_error, ctl_task) result" where
  "update_contract bypass req st t =
     (if uq_command req = None \<and> uq_depends req = None \<and> uq_milestone req = None then Inr t
      else if bypass \<or> kt_dispatch t = ''claimed'' then Inl (CtlFailure ''cannot change an executing task contract'')
      else let t1 = t\<lparr>kt_command := (case uq_command req of None \<Rightarrow> kt_command t | Some c \<Rightarrow> c),
                      kt_depends := (case uq_depends req of None \<Rightarrow> kt_depends t | Some d \<Rightarrow> d),
                      kt_milestone := (case uq_milestone req of None \<Rightarrow> kt_milestone t | Some m \<Rightarrow> m)\<rparr>
           in and_then (validate_task_contract st t1) (\<lambda>_. Inr (t1\<lparr>kt_dispatch := ''none'', kt_passed := False\<rparr>)))"

text \<open>Starting the execution starts the first phase and, if one fits, its tool; an error of the tool is ignored.\<close>

definition start_execution :: "ctl_env \<Rightarrow> ctl_state \<Rightarrow> ctl_task \<Rightarrow> string phase_result" where
  "start_execution env st t0 =
     (let now = en_now env; t = t0\<lparr>kt_state := ''running'', kt_acceptance := ''not_ready''\<rparr>; p = normalize_phase (kt_phase t);
          first = (if p = [] \<or> p = ''ready_for_acceptance'' then
              (case rb_phases (runbook_for t) of [] \<Rightarrow> p | q # _ \<Rightarrow> normalize_phase (rp_id q)) else p);
          started = (\<lambda>st t. emit ''execution-started'' (task_event now ''human'' ''execution_started'' ''Started runbook execution.'' t) st)
      in if first = [] \<or> first = ''ready_for_acceptance'' then (started st t, t, Inr [])
         else case start_phase (en_workspace env) (en_terminals env) now first st t of
           (st1, t1, Inl e) \<Rightarrow> (st1, t1, Inl e)
         | (st1, t1, Inr _) \<Rightarrow>
             (case (case find_phase (runbook_for t1) first of None \<Rightarrow> None | Some q \<Rightarrow> tool_for_phase (tools_for_state st1) q) of
                None \<Rightarrow> (started st1 t1, t1, Inr [])
              | Some d \<Rightarrow>
                  (case start_tool first (td_id d) now st1 t1 of
                     (st2, t2, Inl _) \<Rightarrow> (started st2 t2, t2, Inr [])
                   | (st2, t2, Inr rid) \<Rightarrow> (started st2 t2, t2, Inr rid))))"

definition as_run :: "unit phase_result \<Rightarrow> string phase_result" where
  "as_run r = (case r of (st, t, Inl e) \<Rightarrow> (st, t, Inl e) | (st, t, Inr _) \<Rightarrow> (st, t, Inr []))"

definition phase_action :: "ctl_env \<Rightarrow> string \<Rightarrow> task_update \<Rightarrow> ctl_state \<Rightarrow> ctl_task \<Rightarrow> string phase_result" where
  "phase_action env action req st t =
     (if action = ''start_phase'' then as_run (start_phase (en_workspace env) (en_terminals env) (en_now env) (uq_phase req) st t)
      else if action = ''complete_phase'' then as_run (complete_phase req (en_now env) st t)
      else if action = ''fail_phase'' then as_run (fail_phase (uq_phase req) (uq_failure req) (en_now env) st t)
      else if action = ''run_tool'' then start_tool (uq_phase req) (uq_tool req) (en_now env) st t
      else if action = ''start_execution'' then start_execution env st t
      else (st, t, Inr []))"

definition update_fields :: "task_update \<Rightarrow> ctl_task \<Rightarrow> ctl_task" where
  "update_fields req t =
     t\<lparr>kt_title := given (uq_title req) (kt_title t), kt_goal := given (uq_goal req) (kt_goal t),
       kt_priority := (if trim_space (uq_priority req) = [] then kt_priority t else normalize_priority (trim_space (uq_priority req))),
       kt_risk := (if trim_space (uq_risk req) = [] then kt_risk t else normalize_risk (trim_space (uq_risk req)))\<rparr>"

definition update_pause :: "string \<Rightarrow> string \<Rightarrow> task_update \<Rightarrow> ctl_state \<Rightarrow> ctl_task \<Rightarrow> ctl_state \<times> ctl_task" where
  "update_pause now action req st t =
     (let (st1, t1) = (if action = ''pause_task'' \<and> trim_space (uq_pause req) \<noteq> [] then
            (let t1 = t\<lparr>kt_pause := trim_space (uq_pause req), kt_version := kt_version t + 1\<rparr>
             in (emit ''task-paused-by-user'' (task_event now ''human'' ''task_paused'' ''Task paused by the user.'' t1) st, t1)) else (st, t))
      in if uq_clear_pause req \<and> kt_pause t1 \<noteq> [] then
           (let t2 = t1\<lparr>kt_pause := [], kt_version := kt_version t1 + 1\<rparr>
            in (emit ''task-resumed-by-user'' (task_event now ''human'' ''task_resumed'' ''Task pause cleared by the user.'' t2) st1, t2))
         else (st1, t1))"

definition change_state :: "string \<Rightarrow> string \<Rightarrow> task_update \<Rightarrow> ctl_state \<Rightarrow> ctl_task \<Rightarrow> (ctl_error, ctl_state \<times> ctl_task) result" where
  "change_state now original req st t =
     (let value = trim_space (uq_state req); candidate = normalize_task_state value in
      if value = [] \<or> value = kt_state t then Inr (st, t)
      else if \<not> allowed_task_transition original candidate
      then Inl (CtlFailure (''illegal task transition: '' @ original @ '' -> '' @ candidate))
      else if candidate = ''archived'' \<and> kt_acceptance t \<noteq> ''accepted''
      then Inl (CtlFailure ''archiving requires accepted task or explicit archive override decision'')
      else let t1 = t\<lparr>kt_archive_decision := (if candidate \<noteq> ''archived'' \<or> kt_acceptance t = ''accepted'' then [] else kt_archive_decision t),
                      kt_state := candidate\<rparr>
           in Inr (emit ''task-state-changed'' (task_event now ''human'' ''task_state_changed''
                (''Task state changed from '' @ kt_state t @ '' to '' @ candidate @ '' via '' @ low_trim (uq_action req) @ ''.'') t1) st, t1))"

definition change_acceptance :: "string \<Rightarrow> string \<Rightarrow> task_update \<Rightarrow> ctl_state \<Rightarrow> ctl_task \<Rightarrow> (ctl_error, ctl_state \<times> ctl_task) result" where
  "change_acceptance now original req st t =
     (let value = trim_space (uq_acceptance req); candidate = normalize_acceptance value; action = low_trim (uq_action req);
          missing = missing_evidence t (pc_artifacts st) (runbook_for t) [] []
      in if value = [] \<or> value = kt_acceptance t then Inr (st, t)
         else and_then (if action = ''unarchive'' \<and> original = ''accepted'' \<and> candidate = ''not_ready'' then Inr ()
             else validate_acceptance_transition original candidate (kt_state t) False) (\<lambda>_.
         if (candidate = ''ready_for_acceptance'' \<or> candidate = ''under_human_review'') \<and> missing \<noteq> []
         then Inl (CtlFailure (''completion rules not satisfied: missing '' @ join_comma missing))
         else let t1 = t\<lparr>kt_acceptance := candidate,
                    kt_acceptance_decision := (if candidate \<noteq> ''accepted'' \<and> candidate \<noteq> ''rejected'' \<and> \<not> (action = ''unarchive'' \<and> original = ''accepted'')
                      then [] else kt_acceptance_decision t),
                    kt_archive_decision := []\<rparr>
              in Inr (emit ''acceptance-state-changed'' (task_event now ''human'' ''acceptance_state_changed''
                   (''Acceptance status changed from '' @ kt_acceptance t @ '' to '' @ candidate @ '' via '' @ action @ ''.'') t1) st, t1)))"

definition override_step :: "string \<Rightarrow> string \<Rightarrow> string \<Rightarrow> string \<Rightarrow> ctl_state \<Rightarrow> ctl_task \<Rightarrow> (ctl_error, ctl_state \<times> ctl_task) result" where
  "override_step now action original_state original_acceptance st t =
     (if action \<noteq> ''request_archive_override'' then Inr (st, t)
      else if original_state \<noteq> ''execution_complete'' then Inl (CtlFailure ''archive override requires execution_complete task'')
      else if original_acceptance \<noteq> ''not_ready'' then Inl (CtlFailure ''archive override requires not_ready acceptance status'')
      else and_then (request_archive_override now t st) (\<lambda>st1.
        Inr (st1, t\<lparr>kt_summary := ''Archive override requested; waiting for explicit human approval before archiving unaccepted work.'',
          kt_next := ''Wait for archive override approval or continue toward final acceptance instead.''\<rparr>)))"

definition gated_action :: "string \<Rightarrow> bool" where
  "gated_action raw \<longleftrightarrow> raw \<in> set [''start_execution'', ''start_phase'', ''run_tool'', ''complete_phase'']"

text \<open>What follows the phase actions, up to the stored task.\<close>

definition finish_update :: "ctl_env \<Rightarrow> string \<Rightarrow> string \<Rightarrow> string \<Rightarrow> task_update \<Rightarrow> ctl_state \<Rightarrow> ctl_task \<Rightarrow> (ctl_error, ctl_state) result" where
  "finish_update env action original_state original_acceptance req st t =
     (let now = en_now env; (st1, t1) = update_pause now action req st (update_fields req t) in
      and_then (change_state now original_state req st1 t1) (\<lambda>(st2, t2).
      and_then (change_acceptance now original_acceptance req st2 t2) (\<lambda>(st3, t3).
      and_then (override_step now action original_state original_acceptance st3 t3) (\<lambda>(st4, t4).
      let t5 = t4\<lparr>kt_version := kt_version t4 + 1\<rparr>;
          st5 = store_task t5 (sync_gates now t5 st4)
      in Inr (emit ''task-updated'' (task_event now ''human'' ''task_updated'' (''Updated task '' @ kt_title t5 @ ''.'') t5) st5)))))"

definition update_stored :: "ctl_env \<Rightarrow> bool \<Rightarrow> task_update \<Rightarrow> ctl_task \<Rightarrow> ctl_state \<Rightarrow> (ctl_error, ctl_state \<times> string) result" where
  "update_stored env bypass req0 t0 st =
     (let action = low_trim (uq_action req0) in
      and_then (update_contract bypass req0 st t0) (\<lambda>t.
      and_then (if bypass then require_managed_lease (en_leases env) (en_instant env) (en_user env) st t (uq_lease req0) else Inr ()) (\<lambda>_.
      and_then (if gated_action (uq_action req0) then execution_gate (en_leases env) (en_instant env) (en_user env) st t else Inr ()) (\<lambda>_.
      and_then (ensure (CtlFailure ''phase actions cannot include direct state or acceptanceStatus'')
        (\<not> (is_phase_action action \<and> (trim_space (uq_state req0) \<noteq> [] \<or> trim_space (uq_acceptance req0) \<noteq> [])))) (\<lambda>_.
      and_then (apply_task_action t req0) (\<lambda>req.
      case phase_action env action req st t of
        (_, _, Inl e) \<Rightarrow> Inl e
      | (st1, t1, Inr rid) \<Rightarrow>
          and_then (finish_update env action (kt_state t) (kt_acceptance t) req st1 t1) (\<lambda>st2. Inr (st2, rid))))))))"

text \<open>The identifier of a tool run to carry out comes with the state.\<close>

definition update_task :: "ctl_env \<Rightarrow> string \<Rightarrow> task_update \<Rightarrow> ctl_state \<Rightarrow> (ctl_error, ctl_state \<times> string) result" where
  "update_task env i req st =
     (let bypass = (uq_version req = - 1) in
      if \<not> bypass \<and> uq_version req < 1 then Inl (CtlFailure ''expectedRowVersion must be provided'')
      else case control_task st i of
        None \<Rightarrow> Inl (CtlFailure ''task not found'')
      | Some t \<Rightarrow>
          if \<not> bypass \<and> uq_version req \<noteq> kt_version t then Inl (conflict_text ''task'' (uq_version req) (kt_version t))
          else update_stored env bypass (req\<lparr>uq_version := (if bypass then kt_version t else uq_version req)\<rparr>) t st)"

end
