(* ===== verification/Go_Parse_Time.thy ===== *)
theory Go_Parse_Time
  imports Go_Time
begin

text \<open>
  \<open>time.Parse(time.RFC3339, s)\<close> on the texts that layout describes: a date and a time of
  fixed width, a fraction of any length of which nine digits count, and a zone.
\<close>

definition leap_year :: "int \<Rightarrow> bool" where
  "leap_year y \<longleftrightarrow> y mod 4 = 0 \<and> (y mod 100 \<noteq> 0 \<or> y mod 400 = 0)"

definition days_in_month :: "int \<Rightarrow> int \<Rightarrow> int" where
  "days_in_month y m =
     (if m = 2 then (if leap_year y then 29 else 28) else if m \<in> {4, 6, 9, 11} then 30 else 31)"

definition days_of_civil :: "int \<Rightarrow> int \<Rightarrow> int \<Rightarrow> int" where
  "days_of_civil y0 m d =
     (let y = (if m \<le> 2 then y0 - 1 else y0);
          yoe = y mod 400;
          doy = (153 * (if 2 < m then m - 3 else m + 9) + 2) div 5 + d - 1;
          doe = yoe * 365 + yoe div 4 - yoe div 100 + doy
      in y div 400 * 146097 + doe - 719468)"

text \<open>Reading a fixed number of digits, and one given byte.\<close>

definition take_num :: "nat \<Rightarrow> string \<Rightarrow> (int \<times> string) option" where
  "take_num w s =
     (if w \<le> length s \<and> list_all is_digit (take w s) then Some (digits_value (take w s), drop w s) else None)"

definition take_char :: "char \<Rightarrow> string \<Rightarrow> string option" where
  "take_char c s = (case s of [] \<Rightarrow> None | d # t \<Rightarrow> if d = c then Some t else None)"

definition take_frac :: "string \<Rightarrow> int \<times> string" where
  "take_frac s =
     (case s of
        c # d # t \<Rightarrow>
          if c = CHR ''.'' \<and> is_digit d
          then (digits_value (take 9 (takeWhile is_digit (d # t) @ replicate 9 CHR ''0'')), dropWhile is_digit (d # t))
          else (0, s)
      | _ \<Rightarrow> (0, s))"

definition take_zone :: "string \<Rightarrow> int option" where
  "take_zone s =
     (if s = ''Z'' then Some 0
      else case s of [] \<Rightarrow> None | c # t \<Rightarrow>
        if c \<noteq> CHR ''+'' \<and> c \<noteq> CHR ''-'' then None
        else Option.bind (take_num 2 t) (\<lambda>(h, t). Option.bind (take_char CHR '':'' t) (\<lambda>t. Option.bind (take_num 2 t) (\<lambda>(m, t).
          if t = [] \<and> h \<le> 23 \<and> m \<le> 59 then Some ((if c = CHR ''+'' then 1 else - 1) * (h * 3600 + m * 60)) else None))))"

definition parse_rfc3339 :: "string \<Rightarrow> instant option" where
  "parse_rfc3339 s =
     Option.bind (take_num 4 s) (\<lambda>(y, s). Option.bind (take_char CHR ''-'' s) (\<lambda>s.
     Option.bind (take_num 2 s) (\<lambda>(mo, s). Option.bind (take_char CHR ''-'' s) (\<lambda>s.
     Option.bind (take_num 2 s) (\<lambda>(d, s). Option.bind (take_char CHR ''T'' s) (\<lambda>s.
     Option.bind (take_num 2 s) (\<lambda>(h, s). Option.bind (take_char CHR '':'' s) (\<lambda>s.
     Option.bind (take_num 2 s) (\<lambda>(mi, s). Option.bind (take_char CHR '':'' s) (\<lambda>s.
     Option.bind (take_num 2 s) (\<lambda>(sec, s).
       (let (ns, s) = take_frac s in
        Option.bind (take_zone s) (\<lambda>zone.
          if 1 \<le> mo \<and> mo \<le> 12 \<and> 1 \<le> d \<and> d \<le> days_in_month y mo \<and> h \<le> 23 \<and> mi \<le> 59 \<and> sec \<le> 59
          then Some ((days_of_civil y mo d * 86400 + h * 3600 + mi * 60 + sec - zone) * second + ns)
          else None)))))))))))))"

lemma parse_rfc3339_examples:
  "parse_rfc3339 ''1970-01-01T00:00:00Z'' = Some 0"
  "parse_rfc3339 ''2024-02-29T10:00:00.12Z'' = Some 1709200800120000000"
  "parse_rfc3339 ''2024-02-29T12:00:00.12+02:00'' = Some 1709200800120000000"
  "parse_rfc3339 ''2023-02-29T10:00:00Z'' = None"
  by code_simp+

end
