(* ===== verification/Control_Takeover.thy ===== *)
theory Control_Takeover
  imports Control_Store Go_Parse_Time
begin

text \<open>
  Takeover of a project by agents (\<open>project_lifecycle.go\<close>, \<open>project_takeover.go\<close>): pausing a
  task with everything that depends on it or a whole project, reacting to the events an
  operation logged, starting, resuming and stopping, the contract of a project, and the
  review of a milestone whose tasks are done.
\<close>

section \<open>Pausing\<close>

definition project_scope :: "string \<Rightarrow> bool" where
  "project_scope reason \<longleftrightarrow> reason \<in> set [''path_violation'', ''tool_violation'', ''shared_directory_conflict'', ''high_risk'']"

text \<open>One pass marks, in order, each task of the project with a marked dependency; passes go on until nothing changes.\<close>

fun mark_pass :: "string \<Rightarrow> ctl_task list \<Rightarrow> string list \<Rightarrow> string list" where
  "mark_pass project [] A = A"
| "mark_pass project (t # ts) A =
     mark_pass project ts
       (if kt_project t \<noteq> project \<or> kt_id t \<in> set A then A
        else if \<exists>d \<in> set (kt_depends t). d \<in> set A then kt_id t # A else A)"

lemma mark_pass_extends: "\<exists>X. mark_pass project ts A = X @ A \<and> set X \<subseteq> set (map kt_id ts) - set A"
proof (induction ts arbitrary: A)
  case (Cons t ts)
  show ?case
  proof (cases "kt_project t \<noteq> project \<or> kt_id t \<in> set A \<or> \<not> (\<exists>d \<in> set (kt_depends t). d \<in> set A)")
    case True
    with Cons [of A] show ?thesis by auto
  next
    case False
    from Cons [of "kt_id t # A"] obtain X where
      "mark_pass project ts (kt_id t # A) = X @ kt_id t # A" "set X \<subseteq> set (map kt_id ts) - set (kt_id t # A)" by blast
    with False show ?thesis by (intro exI [of _ "X @ [kt_id t]"]) auto
  qed
qed simp

function mark_dependents :: "string \<Rightarrow> ctl_task list \<Rightarrow> string list \<Rightarrow> string list" where
  "mark_dependents project ts A =
     (if mark_pass project ts A = A then A else mark_dependents project ts (mark_pass project ts A))"
  by pat_completeness auto
termination
proof (relation "measure (\<lambda>(project, ts, A). card (set (map kt_id ts) - set A))")
  fix project and ts :: "ctl_task list" and A
  assume changed: "mark_pass project ts A \<noteq> A"
  obtain X where X: "mark_pass project ts A = X @ A" "set X \<subseteq> set (map kt_id ts) - set A"
    using mark_pass_extends by blast
  with changed have "X \<noteq> []" by auto
  with X have "set (map kt_id ts) - set (X @ A) \<subset> set (map kt_id ts) - set A" by (cases X) auto
  then show "((project, ts, mark_pass project ts A), project, ts, A) \<in> measure (\<lambda>(project, ts, A). card (set (map kt_id ts) - set A))"
    using X(1) by (simp add: psubset_card_mono)
qed simp

declare mark_dependents.simps [simp del]

definition server_event :: "string \<Rightarrow> string \<Rightarrow> string \<Rightarrow> string \<Rightarrow> string \<Rightarrow> ctl_event" where
  "server_event now project task action detail =
     \<lparr>ev_kind = [], ev_source = [], ev_id = [], ev_time = now, ev_actor = ''server'', ev_action = action, ev_detail = detail,
      ev_project = project, ev_workstream = [], ev_task = task, ev_checkpoint = []\<rparr>"

definition append_control_event :: "string \<Rightarrow> string \<Rightarrow> string \<Rightarrow> string \<Rightarrow> string \<Rightarrow> ctl_state \<Rightarrow> ctl_state" where
  "append_control_event now project task action detail st = emit action (server_event now project task action detail) st"

definition pause_project :: "string \<Rightarrow> project \<Rightarrow> project" where
  "pause_project reason p =
     (let life = po_lifecycle p;
          previous = (if lc_state life \<noteq> ''blocked'' then lc_state life else lc_previous life)
      in p\<lparr>po_takeover := \<lparr>tk_mode = ''paused'', tk_reason = reason\<rparr>,
           po_lifecycle := life\<lparr>lc_previous := previous, lc_state := ''blocked'', lc_reason := reason\<rparr>,
           po_version := po_version p + 1\<rparr>)"

definition pause_task :: "string \<Rightarrow> ctl_task \<Rightarrow> ctl_task" where
  "pause_task reason t =
     t\<lparr>kt_pause := reason, kt_dispatch := (if kt_dispatch t = ''claimed'' \<or> kt_dispatch t = ''ready'' then ''released'' else kt_dispatch t),
       kt_claimed_by := [], kt_version := kt_version t + 1\<rparr>"

definition pause_control_state :: "string \<Rightarrow> string \<Rightarrow> string \<Rightarrow> string \<Rightarrow> ctl_state \<Rightarrow> ctl_state" where
  "pause_control_state now project task reason st =
     (let wide = (task = [] \<or> project_scope reason);
          marked = mark_dependents project (pc_tasks st) [task];
          hit = (\<lambda>i. case control_task st i of None \<Rightarrow> False | Some t \<Rightarrow> kt_project t = project \<and> (wide \<or> kt_id t \<in> set marked));
          st1 = st\<lparr>pc_projects := map (\<lambda>p. if po_id p = project \<and> wide then pause_project reason p else p) (pc_projects st),
            pc_tasks := map (\<lambda>t. if kt_project t \<noteq> project \<or> (\<not> wide \<and> kt_id t \<notin> set marked) \<or> kt_dispatch t = ''done'' then t
              else pause_task reason t) (pc_tasks st),
            pc_attempts := map (\<lambda>a. if hit (pa_task a) \<and> pa_status a = ''running''
              then a\<lparr>pa_status := ''failed'', pa_failure := reason, pa_completed := now\<rparr> else a) (pc_attempts st),
            pc_runs := map (\<lambda>r. if hit (ur_task r) \<and> (ur_status r = ''running'' \<or> ur_status r = ''waiting'')
              then r\<lparr>ur_status := ''failed'', ur_error := reason, ur_completed := now\<rparr> else r) (pc_runs st)\<rparr>
      in append_control_event now project task ''takeover_paused'' reason st1)"

section \<open>Reacting to events\<close>

definition pause_reason :: "ctl_state \<Rightarrow> ctl_task \<Rightarrow> ctl_event \<Rightarrow> string" where
  "pause_reason st t e =
     (if ev_action e = ''task_updated'' then (if high_risk_task (kt_risk t) then ''high_risk'' else [])
      else if ev_action e \<in> set [''tool_run_failed'', ''phase_failed''] then ''task_failed''
      else if ev_action e = ''final_acceptance_rejected'' then ''acceptance_failed''
      else if ev_action e = ''artifact_recorded'' then
        (case List.find (\<lambda>a. fa_id a = ev_source e \<and> fa_outcome a = ''fail'') (pc_artifacts st) of
           None \<Rightarrow> []
         | Some a \<Rightarrow> if activity_kind (fa_kind a) = ''test'' then ''acceptance_failed'' else ''task_failed'')
      else [])"

text \<open>A failed acceptance is counted at every task with the identifier; the last of them decides the reason.\<close>

fun count_failure :: "string \<Rightarrow> string \<Rightarrow> ctl_task list \<Rightarrow> ctl_task list \<times> string" where
  "count_failure i reason [] = ([], reason)"
| "count_failure i reason (t # ts) =
     (if kt_id t = i then
        (let t' = t\<lparr>kt_failures := kt_failures t + 1, kt_passed := False\<rparr>;
             (ts', r) = count_failure i (if 2 \<le> kt_failures t' then ''acceptance_failed_twice'' else reason) ts in (t' # ts', r))
      else (let (ts', r) = count_failure i reason ts in (t # ts', r)))"

definition react :: "string \<Rightarrow> ctl_event \<Rightarrow> ctl_state \<Rightarrow> ctl_state" where
  "react now e st =
     (case control_task st (ev_task e) of None \<Rightarrow> st | Some t \<Rightarrow>
      if takeover_mode st (kt_project t) \<noteq> ''active'' then st
      else let reason = pause_reason st t e in
        if reason = [] then st
        else if reason = ''acceptance_failed'' then
          (let (ts, r) = count_failure (kt_id t) reason (pc_tasks st)
           in pause_control_state now (kt_project t) (kt_id t) r (st\<lparr>pc_tasks := ts\<rparr>))
        else pause_control_state now (kt_project t) (kt_id t) reason st)"

text \<open>Only the events the operation logged count; those the reactions log are not reacted to.\<close>

definition apply_takeover_events :: "string \<Rightarrow> string list \<Rightarrow> ctl_state \<Rightarrow> ctl_state" where
  "apply_takeover_events now previous st =
     fold (\<lambda>e st. if ev_id e \<in> set previous then st else react now e st) (pc_events st) st"

section \<open>Milestones under review\<close>

definition milestone_tasks :: "string \<Rightarrow> string \<Rightarrow> ctl_task list \<Rightarrow> ctl_task list" where
  "milestone_tasks project m ts = filter (\<lambda>t. kt_project t = project \<and> kt_milestone t = m) ts"

text \<open>The loop returns at the first project with an open task; here the projects before it.\<close>

fun review_projects :: "string \<Rightarrow> string \<Rightarrow> project list \<Rightarrow> project list \<Rightarrow> ctl_state \<Rightarrow> ctl_state" where
  "review_projects now i done_rev [] st = st\<lparr>pc_projects := rev done_rev\<rparr>"
| "review_projects now i done_rev (p # ps) st =
     (if po_id p \<noteq> i \<or> lc_state (po_lifecycle p) \<noteq> ''executing'' then review_projects now i (p # done_rev) ps st
      else let ts = milestone_tasks i (lc_milestone (po_lifecycle p)) (pc_tasks st) in
        if \<exists>t \<in> set ts. kt_dispatch t \<noteq> ''done'' \<or> \<not> kt_passed t then st\<lparr>pc_projects := rev done_rev @ p # ps\<rparr>
        else if ts = [] then review_projects now i (p # done_rev) ps st
        else review_projects now i
          (p\<lparr>po_lifecycle := (po_lifecycle p)\<lparr>lc_state := ''awaiting_milestone_acceptance''\<rparr>, po_version := po_version p + 1\<rparr> # done_rev) ps
          (append_control_event now i [] ''milestone_ready'' ''Current milestone awaits human acceptance.'' st))"

definition advance_milestone_review :: "string \<Rightarrow> string \<Rightarrow> ctl_state \<Rightarrow> ctl_state" where
  "advance_milestone_review now i st = review_projects now i [] (pc_projects st) st"

section \<open>Starting, resuming and stopping\<close>

record takeover_request =
  tq_action :: string
  tq_task :: string
  tq_reason :: string
  tq_restart :: bool

definition parse_control_time :: "string \<Rightarrow> instant" where
  "parse_control_time v = (case parse_rfc3339 (trim_space v) of None \<Rightarrow> zero_time | Some t \<Rightarrow> t)"

text \<open>The last checkpoint artifact of a task that passed, has a value and is newer than its restart.\<close>

definition durable_checkpoint :: "ctl_state \<Rightarrow> string \<Rightarrow> string" where
  "durable_checkpoint st i =
     (let since = (case control_task st i of None \<Rightarrow> [] | Some t \<Rightarrow> kt_checkpoint_after t) in
      case List.find (\<lambda>a. fa_task a = i \<and> fa_kind a = ''checkpoint'' \<and> fa_outcome a = ''pass'' \<and> trim_space (fa_value a) \<noteq> [] \<and>
          (since = [] \<or> parse_control_time since < parse_control_time (fa_created a))) (rev (pc_artifacts st)) of
        None \<Rightarrow> [] | Some a \<Rightarrow> fa_id a)"

definition resume_one :: "ctl_env \<Rightarrow> takeover_request \<Rightarrow> ctl_state \<Rightarrow> ctl_task \<Rightarrow> (ctl_error, ctl_task) result" where
  "resume_one env req st t =
     (let saved = durable_checkpoint st (kt_id t) in
      if kt_pause t \<in> set [''acceptance_inputs_changed'', ''acceptance_inputs_unavailable''] \<and> \<not> tq_restart req
      then Inl (CtlFailure ''review acceptance input changes and explicitly restart'')
      else if saved = [] \<and> \<not> tq_restart req
      then Inl (CtlFailure ''no persisted checkpoint; explicit restart=true required'')
      else let t1 = t\<lparr>kt_resume := saved, kt_restart := tq_restart req, kt_pause := []\<rparr> in
        and_then (if tq_restart req then
            (let t2 = t1\<lparr>kt_resume := [], kt_checkpoint_after := en_nano env\<rparr>
             in and_then (en_fingerprint env t2) (\<lambda>b. Inr (t2\<lparr>kt_baseline := b\<rparr>)))
          else Inr t1) (\<lambda>t3.
        Inr (t3\<lparr>kt_dispatch := (if kt_dispatch t3 = ''released'' then ''ready'' else kt_dispatch t3),
                kt_claimed_by := [], kt_version := kt_version t3 + 1\<rparr>)))"

text \<open>The tasks in order, each seen with the ones before it already resumed; whether any was paused.\<close>

fun resume_tasks :: "ctl_env \<Rightarrow> takeover_request \<Rightarrow> string \<Rightarrow> ctl_task list \<Rightarrow> ctl_task list \<Rightarrow> ctl_state \<Rightarrow> bool \<Rightarrow> (ctl_error, ctl_state \<times> bool) result" where
  "resume_tasks env req project done_rev [] st resumed = Inr (st\<lparr>pc_tasks := rev done_rev\<rparr>, resumed)"
| "resume_tasks env req project done_rev (t # ts) st resumed =
     (if kt_project t \<noteq> project \<or> (tq_task req \<noteq> [] \<and> kt_id t \<noteq> tq_task req) \<or> kt_pause t = []
      then resume_tasks env req project (t # done_rev) ts st resumed
      else case resume_one env req (st\<lparr>pc_tasks := rev done_rev @ t # ts\<rparr>) t of
        Inl e \<Rightarrow> Inl e
      | Inr t' \<Rightarrow> resume_tasks env req project (t' # done_rev) ts st True)"

text \<open>The last project with the identifier is the one that is changed.\<close>

fun update_last :: "('a \<Rightarrow> bool) \<Rightarrow> ('a \<Rightarrow> 'a) \<Rightarrow> 'a list \<Rightarrow> 'a list" where
  "update_last P f [] = []"
| "update_last P f (x # xs) = (if P x \<and> \<not> (\<exists>y \<in> set xs. P y) then f x # xs else x # update_last P f xs)"

definition back_from_block :: "project \<Rightarrow> project" where
  "back_from_block p =
     p\<lparr>po_lifecycle := (po_lifecycle p)\<lparr>lc_state := lc_previous (po_lifecycle p), lc_previous := [], lc_reason := []\<rparr>\<rparr>"

definition stop_task :: "ctl_task \<Rightarrow> ctl_task" where
  "stop_task t = t\<lparr>kt_dispatch := (if kt_dispatch t = ''claimed'' \<or> kt_dispatch t = ''ready'' then ''released'' else kt_dispatch t),
     kt_claimed_by := [], kt_pause := [], kt_version := kt_version t + 1\<rparr>"

definition of_project :: "ctl_state \<Rightarrow> string \<Rightarrow> string \<Rightarrow> bool" where
  "of_project st project i \<longleftrightarrow> (case control_task st i of None \<Rightarrow> False | Some t \<Rightarrow> kt_project t = project)"

definition stop_work :: "string \<Rightarrow> ctl_state \<Rightarrow> ctl_state" where
  "stop_work project st =
     st\<lparr>pc_tasks := map (\<lambda>t. if kt_project t = project then stop_task t else t) (pc_tasks st),
        pc_attempts := map (\<lambda>a. if of_project st project (pa_task a)
          then (if pa_status a = ''running'' then a\<lparr>pa_released := True, pa_status := ''failed'', pa_failure := ''takeover stopped''\<rparr>
                else a\<lparr>pa_released := True\<rparr>) else a) (pc_attempts st),
        pc_runs := map (\<lambda>r. if of_project st project (ur_task r) \<and> (ur_status r = ''running'' \<or> ur_status r = ''waiting'')
          then r\<lparr>ur_status := ''failed'', ur_error := ''takeover stopped''\<rparr> else r) (pc_runs st)\<rparr>"

definition takeover_action :: "ctl_env \<Rightarrow> string \<Rightarrow> project \<Rightarrow> takeover_request \<Rightarrow> bool \<Rightarrow> ctl_state \<Rightarrow> (ctl_error, ctl_state) result" where
  "takeover_action env i p req agent st =
     (let mode = tk_mode (po_takeover p); change = (\<lambda>f st. st\<lparr>pc_projects := update_last (\<lambda>q. po_id q = i) f (pc_projects st)\<rparr>);
          activate = (\<lambda>m q. q\<lparr>po_takeover := \<lparr>tk_mode = m, tk_reason = []\<rparr>\<rparr>)
      in if tq_action req = ''start'' then
           (if mode = ''paused'' then Inl (CtlFailure ''paused takeover requires resume'')
            else if lc_state (po_lifecycle p) \<noteq> ''executing'' then Inl (CtlFailure ''confirm project plan before starting takeover'')
            else Inr (change (activate ''active'') st))
         else if tq_action req = ''pause'' then
           (if agent \<and> mode \<noteq> ''active'' \<and> mode \<noteq> ''paused'' then Inl (CtlFailure ''project is not under takeover'')
            else if trim_space (tq_reason req) = [] then Inl (CtlFailure ''pause requires reason'')
            else Inr (pause_control_state (en_nano env) i (tq_task req) (tq_reason req) st))
         else if tq_action req = ''resume'' then
           (if mode = ''manual'' then Inl (CtlFailure ''start takeover before resuming tasks'')
            else if mode = ''paused'' \<and> tq_task req \<noteq> [] then Inl (CtlFailure ''project pause requires project resume'')
            else and_then (resume_tasks env req i [] (pc_tasks st) st False) (\<lambda>(st1, resumed).
              if \<not> resumed \<and> mode \<noteq> ''paused'' then Inl (CtlFailure ''nothing is paused'')
              else Inr (if mode = ''paused'' then change (\<lambda>q. back_from_block (activate ''active'' q)) st1 else st1)))
         else if tq_action req = ''stop'' then
           Inr (stop_work i (change (\<lambda>q. let q1 = activate ''manual'' q in
             if lc_state (po_lifecycle q) = ''blocked'' then back_from_block q1 else q1) st))
         else Inl (CtlFailure ''action must be start, pause, resume or stop''))"

definition control_takeover :: "ctl_env \<Rightarrow> string \<Rightarrow> takeover_request \<Rightarrow> bool \<Rightarrow> ctl_state \<Rightarrow> (ctl_error, ctl_state) result" where
  "control_takeover env i req agent st =
     (if agent \<and> tq_action req \<noteq> ''pause'' then Inl (CtlFailure ''agents can only request pause'')
      else case List.find (\<lambda>p. po_id p = i) (rev (pc_projects st)) of
        None \<Rightarrow> Inl (CtlFailure ''not found'')
      | Some p \<Rightarrow>
          and_then (ensure (CtlFailure ''task does not belong to project'') (tq_task req \<noteq> [] \<longrightarrow> of_project st i (tq_task req))) (\<lambda>_.
          and_then (takeover_action env i p req agent st) (\<lambda>st1.
          Inr (append_control_event (en_nano env) i (tq_task req) (''takeover_'' @ tq_action req) (tq_reason req)
            (st1\<lparr>pc_projects := update_last (\<lambda>q. po_id q = i) (\<lambda>q. q\<lparr>po_version := po_version q + 1\<rparr>) (pc_projects st1)\<rparr>)))))"

section \<open>The contract of a project\<close>

record contract_request =
  nq_version :: int
  nq_brief :: "(string \<times> string \<times> string \<times> string) option"
  nq_milestones :: "milestone list option"
  nq_lifecycle :: string
  nq_reason :: string

fun validate_all :: "ctl_state \<Rightarrow> ctl_task list \<Rightarrow> (ctl_error, unit) result" where
  "validate_all st [] = Inr ()"
| "validate_all st (t # ts) = and_then (validate_task_contract st t) (\<lambda>_. validate_all st ts)"

definition set_project :: "string \<Rightarrow> (project \<Rightarrow> project) \<Rightarrow> ctl_state \<Rightarrow> ctl_state" where
  "set_project i f st = st\<lparr>pc_projects := update_first (\<lambda>p. po_id p = i) f (pc_projects st)\<rparr>"

definition update_project_contract :: "ctl_env \<Rightarrow> string \<Rightarrow> contract_request \<Rightarrow> ctl_state \<Rightarrow> (ctl_error, ctl_state) result" where
  "update_project_contract env i req st =
     (case control_project st i of
        None \<Rightarrow> Inl (CtlFailure ''not found'')
      | Some p \<Rightarrow>
          if nq_version req < 1 \<or> nq_version req \<noteq> po_version p then Inl (conflict_text ''project'' (nq_version req) (po_version p))
          else if tk_mode (po_takeover p) = ''paused'' \<and> nq_lifecycle req \<noteq> [] \<and> nq_lifecycle req \<noteq> ''blocked''
          then Inl (CtlFailure ''resume takeover before changing blocked lifecycle'')
          else let st1 = set_project i (\<lambda>p. case nq_brief req of None \<Rightarrow> p | Some b \<Rightarrow> p\<lparr>po_brief := b\<rparr>) st in
          and_then (case nq_milestones req of
              None \<Rightarrow> Inr st1
            | Some ms \<Rightarrow>
                and_then (validate_milestones ms) (\<lambda>_.
                let st2 = set_project i (\<lambda>p. p\<lparr>po_milestones := ms\<rparr>) st1
                in and_then (validate_all st2 (filter (\<lambda>t. kt_project t = i) (pc_tasks st2))) (\<lambda>_. Inr st2))) (\<lambda>st2.
          and_then (if nq_lifecycle req = ''blocked'' then
              and_then (ensure (CtlFailure ''blocked lifecycle requires reason'') (trim_space (nq_reason req) \<noteq> [])) (\<lambda>_.
              Inr (pause_control_state (en_nano env) i [] (nq_reason req) st2))
            else Inr st2) (\<lambda>st3.
          case control_project st3 i of None \<Rightarrow> Inl (CtlFailure ''not found'') | Some p3 \<Rightarrow>
          and_then (lifecycle_transition (nq_lifecycle req) (nq_reason req) p3) (\<lambda>p4.
          if lc_state (po_lifecycle p4) = ''executing'' \<and>
             \<not> (\<exists>m \<in> set (po_milestones p4). mi_id m = lc_milestone (po_lifecycle p4) \<and> mi_status m = ''current'')
          then Inl (CtlFailure ''executing milestone must remain current'')
          else Inr (append_control_event (en_nano env) i [] ''project_contract_updated'' ''Updated project contract and lifecycle.''
            (set_project i (\<lambda>_. p4\<lparr>po_version := po_version p4 + 1\<rparr>) st3))))))"

end
