(* ===== verification/Control_Memory.thy ===== *)
theory Control_Memory
  imports Control_Takeover "HOL-Library.AList"
begin

text \<open>
  What the store does to a state before it saves it (\<open>project_control.go\<close>): all texts in
  normal form, and the history of each task cut to a bounded number of events, phase
  attempts, tool runs and artifacts, with what was dropped counted in a memory.
\<close>

section \<open>Memories\<close>

type_synonym memories = "string \<Rightarrow> task_memory option"

definition widen_window :: "string \<Rightarrow> task_memory \<Rightarrow> task_memory" where
  "widen_window time0 m =
     (let time = trim_space time0;
          m1 = (if ym_start m = [] \<or> time < ym_start m then m\<lparr>ym_start := time\<rparr> else m)
      in if time = [] then m
         else if ym_end m1 = [] \<or> ym_end m1 < time then m1\<lparr>ym_end := time\<rparr> else m1)"

fun merge_new :: "string list \<Rightarrow> string list \<Rightarrow> string list" where
  "merge_new merged [] = merged"
| "merge_new merged (x # xs) =
     (let v = trim_space x in merge_new (if v = [] \<or> v \<in> set merged then merged else merged @ [v]) xs)"

definition merge_highlights :: "string list \<Rightarrow> string list \<Rightarrow> string list" where
  "merge_highlights existing additions = take 8 (merge_new (merge_new [] additions) existing)"

text \<open>The four most frequent keys, the frequent ones first.\<close>

definition count_entries :: "string list \<Rightarrow> (int \<times> string) list" where
  "count_entries keys =
     sort (map (\<lambda>k. (- int (length (filter (\<lambda>x. x = k) keys)), k)) (filter (\<lambda>k. k \<noteq> []) (remdups keys)))"

definition times_sign :: string where
  "times_sign = [byte_char 0xC3, byte_char 0x97]"

definition summarize_counts :: "string \<Rightarrow> string list \<Rightarrow> string" where
  "summarize_counts prefix keys =
     (let parts = map (\<lambda>(n, k). k @ times_sign @ show_int (- n)) (take 4 (count_entries keys))
      in if parts = [] then [] else prefix @ '': '' @ join_with '', '' parts)"

definition memory_parts :: "task_memory \<Rightarrow> string list" where
  "memory_parts m =
     (if 0 < ym_events m then [show_int (ym_events m) @ '' events''] else []) @
     (if 0 < ym_artifacts m then [show_int (ym_artifacts m) @ '' artifacts''] else []) @
     (if 0 < ym_attempts m then [show_int (ym_attempts m) @ '' phase attempts''] else []) @
     (if 0 < ym_runs m then [show_int (ym_runs m) @ '' tool runs''] else [])"

definition finalize_memory :: "task_memory \<Rightarrow> task_memory" where
  "finalize_memory m =
     (let range = (if ym_start m \<noteq> [] \<and> ym_end m \<noteq> [] \<and> ym_start m \<noteq> ym_end m
            then '' between '' @ ym_start m @ '' and '' @ ym_end m
            else if ym_end m \<noteq> [] then '' through '' @ ym_end m else [])
      in if memory_parts m = [] then m\<lparr>ym_summary := []\<rparr>
         else m\<lparr>ym_summary := ''Compacted older task history'' @ range @ '': '' @ join_with '', '' (memory_parts m) @ ''.''\<rparr>)"

definition ensure_memory :: "string \<Rightarrow> ctl_task \<Rightarrow> memories \<Rightarrow> task_memory" where
  "ensure_memory now t ms =
     (let i = trim_space (kt_id t);
          m = (case ms i of
                 None \<Rightarrow> \<lparr>ym_task = i, ym_project = trim_space (kt_project t), ym_workstream = trim_space (kt_workstream t),
                   ym_start = [], ym_end = [], ym_events = 0, ym_artifacts = 0, ym_attempts = 0, ym_runs = 0,
                   ym_summary = [], ym_highlights = [], ym_updated = []\<rparr>
               | Some m \<Rightarrow> m);
          m1 = (if ym_project m = [] then m\<lparr>ym_project := trim_space (kt_project t)\<rparr> else m);
          m2 = (if ym_workstream m1 = [] then m1\<lparr>ym_workstream := trim_space (kt_workstream t)\<rparr> else m1)
      in if trim_space now = [] then m2 else m2\<lparr>ym_updated := trim_space now\<rparr>)"

section \<open>Cutting the history of each task\<close>

text \<open>
  The tasks by identifier, as the code's map has them: the last of equal ones. An entry
  belongs to a task when its trimmed task text is the identifier of one.
\<close>

definition task_of_entry :: "ctl_task list \<Rightarrow> string \<Rightarrow> ctl_task option" where
  "task_of_entry ts i0 = (if trim_space i0 = [] then None else List.find (\<lambda>t. kt_id t = trim_space i0) (rev ts))"

text \<open>
  One kind of entry: entries of no task pass through; those of a task, tasks in the order
  of their identifiers, keep the open ones and as many of the closed ones as are retained,
  the newest; the rest, oldest first, is dropped.
\<close>

record 'a entry_kind =
  ek_task :: "'a \<Rightarrow> string"
  ek_open :: "'a \<Rightarrow> bool"
  ek_order :: "'a \<Rightarrow> string \<times> string"
  ek_retained :: nat

definition entries_of :: "'a entry_kind \<Rightarrow> ctl_task list \<Rightarrow> string \<Rightarrow> 'a list \<Rightarrow> 'a list" where
  "entries_of k ts i xs = filter (\<lambda>x. map_option kt_id (task_of_entry ts (ek_task k x)) = Some i) xs"

definition closed_entries :: "'a entry_kind \<Rightarrow> ctl_task list \<Rightarrow> string \<Rightarrow> 'a list \<Rightarrow> 'a list" where
  "closed_entries k ts i xs = sort_key (ek_order k) (filter (\<lambda>x. \<not> ek_open k x) (entries_of k ts i xs))"

definition dropped_entries :: "'a entry_kind \<Rightarrow> ctl_task list \<Rightarrow> string \<Rightarrow> 'a list \<Rightarrow> 'a list" where
  "dropped_entries k ts i xs = (let c = closed_entries k ts i xs in take (length c - ek_retained k) c)"

definition kept_entries :: "'a entry_kind \<Rightarrow> ctl_task list \<Rightarrow> string \<Rightarrow> 'a list \<Rightarrow> 'a list" where
  "kept_entries k ts i xs =
     (let c = closed_entries k ts i xs in filter (ek_open k) (entries_of k ts i xs) @ drop (length c - ek_retained k) c)"

definition task_ids :: "ctl_task list \<Rightarrow> string list" where
  "task_ids ts = sort (remdups (map kt_id ts))"

definition compact_entries :: "'a entry_kind \<Rightarrow> ctl_task list \<Rightarrow> 'a list \<Rightarrow> 'a list" where
  "compact_entries k ts xs =
     filter (\<lambda>x. task_of_entry ts (ek_task k x) = None) xs @ concat (map (\<lambda>i. kept_entries k ts i xs) (task_ids ts))"

text \<open>The memory of a task after entries were dropped: how they count, when they were, and what they are called.\<close>

definition remember_dropped ::
  "string \<Rightarrow> string \<Rightarrow> (int \<Rightarrow> task_memory \<Rightarrow> task_memory) \<Rightarrow> ('a \<Rightarrow> string) \<Rightarrow> ('a \<Rightarrow> string) \<Rightarrow> ctl_task list \<Rightarrow> (string \<Rightarrow> 'a list) \<Rightarrow>
   memories \<Rightarrow> memories" where
  "remember_dropped prefix now add time name ts dropped ms =
     fold (\<lambda>i ms. if dropped i = [] then ms
       else case task_of_entry ts i of None \<Rightarrow> ms | Some t \<Rightarrow>
         let m = add (int (length (dropped i))) (fold (\<lambda>x. widen_window (time x)) (dropped i) (ensure_memory now t ms))
         in ms(trim_space (kt_id t) \<mapsto> m\<lparr>ym_highlights := merge_highlights (ym_highlights m)
              [summarize_counts prefix (map (\<lambda>x. trim_space (name x)) (dropped i))]\<rparr>)) (task_ids ts) ms"

definition with_status :: "string \<Rightarrow> string \<Rightarrow> string" where
  "with_status key status = (if trim_space status = [] then trim_space key else trim_space key @ '' ('' @ trim_space status @ '')'')"

definition closing_time :: "string \<Rightarrow> string \<Rightarrow> string" where
  "closing_time completed started = (if trim_space completed = [] then trim_space started else trim_space completed)"

definition event_entries :: "ctl_event entry_kind" where
  "event_entries = \<lparr>ek_task = ev_task, ek_open = (\<lambda>_. False), ek_order = (\<lambda>e. (ev_time e, ev_id e)), ek_retained = 64\<rparr>"

definition attempt_entries :: "phase_attempt entry_kind" where
  "attempt_entries = \<lparr>ek_task = pa_task, ek_open = (\<lambda>a. normalize_attempt_status (pa_status a) = ''running''),
     ek_order = (\<lambda>a. (closing_time (pa_completed a) (pa_started a), pa_id a)), ek_retained = 12\<rparr>"

definition run_entries :: "tool_run entry_kind" where
  "run_entries = \<lparr>ek_task = ur_task, ek_open = (\<lambda>r. normalize_run_status (ur_status r) = ''running''),
     ek_order = (\<lambda>r. (closing_time (ur_completed r) (ur_started r), ur_id r)), ek_retained = 12\<rparr>"

section \<open>Artifacts\<close>

text \<open>
  Artifacts named by a kept attempt or run are protected, and so is the newest of each
  kind of a task.
\<close>

definition newer_artifact :: "artifact \<Rightarrow> artifact \<Rightarrow> bool" where
  "newer_artifact a b \<longleftrightarrow> trim_space (fa_created b) < trim_space (fa_created a) \<or>
     trim_space (fa_created a) = trim_space (fa_created b) \<and> fa_id b < fa_id a"

fun latest_by_kind :: "(string \<times> artifact) list \<Rightarrow> artifact list \<Rightarrow> (string \<times> artifact) list" where
  "latest_by_kind latest [] = latest"
| "latest_by_kind latest (a # as) =
     (let key = trim_space (fa_task a) @ [CHR 0x0A] @ normalize_artifact_kind (fa_kind a) in
      if trim_space (fa_task a) = [] then latest_by_kind latest as
      else case map_of latest key of
        None \<Rightarrow> latest_by_kind ((key, a) # latest) as
      | Some b \<Rightarrow> latest_by_kind (if newer_artifact a b then (key, a) # AList.delete key latest else latest) as)"

definition protected_ids :: "artifact list \<Rightarrow> phase_attempt list \<Rightarrow> tool_run list \<Rightarrow> string list" where
  "protected_ids fs as rs =
     filter (\<lambda>i. i \<noteq> []) (map trim_space (concat (map pa_artifacts as)) @ map (\<lambda>r. trim_space (ur_artifact r)) rs) @
     filter (\<lambda>i. trim_space i \<noteq> []) (map (\<lambda>(_, a). fa_id a) (latest_by_kind [] fs))"

definition artifact_entries :: "artifact entry_kind" where
  "artifact_entries = \<lparr>ek_task = fa_task, ek_open = (\<lambda>_. False), ek_order = (\<lambda>a. (fa_created a, fa_id a)), ek_retained = 24\<rparr>"

text \<open>The first so many entries that satisfy a test, and the list without them.\<close>

fun drop_first :: "('a \<Rightarrow> bool) \<Rightarrow> nat \<Rightarrow> 'a list \<Rightarrow> 'a list \<times> 'a list" where
  "drop_first P n [] = ([], [])"
| "drop_first P n (x # xs) =
     (if P x \<and> 0 < n then (let (d, k) = drop_first P (n - 1) xs in (x # d, k)) else (let (d, k) = drop_first P n xs in (d, x # k)))"

definition cut_artifacts :: "string list \<Rightarrow> ctl_task list \<Rightarrow> string \<Rightarrow> artifact list \<Rightarrow> artifact list \<times> artifact list" where
  "cut_artifacts safe ts i xs =
     (let c = closed_entries artifact_entries ts i xs
      in drop_first (\<lambda>a. trim_space (fa_id a) \<notin> set safe) (length c - ek_retained artifact_entries) c)"

definition compact_artifacts :: "string list \<Rightarrow> ctl_task list \<Rightarrow> artifact list \<Rightarrow> artifact list" where
  "compact_artifacts safe ts xs =
     filter (\<lambda>a. task_of_entry ts (fa_task a) = None) xs @ concat (map (\<lambda>i. snd (cut_artifacts safe ts i xs)) (task_ids ts))"

section \<open>The compacted state\<close>

text \<open>Evidence a task still carries becomes artifacts, as old state files have it.\<close>

definition evidence_key :: "string \<Rightarrow> string \<Rightarrow> string \<Rightarrow> string" where
  "evidence_key task label value = trim_space task @ [CHR 0x0A] @ trim_space label @ [CHR 0x0A] @ trim_space value"

fun migrate_evidence :: "string \<Rightarrow> string \<Rightarrow> (string \<times> string) list \<Rightarrow> ctl_state \<Rightarrow> ctl_state" where
  "migrate_evidence created task [] st = st"
| "migrate_evidence created task ((label, value) # es) st =
     (if trim_space label = [] \<and> trim_space value = [] then migrate_evidence created task es st
      else if \<exists>a \<in> set (pc_artifacts st). evidence_key (fa_task a) (fa_label a) (fa_value a) = evidence_key task label value
      then migrate_evidence created task es st
      else let (i, st1) = control_id ''artifact'' (task @ ''-evidence-note'') st in
        migrate_evidence created task es (st1\<lparr>pc_artifacts := pc_artifacts st1 @
          [\<lparr>fa_id = i, fa_task = task, fa_attempt = [], fa_kind = ''evidence_note'', fa_outcome = ''recorded'',
            fa_label = trim_space label, fa_value = trim_space value, fa_created = created\<rparr>]\<rparr>))"

definition load_memories :: "task_memory list \<Rightarrow> memories" where
  "load_memories xs = fold (\<lambda>m ms. if trim_space (ym_task m) = [] then ms
     else ms(trim_space (ym_task m) \<mapsto> m\<lparr>ym_task := trim_space (ym_task m)\<rparr>)) xs (\<lambda>_. None)"

definition store_memories :: "ctl_task list \<Rightarrow> memories \<Rightarrow> task_memory list" where
  "store_memories ts ms =
     rev (sort_key ym_updated (rev (sort_key ym_task (concat (map (\<lambda>t.
       case ms (trim_space (kt_id t)) of
         None \<Rightarrow> []
       | Some m \<Rightarrow> let m1 = finalize_memory m in
           if trim_space (ym_summary m1) = [] then [] else [m1\<lparr>ym_highlights := merge_highlights [] (ym_highlights m1)\<rparr>]) ts)))))"

definition compact_state :: "string \<Rightarrow> ctl_state \<Rightarrow> ctl_state" where
  "compact_state now st0 =
     (let created = (if trim_space (pc_updated st0) = [] then now else trim_space (pc_updated st0));
          st = fold (\<lambda>t. migrate_evidence created (kt_id t) (kt_evidence t)) (pc_tasks st0) st0;
          ts = pc_tasks st;
          as = compact_entries attempt_entries ts (pc_attempts st);
          rs = compact_entries run_entries ts (pc_runs st);
          safe = protected_ids (pc_artifacts st) as rs;
          ms1 = remember_dropped ''events'' now (\<lambda>n m. m\<lparr>ym_events := ym_events m + n\<rparr>) ev_time ev_action ts
            (\<lambda>i. dropped_entries event_entries ts i (pc_events st)) (load_memories (pc_memories st));
          ms2 = remember_dropped ''phases'' now (\<lambda>n m. m\<lparr>ym_attempts := ym_attempts m + n\<rparr>)
            (\<lambda>a. if trim_space (pa_completed a) \<noteq> [] then pa_completed a else pa_started a)
            (\<lambda>a. with_status (pa_phase a) (pa_status a)) ts (\<lambda>i. dropped_entries attempt_entries ts i (pc_attempts st)) ms1;
          ms3 = remember_dropped ''tools'' now (\<lambda>n m. m\<lparr>ym_runs := ym_runs m + n\<rparr>)
            (\<lambda>r. if trim_space (ur_completed r) \<noteq> [] then ur_completed r else ur_started r)
            (\<lambda>r. with_status (ur_tool r) (ur_status r)) ts (\<lambda>i. dropped_entries run_entries ts i (pc_runs st)) ms2;
          ms4 = remember_dropped ''artifacts'' now (\<lambda>n m. m\<lparr>ym_artifacts := ym_artifacts m + n\<rparr>) fa_created
            (\<lambda>a. with_status (fa_kind a) (fa_outcome a)) ts (\<lambda>i. fst (cut_artifacts safe ts i (pc_artifacts st))) ms3
      in st\<lparr>pc_events := compact_entries event_entries ts (pc_events st), pc_attempts := as, pc_runs := rs,
            pc_artifacts := compact_artifacts safe ts (pc_artifacts st),
            pc_tasks := map (\<lambda>t. t\<lparr>kt_evidence := []\<rparr>) ts, pc_memories := store_memories ts ms4\<rparr>)"

section \<open>Normal form\<close>

definition normalize_project :: "project \<Rightarrow> project" where
  "normalize_project p =
     p\<lparr>po_lifecycle := (if lc_state (po_lifecycle p) = [] then (po_lifecycle p)\<lparr>lc_state := ''delegated''\<rparr> else po_lifecycle p),
       po_id := trim_space (po_id p), po_key := trim_space (po_key p), po_name := trim_space (po_name p),
       po_status := trim_space (po_status p), po_version := max 1 (po_version p)\<rparr>"

definition normalize_workstream :: "workstream \<Rightarrow> workstream" where
  "normalize_workstream w =
     w\<lparr>wk_id := trim_space (wk_id w), wk_project := trim_space (wk_project w), wk_title := trim_space (wk_title w),
       wk_priority := normalize_priority (wk_priority w), wk_status := normalize_workstream_status (wk_status w),
       wk_version := max 1 (wk_version w)\<rparr>"

definition normalize_task :: "artifact list \<Rightarrow> ctl_task \<Rightarrow> ctl_task" where
  "normalize_task artifacts t =
     (let t1 = refresh_task artifacts (t\<lparr>kt_id := trim_space (kt_id t), kt_project := trim_space (kt_project t),
            kt_workstream := trim_space (kt_workstream t), kt_title := trim_space (kt_title t),
            kt_acceptance_decision := trim_space (kt_acceptance_decision t), kt_archive_decision := trim_space (kt_archive_decision t),
            kt_state := normalize_task_state (kt_state t), kt_acceptance := normalize_acceptance (kt_acceptance t),
            kt_priority := normalize_priority (kt_priority t), kt_risk := normalize_risk (kt_risk t),
            kt_skill := trim_space (kt_skill t), kt_runbook := trim_space (kt_runbook t),
            kt_phase := normalize_phase (kt_phase t), kt_runbook_state := normalize_runbook_state (kt_runbook_state t)\<rparr>)
      in t1\<lparr>kt_version := max 1 (kt_version t1)\<rparr>)"

definition normalize_attempt :: "phase_attempt \<Rightarrow> phase_attempt" where
  "normalize_attempt a =
     a\<lparr>pa_id := trim_space (pa_id a), pa_task := trim_space (pa_task a),
       pa_runbook := (if trim_space (pa_runbook a) = [] then ''code_change_default'' else trim_space (pa_runbook a)),
       pa_phase := normalize_phase (pa_phase a), pa_agent := trim_space (pa_agent a), pa_runtime := trim_space (pa_runtime a),
       pa_workspace := trim_space (pa_workspace a), pa_status := normalize_attempt_status (pa_status a)\<rparr>"

definition normalize_run :: "tool_run \<Rightarrow> tool_run" where
  "normalize_run r =
     r\<lparr>ur_id := trim_space (ur_id r), ur_task := trim_space (ur_task r), ur_attempt := trim_space (ur_attempt r),
       ur_phase := normalize_phase (ur_phase r), ur_tool := low_trim (ur_tool r), ur_workspace := trim_space (ur_workspace r),
       ur_status := normalize_run_status (ur_status r), ur_started := trim_space (ur_started r),
       ur_completed := trim_space (ur_completed r), ur_artifact := trim_space (ur_artifact r),
       ur_outcome := (if trim_space (ur_outcome r) = [] then ur_outcome r else normalize_outcome (ur_outcome r)),
       ur_summary := trim_space (ur_summary r), ur_error := trim_space (ur_error r)\<rparr>"

definition normalize_artifact :: "artifact \<Rightarrow> artifact" where
  "normalize_artifact a =
     a\<lparr>fa_id := trim_space (fa_id a), fa_task := trim_space (fa_task a), fa_attempt := trim_space (fa_attempt a),
       fa_kind := normalize_artifact_kind (fa_kind a), fa_outcome := normalize_outcome (fa_outcome a),
       fa_label := trim_space (fa_label a), fa_value := trim_space (fa_value a)\<rparr>"

definition normalize_checkpoint :: "checkpoint \<Rightarrow> checkpoint" where
  "normalize_checkpoint c =
     c\<lparr>ck_id := trim_space (ck_id c), ck_task := trim_space (ck_task c), ck_resolved_by := trim_space (ck_resolved_by c),
       ck_version := max 1 (ck_version c)\<rparr>"

definition normalize_event :: "ctl_event \<Rightarrow> ctl_event" where
  "normalize_event e =
     e\<lparr>ev_id := trim_space (ev_id e), ev_actor := trim_space (ev_actor e), ev_action := trim_space (ev_action e),
       ev_project := trim_space (ev_project e), ev_workstream := trim_space (ev_workstream e), ev_task := trim_space (ev_task e),
       ev_checkpoint := trim_space (ev_checkpoint e)\<rparr>"

definition normalize_decision :: "ctl_decision \<Rightarrow> ctl_decision" where
  "normalize_decision d =
     d\<lparr>de_id := trim_space (de_id d), de_type := trim_space (de_type d), de_actor := trim_space (de_actor d),
       de_project := trim_space (de_project d), de_workstream := trim_space (de_workstream d), de_task := trim_space (de_task d),
       de_checkpoint := trim_space (de_checkpoint d)\<rparr>"

definition normalize_memory :: "task_memory \<Rightarrow> task_memory" where
  "normalize_memory m =
     m\<lparr>ym_task := trim_space (ym_task m), ym_project := trim_space (ym_project m), ym_workstream := trim_space (ym_workstream m),
       ym_start := trim_space (ym_start m), ym_end := trim_space (ym_end m), ym_summary := trim_space (ym_summary m),
       ym_updated := trim_space (ym_updated m), ym_highlights := map trim_space (ym_highlights m)\<rparr>"

text \<open>
  The tasks are brought to normal form before the artifacts are, and refreshed again once
  the history is cut.
\<close>

definition normalize_state :: "string \<Rightarrow> ctl_state \<Rightarrow> ctl_state" where
  "normalize_state now st =
     (let st1 = st\<lparr>pc_activity := trim_activity (pc_activity st), pc_projects := map normalize_project (pc_projects st),
            pc_workstreams := map normalize_workstream (pc_workstreams st),
            pc_tasks := map (normalize_task (pc_artifacts st)) (pc_tasks st),
            pc_attempts := map normalize_attempt (pc_attempts st), pc_runs := map normalize_run (pc_runs st),
            pc_artifacts := map normalize_artifact (pc_artifacts st), pc_checkpoints := map normalize_checkpoint (pc_checkpoints st),
            pc_events := map normalize_event (pc_events st), pc_decisions := map normalize_decision (pc_decisions st),
            pc_memories := map normalize_memory (pc_memories st)\<rparr>;
          st2 = compact_state now st1
      in st2\<lparr>pc_active := (if pc_active st2 = [] \<and> pc_projects st2 \<noteq> [] then po_id (hd (pc_projects st2)) else pc_active st2),
             pc_tasks := map (refresh_task (pc_artifacts st2)) (pc_tasks st2)\<rparr>)"

section \<open>A transaction\<close>

text \<open>
  What \<open>withStateLocked\<close> stores after an operation: the reactions to the new events, the
  normal form and the time of the change.
\<close>

definition commit :: "ctl_env \<Rightarrow> ctl_state \<Rightarrow> ctl_state \<Rightarrow> ctl_state" where
  "commit env st0 st =
     (normalize_state (en_now env) (apply_takeover_events (en_nano env) (map ev_id (pc_events st0)) st))\<lparr>pc_updated := en_nano env\<rparr>"

end
