(* ===== verification/Control_Tool_Runs.thy ===== *)
theory Control_Tool_Runs
  imports Control_Memory
begin

text \<open>
  The life of a tool run (\<open>project_control.go\<close>): carrying out a started run in two
  transactions with the command between them, retries and the checkpoint after the last
  one, runs interrupted by a restart, the periodic start of tools and the health check,
  and the catalogue a user may change.
\<close>

text \<open>The position of the first element that satisfies a test.\<close>

fun first_index :: "('a \<Rightarrow> bool) \<Rightarrow> 'a list \<Rightarrow> nat option" where
  "first_index P [] = None"
| "first_index P (x # xs) = (if P x then Some 0 else map_option Suc (first_index P xs))"

lemma first_index_Some: "first_index P xs = Some k \<Longrightarrow> k < length xs \<and> P (xs ! k)"
  by (induction xs arbitrary: k) (auto split: if_splits)

lemma first_index_None: "first_index P xs = None \<longleftrightarrow> (\<forall>x \<in> set xs. \<not> P x)"
  by (induction xs) auto

lemma first_index_find: "first_index P xs = Some k \<Longrightarrow> List.find P xs = Some (xs ! k)"
  by (induction xs arbitrary: k) (auto split: if_splits)

definition put_task :: "nat \<Rightarrow> ctl_task \<Rightarrow> ctl_state \<Rightarrow> ctl_state" where
  "put_task j t st = st\<lparr>pc_tasks := (pc_tasks st)[j := t]\<rparr>"

definition put_run :: "nat \<Rightarrow> tool_run \<Rightarrow> ctl_state \<Rightarrow> ctl_state" where
  "put_run k r st = st\<lparr>pc_runs := (pc_runs st)[k := r]\<rparr>"

section \<open>A finished command\<close>

definition retry_run :: "string \<Rightarrow> string \<Rightarrow> tool_run \<Rightarrow> tool_run" where
  "retry_run i now r =
     r\<lparr>ur_id := i, ur_status := ''running'', ur_started := now, ur_completed := [], ur_artifact := [], ur_outcome := [],
       ur_error := [], ur_retries := ur_retries r + 1,
       ur_summary := ''Retry '' @ show_int (ur_retries r + 1) @ ''/'' @ show_int (ur_max_retries r) @ '' of '' @ ur_tool r @ '' for '' @ ur_phase r @ ''.''\<rparr>"

text \<open>
  A failed run is retried while retries are left and the project is not managed; then a
  checkpoint asks a human. The identifier of the retry is empty when there is none.
\<close>

definition run_failed :: "string \<Rightarrow> nat \<Rightarrow> nat \<Rightarrow> string \<Rightarrow> string \<Rightarrow> ctl_state \<Rightarrow> ctl_state \<times> string" where
  "run_failed now k j failure detail st =
     (let t = pc_tasks st ! j;
          r = (pc_runs st ! k)\<lparr>ur_task := ur_task (pc_runs st ! k), ur_status := ''failed'', ur_completed := now, ur_outcome := ''fail'',
            ur_error := failure, ur_summary := detail\<rparr>;
          st1 = emit ''tool-run-failed'' (task_event now ''tool_gateway'' ''tool_run_failed'' detail t) (put_run k r st)
      in if ur_retries r < ur_max_retries r \<and> \<not> managed_project st1 t then
           (let (i, st2) = control_id ''tool-run'' (kt_id t @ ''-'' @ ur_phase r @ ''-'' @ ur_tool r @ ''-retry'') st1;
                again = (retry_run i now r)\<lparr>ur_task := kt_id t\<rparr>;
                count = show_int (ur_retries again) @ ''/'' @ show_int (ur_max_retries again);
                t1 = t\<lparr>kt_summary := ''Tool '' @ ur_tool r @ '' failed, retrying ('' @ count @ '').'', kt_next := ''Automatic retry in progress.''\<rparr>;
                st3 = emit ''tool-retry'' (task_event now ''tool_gateway'' ''tool_retry''
                  (''Auto-retrying '' @ ur_tool r @ '' ('' @ count @ '').'') t1) (put_task j t1 (st2\<lparr>pc_runs := pc_runs st2 @ [again]\<rparr>))
            in (put_task j (t1\<lparr>kt_version := kt_version t1 + 1\<rparr>) st3, i))
         else
           (let (i, st2) = control_id ''checkpoint'' (''tool-failure-'' @ kt_id t @ ''-'' @ ur_tool r) st1;
                c = (new_gate i (kt_id t) ''tool_failure'' (''Tool '' @ ur_tool r @ '' failed'') detail now
                  [''approve'', ''reject'', ''reroute''])\<lparr>ck_version := 0\<rparr>;
                t1 = t\<lparr>kt_summary := ''Tool '' @ ur_tool r @ '' failed after retries; awaiting human review.'',
                  kt_next := ''Review the failure in the approvals inbox.''\<rparr>;
                st3 = emit ''tool-failure-checkpoint'' ((task_event now ''tool_gateway'' ''checkpoint_raised''
                  (''Created checkpoint after '' @ ur_tool r @ '' exhausted retries.'') t1)\<lparr>ev_checkpoint := i\<rparr>)
                  (put_task j t1 (st2\<lparr>pc_checkpoints := pc_checkpoints st2 @ [c]\<rparr>))
            in (put_task j (t1\<lparr>kt_version := kt_version t1 + 1\<rparr>) st3, [])))"

definition error_text :: "ctl_error \<Rightarrow> string" where
  "error_text e = (case e of CtlFailure m \<Rightarrow> m | CtlConflict m \<Rightarrow> m | CtlViolation r m \<Rightarrow> m)"

text \<open>The second transaction, with what the command answered; the identifier of a run to carry out next.\<close>

definition finish_tool_run :: "ctl_env \<Rightarrow> string \<Rightarrow> (string, tool_result) result \<Rightarrow> ctl_state \<Rightarrow> (ctl_error, ctl_state \<times> string) result" where
  "finish_tool_run env run_id out st =
     (let now = en_now env in
      case first_index (\<lambda>r. ur_id r = run_id) (pc_runs st) of
        None \<Rightarrow> Inl (CtlFailure (''tool run not found: '' @ run_id))
      | Some k \<Rightarrow>
      if ur_status (pc_runs st ! k) \<noteq> ''running'' then Inr (st, [])
      else case first_index (\<lambda>t. kt_id t = ur_task (pc_runs st ! k)) (pc_tasks st) of
        None \<Rightarrow> Inl (CtlFailure (''tool run task not found: '' @ ur_task (pc_runs st ! k)))
      | Some j \<Rightarrow>
      and_then (execution_gate (en_leases env) (en_instant env) (en_user env) st (pc_tasks st ! j)) (\<lambda>_.
      let tool = ur_tool (pc_runs st ! k) in
      Inr (case out of
        Inl e \<Rightarrow> run_failed now k j e (''Tool '' @ tool @ '' failed: '' @ e) st
      | Inr res \<Rightarrow>
        (case apply_tool_result res now (pc_runs st ! k) st (pc_tasks st ! j) of
           (st1, t1, Inl e) \<Rightarrow>
             run_failed now k j (error_text e) (''Tool '' @ tool @ '' result could not be applied: '' @ error_text e) (put_task j t1 st1)
         | (st1, t1, Inr r) \<Rightarrow>
             let t2 = t1\<lparr>kt_version := kt_version t1 + 1\<rparr>;
                 st2 = sync_gates now t2 (put_task j t2 (put_run k r st1))
             in if ur_status r = ''completed'' \<and> ur_outcome r = ''pass'' then
                  (case auto_progress (\<lambda>_ _ _. en_runtime env) None now st2 (pc_tasks st2 ! j) of
                     (st3, t3, next_id) \<Rightarrow>
                       (put_task j (if next_id = [] then t3 else t3\<lparr>kt_version := kt_version t3 + 1\<rparr>) st3, next_id))
                else (st2, [])))))"

section \<open>Carrying out a command\<close>

definition compact_output :: "string \<Rightarrow> int \<Rightarrow> string" where
  "compact_output value room =
     (let v = trim_space value in
      if v = [] \<or> room < 1 \<or> int (length v) \<le> room then v
      else trim_space (cut_runes (nat room) v) @ [CHR 0x0A] @ ''[output truncated]'')"

definition tool_def_output :: "tool_def \<Rightarrow> int" where
  "tool_def_output d = (if 0 < td_output d then td_output d else 3200)"

definition tool_run_timeout :: duration where
  "tool_run_timeout = 2 * minute"

definition tool_def_timeout :: "tool_def \<Rightarrow> duration" where
  "tool_def_timeout d = (if 0 < td_timeout d then wrap64 (td_timeout d * second) else tool_run_timeout)"

text \<open>
  The world runs a command in a directory for at most a time and answers with its output,
  the error of the run if there was one, and whether the time was over; the directory may
  not be there, which is an error text.
\<close>

record tool_world =
  tw_stat :: "string \<Rightarrow> (string, unit) result"
  tw_exec :: "string list \<Rightarrow> string \<Rightarrow> duration \<Rightarrow> string \<times> string option \<times> bool"

definition execute_tool :: "tool_world \<Rightarrow> string \<Rightarrow> string \<Rightarrow> (string, tool_result) result" where
  "execute_tool w tool dir0 =
     (case find_tool default_tools tool of
        None \<Rightarrow> Inl (''unknown tool: '' @ trim_space tool)
      | Some d \<Rightarrow>
          let dir = trim_space dir0 in
          and_then (ensure ''tool workspace is unavailable'' (dir \<noteq> [])) (\<lambda>_.
          and_then (tw_stat w dir) (\<lambda>_.
          case tw_exec w (td_command d) dir (tool_def_timeout d) of (output, failed, late) \<Rightarrow>
          let status = (if late then ''timed out'' else case failed of None \<Rightarrow> ''passed'' | Some e \<Rightarrow> ''failed: '' @ e);
              shown = compact_output output (tool_def_output d);
              command = join_space (td_command d);
              value = ''Workspace: '' @ dir @ [CHR 0x0A] @ ''Command: '' @ command @ [CHR 0x0A] @
                (if low_trim tool = ''repo_status'' \<and> trim_space output = []
                 then ''Status: clean'' @ [CHR 0x0A] @ ''Output:'' @ [CHR 0x0A] @ ''Working tree clean.''
                 else ''Status: '' @ status @ [CHR 0x0A] @ ''Output:'' @ [CHR 0x0A] @ (if shown = [] then ''No output.'' else shown))
          in Inr \<lparr>tr_tool = low_trim tool, tr_kind = td_artifact_kind d,
               tr_outcome = (if failed \<noteq> None \<or> late then ''fail'' else ''pass''),
               tr_label = td_artifact_label d, tr_value = value\<rparr>)))"

section \<open>The two transactions\<close>

section \<open>Runs interrupted by a restart\<close>

definition recovery_grace :: duration where
  "recovery_grace = 30 * second"

definition interrupted_reason :: "instant \<Rightarrow> instant \<Rightarrow> tool_run \<Rightarrow> string" where
  "interrupted_reason started now r =
     (let began = parse_control_time (ur_started r) in
      if is_zero began then ''missing or invalid start timestamp''
      else if began < started - second then ''server restarted before the tool completed''
      else if began + (tool_run_timeout + recovery_grace) < now then ''tool exceeded the recorded execution window''
      else [])"

definition recover_run :: "string \<Rightarrow> string \<Rightarrow> tool_run \<Rightarrow> tool_run" where
  "recover_run now reason r =
     r\<lparr>ur_status := ''failed'', ur_completed := now, ur_outcome := ''fail'', ur_error := reason,
       ur_summary := ''Tool '' @ ur_tool r @ '' did not complete: '' @ reason @ ''.''\<rparr>"

fun recover_runs :: "instant \<Rightarrow> instant \<Rightarrow> string \<Rightarrow> nat list \<Rightarrow> ctl_state \<Rightarrow> ctl_state" where
  "recover_runs started now text_now [] st = st"
| "recover_runs started now text_now (k # ks) st =
     (let r = pc_runs st ! k; reason = interrupted_reason started now r in
      if ur_status r \<noteq> ''running'' \<or> reason = [] then recover_runs started now text_now ks st
      else let st1 = put_run k (recover_run text_now reason r) st in
        recover_runs started now text_now ks
          (case first_index (\<lambda>t. kt_id t = ur_task r) (pc_tasks st1) of
             None \<Rightarrow> st1
           | Some j \<Rightarrow>
               let t = (pc_tasks st1 ! j)\<lparr>kt_summary := ''Tool '' @ ur_tool r @ '' did not complete.'',
                     kt_next := ''Retry the tool or continue the phase manually.'', kt_version := kt_version (pc_tasks st1 ! j) + 1\<rparr>
               in emit ''tool-run-recovered'' (task_event text_now ''tool_gateway'' ''tool_run_failed''
                    (''Tool '' @ ur_tool r @ '' failed: '' @ reason @ ''.'') t) (put_task j t st1)))"

text \<open>The instant the process started comes first.\<close>

definition recover_interrupted :: "instant \<Rightarrow> ctl_env \<Rightarrow> ctl_state \<Rightarrow> ctl_state" where
  "recover_interrupted started env st = recover_runs started (en_instant env) (en_now env) [0..<length (pc_runs st)] st"

section \<open>The health monitor\<close>

definition idle_task :: "ctl_state \<Rightarrow> ctl_task \<Rightarrow> string \<Rightarrow> bool" where
  "idle_task st t phase \<longleftrightarrow>
     normalize_task_state (kt_state t) \<in> set [''running'', ''waiting_review''] \<and> phase \<noteq> [] \<and> phase \<noteq> ''ready_for_acceptance'' \<and>
     \<not> (\<exists>r \<in> set (pc_runs st). ur_task r = kt_id t \<and> (ur_status r = ''running'' \<or> ur_status r = ''waiting'')) \<and>
     (\<exists>a \<in> set (pc_attempts st). pa_task a = kt_id t \<and> pa_phase a = phase \<and> pa_status a = ''running'')"

text \<open>The tool a task of the stored state waits for.\<close>

definition scheduled_tool :: "ctl_state \<Rightarrow> ctl_task \<Rightarrow> (string \<times> tool_def) option" where
  "scheduled_tool st t =
     (let phase = normalize_phase (kt_phase t) in
      if \<not> idle_task st t phase then None
      else case find_phase (runbook_for t) phase of None \<Rightarrow> None | Some p \<Rightarrow>
      case tool_for_phase (tools_for_state st) p of None \<Rightarrow> None | Some d \<Rightarrow>
      if is_agent_tool d then None else Some (phase, d))"

text \<open>
  The transaction that starts it. An error of the start is dropped, but what the start
  wrote into the task stays.
\<close>

definition start_scheduled :: "ctl_env \<Rightarrow> string \<Rightarrow> string \<Rightarrow> tool_def \<Rightarrow> ctl_state \<Rightarrow> (ctl_error, ctl_state \<times> string) result" where
  "start_scheduled env i phase d st =
     (case first_index (\<lambda>t. kt_id t = i) (pc_tasks st) of
        None \<Rightarrow> Inr (st, [])
      | Some j \<Rightarrow>
          and_then (execution_gate (en_leases env) (en_instant env) (en_user env) st (pc_tasks st ! j)) (\<lambda>_.
          Inr (case start_tool phase (td_id d) (en_now env) st (pc_tasks st ! j) of
             (st1, t1, Inl _) \<Rightarrow> (put_task j t1 st1, [])
           | (st1, t1, Inr rid) \<Rightarrow> (put_task j (t1\<lparr>kt_version := kt_version t1 + 1\<rparr>) st1, rid))))"

definition waiting_limit :: "tool_def list \<Rightarrow> tool_run \<Rightarrow> duration" where
  "waiting_limit tools r =
     (case find_tool tools (ur_tool r) of
        None \<Rightarrow> 10 * minute
      | Some d \<Rightarrow> if 0 < tool_def_timeout d then tool_def_timeout d else 10 * minute)"

definition overdue_run :: "instant \<Rightarrow> tool_def list \<Rightarrow> tool_run \<Rightarrow> bool" where
  "overdue_run now tools r \<longleftrightarrow>
     (let began = parse_control_time (ur_started r) in
      ur_status r = ''waiting'' \<and> \<not> is_zero began \<and> waiting_limit tools r \<le> now - began)"

text \<open>Each alert is a text for the log; those about phases and idle tasks are given with their durations.\<close>

definition time_out_run :: "string \<Rightarrow> tool_run \<Rightarrow> tool_run" where
  "time_out_run now r =
     r\<lparr>ur_status := ''failed'', ur_completed := now, ur_outcome := ''fail'', ur_error := ''agent timeout'',
       ur_summary := ''Agent did not respond within timeout.''\<rparr>"

definition health_event :: "string \<Rightarrow> string \<Rightarrow> ctl_event" where
  "health_event now alert =
     \<lparr>ev_kind = [], ev_source = [], ev_id = [], ev_time = now, ev_actor = ''health_monitor'', ev_action = ''health_alert'',
      ev_detail = alert, ev_project = [], ev_workstream = [], ev_task = [], ev_checkpoint = []\<rparr>"

definition overdue_attempt :: "instant \<Rightarrow> phase_attempt \<Rightarrow> bool" where
  "overdue_attempt now a \<longleftrightarrow>
     (let began = parse_control_time (pa_started a) in
      pa_status a = ''running'' \<and> \<not> is_zero began \<and> 30 * minute \<le> now - began)"

definition latest_event :: "ctl_event list \<Rightarrow> string \<Rightarrow> instant" where
  "latest_event es i =
     fold (\<lambda>e latest. if ev_task e = i then max latest (parse_control_time (ev_time e)) else latest) es zero_time"

definition stalled_task :: "instant \<Rightarrow> ctl_event list \<Rightarrow> ctl_task \<Rightarrow> bool" where
  "stalled_task now es t \<longleftrightarrow>
     normalize_task_state (kt_state t) \<in> set [''running'', ''waiting_review''] \<and>
     \<not> is_zero (latest_event es (kt_id t)) \<and> 2 * hour \<le> now - latest_event es (kt_id t)"

text \<open>The texts of the alerts, which show durations, are given by functions of what they are about.\<close>

record alert_texts =
  al_attempt :: "phase_attempt \<Rightarrow> string"
  al_run :: "tool_run \<Rightarrow> string"
  al_task :: "ctl_task \<Rightarrow> string"

definition health_alerts :: "alert_texts \<Rightarrow> instant \<Rightarrow> ctl_state \<Rightarrow> string list" where
  "health_alerts texts now st =
     map (al_attempt texts) (filter (overdue_attempt now) (pc_attempts st)) @
     map (al_run texts) (filter (overdue_run now (tools_for_state st)) (pc_runs st)) @
     map (al_task texts) (filter (stalled_task now (pc_events st)) (pc_tasks st))"

text \<open>The transaction, over the alerts and runs found in the stored state.\<close>

fun fail_waiting :: "string \<Rightarrow> string \<Rightarrow> tool_run list \<Rightarrow> tool_run list" where
  "fail_waiting now i [] = []"
| "fail_waiting now i (r # rs) =
     (if ur_id r = i \<and> ur_status r = ''waiting'' then time_out_run now r else r) # fail_waiting now i rs"

definition report_health :: "ctl_env \<Rightarrow> string list \<Rightarrow> string list \<Rightarrow> ctl_state \<Rightarrow> ctl_state" where
  "report_health env alerts overdue st =
     (let st1 = fold (\<lambda>a st. emit ''health-alert'' (health_event (en_now env) a) st) alerts st
      in st1\<lparr>pc_runs := fold (fail_waiting (en_now env)) overdue (pc_runs st1)\<rparr>)"

section \<open>The catalogue of the user\<close>

text \<open>The first change copies the default tools. An emptied catalogue is written as absent, and read as the default one.\<close>

definition create_tool :: "tool_def \<Rightarrow> ctl_state \<Rightarrow> (ctl_error, ctl_state) result" where
  "create_tool d0 st =
     (let d = d0\<lparr>td_id := low_trim (td_id d0)\<rparr> in
      and_then (ensure (CtlFailure ''tool id and artifactKind are required'') (td_id d \<noteq> [] \<and> td_artifact_kind d \<noteq> [])) (\<lambda>_.
      and_then (ensure (CtlFailure ''command is required for non-agent tools'') (is_agent_tool d \<or> td_command d \<noteq> [])) (\<lambda>_.
      if \<exists>e \<in> set (tools_for_state st). low_trim (td_id e) = td_id d
      then Inl (CtlFailure (''tool '' @ td_id d @ '' already exists''))
      else Inr (st\<lparr>pc_tools := tools_for_state st @ [d]\<rparr>))))"

definition change_tool :: "tool_def \<Rightarrow> tool_def \<Rightarrow> tool_def" where
  "change_tool d e =
     e\<lparr>td_command := (if td_command d \<noteq> [] then td_command d else td_command e),
       td_name := (if td_name d \<noteq> [] then td_name d else td_name e),
       td_artifact_kind := (if td_artifact_kind d \<noteq> [] then td_artifact_kind d else td_artifact_kind e),
       td_artifact_label := (if td_artifact_label d \<noteq> [] then td_artifact_label d else td_artifact_label e),
       td_timeout := (if 0 < td_timeout d then td_timeout d else td_timeout e),
       td_output := (if 0 < td_output d then td_output d else td_output e),
       td_phases := (if td_phases d \<noteq> [] then td_phases d else td_phases e)\<rparr>"

definition update_tool :: "tool_def \<Rightarrow> ctl_state \<Rightarrow> (ctl_error, ctl_state) result" where
  "update_tool d st =
     (let i = low_trim (td_id d); same = (\<lambda>e. low_trim (td_id e) = i) in
      and_then (ensure (CtlFailure ''tool id is required'') (i \<noteq> [])) (\<lambda>_.
      if \<exists>e \<in> set (tools_for_state st). same e
      then Inr (st\<lparr>pc_tools := update_first same (change_tool d) (tools_for_state st)\<rparr>)
      else Inl (CtlFailure (''tool '' @ i @ '' not found''))))"

fun remove_first :: "('a \<Rightarrow> bool) \<Rightarrow> 'a list \<Rightarrow> 'a list" where
  "remove_first P [] = []"
| "remove_first P (x # xs) = (if P x then xs else x # remove_first P xs)"

definition delete_tool :: "string \<Rightarrow> ctl_state \<Rightarrow> (ctl_error, ctl_state) result" where
  "delete_tool i0 st =
     (let i = low_trim i0; same = (\<lambda>e. low_trim (td_id e) = i) in
      and_then (ensure (CtlFailure ''tool id is required'') (i \<noteq> [])) (\<lambda>_.
      if \<exists>e \<in> set (pc_tools st). same e then Inr (st\<lparr>pc_tools := remove_first same (pc_tools st)\<rparr>)
      else Inl (CtlFailure (''tool '' @ i @ '' not found''))))"

end
