(* ===== verification/Control_Agents.thy ===== *)
theory Control_Agents
  imports Control_Tool_Runs Task_Progress
begin

text \<open>
  What agent runtimes call (\<open>agent_claims.go\<close>, \<open>project_takeover.go\<close>, \<open>agent_terminal.go\<close> and the
  agent part of \<open>project_control.go\<close>): claiming a task, keeping and giving back its lease,
  asking to validate finished work, submitting evidence, asking for a human. These calls
  move the state of project control together with the tables of leases and progress.
\<close>

section \<open>State and transactions\<close>

text \<open>
  The stored state of a user, the tables of the claim store, and the tasks whose acceptance
  command is running at the moment.
\<close>

record board =
  bd_control :: ctl_state
  bd_claims :: claims
  bd_progress :: "progress list"
  bd_running :: "string list"

definition revoke_closed :: "instant \<Rightarrow> string \<Rightarrow> ctl_state \<Rightarrow> claims \<Rightarrow> claims" where
  "revoke_closed now username st rows =
     fold (\<lambda>t rows. if execution_closed st t then revoke_task_claims now username (kt_id t) rows else rows) (pc_tasks st) rows"

text \<open>
  A transaction that also uses the lease table: what it does there stays on an error. After
  the state is stored, the leases of closed tasks are revoked.
\<close>

definition with_leases ::
  "ctl_env \<Rightarrow> (ctl_state \<Rightarrow> claims \<Rightarrow> claims \<times> (ctl_error, ctl_state \<times> 'a) result) \<Rightarrow> board \<Rightarrow> board \<times> (ctl_error, 'a) result" where
  "with_leases env f d =
     (if trim_space (en_user env) = [] then (d, Inl (CtlFailure ''missing username''))
      else case f (bd_control d) (bd_claims d) of
        (rows, Inl e) \<Rightarrow> (d\<lparr>bd_claims := rows\<rparr>, Inl e)
      | (rows, Inr (st, x)) \<Rightarrow>
          let st' = commit env (bd_control d) st
          in (d\<lparr>bd_control := st', bd_claims := revoke_closed (en_instant env) (en_user env) st' rows\<rparr>, Inr x))"

text \<open>An operation of project control sees the lease table of the moment.\<close>

definition control_call ::
  "ctl_env \<Rightarrow> (ctl_env \<Rightarrow> ctl_state \<Rightarrow> (ctl_error, ctl_state \<times> 'a) result) \<Rightarrow> board \<Rightarrow> board \<times> (ctl_error, 'a) result" where
  "control_call env f d = with_leases env (\<lambda>st rows. (rows, f (env\<lparr>en_leases := Some rows\<rparr>) st)) d"

definition claim_event :: "string \<Rightarrow> string \<Rightarrow> string \<Rightarrow> string \<Rightarrow> string \<Rightarrow> ctl_event" where
  "claim_event now agent action detail task =
     \<lparr>ev_kind = [], ev_source = [], ev_id = [], ev_time = now, ev_actor = ''agent:'' @ agent, ev_action = ''checkpoint_'' @ action,
      ev_detail = detail, ev_project = [], ev_workstream = [], ev_task = task, ev_checkpoint = []\<rparr>"

definition record_claim_timeline :: "ctl_env \<Rightarrow> string \<Rightarrow> string \<Rightarrow> string \<Rightarrow> string \<Rightarrow> board \<Rightarrow> board" where
  "record_claim_timeline env task agent action detail d =
     (if task = [] then d
      else fst (control_call env (\<lambda>_ st. Inr (emit action (claim_event (en_now env) agent action detail task) st, ())) d))"

text \<open>The errors of the claim store as they reach the callers, and an instant as text without a fraction.\<close>

definition claim_error :: "cp_error \<Rightarrow> ctl_error" where
  "claim_error e = CtlFailure (case e of
     ErrNotFound \<Rightarrow> ''control-plane record not found''
   | ErrConflict m \<Rightarrow> ''control-plane conflict: '' @ m
   | ErrValidation m \<Rightarrow> ''control-plane validation failed: '' @ m
   | ErrLeaseConflict \<Rightarrow> ''claim lease conflict''
   | ErrDb m \<Rightarrow> m)"

definition format_seconds :: "instant \<Rightarrow> string" where
  "format_seconds t = format_time (t div second * second)"

text \<open>The answer of a call: a status with its error text, nothing to do, or a value.\<close>

datatype 'a reply = Refused int string | Nothing_to_do | Granted 'a

section \<open>Leases that are over\<close>

definition apply_expired_claim :: "ctl_env \<Rightarrow> task_claim \<Rightarrow> board \<Rightarrow> board \<times> (ctl_error, unit) result" where
  "apply_expired_claim env c d =
     with_leases env (\<lambda>st rows. (rows,
       case first_index (\<lambda>t. kt_id t = tc_task c) (pc_tasks st) of
         None \<Rightarrow> Inr (st, ())
       | Some j \<Rightarrow>
           let t = pc_tasks st ! j;
               newer = (case active_claim_for_task (en_user env) (kt_id t) rows of Inl _ \<Rightarrow> False | Inr a \<Rightarrow> tc_id a \<noteq> tc_id c)
           in Inr (if newer then st
                   else if managed_project st t then pause_control_state (en_nano env) (kt_project t) (kt_id t) ''heartbeat_lost'' st
                   else put_task j (t\<lparr>kt_dispatch := ''ready'', kt_claimed_by := [], kt_version := kt_version t + 1\<rparr>) st, ()))) d"

fun apply_expired :: "ctl_env \<Rightarrow> task_claim list \<Rightarrow> board \<Rightarrow> board \<times> (ctl_error, unit) result" where
  "apply_expired env [] d = (d, Inr ())"
| "apply_expired env (c # cs) d =
     (if tc_username c \<noteq> en_user env then apply_expired env cs d
      else case apply_expired_claim env c d of
        (d1, Inl e) \<Rightarrow> (d1, Inl e)
      | (d1, Inr _) \<Rightarrow> apply_expired env cs (record_claim_timeline env (tc_task c) (tc_agent c) ''task_lease_expired''
          (''Lease '' @ tc_id c @ '' for runtime '' @ tc_runtime c @ '' expired; task returned to ready.'') d1))"

definition expire_stale_for_user :: "ctl_env \<Rightarrow> board \<Rightarrow> board \<times> (ctl_error, unit) result" where
  "expire_stale_for_user env d =
     (case expire_stale_claims_for_user (en_instant env) (en_user env) (bd_claims d) of
        (rows, out) \<Rightarrow> apply_expired env (map fst out) (d\<lparr>bd_claims := rows\<rparr>))"

section \<open>Claiming\<close>

record claim_request =
  aq_runtime :: string
  aq_agent :: string

text \<open>The first pass pauses ready tasks of high risk, each seen as the passes before left it.\<close>

definition pause_risky :: "ctl_env \<Rightarrow> ctl_state \<Rightarrow> ctl_state" where
  "pause_risky env st =
     fold (\<lambda>k st. let t = pc_tasks st ! k in
       if kt_dispatch t = ''ready'' \<and> takeover_mode st (kt_project t) = ''active'' \<and> high_risk_task (kt_risk t)
       then pause_control_state (en_nano env) (kt_project t) (kt_id t) ''high_risk'' st else st) [0..<length (pc_tasks st)] st"

text \<open>
  The second pass takes the first task it can lease. Each attempt reads the clock of the
  claim store and a random identifier once.
\<close>

fun claim_pass ::
  "ctl_env \<Rightarrow> (nat \<Rightarrow> instant) \<Rightarrow> entropy \<Rightarrow> claim_request \<Rightarrow> nat list \<Rightarrow> ctl_state \<Rightarrow> claims \<Rightarrow>
   claims \<times> (ctl_error, ctl_state \<times> task_claim option) result" where
  "claim_pass env clock rnd req [] st rows = (rows, Inr (st, None))"
| "claim_pass env clock rnd req (k # ks) st rows =
     (let t = pc_tasks st ! k; skip = claim_pass env clock rnd req ks in
      if \<not> task_claimable t \<or> \<not> task_claim_allowed st t then skip st rows
      else if shared_conflict st t
      then skip (pause_control_state (en_nano env) (kt_project t) (kt_id t) ''shared_directory_conflict'' st) rows
      else case (if kt_baseline t = [] then en_fingerprint env t else Inr (kt_baseline t)) of
        Inl _ \<Rightarrow> skip (pause_control_state (en_nano env) (kt_project t) (kt_id t) ''acceptance_inputs_unavailable'' st) rows
      | Inr baseline \<Rightarrow>
          let t1 = t\<lparr>kt_baseline := baseline\<rparr> in
          (case claim_ready_task (\<lambda>_. clock k) (\<lambda>_. rnd k) (en_user env) [kt_id t] (aq_runtime req) (aq_agent req) rows of
             (rows1, Inl e) \<Rightarrow>
               if e = ErrNotFound then skip (put_task k t1 st) rows1 else (rows1, Inl (claim_error e))
           | (rows1, Inr c) \<Rightarrow>
               (rows1, Inr (append_control_event (en_nano env) (kt_project t) (kt_id t) ''task_dispatch_state_changed''
                 (''Task claimed with lease '' @ tc_id c @ ''.'')
                 (put_task k (t1\<lparr>kt_dispatch := ''claimed'', kt_claimed_by := tc_runtime c, kt_version := kt_version t1 + 1\<rparr>) st), Some c))))"

definition agent_claim ::
  "ctl_env \<Rightarrow> (nat \<Rightarrow> instant) \<Rightarrow> entropy \<Rightarrow> claim_request \<Rightarrow> board \<Rightarrow> board \<times> task_claim reply" where
  "agent_claim env clock rnd req0 d =
     (let req = \<lparr>aq_runtime = trim_space (aq_runtime req0), aq_agent = trim_space (aq_agent req0)\<rparr> in
      if aq_runtime req = [] \<or> aq_agent req = [] then (d, Refused 400 ''runtimeId and agentLabel are required'')
      else case expire_stale_for_user env d of
        (d1, Inl e) \<Rightarrow> (d1, Refused 500 (''lease expiry sweep: '' @ error_text e))
      | (d1, Inr _) \<Rightarrow>
      (case with_leases env (\<lambda>st rows. let st1 = pause_risky env st in
             claim_pass env clock rnd req [0..<length (pc_tasks st1)] st1 rows) d1 of
         (d2, Inl e) \<Rightarrow> (d2, Refused 500 (error_text e))
       | (d2, Inr None) \<Rightarrow> (d2, Nothing_to_do)
       | (d2, Inr (Some c)) \<Rightarrow>
           (record_claim_timeline env (tc_task c) (tc_agent c) ''task_claimed''
              (''Task claimed by runtime '' @ tc_runtime c @ '' (lease '' @ tc_id c @ '', agent '' @ tc_agent c @ '') until '' @ format_seconds (tc_lease c) @ ''.'')
              (d2\<lparr>bd_progress := clear_task_progress (en_user env) (tc_task c) (bd_progress d2)\<rparr>), Granted c)))"

section \<open>Keeping and giving back a lease\<close>

definition refuse_lease :: "int \<Rightarrow> ctl_error \<Rightarrow> 'a reply" where
  "refuse_lease status e =
     (if e = claim_error ErrNotFound then Refused 404 ''lease not found, released or expired'' else Refused status (error_text e))"

definition agent_heartbeat :: "ctl_env \<Rightarrow> string \<Rightarrow> board \<Rightarrow> board \<times> task_claim reply" where
  "agent_heartbeat env lease d =
     (if trim_space lease = [] then (d, Refused 400 ''leaseId is required'')
      else case expire_stale_for_user env d of
        (d1, Inl e) \<Rightarrow> (d1, Refused 500 (''lease expiry sweep: '' @ error_text e))
      | (d1, Inr _) \<Rightarrow>
      (case with_leases env (\<lambda>st rows.
             case get_claim (en_user env) lease rows of Inl e \<Rightarrow> (rows, Inl (claim_error e)) | Inr c \<Rightarrow>
             case control_task st (tc_task c) of None \<Rightarrow> (rows, Inl (claim_error ErrNotFound)) | Some t \<Rightarrow>
             case require_managed_lease (Some rows) (en_instant env) (en_user env) st t lease of Inl _ \<Rightarrow> (rows, Inl (claim_error ErrNotFound)) | Inr _ \<Rightarrow>
             (case heartbeat_claim (en_instant env) (en_user env) lease rows of
                (rows1, Inl e) \<Rightarrow> (rows1, Inl (claim_error e))
              | (rows1, Inr (c1, expires, line)) \<Rightarrow> (rows1, Inr (st, c1)))) d1 of
         (d2, Inl e) \<Rightarrow> (d2, refuse_lease 500 e)
       | (d2, Inr c) \<Rightarrow>
           (record_claim_timeline env (tc_task c) (tc_agent c) ''task_lease_heartbeat''
              (''Lease '' @ tc_id c @ '' renewed by runtime '' @ tc_runtime c @ '' until '' @ format_seconds (tc_lease c) @ ''.'') d2, Granted c)))"

text \<open>Writing the dispatch state a released lease leads to.\<close>

definition apply_claim_to_task :: "ctl_env \<Rightarrow> string \<Rightarrow> string \<Rightarrow> string \<Rightarrow> string \<Rightarrow> board \<Rightarrow> board \<times> (ctl_error, unit) result" where
  "apply_claim_to_task env task next_state claimed_by claim d =
     (if trim_space task = [] then (d, Inr ())
      else control_call env (\<lambda>_ st.
        case first_index (\<lambda>t. kt_id t = task) (pc_tasks st) of
          None \<Rightarrow> Inl (CtlFailure (''task not found: '' @ task))
        | Some j \<Rightarrow>
            let t = pc_tasks st ! j in
            Inr (if next_state = ''ready'' \<and> managed_project st t
                 then pause_control_state (en_nano env) (kt_project t) task ''lease_interrupted'' st
                 else emit (''task-dispatch-'' @ next_state) (task_event (en_now env) ''dispatch'' ''task_dispatch_state_changed''
                   (''Task dispatch state set to '' @ next_state @ '' (lease '' @ claim @ '', runtime '' @ claimed_by @ '').'') t)
                   (put_task j (t\<lparr>kt_dispatch := next_state, kt_claimed_by := claimed_by, kt_version := kt_version t + 1\<rparr>) st), ())) d)"

text \<open>
  Giving back the lease of a managed task. Work that is done without an acceptance command
  completes at once; with one, the repository and the fingerprint of its inputs are checked
  and the command is to be run; all else goes to the second transaction.
\<close>

record release_answer =
  ra_task :: string
  ra_state :: string
  ra_passed :: bool

datatype release_step =
    Replied "release_answer reply"
  | Unmanaged
  | Validate string "string list" string
  | Finish string

definition takeover_pause :: "string \<Rightarrow> string \<Rightarrow> takeover_request" where
  "takeover_pause task reason = \<lparr>tq_action = ''pause'', tq_task = task, tq_reason = reason, tq_restart = False\<rparr>"

definition pause_call :: "ctl_env \<Rightarrow> string \<Rightarrow> string \<Rightarrow> string \<Rightarrow> board \<Rightarrow> board \<times> (ctl_error, unit) result" where
  "pause_call env project task reason d =
     control_call env (\<lambda>env st. and_then (control_takeover env project (takeover_pause task reason) True st) (\<lambda>st1. Inr (st1, ()))) d"

definition refuse_paused :: "ctl_env \<Rightarrow> ctl_task \<Rightarrow> string \<Rightarrow> string \<Rightarrow> board \<Rightarrow> board \<times> release_step" where
  "refuse_paused env t reason answer d =
     (case pause_call env (kt_project t) (kt_id t) reason d of
        (d1, Inl e) \<Rightarrow> (d1, Replied (Refused 500 (error_text e)))
      | (d1, Inr _) \<Rightarrow> (d1, Replied (Refused 409 answer)))"

definition complete_unverified :: "ctl_env \<Rightarrow> string \<Rightarrow> string \<Rightarrow> board \<Rightarrow> board \<times> (ctl_error, unit) result" where
  "complete_unverified env lease task d =
     with_leases env (\<lambda>st rows.
       case first_index (\<lambda>t. kt_id t = task) (pc_tasks st) of
         None \<Rightarrow> (rows, Inl (claim_error ErrNotFound))
       | Some j \<Rightarrow>
           (case release_claim (en_instant env) (en_user env) lease ''done'' rows of
              (rows1, Inl e) \<Rightarrow> (rows1, Inl (claim_error e))
            | (rows1, Inr _) \<Rightarrow>
                let t = pc_tasks st ! j in
                (rows1, Inr (append_control_event (en_nano env) (kt_project t) (kt_id t) ''execution_released_done''
                  ''Task released as done without an acceptance command; execution succeeded, verification is pending.''
                  (put_task j (t\<lparr>kt_dispatch := ''done'', kt_claimed_by := [], kt_state := ''execution_complete'',
                    kt_acceptance := ''not_ready'', kt_version := kt_version t + 1\<rparr>) st), ())))) d"

text \<open>At most one validation runs for a task.\<close>

definition enter_validation :: "ctl_env \<Rightarrow> string \<Rightarrow> string \<Rightarrow> board \<Rightarrow> board \<times> (ctl_error, unit) result" where
  "enter_validation env lease task d =
     (case with_leases env (\<lambda>st rows. (rows,
         case control_task st task of
           None \<Rightarrow> Inl (claim_error ErrNotFound)
         | Some t \<Rightarrow>
             and_then (require_managed_lease (Some rows) (en_instant env) (en_user env) st t lease) (\<lambda>_.
             and_then (ensure (CtlFailure ''acceptance already running'') (task \<notin> set (bd_running d))) (\<lambda>_. Inr (st, ()))))) d of
        (d1, Inl e) \<Rightarrow> (d1, Inl e)
      | (d1, Inr _) \<Rightarrow> (d1\<lparr>bd_running := task # bd_running d1\<rparr>, Inr ()))"

definition begin_release :: "ctl_env \<Rightarrow> string \<Rightarrow> string \<Rightarrow> board \<Rightarrow> board \<times> release_step" where
  "begin_release env lease outcome d =
     (case get_claim (en_user env) lease (bd_claims d) of
        Inl e \<Rightarrow> (d, Replied (Refused 404 (error_text (claim_error e))))
      | Inr c \<Rightarrow>
      case control_task (bd_control d) (tc_task c) of None \<Rightarrow> (d, Unmanaged) | Some t \<Rightarrow>
      if \<not> managed_project (bd_control d) t then (d, Unmanaged)
      else if outcome \<noteq> ''done'' then (d, Finish (kt_id t))
      else if kt_command t = [] then
        (case complete_unverified env lease (kt_id t) d of
           (d1, Inl e) \<Rightarrow> (d1, Replied (refuse_lease 409 e))
         | (d1, Inr _) \<Rightarrow> (d1, Replied (Granted \<lparr>ra_task = kt_id t, ra_state = ''done'', ra_passed = False\<rparr>)))
      else
        let repo = (case control_project (bd_control d) (kt_project t) of None \<Rightarrow> [] | Some p \<Rightarrow> po_repo p)
        in case en_repo env (if repo = [] then en_root env else repo) of
          Inl _ \<Rightarrow> refuse_paused env t ''path_violation'' ''acceptance workspace is outside allowed paths'' d
        | Inr dir \<Rightarrow>
            if kt_baseline t = [] \<or> en_fingerprint env t \<noteq> Inr (kt_baseline t)
            then refuse_paused env t ''acceptance_inputs_changed''
              ''acceptance inputs changed or cannot be verified; human review required before restart'' d
            else (case enter_validation env lease (kt_id t) d of
              (d1, Inl e) \<Rightarrow> (d1, Replied (Refused 409 (error_text e)))
            | (d1, Inr _) \<Rightarrow> (d1, Validate (kt_id t) (kt_command t) dir)))"

text \<open>
  The second transaction: with the lease still held, the outcome is written. A failure pauses
  the task; \<open>failed\<close> says that the acceptance command ran and failed.
\<close>

definition finish_task :: "ctl_env \<Rightarrow> string \<Rightarrow> bool \<Rightarrow> nat \<Rightarrow> ctl_state \<Rightarrow> ctl_state" where
  "finish_task env outcome failed j st =
     (let t = pc_tasks st ! j;
          bump = (\<lambda>st. put_task j ((pc_tasks st ! j)\<lparr>kt_version := kt_version (pc_tasks st ! j) + 1\<rparr>) st)
      in if outcome = ''done'' \<and> \<not> failed then
           bump (advance_milestone_review (en_nano env) (kt_project t)
             (append_control_event (en_nano env) (kt_project t) (kt_id t) ''acceptance_passed'' ''Server acceptance command passed.''
               (put_task j (t\<lparr>kt_passed := True, kt_failures := 0, kt_dispatch := ''done'', kt_claimed_by := []\<rparr>) st)))
         else
           let n = (if failed then kt_failures t + 1 else kt_failures t);
               reason = (if \<not> failed then ''task_failed'' else if 2 \<le> n then ''acceptance_failed_twice'' else ''acceptance_failed'')
           in bump (pause_control_state (en_nano env) (kt_project t) (kt_id t) reason
                (put_task j (t\<lparr>kt_failures := n, kt_passed := False\<rparr>) st)))"

definition finish_release :: "ctl_env \<Rightarrow> string \<Rightarrow> string \<Rightarrow> bool \<Rightarrow> string \<Rightarrow> board \<Rightarrow> board \<times> release_answer reply" where
  "finish_release env lease outcome failed task d0 =
     (let (d1, r) = with_leases env (\<lambda>st rows.
            case first_index (\<lambda>t. kt_id t = task) (pc_tasks st) of
              None \<Rightarrow> (rows, Inl (claim_error ErrNotFound))
            | Some j \<Rightarrow>
            case require_managed_lease (Some rows) (en_instant env) (en_user env) st (pc_tasks st ! j) lease of
              Inl e \<Rightarrow> (rows, Inl e)
            | Inr _ \<Rightarrow>
                (case release_claim (en_instant env) (en_user env) lease (if failed then ''failed'' else outcome) rows of
                   (rows1, Inl e) \<Rightarrow> (rows1, Inl (claim_error e))
                 | (rows1, Inr _) \<Rightarrow>
                     let st1 = finish_task env outcome failed j st in (rows1, Inr (st1, kt_dispatch (pc_tasks st1 ! j))))) d0;
          d2 = d1\<lparr>bd_running := removeAll task (bd_running d1)\<rparr>
      in (d2, case r of
            Inl e \<Rightarrow> Refused 409 (error_text e)
          | Inr state \<Rightarrow> Granted \<lparr>ra_task = task, ra_state = state, ra_passed = (outcome = ''done'' \<and> \<not> failed)\<rparr>))"

definition release_unmanaged :: "ctl_env \<Rightarrow> string \<Rightarrow> string \<Rightarrow> board \<Rightarrow> board \<times> release_answer reply" where
  "release_unmanaged env lease outcome d =
     (case release_claim (en_instant env) (en_user env) lease outcome (bd_claims d) of
        (rows, Inl e) \<Rightarrow> (d\<lparr>bd_claims := rows\<rparr>, refuse_lease 500 (claim_error e))
      | (rows, Inr (c, expires, next_state, line)) \<Rightarrow>
          (case apply_claim_to_task env (tc_task c) next_state [] (tc_id c) (d\<lparr>bd_claims := rows\<rparr>) of
             (d1, Inl e) \<Rightarrow> (d1, Refused 500 (error_text e))
           | (d1, Inr _) \<Rightarrow>
               (record_claim_timeline env (tc_task c) (tc_agent c) ''task_lease_released''
                  (''Lease '' @ tc_id c @ '' released by runtime '' @ tc_runtime c @ '' with outcome '' @ outcome @
                   ''; task dispatch state -> '' @ next_state @ ''.'') d1,
                Granted \<lparr>ra_task = tc_task c, ra_state = next_state, ra_passed = False\<rparr>)))"

text \<open>The whole call when nothing else happens while the command runs; it answers whether it failed.\<close>

definition agent_release ::
  "ctl_env \<Rightarrow> (string list \<Rightarrow> string \<Rightarrow> bool) \<Rightarrow> string \<Rightarrow> string \<Rightarrow> board \<Rightarrow> board \<times> release_answer reply" where
  "agent_release env accept lease outcome0 d =
     (let outcome = low_trim outcome0 in
      if trim_space lease = [] then (d, Refused 400 ''leaseId is required'')
      else if outcome \<notin> set [''done'', ''failed'', ''released''] then (d, Refused 400 ''outcome must be done, failed or released'')
      else case begin_release env lease outcome d of
        (d1, Replied r) \<Rightarrow> (d1, r)
      | (d1, Unmanaged) \<Rightarrow> release_unmanaged env lease outcome d1
      | (d1, Finish task) \<Rightarrow> finish_release env lease outcome False task d1
      | (d1, Validate task command dir) \<Rightarrow> finish_release env lease outcome (\<not> accept command dir) task d1)"

section \<open>Violations\<close>

text \<open>The pause after a violation, in a transaction of its own; nothing happens outside a takeover.\<close>

definition not_managed :: ctl_error where
  "not_managed = CtlFailure ''project is not under takeover''"

definition pause_violation :: "ctl_env \<Rightarrow> string \<Rightarrow> string \<Rightarrow> board \<Rightarrow> board \<times> (ctl_error, unit) result" where
  "pause_violation env task reason d =
     (case control_task (bd_control d) task of
        None \<Rightarrow> (d, Inl (CtlFailure ''task not found''))
      | Some t \<Rightarrow>
          if \<not> takeover_running (bd_control d) t then (d, Inr ())
          else case pause_call env (kt_project t) task reason d of
            (d1, Inl e) \<Rightarrow> (d1, if e = not_managed then Inr () else Inl e)
          | (d1, Inr _) \<Rightarrow> (d1, Inr ()))"

text \<open>The whole request to update a task.\<close>

definition update_call :: "ctl_env \<Rightarrow> string \<Rightarrow> task_update \<Rightarrow> board \<Rightarrow> board \<times> (ctl_error, string) result" where
  "update_call env i req d =
     (case control_call env (\<lambda>env. update_task env i req) d of
        (d1, Inl (CtlViolation reason detail)) \<Rightarrow>
          (case pause_violation env i reason d1 of
             (d2, Inl e) \<Rightarrow> (d2, Inl e) | (d2, Inr _) \<Rightarrow> (d2, Inl (CtlViolation reason detail)))
      | answer \<Rightarrow> answer)"

section \<open>Carrying out a tool run\<close>

text \<open>
  Before the command: the run and its gate as stored, and for a managed project the
  directory; the command is carried out on \<open>True\<close>. A directory outside the approved ones
  pauses the task in a transaction of its own.
\<close>

definition begin_tool_run :: "ctl_env \<Rightarrow> string \<Rightarrow> board \<Rightarrow> board \<times> (ctl_error, bool) result" where
  "begin_tool_run env run_id d =
     (let st = bd_control d in case List.find (\<lambda>r. ur_id r = run_id) (pc_runs st) of
        None \<Rightarrow> (d, Inl (CtlFailure (''tool run not found: '' @ run_id)))
      | Some r \<Rightarrow>
          if ur_status r \<noteq> ''running'' then (d, Inr False)
          else case control_task st (ur_task r) of
            None \<Rightarrow> (d, Inr True)
          | Some t \<Rightarrow>
              (case execution_gate (Some (bd_claims d)) (en_instant env) (en_user env) st t of
                 Inl e \<Rightarrow> (d, Inl e)
               | Inr _ \<Rightarrow>
                   if \<not> managed_project st t then (d, Inr True)
                   else case en_inside env st t r of
                     Inr _ \<Rightarrow> (d, Inr True)
                   | Inl e \<Rightarrow>
                       (case pause_violation env (kt_id t) ''path_violation'' d of
                          (d1, Inl e1) \<Rightarrow> (d1, Inl e1) | (d1, Inr _) \<Rightarrow> (d1, Inl e))))"

definition finish_run_call :: "ctl_env \<Rightarrow> string \<Rightarrow> (string, tool_result) result \<Rightarrow> board \<Rightarrow> board \<times> (ctl_error, string) result" where
  "finish_run_call env run_id out d = control_call env (\<lambda>env. finish_tool_run env run_id out) d"

definition check_health :: "alert_texts \<Rightarrow> ctl_env \<Rightarrow> board \<Rightarrow> board" where
  "check_health texts env d0 =
     (let d = fst (expire_stale_for_user env d0); st = bd_control d;
          alerts = health_alerts texts (en_instant env) st;
          overdue = map ur_id (filter (overdue_run (en_instant env) (tools_for_state st)) (pc_runs st))
      in if alerts = [] then d
         else fst (control_call env (\<lambda>env st. Inr (report_health env alerts overdue st, ())) d))"

end
