(* ===== verification/Control_Agent_Work.thy ===== *)
theory Control_Agent_Work
  imports Control_Agents
begin

text \<open>
  Agents at work: evidence they submit, checkpoints they ask for, and the link between
  terminals and tasks (\<open>project_control.go\<close>, \<open>agent_terminal.go\<close>, \<open>agent_register_task.go\<close>,
  \<open>terminal_handoff.go\<close>).
\<close>

section \<open>Submitting evidence\<close>

record artifact_request =
  rq_lease :: string
  rq_task :: string
  rq_phase :: string
  rq_kind :: string
  rq_outcome :: string
  rq_label :: string
  rq_value :: string

definition leased :: "ctl_env \<Rightarrow> artifact_request \<Rightarrow> claims option \<Rightarrow> ctl_error \<Rightarrow> ctl_state \<Rightarrow> (ctl_error, ctl_task) result" where
  "leased env req rows missing st =
     and_then (require missing (control_task st (rq_task req))) (\<lambda>t.
     and_then (require_managed_lease rows (en_instant env) (en_user env) st t (rq_lease req)) (\<lambda>_. Inr t))"

definition blank_attempt :: phase_attempt where
  "blank_attempt = \<lparr>pa_released = False, pa_id = [], pa_task = [], pa_runbook = [], pa_phase = [], pa_session = [], pa_agent = [],
     pa_runtime = [], pa_workspace = [], pa_started = [], pa_completed = [], pa_status = [], pa_artifacts = [], pa_failure = []\<rparr>"

text \<open>A checkpoint of the execution is recorded; the task it is recorded on is a copy that is dropped.\<close>

definition save_checkpoint :: "ctl_env \<Rightarrow> artifact_request \<Rightarrow> ctl_state \<Rightarrow> (ctl_error, ctl_state \<times> unit) result" where
  "save_checkpoint env req st =
     and_then (leased env req (en_leases env) (claim_error ErrNotFound) st) (\<lambda>t.
     case record_artifact (kt_phase t) ''checkpoint'' ''pass'' (rq_label req) (rq_value req) ''agent'' (en_nano env) st t blank_attempt of
       (st1, _) \<Rightarrow> Inr (st1, ()))"

definition waits_for :: "artifact_request \<Rightarrow> tool_run \<Rightarrow> bool" where
  "waits_for req r \<longleftrightarrow> ur_task r = rq_task req \<and> ur_status r = ''waiting'' \<and>
     (rq_phase req = [] \<or> ur_phase r = normalize_phase (rq_phase req))"

definition answer_run :: "ctl_env \<Rightarrow> artifact_request \<Rightarrow> tool_run \<Rightarrow> tool_run" where
  "answer_run env req r =
     r\<lparr>ur_status := ''completed'', ur_completed := en_now env, ur_outcome := normalize_outcome (rq_outcome req),
       ur_summary := ''Agent completed '' @ ur_tool r @ ''.''\<rparr>"

definition answer_waiting :: "ctl_env \<Rightarrow> artifact_request \<Rightarrow> ctl_state \<Rightarrow> (ctl_error, ctl_state \<times> unit) result" where
  "answer_waiting env req st =
     and_then (leased env req (en_leases env) (claim_error ErrNotFound) st) (\<lambda>_.
     Inr (st\<lparr>pc_runs := update_first (waits_for req) (answer_run env req) (pc_runs st)\<rparr>, ()))"

definition bypass_request :: "artifact_request \<Rightarrow> task_update" where
  "bypass_request req =
     (phase_request (rq_phase req) (rq_kind req) (rq_outcome req) (rq_label req) (rq_value req))
       \<lparr>uq_lease := rq_lease req, uq_version := - 1, uq_action := ''complete_phase''\<rparr>"

definition submit_artifact :: "ctl_env \<Rightarrow> artifact_request \<Rightarrow> board \<Rightarrow> board \<times> (ctl_error, unit) result" where
  "submit_artifact env req d =
     (if rq_task req = [] \<or> rq_kind req = [] then (d, Inl (CtlFailure ''taskId and artifactKind are required''))
      else case leased env req (Some (bd_claims d)) (CtlFailure ''task not found'') (bd_control d) of Inl e \<Rightarrow> (d, Inl e) | Inr _ \<Rightarrow>
      if rq_kind req = ''checkpoint'' then
        (if trim_space (rq_value req) = [] \<or> normalize_outcome (rq_outcome req) \<noteq> ''pass''
         then (d, Inl (CtlFailure ''checkpoint requires nonempty persisted content and pass outcome''))
         else control_call env (\<lambda>env. save_checkpoint env req) d)
      else case control_call env (\<lambda>env. answer_waiting env req) d of
        (d1, Inl e) \<Rightarrow> (d1, Inl e)
      | (d1, Inr _) \<Rightarrow>
          (case update_call env (rq_task req) (bypass_request req) d1 of
             (d2, Inl e) \<Rightarrow> (d2, Inl e) | (d2, Inr _) \<Rightarrow> (d2, Inr ())))"

section \<open>Asking for a human\<close>

record help_request =
  hq_code :: string
  hq_task :: string
  hq_reason :: string

definition raise_help :: "ctl_env \<Rightarrow> help_request \<Rightarrow> ctl_state \<Rightarrow> ctl_state" where
  "raise_help env req st =
     (let st1 = (case control_task st (hq_task req) of
            None \<Rightarrow> st
          | Some t \<Rightarrow> if takeover_running st t
              then pause_control_state (en_nano env) (kt_project t) (kt_id t)
                (if project_scope (hq_code req) then hq_code req else ''agent_request'') st
              else st);
          (i, st2) = control_id ''checkpoint'' (''agent-'' @ hq_task req) st1;
          c = (new_gate i (hq_task req) ''agent_request'' ''Agent requests human input'' (hq_reason req) (en_now env)
            [''approve'', ''reject''])\<lparr>ck_version := 0\<rparr>
      in emit ''agent-checkpoint''
           \<lparr>ev_kind = [], ev_source = [], ev_id = [], ev_time = en_now env, ev_actor = ''agent'', ev_action = ''checkpoint_requested'',
            ev_detail = ''Agent requested checkpoint: '' @ hq_reason req, ev_project = [], ev_workstream = [], ev_task = hq_task req,
            ev_checkpoint = []\<rparr>
           (st2\<lparr>pc_checkpoints := pc_checkpoints st2 @ [c]\<rparr>))"

definition request_help :: "ctl_env \<Rightarrow> help_request \<Rightarrow> ctl_state \<Rightarrow> (ctl_error, ctl_state \<times> unit) result" where
  "request_help env req st =
     (if hq_task req = [] \<or> 128 < length (hq_task req) \<or> \<not> valid_control_id (hq_task req) \<or> trim_space (hq_reason req) = []
      then Inl (CtlFailure ''taskId and reason are required'')
      else Inr (raise_help env req st, ()))"

section \<open>Terminals of tasks\<close>

definition live_session :: "string \<Rightarrow> string" where
  "live_session terminal = ''session-live-'' @ trim_space terminal"

definition terminal_event :: "string \<Rightarrow> string \<Rightarrow> string \<Rightarrow> string \<Rightarrow> string \<Rightarrow> string \<Rightarrow> ctl_event" where
  "terminal_event now actor action detail project task =
     \<lparr>ev_kind = [], ev_source = [], ev_id = [], ev_time = now, ev_actor = actor, ev_action = action, ev_detail = detail,
      ev_project = project, ev_workstream = [], ev_task = task, ev_checkpoint = []\<rparr>"

definition bind_task_terminal :: "ctl_env \<Rightarrow> string \<Rightarrow> string \<Rightarrow> string \<Rightarrow> ctl_state \<Rightarrow> ctl_state" where
  "bind_task_terminal env task terminal project st =
     (case first_index (\<lambda>t. kt_id t = task) (pc_tasks st) of
        None \<Rightarrow> st
      | Some j \<Rightarrow>
          let t = pc_tasks st ! j in
          emit ''task-terminal-linked'' (terminal_event (en_now env) ''runtime'' ''task_terminal_linked''
            (''Runtime terminal '' @ live_session terminal @ '' attached to the task.'') project task)
            (put_task j (t\<lparr>kt_sessions := append_unique (kt_sessions t) (live_session terminal)\<rparr>) st))"

text \<open>The terminal is taken from every other task; the first task with the identifier gets it.\<close>

definition bind_exclusive :: "string \<Rightarrow> string \<Rightarrow> ctl_state \<Rightarrow> ctl_state" where
  "bind_exclusive task terminal st =
     st\<lparr>pc_tasks := update_first (\<lambda>t. kt_id t = task) (\<lambda>t. t\<lparr>kt_sessions := append_unique (kt_sessions t) (live_session terminal)\<rparr>)
          (map (\<lambda>t. if kt_id t = task then t else t\<lparr>kt_sessions := filter (\<lambda>s. s \<noteq> live_session terminal) (kt_sessions t)\<rparr>) (pc_tasks st))\<rparr>"

definition task_for_terminal :: "ctl_state \<Rightarrow> string \<Rightarrow> string" where
  "task_for_terminal st terminal =
     (case List.find (\<lambda>t. live_session terminal \<in> set (kt_sessions t)) (pc_tasks st) of None \<Rightarrow> [] | Some t \<Rightarrow> kt_id t)"

text \<open>A live terminal: its identifier, and the task and project of its session.\<close>

record live_terminal =
  lt_id :: string
  lt_task :: string
  lt_project :: string

fun bound_task :: "string \<Rightarrow> ctl_task option \<Rightarrow> ctl_task list \<Rightarrow> (ctl_error, ctl_task option) result" where
  "bound_task session found [] = Inr found"
| "bound_task session found (t # ts) =
     (if session \<notin> set (kt_sessions t) then bound_task session found ts
      else case found of
        None \<Rightarrow> bound_task session (Some t) ts
      | Some b \<Rightarrow>
          if kt_project b \<noteq> kt_project t \<or> kt_workstream b \<noteq> kt_workstream t
          then Inl (CtlFailure ''terminal has conflicting task bindings'')
          else bound_task session (Some t) ts)"

definition terminal_task :: "ctl_state \<Rightarrow> live_terminal \<Rightarrow> (ctl_error, ctl_task option) result" where
  "terminal_task st l =
     (if lt_task l \<noteq> [] then
        (case control_task st (lt_task l) of None \<Rightarrow> Inl (CtlFailure ''terminal task not found'') | Some t \<Rightarrow> Inr (Some t))
      else bound_task (live_session (lt_id l)) None (pc_tasks st))"

text \<open>The project and workstream a registration belongs to.\<close>

definition place_in :: "ctl_state \<Rightarrow> string \<Rightarrow> string \<Rightarrow> (ctl_error, string \<times> string) result" where
  "place_in st project ws =
     (if \<not> project_exists st project then Inl (CtlFailure ''terminal or active project not found'')
      else if ws \<noteq> [] then
        (if workstream_exists st ws project then Inr (project, ws)
         else Inl (CtlFailure ''terminal workstream does not belong to its project''))
      else case List.find (\<lambda>w. wk_project w = project) (pc_workstreams st) of
        None \<Rightarrow> Inl (CtlFailure ''no workstream available in the terminal or active project'')
      | Some w \<Rightarrow> Inr (project, wk_id w))"

definition registration_context :: "ctl_state \<Rightarrow> live_terminal option \<Rightarrow> (ctl_error, string \<times> string) result" where
  "registration_context st live =
     (case live of
        None \<Rightarrow> place_in st (pc_active st) []
      | Some l \<Rightarrow>
          and_then (terminal_task st l) (\<lambda>bound.
          case bound of
            None \<Rightarrow> place_in st (if lt_project l \<noteq> [] then lt_project l else pc_active st) []
          | Some t \<Rightarrow>
              if lt_project l \<noteq> [] \<and> lt_project l \<noteq> kt_project t
              then Inl (CtlFailure ''terminal project does not match its task'')
              else place_in st (kt_project t) (kt_workstream t)))"

text \<open>
  The task a running agent registers for its work. A terminal without a place of its own
  takes the one of the source of its oldest waiting handoff, which is \<open>inherited\<close>.
\<close>

definition register_task ::
  "ctl_env \<Rightarrow> live_terminal option \<Rightarrow> (string \<times> string) option \<Rightarrow> string \<Rightarrow> string \<Rightarrow> ctl_state \<Rightarrow> (ctl_error, ctl_state \<times> string) result" where
  "register_task env live inherited title goal st =
     and_then (case (live, inherited) of
         (Some l, Some place) \<Rightarrow>
           if lt_project l = [] \<and> task_for_terminal st (lt_id l) = [] then Inr place else registration_context st live
       | _ \<Rightarrow> registration_context st live) (\<lambda>(project, ws).
     and_then (create_task_in_state env
       \<lparr>cq_origin = ''agent'', cq_description = [], cq_milestone = [], cq_depends = [], cq_command = [], cq_project = project,
        cq_workstream = ws, cq_title = title, cq_goal = trim_space goal, cq_priority = [], cq_risk = [], cq_skill = [], cq_runbook = []\<rparr> st)
       (\<lambda>(st1, i).
     Inr (case live of
        None \<Rightarrow> st1
      | Some l \<Rightarrow>
          emit ''task-terminal-linked'' ((terminal_event (en_now env) ''agent'' ''task_terminal_linked''
            (''Registered terminal '' @ live_session (lt_id l) @ ''.'') project i)\<lparr>ev_workstream := ws\<rparr>)
            (bind_exclusive i (lt_id l) st1), i)))"

end
