(* ===== verification/Control_Moves.thy ===== *)
theory Control_Moves
  imports Control_Agent_Work
begin

text \<open>
  An abstract specification of the board: what may happen to tasks, checkpoints and
  decisions, whatever the call. A move is one of six: nothing that concerns them, a
  gentle edit of tasks, a task that settles in a new state with its gates brought in line,
  a decision that concerns no task, a new task, and the normal form before saving. Every operation of project control is a
  sequence of moves; invariants are shown on moves.
\<close>

section \<open>Gates\<close>

definition pend :: "string \<Rightarrow> string \<Rightarrow> checkpoint list \<Rightarrow> nat" where
  "pend i kind cs = length (filter (pending_gate i kind) cs)"

definition gate_kind :: "string \<Rightarrow> bool" where
  "gate_kind kind \<longleftrightarrow> kind \<in> set [''final_acceptance'', ''archive_override'', ''dispatch'']"

text \<open>A checkpoint that is not pending keeps everything; any other keeps who it is.\<close>

definition gate_later :: "checkpoint \<Rightarrow> checkpoint \<Rightarrow> bool" where
  "gate_later c c' \<longleftrightarrow> ck_id c' = ck_id c \<and> ck_task c' = ck_task c \<and> ck_kind c' = ck_kind c \<and>
     (ck_status c \<noteq> ''pending'' \<longrightarrow> c' = c)"

definition gates_later :: "checkpoint list \<Rightarrow> checkpoint list \<Rightarrow> bool" where
  "gates_later cs cs' \<longleftrightarrow> (\<exists>ds es. cs' = ds @ es \<and> list_all2 gate_later cs ds)"

text \<open>The gates of one task in line with its acceptance; no others change.\<close>

definition in_line :: "string \<Rightarrow> bool \<Rightarrow> checkpoint list \<Rightarrow> checkpoint list \<Rightarrow> bool" where
  "in_line i review cs cs' \<longleftrightarrow> gates_later cs cs' \<and>
     (\<forall>i' kind. i' \<noteq> i \<longrightarrow> pend i' kind cs' \<le> pend i' kind cs) \<and>
     (\<forall>i' kind. i' \<noteq> i \<and> kind = ''final_acceptance'' \<longrightarrow> pend i' kind cs' = pend i' kind cs) \<and>
     (\<forall>kind. gate_kind kind \<longrightarrow> pend i kind cs' \<le> max 1 (pend i kind cs)) \<and>
     (review \<longrightarrow> 0 < pend i ''final_acceptance'' cs')"

section \<open>Tasks\<close>

definition same_owner :: "ctl_task \<Rightarrow> ctl_task \<Rightarrow> bool" where
  "same_owner t t' \<longleftrightarrow> kt_id t' = kt_id t \<and> kt_project t' = kt_project t"

text \<open>Work goes on: a task may leave acceptance for work, but enters neither review, acceptance nor the archive.\<close>

definition at_work :: "string \<Rightarrow> bool" where
  "at_work s \<longleftrightarrow> s \<in> set [''running'', ''waiting_review'', ''failed'', ''execution_complete'']"

definition unsettled :: "string \<Rightarrow> bool" where
  "unsettled a \<longleftrightarrow> a \<in> set [''not_ready'', ''ready_for_acceptance'']"

definition gentle :: "ctl_task \<Rightarrow> ctl_task \<Rightarrow> bool" where
  "gentle t t' \<longleftrightarrow> same_owner t t' \<and> kt_depends t' = kt_depends t \<and>
     kt_acceptance_decision t' = kt_acceptance_decision t \<and> kt_archive_decision t' = kt_archive_decision t \<and>
     (kt_state t' = kt_state t \<or> at_work (kt_state t')) \<and>
     (kt_acceptance t' = kt_acceptance t \<or> at_work (kt_state t') \<and> unsettled (kt_acceptance t'))"

lemma gentle_refl [simp]: "gentle t t"
  by (simp add: gentle_def same_owner_def)

lemma gentle_trans: "gentle a b \<Longrightarrow> gentle b c \<Longrightarrow> gentle a c"
  unfolding gentle_def same_owner_def by metis

text \<open>The decisions that let a task be accepted, and archived without acceptance.\<close>

definition grants :: "ctl_decision \<Rightarrow> ctl_task \<Rightarrow> bool" where
  "grants d t \<longleftrightarrow> de_id d = kt_acceptance_decision t \<and> de_task d = kt_id t \<and> de_actor d = ''human'' \<and>
     de_type d \<in> set [''final_acceptance_approved'', ''checkpoint_approved'']"

definition waives :: "ctl_decision \<Rightarrow> ctl_task \<Rightarrow> bool" where
  "waives d t \<longleftrightarrow> de_task d = kt_id t \<and> de_actor d = ''human'' \<and> de_type d = ''archive_override_approved''"

definition lawful :: "ctl_decision list \<Rightarrow> ctl_task \<Rightarrow> ctl_task \<Rightarrow> bool" where
  "lawful ds t t' \<longleftrightarrow>
     (kt_acceptance t' = ''accepted'' \<longrightarrow>
        kt_acceptance t = ''accepted'' \<and> kt_acceptance_decision t' = kt_acceptance_decision t \<or> (\<exists>d \<in> set ds. grants d t')) \<and>
     (kt_state t' = ''archived'' \<longrightarrow>
        kt_acceptance t' = ''accepted'' \<or> kt_state t = ''archived'' \<and> kt_acceptance t \<noteq> ''accepted'' \<or> (\<exists>d \<in> set ds. waives d t'))"

text \<open>The values of state and acceptance the code knows.\<close>

definition known_status :: "ctl_task \<Rightarrow> bool" where
  "known_status t \<longleftrightarrow> normalize_task_state (kt_state t) = kt_state t \<and> normalize_acceptance (kt_acceptance t) = kt_acceptance t"

definition clear_dependencies :: "ctl_task list \<Rightarrow> ctl_task \<Rightarrow> bool" where
  "clear_dependencies ts t \<longleftrightarrow> visit_all ts (kt_project t) [kt_id t] (kt_depends t) = Inr ()"

section \<open>Moves\<close>

definition apart :: "ctl_state \<Rightarrow> ctl_state \<Rightarrow> bool" where
  "apart st st' \<longleftrightarrow> pc_clock st' = pc_clock st \<and> pc_reads st \<le> pc_reads st'"

definition stamped_task :: "ctl_state \<Rightarrow> ctl_state \<Rightarrow> string \<Rightarrow> bool" where
  "stamped_task st st' i \<longleftrightarrow> (\<exists>n title. pc_reads st \<le> n \<and> n < pc_reads st' \<and> i = control_id_text (pc_clock st n) ''task'' title)"

definition normal_task :: "ctl_task \<Rightarrow> ctl_task \<Rightarrow> bool" where
  "normal_task t t' \<longleftrightarrow> kt_id t' = trim_space (kt_id t) \<and> kt_project t' = trim_space (kt_project t) \<and> kt_depends t' = kt_depends t \<and>
     kt_acceptance_decision t' = trim_space (kt_acceptance_decision t) \<and>
     kt_state t' = normalize_task_state (kt_state t) \<and> kt_acceptance t' = normalize_acceptance (kt_acceptance t)"

text \<open>
  A new task is added to the others when its identifier is new, which the clock decides.
\<close>

inductive move :: "ctl_state \<Rightarrow> ctl_state \<Rightarrow> bool" where
  aside: "apart st st' \<Longrightarrow> pc_tasks st' = pc_tasks st \<Longrightarrow> pc_checkpoints st' = pc_checkpoints st \<Longrightarrow> pc_decisions st' = pc_decisions st
    \<Longrightarrow> move st st'"
| edit: "apart st st' \<Longrightarrow> list_all2 gentle (pc_tasks st) (pc_tasks st') \<Longrightarrow> pc_checkpoints st' = pc_checkpoints st @ cs \<Longrightarrow>
    \<forall>c \<in> set cs. \<not> gate_kind (ck_kind c) \<Longrightarrow> pc_decisions st' = pc_decisions st \<Longrightarrow> move st st'"
| settle: "apart st st' \<Longrightarrow> length (pc_tasks st') = length (pc_tasks st) \<Longrightarrow> j < length (pc_tasks st) \<Longrightarrow>
    \<forall>m < length (pc_tasks st). m \<noteq> j \<longrightarrow> gentle (pc_tasks st ! m) (pc_tasks st' ! m) \<Longrightarrow>
    same_owner (pc_tasks st ! j) (pc_tasks st' ! j) \<Longrightarrow>
    known_status (pc_tasks st ! j) \<longrightarrow> known_status (pc_tasks st' ! j) \<and> lawful ds (pc_tasks st ! j) (pc_tasks st' ! j) \<Longrightarrow>
    kt_depends (pc_tasks st' ! j) = kt_depends (pc_tasks st ! j) \<or> clear_dependencies (pc_tasks st) (pc_tasks st' ! j) \<Longrightarrow>
    in_line (kt_id (pc_tasks st ! j)) (kt_acceptance (pc_tasks st' ! j) = ''under_human_review'')
      (pc_checkpoints st) (pc_checkpoints st') \<Longrightarrow>
    pc_decisions st' = pc_decisions st @ ds \<Longrightarrow> move st st'"
| resolve: "apart st st' \<Longrightarrow> pc_tasks st' = pc_tasks st \<Longrightarrow> gates_later (pc_checkpoints st) (pc_checkpoints st') \<Longrightarrow>
    \<forall>i kind. pend i kind (pc_checkpoints st') \<le> pend i kind (pc_checkpoints st) \<Longrightarrow>
    \<forall>t \<in> set (pc_tasks st). pend (kt_id t) ''final_acceptance'' (pc_checkpoints st') = pend (kt_id t) ''final_acceptance'' (pc_checkpoints st) \<Longrightarrow>
    pc_decisions st' = pc_decisions st @ ds \<Longrightarrow> move st st'"
| create: "apart st st' \<Longrightarrow> stamped_task st st' (kt_id t) \<Longrightarrow>
    (\<forall>u \<in> set (pc_tasks st). kt_id u \<noteq> kt_id t) \<longrightarrow> (\<exists>ts. list_all2 gentle (pc_tasks st) ts \<and> pc_tasks st' = ts @ [t]) \<Longrightarrow>
    kt_state t \<noteq> ''archived'' \<Longrightarrow> unsettled (kt_acceptance t) \<Longrightarrow> known_status t \<Longrightarrow> clear_dependencies (pc_tasks st) t \<Longrightarrow>
    in_line (kt_id t) False (pc_checkpoints st) (pc_checkpoints st') \<Longrightarrow> pc_decisions st' = pc_decisions st \<Longrightarrow> move st st'"
| normalise: "apart st st' \<Longrightarrow> list_all2 normal_task (pc_tasks st) (pc_tasks st') \<Longrightarrow>
    pc_checkpoints st' = map normalize_checkpoint (pc_checkpoints st) \<Longrightarrow>
    pc_decisions st' = map normalize_decision (pc_decisions st) \<Longrightarrow> move st st'"

abbreviation moves :: "ctl_state \<Rightarrow> ctl_state \<Rightarrow> bool" where
  "moves \<equiv> rtranclp move"

lemma moves_refl [intro, simp]: "moves st st"
  by simp

lemma moves_trans [trans]: "moves a b \<Longrightarrow> moves b c \<Longrightarrow> moves a c"
  by (rule rtranclp_trans)

lemma apart_refl [simp]: "apart st st"
  by (simp add: apart_def)

lemma apart_trans [trans]: "apart a b \<Longrightarrow> apart b c \<Longrightarrow> apart a c"
  by (simp add: apart_def)

lemma list_all2_gentle_refl [simp]: "list_all2 gentle ts ts"
  by (simp add: list_all2_refl)

lemma list_all2_gentle_trans: "list_all2 gentle a b \<Longrightarrow> list_all2 gentle b c \<Longrightarrow> list_all2 gentle a c"
  by (rule list_all2_trans [of gentle gentle gentle]) (auto intro: gentle_trans)

end
