(* ===== verification/Control_Frames.thy ===== *)
theory Control_Frames
  imports Control_Moves
begin

text \<open>
  What the runbook engine leaves alone: phases and tools touch the log, the clock, attempts,
  runs and artifacts of the state, and the task they are given only gently.
\<close>

named_theorems framing

definition frame :: "ctl_state \<Rightarrow> ctl_state \<Rightarrow> bool" where
  "frame st st' \<longleftrightarrow> apart st st' \<and> pc_tasks st' = pc_tasks st \<and> pc_checkpoints st' = pc_checkpoints st \<and>
     pc_decisions st' = pc_decisions st \<and> pc_projects st' = pc_projects st \<and> pc_workstreams st' = pc_workstreams st \<and>
     (\<exists>fs. pc_artifacts st' = pc_artifacts st @ fs)"

lemma frame_refl [framing]: "frame st st"
  by (simp add: frame_def)

lemma frame_trans: "frame a b \<Longrightarrow> frame b c \<Longrightarrow> frame a c"
  unfolding frame_def using apart_trans by fastforce

lemma frame_emit [framing]: "frame st st' \<Longrightarrow> frame st (emit seed ev st')"
  by (auto simp: frame_def apart_def intro: order_trans)

lemma frame_attempts [framing]: "frame st st' \<Longrightarrow> frame st (st'\<lparr>pc_attempts := xs\<rparr>)"
  by (simp add: frame_def apart_def)

lemma frame_runs [framing]: "frame st st' \<Longrightarrow> frame st (st'\<lparr>pc_runs := xs\<rparr>)"
  by (simp add: frame_def apart_def)

lemma frame_artifact [framing]: "frame st st' \<Longrightarrow> frame st (st'\<lparr>pc_artifacts := pc_artifacts st' @ fs\<rparr>)"
  by (auto simp: frame_def apart_def)

lemma control_id_frame: "control_id prefix seed st = (i, st') \<Longrightarrow> frame st st'"
  by (auto simp: control_id_def frame_def apart_def)

definition handled :: "ctl_task \<Rightarrow> ctl_task \<Rightarrow> bool" where
  "handled t t' \<longleftrightarrow> gentle t t' \<and> (known_status t \<longrightarrow> known_status t') \<and> kt_dispatch t' = kt_dispatch t \<and> kt_pause t' = kt_pause t \<and>
     kt_version t' = kt_version t \<and> kt_origin t' = kt_origin t \<and> kt_command t' = kt_command t"

lemma handled_refl [simp, framing]: "handled t t"
  by (simp add: handled_def)

lemma handled_trans: "handled a b \<Longrightarrow> handled b c \<Longrightarrow> handled a c"
  unfolding handled_def using gentle_trans by metis

definition works :: "ctl_state \<Rightarrow> ctl_task \<Rightarrow> ctl_state \<Rightarrow> ctl_task \<Rightarrow> bool" where
  "works st t st' t' \<longleftrightarrow> frame st st' \<and> handled t t'"

lemma works_trans: "works a t b u \<Longrightarrow> works b u c v \<Longrightarrow> works a t c v"
  unfolding works_def using frame_trans handled_trans by blast

lemma refresh_handled: "handled t (refresh_task fs t)"
  by (auto simp: refresh_task_def Let_def resolve_skill_and_runbook_def handled_def gentle_def same_owner_def known_status_def
      split: prod.splits)

lemma create_phase_session_frame: "create_phase_session terminals t p dir st = (st', r) \<Longrightarrow> frame st st'"
  by (auto simp: create_phase_session_def Let_def frame_refl split: prod.splits option.splits if_splits sum.splits
      intro: control_id_frame)

lemma known_not_ready: "normalize_acceptance ''not_ready'' = ''not_ready''"
  by code_simp
lemma known_ready: "normalize_acceptance ''ready_for_acceptance'' = ''ready_for_acceptance''"
  by code_simp
lemma known_states: "normalize_task_state ''running'' = ''running''" "normalize_task_state ''waiting_review'' = ''waiting_review''"
  "normalize_task_state ''failed'' = ''failed''" "normalize_task_state ''execution_complete'' = ''execution_complete''"
  by code_simp+

lemma at_work_known: "at_work s \<Longrightarrow> normalize_task_state s = s"
  unfolding at_work_def using known_states by auto

lemma unsettled_known: "unsettled a \<Longrightarrow> normalize_acceptance a = a"
  unfolding unsettled_def using known_not_ready known_ready by auto

lemma handledI:
  assumes "same_owner t t'" "kt_depends t' = kt_depends t" "kt_acceptance_decision t' = kt_acceptance_decision t"
    "kt_archive_decision t' = kt_archive_decision t" "at_work (kt_state t')"
    "kt_acceptance t' = kt_acceptance t \<or> unsettled (kt_acceptance t')" "kt_dispatch t' = kt_dispatch t" "kt_pause t' = kt_pause t"
    "kt_version t' = kt_version t" "kt_origin t' = kt_origin t" "kt_command t' = kt_command t"
  shows "handled t t'"
  using assms at_work_known unsettled_known unfolding handled_def gentle_def known_status_def by metis

lemma at_work_simps [simp]: "at_work ''running''" "at_work ''failed''" "at_work ''waiting_review''" "at_work ''execution_complete''"
  "at_work (state_for_phase i)" "unsettled ''not_ready''" "unsettled ''ready_for_acceptance''"
  by (simp_all add: at_work_def unsettled_def state_for_phase_def)

text \<open>The claim of a whole result, so that the definitions are taken apart in the conclusion.\<close>

definition works_all :: "ctl_state \<Rightarrow> ctl_task \<Rightarrow> 'a phase_result \<Rightarrow> bool" where
  "works_all st t out \<longleftrightarrow> (case out of (st', t', r) \<Rightarrow> works st t st' t')"

lemma works_all_simp [simp]: "works_all st t (st', t', r) \<longleftrightarrow> frame st st' \<and> handled t t'"
  by (simp add: works_all_def works_def)

lemma works_allD: "works_all st t out \<Longrightarrow> out = (st', t', r) \<Longrightarrow> frame st st' \<and> handled t t'"
  by simp

lemma works_cases:
  "\<lbrakk>c \<Longrightarrow> works_all st t a; \<not> c \<Longrightarrow> works_all st t b\<rbrakk> \<Longrightarrow> works_all st t (if c then a else b)"
  "\<lbrakk>\<And>e. r = Inl e \<Longrightarrow> works_all st t (f e); \<And>x. r = Inr x \<Longrightarrow> works_all st t (g x)\<rbrakk> \<Longrightarrow>
     works_all st t (case r of Inl e \<Rightarrow> f e | Inr x \<Rightarrow> g x)"
  "\<lbrakk>p = None \<Longrightarrow> works_all st t a; \<And>y. p = Some y \<Longrightarrow> works_all st t (h y)\<rbrakk> \<Longrightarrow>
     works_all st t (case p of None \<Rightarrow> a | Some y \<Rightarrow> h y)"
  "(\<And>x y. q = (x, y) \<Longrightarrow> works_all st t (k x y)) \<Longrightarrow> works_all st t (case q of (x, y) \<Rightarrow> k x y)"
  by (auto split: sum.split option.split prod.split)

lemma start_phase_works: "works_all st t (start_phase workspace terminals now i st t)"
proof -
  define t1 where "t1 = refresh_task (pc_artifacts st) t"
  have t1: "handled t t1" by (simp add: t1_def refresh_handled)
  have moved: "handled t t'" if "handled t1 t'" for t' using t1 that by (rule handled_trans)
  have new: "frame st st2" if "control_id p seed st = (a, st1)" "create_phase_session terminals t1 q dir st1 = (st2, r)" for p seed a st1 q dir st2 r
    using that by (blast intro: frame_trans control_id_frame create_phase_session_frame)
  have last: "handled t (t1\<lparr>kt_state := state_for_phase a, kt_acceptance := ''not_ready'', kt_phase := b, kt_runbook_state := c,
      kt_sessions := d, kt_summary := e, kt_next := f\<rparr>)" for a b c d e f
    by (rule moved, rule handledI) (simp_all add: same_owner_def)
  show ?thesis unfolding start_phase_def Let_def t1_def [symmetric]
    by (intro works_cases; simp only: works_all_simp; blast intro: framing t1 new control_id_frame last)
qed

lemma record_artifact_works:
  assumes "record_artifact i kind outcome label value actor now st t a = (st', t', a', f)"
  shows "frame st st' \<and> handled t t' \<and> kt_state t' = kt_state t \<and> kt_acceptance t' = kt_acceptance t"
proof -
  obtain k st1 where k: "control_id ''artifact'' (kt_id t @ ''-'' @ kind) st = (k, st1)" by fastforce
  have u: "handled t (t\<lparr>kt_evidence := e\<rparr>)" "handled t (t\<lparr>kt_evidence := e, kt_diff := d\<rparr>)" for e d
    by (auto simp: handled_def gentle_def same_owner_def known_status_def)
  show ?thesis using assms unfolding record_artifact_def Let_def k prod.case
    by (auto intro!: framing control_id_frame [OF k] u)
qed

lemma handled_noted [simp]:
  "handled t (u\<lparr>kt_missing := xs\<rparr>) = handled t u" "handled t (u\<lparr>kt_summary := a\<rparr>) = handled t u"
  "handled t (u\<lparr>kt_next := a\<rparr>) = handled t u"
  by (simp_all add: handled_def gentle_def same_owner_def known_status_def)

lemma advance_handled: "handled t (advance_task st rb i t)"
proof -
  have "handled t (t\<lparr>kt_state := s, kt_acceptance := ''ready_for_acceptance'', kt_phase := b, kt_runbook_state := c,
      kt_summary := e, kt_next := f\<rparr>)" if "s = ''execution_complete''" for s b c e f
    using that by (intro handledI) (simp_all add: same_owner_def)
  moreover have "handled t (t\<lparr>kt_phase := b, kt_runbook_state := c, kt_state := state_for_phase a, kt_summary := e, kt_next := f\<rparr>)" for a b c e f
    by (rule handledI) (simp_all add: same_owner_def)
  ultimately show ?thesis unfolding advance_task_def Let_def by (simp split: if_split)
qed

lemma complete_phase_works: "works_all st t (complete_phase req now st t)"
proof -
  define t1 where "t1 = refresh_task (pc_artifacts st) t"
  have t1: "handled t t1" by (simp add: t1_def refresh_handled)
  have moved: "handled t (advance_task s rb j u)" if "handled t1 u" for s rb j u
    using t1 that advance_handled handled_trans by blast
  show ?thesis unfolding complete_phase_def Let_def t1_def [symmetric]
    apply (intro works_cases; simp only: works_all_simp)
    apply (blast intro: framing t1)+
    by (auto intro!: framing moved dest!: record_artifact_works split: if_splits prod.splits)
qed

lemma fail_phase_works: "works_all st t (fail_phase i reason now st t)"
proof -
  define t1 where "t1 = refresh_task (pc_artifacts st) t"
  have t1: "handled t t1" by (simp add: t1_def refresh_handled)
  have failed: "handled t (t1\<lparr>kt_state := ''failed'', kt_phase := a, kt_runbook_state := b, kt_acceptance := ''not_ready'',
      kt_summary := c, kt_next := d, kt_missing := e\<rparr>)" for a b c d e
    by (rule handled_trans [OF t1], rule handledI) (simp_all add: same_owner_def)
  show ?thesis unfolding fail_phase_def Let_def t1_def [symmetric]
    by (intro works_cases; simp only: works_all_simp; blast intro: framing t1 failed)
qed

lemma start_tool_works: "works_all st t (start_tool i tool now st t)"
proof -
  define t1 where "t1 = refresh_task (pc_artifacts st) t"
  have t1: "handled t t1" by (simp add: t1_def refresh_handled)
  have noted: "handled t (t1\<lparr>kt_summary := a, kt_next := b\<rparr>)" for a b
    using t1 by (simp add: handled_def gentle_def same_owner_def known_status_def)
  show ?thesis unfolding start_tool_def Let_def t1_def [symmetric]
    by (intro works_cases; simp only: works_all_simp; blast intro: framing t1 noted control_id_frame)
qed

lemma works_all_trans: "works st t st1 t1 \<Longrightarrow> works_all st1 t1 out \<Longrightarrow> works_all st t out"
  unfolding works_all_def by (auto intro: works_trans split: prod.splits)

lemma apply_tool_result_works: "works_all st t (apply_tool_result res now run st t)"
proof -
  define st1 where "st1 = emit ''tool-executed'' (task_event now ''tool_gateway'' ''tool_executed''
    (''Ran '' @ (if low_trim (tr_tool res) = [] then ur_tool run else low_trim (tr_tool res)) @ '' for phase '' @
     normalize_phase (ur_phase run) @ '' with outcome '' @ normalize_outcome (tr_outcome res) @ ''.'') t) st"
  have st1: "frame st st1" by (simp add: st1_def framing)
  have done_phase: "frame st st2 \<and> handled t t2" if "complete_phase r now st1 t = (st2, t2, x)" for r st2 t2 x
    using that complete_phase_works [of st1 t r now] frame_trans [OF st1] by auto
  have recorded: "frame st (st2\<lparr>pc_attempts := xs\<rparr>) \<and> handled t t2"
    if "record_artifact a b c d e f now st1 t g = (st2, t2, h, k)" for a b c d e f g h k st2 t2 xs
    using record_artifact_works [OF that] frame_trans [OF st1] by (blast intro: framing)
  have failed: "frame st st4 \<and> handled t t4"
    if "record_artifact a b c d e f now st1 t g = (st2, t2, h, k)" "fail_phase i why now (st2\<lparr>pc_attempts := xs\<rparr>) t2 = (st4, t4, x)"
    for a b c d e f g h k st2 t2 xs i why st4 t4 x
    using recorded [OF that(1), of xs] that(2) fail_phase_works [of "st2\<lparr>pc_attempts := xs\<rparr>" t2 i why now]
    by (auto intro: frame_trans handled_trans)
  show ?thesis unfolding apply_tool_result_def Let_def st1_def [symmetric]
    apply (intro works_cases; simp only: works_all_simp)
    apply (auto simp: framing dest: done_phase recorded failed)
    done
qed

lemma auto_progress_works:
  assumes "auto_progress workspace terminals now st t = (st', t', i)"
  shows "frame st st' \<and> handled t t'"
proof -
  have start: "frame st st1 \<and> handled t t1" if "start_phase workspace terminals now n st t = (st1, t1, r)" for n st1 t1 r
    using that start_phase_works [of st t workspace terminals now n] by simp
  have tool: "frame st st2 \<and> handled t t2"
    if "start_phase workspace terminals now n st t = (st1, t1, r)" "start_tool n d now st1 t1 = (st2, t2, x)" for n d st1 t1 r st2 t2 x
    using start [OF that(1)] that(2) start_tool_works [of st1 t1 n d now] by (auto intro: frame_trans handled_trans)
  have "works_all st t ((\<lambda>(a, b, c). (a, b, Inr c :: (ctl_error, string) result)) (auto_progress workspace terminals now st t))"
    unfolding auto_progress_def Let_def
    by (auto simp: framing dest: start tool split: option.split sum.split prod.split intro: framing)
  then show ?thesis using assms by simp
qed

lemma phase_action_works: "works_all st t (phase_action env action req st t)"
proof -
  define t0 where "t0 = t\<lparr>kt_state := ''running'', kt_acceptance := ''not_ready''\<rparr>"
  have t0: "handled t t0" unfolding t0_def by (rule handledI) (simp_all add: same_owner_def)
  have as_run: "works_all st t (as_run out)" if "works_all st t out" for out
    using that by (auto simp: works_all_def as_run_def split: prod.splits sum.splits)
  have started: "frame st st1 \<and> handled t t1" if "start_phase w m now n st t0 = (st1, t1, r)" for w m now n st1 t1 r
    using that start_phase_works [of st t0 w m now n] by (auto intro: handled_trans [OF t0])
  have tool: "frame st st2 \<and> handled t t2"
    if "start_phase w m now n st t0 = (st1, t1, r)" "start_tool k d now st1 t1 = (st2, t2, x)" for w m now n st1 t1 r k d st2 t2 x
    using started [OF that(1)] that(2) start_tool_works [of st1 t1 k d now] by (auto intro: frame_trans handled_trans)
  have execution: "works_all st t (start_execution env st t)"
    unfolding start_execution_def Let_def t0_def [symmetric]
    by (intro works_cases; simp only: works_all_simp; blast intro: framing t0 dest: started tool)
  have idle: "works_all st t (st, t, Inr x)" for x
    by (simp add: framing)
  show ?thesis unfolding phase_action_def
    by (intro works_cases as_run start_phase_works complete_phase_works fail_phase_works start_tool_works execution idle)
qed

end
