(* ===== verification/Control_Gate_Facts.thy ===== *)
theory Control_Gate_Facts
  imports Control_Frames
begin

text \<open>
  What raising, closing and approving gates does to the checkpoints and to the tasks: the
  gates of the task come in line, no others change.
\<close>

section \<open>Later gates\<close>

lemma gate_later_refl [simp]: "gate_later c c"
  by (simp add: gate_later_def)

lemma gate_later_trans: "gate_later a b \<Longrightarrow> gate_later b c \<Longrightarrow> gate_later a c"
  unfolding gate_later_def by metis

lemma gates_later_refl [simp]: "gates_later cs cs"
  unfolding gates_later_def by (intro exI [of _ cs] exI [of _ "[]"]) (simp add: list_all2_refl)

lemma gates_later_append [simp]: "gates_later cs (cs @ es)"
  unfolding gates_later_def by (intro exI [of _ cs] exI [of _ es]) (simp add: list_all2_refl)

lemma gates_laterI: "list_all2 gate_later cs ds \<Longrightarrow> gates_later cs ds"
  unfolding gates_later_def by (intro exI [of _ ds] exI [of _ "[]"]) simp

lemma gates_later_trans: "gates_later a b \<Longrightarrow> gates_later b c \<Longrightarrow> gates_later a c"
proof -
  assume "gates_later a b" "gates_later b c"
  then obtain d e f g where b: "b = d @ e" "list_all2 gate_later a d" and c: "c = f @ g" "list_all2 gate_later b f"
    unfolding gates_later_def by blast
  from b(1) c(2) obtain f1 f2 where f: "f = f1 @ f2" "list_all2 gate_later d f1" by (auto simp: list_all2_append1)
  have "list_all2 gate_later a f1"
    by (rule list_all2_trans [OF _ b(2) f(2)]) (rule gate_later_trans)
  with c(1) f(1) show ?thesis unfolding gates_later_def by (intro exI [of _ f1] exI [of _ "f2 @ g"]) simp
qed

section \<open>Counting pending gates\<close>

lemma pend_append [simp]: "pend i kind (cs @ ds) = pend i kind cs + pend i kind ds"
  by (simp add: pend_def)

lemma pend_simps [simp]: "pend i kind [] = 0" "pend i kind (c # cs) = (if pending_gate i kind c then 1 else 0) + pend i kind cs"
  by (simp_all add: pend_def)

lemma pend_0: "pend i kind cs = 0 \<longleftrightarrow> (\<forall>c \<in> set cs. \<not> pending_gate i kind c)"
  by (auto simp: pend_def filter_empty_conv)

lemma find_pend: "List.find (pending_gate i kind) cs = None \<longleftrightarrow> pend i kind cs = 0"
  by (simp add: find_None_ball pend_0)

lemma pending_gate_eq: "pending_gate i kind c \<Longrightarrow> pending_gate i' kind' c \<longleftrightarrow> i' = i \<and> kind' = kind"
  by (auto simp: pending_gate_def)

lemma in_line_refl [simp]: "in_line i False cs cs"
  by (simp add: in_line_def)

lemma in_line_review: "0 < pend i ''final_acceptance'' cs \<Longrightarrow> in_line i r cs cs"
  by (simp add: in_line_def)

lemma in_line_trans:
  assumes "in_line i r a b" and "in_line i False b c" and "pend i ''final_acceptance'' b \<le> pend i ''final_acceptance'' c"
  shows "in_line i r a c"
proof -
  have "pend i kind c \<le> max 1 (pend i kind a)" if "gate_kind kind" for kind
    using that assms(1,2) unfolding in_line_def by (metis max.cobounded1 max.left_idem max_def order_trans)
  moreover have "pend i' kind c \<le> pend i' kind a" if "i' \<noteq> i" for i' kind
    using that assms(1,2) unfolding in_line_def by (meson order_trans)
  ultimately show ?thesis using assms unfolding in_line_def by (auto intro: gates_later_trans)
qed

lemma in_line_then: "in_line i False a b \<Longrightarrow> in_line i r b c \<Longrightarrow> in_line i r a c"
proof -
  assume ab: "in_line i False a b" and bc: "in_line i r b c"
  then have "pend i kind c \<le> max 1 (pend i kind a)" if "gate_kind kind" for kind
    using that unfolding in_line_def by (metis max.cobounded1 max.left_idem max_def order_trans)
  moreover have "pend i' kind c \<le> pend i' kind a" if "i' \<noteq> i" for i' kind
    using that ab bc unfolding in_line_def by (meson order_trans)
  ultimately show ?thesis using ab bc unfolding in_line_def by (auto intro: gates_later_trans)
qed

text \<open>A new gate where none of its kind is pending.\<close>

lemma in_line_new:
  assumes "pend i (ck_kind c) cs = 0" and "ck_task c = i" and "r \<Longrightarrow> ck_kind c = ''final_acceptance'' \<and> ck_status c = ''pending''"
  shows "in_line i r cs (cs @ [c])"
  using assms by (auto simp: in_line_def pending_gate_def)

text \<open>Gates of one kind of the task are decided, one or all.\<close>

lemma pend_update:
  assumes "\<And>c. pending_gate i kind c \<Longrightarrow> ck_status (f c) \<noteq> ''pending'' "
  shows "pend i' kind' (update_first (pending_gate i kind) f cs) = pend i' kind' cs - (if i' = i \<and> kind' = kind then 1 else 0)"
  using assms by (induction cs) (auto simp: pending_gate_eq, auto simp: pending_gate_def)

lemma update_first_later:
  assumes "\<And>c. P c \<Longrightarrow> gate_later c (f c)"
  shows "list_all2 gate_later cs (update_first P f cs)"
  using assms by (induction cs) (auto simp: list_all2_refl)

lemma in_line_update:
  assumes "\<And>c. pending_gate i kind c \<Longrightarrow> ck_status (f c) \<noteq> ''pending''" and "\<And>c. pending_gate i kind c \<Longrightarrow> gate_later c (f c)"
  shows "in_line i False cs (update_first (pending_gate i kind) f cs)"
  using pend_update [of i kind f, OF assms(1)] update_first_later [of "pending_gate i kind" f, OF assms(2)]
  by (auto simp: in_line_def intro: gates_laterI)

section \<open>The state around the gates\<close>

definition gates_only :: "ctl_state \<Rightarrow> ctl_state \<Rightarrow> bool" where
  "gates_only st st' \<longleftrightarrow> apart st st' \<and> pc_decisions st' = pc_decisions st \<and> pc_projects st' = pc_projects st \<and>
     pc_workstreams st' = pc_workstreams st \<and> pc_artifacts st' = pc_artifacts st \<and> pc_attempts st' = pc_attempts st \<and>
     pc_runs st' = pc_runs st"

lemma gates_only_refl [simp]: "gates_only st st"
  by (simp add: gates_only_def)

lemma gates_only_trans [trans]: "gates_only a b \<Longrightarrow> gates_only b c \<Longrightarrow> gates_only a c"
  unfolding gates_only_def using apart_trans by auto

lemma gates_only_emit: "gates_only st st' \<Longrightarrow> gates_only st (emit seed ev st')"
  by (auto simp: gates_only_def apart_def intro: order_trans)

lemma gates_only_checkpoints: "gates_only st st' \<Longrightarrow> gates_only st (st'\<lparr>pc_checkpoints := cs\<rparr>)"
  by (simp add: gates_only_def apart_def)

lemma gates_only_tasks: "gates_only st st' \<Longrightarrow> gates_only st (st'\<lparr>pc_tasks := ts\<rparr>)"
  by (simp add: gates_only_def apart_def)

lemma control_id_gates: "control_id p s st = (i, st') \<Longrightarrow> gates_only st st' \<and> pc_checkpoints st' = pc_checkpoints st \<and> pc_tasks st' = pc_tasks st"
  by (auto simp: control_id_def gates_only_def apart_def)

lemmas gates_only_intros = gates_only_emit gates_only_checkpoints gates_only_tasks

lemma expire_pending_effect:
  "gates_only st (expire_pending kind s now t st) \<and> pc_tasks (expire_pending kind s now t st) = pc_tasks st \<and>
   in_line (kt_id t) False (pc_checkpoints st) (pc_checkpoints (expire_pending kind s now t st)) \<and>
   (kind \<noteq> ''final_acceptance'' \<longrightarrow>
     pend (kt_id t) ''final_acceptance'' (pc_checkpoints (expire_pending kind s now t st)) = pend (kt_id t) ''final_acceptance'' (pc_checkpoints st))"
proof -
  have later: "gate_later c (expire_gate s c)" if "pending_gate i kind c" for i c
    using that by (simp add: gate_later_def expire_gate_def pending_gate_def)
  have resolved: "ck_status (expire_gate s c) \<noteq> ''pending''" for c
    by (simp add: expire_gate_def)
  show ?thesis
    by (auto simp: expire_pending_def in_line_update resolved later pend_update intro!: gates_only_intros split: option.split)
qed

lemma sync_acceptance_effect:
  "gates_only st (sync_acceptance_gate now t st) \<and> pc_tasks (sync_acceptance_gate now t st) = pc_tasks st \<and>
   in_line (kt_id t) (kt_acceptance t = ''under_human_review'') (pc_checkpoints st) (pc_checkpoints (sync_acceptance_gate now t st))"
proof -
  obtain i st1 where i: "control_id ''checkpoint'' (kt_id t @ ''-final-acceptance'') st = (i, st1)" by fastforce
  have "pend (kt_id t) ''final_acceptance'' (pc_checkpoints st) = 0"
    if "List.find (pending_gate (kt_id t) ''final_acceptance'') (pc_checkpoints st) = None" using that by (simp add: find_pend)
  moreover have "0 < pend (kt_id t) ''final_acceptance'' (pc_checkpoints st)"
    if "List.find (pending_gate (kt_id t) ''final_acceptance'') (pc_checkpoints st) \<noteq> None" using that by (simp add: find_pend)
  ultimately show ?thesis using control_id_gates [OF i] expire_pending_effect
    unfolding sync_acceptance_gate_def i Let_def prod.case
    by (auto intro!: gates_only_intros in_line_review in_line_new simp: new_gate_def)
qed

lemma sync_archive_effect:
  "gates_only st (sync_archive_gate now t st) \<and> pc_tasks (sync_archive_gate now t st) = pc_tasks st \<and>
   in_line (kt_id t) False (pc_checkpoints st) (pc_checkpoints (sync_archive_gate now t st)) \<and>
   pend (kt_id t) ''final_acceptance'' (pc_checkpoints (sync_archive_gate now t st)) = pend (kt_id t) ''final_acceptance'' (pc_checkpoints st)"
  using expire_pending_effect by (simp add: sync_archive_gate_def)

lemma approve_gates_effect:
  "gates_only st (approve_gates now t ds cs st) \<and> pc_tasks (approve_gates now t ds cs st) = pc_tasks st \<and>
   pc_checkpoints (approve_gates now t ds cs st) =
     rev ds @ map (\<lambda>c. if pending_gate (kt_id t) ''dispatch'' c then approve_gate c else c) cs"
proof (induction cs arbitrary: ds st)
  case (Cons c cs)
  let ?st = "if pending_gate (kt_id t) ''dispatch'' c then emit ''checkpoint-auto-approved-dispatch'' (gate_event now ''checkpoint_approved''
          ''Dispatch approval granted automatically because the task was raised by a human.'' t (ck_id c)) st else st"
  have "gates_only st ?st" "pc_tasks ?st = pc_tasks st" by (auto intro!: gates_only_intros)
  with Cons [where ds = "(if pending_gate (kt_id t) ''dispatch'' c then approve_gate c else c) # ds" and st = ?st] show ?case
    by (auto intro: gates_only_trans)
qed (simp add: gates_only_checkpoints)

lemma dispatch_tasks_effect:
  "gates_only st (dispatch_tasks now t ds us st) \<and> pc_checkpoints (dispatch_tasks now t ds us st) = pc_checkpoints st \<and>
   pc_tasks (dispatch_tasks now t ds us st) =
     rev ds @ map (\<lambda>u. if undispatched (kt_id t) u then (dispatched u)\<lparr>kt_version := kt_version u + 1\<rparr> else u) us"
proof (induction us arbitrary: ds st)
  case (Cons u us)
  let ?st = "if undispatched (kt_id t) u then emit ''dispatch-auto-approved'' (task_event now ''policy_engine'' ''dispatch_auto_approved''
          ''Task dispatched automatically because it was raised by a human.'' t) st else st"
  have "gates_only st ?st" "pc_checkpoints ?st = pc_checkpoints st" by (auto intro!: gates_only_intros)
  with Cons [where ds = "(if undispatched (kt_id t) u then (dispatched u)\<lparr>kt_version := kt_version u + 1\<rparr> else u) # ds" and st = ?st] show ?case
    by (auto intro: gates_only_trans)
qed (simp add: gates_only_tasks)

lemma in_line_approve:
  "in_line i False cs (map (\<lambda>c. if pending_gate i ''dispatch'' c then approve_gate c else c) cs) \<and>
   pend i ''final_acceptance'' (map (\<lambda>c. if pending_gate i ''dispatch'' c then approve_gate c else c) cs) = pend i ''final_acceptance'' cs"
proof -
  let ?f = "\<lambda>c. if pending_gate i ''dispatch'' c then approve_gate c else c"
  have p: "pend i' kind (map ?f cs) = (if i' = i \<and> kind = ''dispatch'' then 0 else pend i' kind cs)" for i' kind
    by (induction cs) (auto simp: pending_gate_def approve_gate_def)
  have "list_all2 gate_later cs (map ?f cs)"
    by (induction cs) (auto simp: gate_later_def approve_gate_def pending_gate_def)
  then show ?thesis by (simp add: in_line_def p gates_laterI)
qed

end
