(* ===== verification/Control_Settle.thy ===== *)
theory Control_Settle
  imports Control_Gate_Facts
begin

text \<open>
  A task that is stored after its gates were brought in line has settled: the joint
  effect of the three functions that follow every change of a task.
\<close>

lemma update_first_nth:
  "update_first P f xs = (case first_index P xs of None \<Rightarrow> xs | Some j \<Rightarrow> xs[j := f (xs ! j)])"
  by (induction xs) (auto split: option.splits)

lemma length_update_first [simp]: "length (update_first P f xs) = length xs"
  by (induction xs) auto

lemma first_index_map_id: "list_all2 gentle ts us \<Longrightarrow> first_index (\<lambda>t. kt_id t = i) us = first_index (\<lambda>t. kt_id t = i) ts"
  by (induction rule: list_all2_induct) (auto simp: gentle_def same_owner_def)

lemma gentle_dispatched: "gentle u ((dispatched u)\<lparr>kt_version := n\<rparr>)" "gentle u (dispatched u)"
  by (simp_all add: dispatched_def gentle_def same_owner_def)

text \<open>The task as the dispatch gate leaves it when it asks for approval.\<close>

definition asked :: "ctl_task \<Rightarrow> ctl_task" where
  "asked t = t\<lparr>kt_dispatch := ''awaiting_approval'',
     kt_summary := ''Dispatch approval requested; waiting for a human decision before an agent can claim this task.'',
     kt_next := ''Approve or reject the dispatch checkpoint in the approvals inbox.'', kt_version := kt_version t + 1\<rparr>"

lemma gentle_asked: "gentle t (asked t)"
  by (simp add: asked_def gentle_def same_owner_def)

definition tasks_around :: "ctl_task \<Rightarrow> ctl_task list \<Rightarrow> ctl_task list \<Rightarrow> bool" where
  "tasks_around t ts ts' \<longleftrightarrow> list_all2 gentle ts ts' \<or> ts' = update_first (\<lambda>u. kt_id u = kt_id t) (\<lambda>_. asked t) ts"

lemma sync_dispatch_effect:
  "gates_only st (sync_dispatch_gate now t st) \<and> tasks_around t (pc_tasks st) (pc_tasks (sync_dispatch_gate now t st)) \<and>
   in_line (kt_id t) False (pc_checkpoints st) (pc_checkpoints (sync_dispatch_gate now t st)) \<and>
   pend (kt_id t) ''final_acceptance'' (pc_checkpoints (sync_dispatch_gate now t st)) = pend (kt_id t) ''final_acceptance'' (pc_checkpoints st)"
proof -
  obtain i st1 where i: "control_id ''checkpoint'' (kt_id t @ ''-dispatch'') st = (i, st1)" by fastforce
  let ?auto = "auto_approve_dispatch now t st"
  have auto: "gates_only st ?auto" "list_all2 gentle (pc_tasks st) (pc_tasks ?auto)"
    "in_line (kt_id t) False (pc_checkpoints st) (pc_checkpoints ?auto)"
    "pend (kt_id t) ''final_acceptance'' (pc_checkpoints ?auto) = pend (kt_id t) ''final_acceptance'' (pc_checkpoints st)"
    using approve_gates_effect [of st now t "[]" "pc_checkpoints st"] dispatch_tasks_effect [where now = now and t = t and ds = "[]"]
      in_line_approve [of "kt_id t" "pc_checkpoints st"]
    unfolding auto_approve_dispatch_def Let_def
    by (auto intro: gates_only_trans simp: list_all2_map2 list_all2_same gentle_dispatched)
  have ask: "in_line (kt_id t) False cs (cs @ [c])" if "\<not> (\<exists>c \<in> set cs. pending_gate (kt_id t) ''dispatch'' c)"
    "ck_kind c = ''dispatch''" "ck_task c = kt_id t" for cs c
    using that by (intro in_line_new) (auto simp: pend_0)
  show ?thesis using control_id_gates [OF i] auto
    unfolding sync_dispatch_gate_def i Let_def prod.case asked_def [symmetric]
    by (auto simp: tasks_around_def new_gate_def pending_gate_def intro!: gates_only_intros ask)
qed

lemma sync_gates_effect:
  "gates_only st (sync_gates now t st) \<and> tasks_around t (pc_tasks st) (pc_tasks (sync_gates now t st)) \<and>
   in_line (kt_id t) (kt_acceptance t = ''under_human_review'') (pc_checkpoints st) (pc_checkpoints (sync_gates now t st))"
proof -
  let ?a = "sync_acceptance_gate now t st" and ?b = "sync_archive_gate now t (sync_acceptance_gate now t st)"
  note a = sync_acceptance_effect [of st now t] and b = sync_archive_effect [of ?a now t] and c = sync_dispatch_effect [of ?b now t]
  from a b c have "gates_only st (sync_gates now t st)" unfolding sync_gates_def by (blast intro: gates_only_trans)
  moreover have "in_line (kt_id t) (kt_acceptance t = ''under_human_review'') (pc_checkpoints st) (pc_checkpoints (sync_gates now t st))"
    unfolding sync_gates_def
    by (rule in_line_trans [of _ _ _ "pc_checkpoints ?b"], rule in_line_trans [of _ _ _ "pc_checkpoints ?a"]) (use a b c in auto)
  ultimately show ?thesis using a b c unfolding sync_gates_def by simp
qed

text \<open>The task is stored over what the gates made of it.\<close>

lemma store_over:
  assumes "tasks_around t ts ts'"
  shows "\<exists>us. list_all2 gentle ts us \<and> update_first (\<lambda>u. kt_id u = kt_id t) (\<lambda>_. t) ts' = update_first (\<lambda>u. kt_id u = kt_id t) (\<lambda>_. t) us"
proof -
  have "update_first (\<lambda>u. kt_id u = kt_id t) (\<lambda>_. t) (update_first (\<lambda>u. kt_id u = kt_id t) (\<lambda>_. asked t) us) =
      update_first (\<lambda>u. kt_id u = kt_id t) (\<lambda>_. t) us" for us
    by (induction us) (auto simp: asked_def)
  with assms show ?thesis unfolding tasks_around_def by (metis list_all2_gentle_refl)
qed

lemma apart_gates: "gates_only st st' \<Longrightarrow> apart st st'"
  by (simp add: gates_only_def)

lemma apart_frame: "frame st st' \<Longrightarrow> apart st st'"
  by (simp add: frame_def)

lemma emit_apart: "apart st st' \<Longrightarrow> apart st (emit seed ev st')"
  by (auto simp: apart_def intro: order_trans)

text \<open>
  The shape of every settled task: the first task with its identifier, changed lawfully,
  after gates moved from \<open>cs\<close> and decisions were added.
\<close>

lemma settled:
  assumes task: "control_task st (kt_id t') = Some t" and owner: "same_owner t t'" and lawful: "known_status t \<longrightarrow> known_status t' \<and> lawful ds t t'"
    and deps: "kt_depends t' = kt_depends t \<or> clear_dependencies (pc_tasks st) t'"
    and before: "apart st st1" "pc_tasks st1 = pc_tasks st" "pc_decisions st1 = pc_decisions st @ ds"
    and gates: "in_line (kt_id t') False (pc_checkpoints st) (pc_checkpoints st1)"
    and after: "apart st st'" "pc_tasks st' = pc_tasks (store_task t' (sync_gates now t' st1))"
      "pc_checkpoints st' = pc_checkpoints (sync_gates now t' st1)" "pc_decisions st' = pc_decisions (sync_gates now t' st1)"
  shows "move st st'"
proof -
  let ?P = "\<lambda>u. kt_id u = kt_id t'"
  obtain us where us: "list_all2 gentle (pc_tasks st) us" "pc_tasks st' = update_first ?P (\<lambda>_. t') us"
    using store_over [of t' "pc_tasks st1" "pc_tasks (sync_gates now t' st1)"] sync_gates_effect [of st1 now t'] before(2) after(2)
    by (auto simp: store_task_def)
  obtain j where j: "first_index ?P (pc_tasks st) = Some j"
    using task first_index_None [of ?P "pc_tasks st"] by (cases "first_index ?P (pc_tasks st)") (auto simp: control_task_def dest: find_SomeD)
  have tj: "pc_tasks st ! j = t" "j < length (pc_tasks st)"
    using task first_index_find [OF j] first_index_Some [OF j] by (simp_all add: control_task_def)
  have ts': "pc_tasks st' = us[j := t']" using us j by (simp add: update_first_nth first_index_map_id)
  have len: "length us = length (pc_tasks st)" using us(1) by (simp add: list_all2_lengthD)
  show ?thesis
  proof (rule settle)
    show "\<forall>m < length (pc_tasks st). m \<noteq> j \<longrightarrow> gentle (pc_tasks st ! m) (pc_tasks st' ! m)"
      using us(1) ts' by (auto simp: list_all2_conv_all_nth)
    show "in_line (kt_id (pc_tasks st ! j)) (kt_acceptance (pc_tasks st' ! j) = ''under_human_review'') (pc_checkpoints st) (pc_checkpoints st')"
      using in_line_then [OF gates] sync_gates_effect [of st1 now t'] owner tj len ts' after(3) by (simp add: same_owner_def)
    show "pc_decisions st' = pc_decisions st @ ds" using after(4) before(3) sync_gates_effect [of st1 now t'] by (simp add: gates_only_def)
  qed (use tj ts' len owner lawful deps after(1) in auto)
qed

end
