(* ===== verification/Control_Updates.thy ===== *)
theory Control_Updates
  imports Control_Settle
begin

text \<open>
  An update of a task is a move: whatever its action, the stored task changes lawfully.
\<close>

section \<open>Normal forms are fixed\<close>

lemma normal_idem: "list_all (\<lambda>k. low_trim k = k) (other # known) \<Longrightarrow> normal known other (normal known other v) = normal known other v"
  by (auto simp: normal_def list_all_iff)

lemma normalize_task_state_idem [simp]: "normalize_task_state (normalize_task_state v) = normalize_task_state v"
  unfolding normalize_task_state_def by (rule normal_idem) code_simp

lemma normalize_acceptance_idem [simp]: "normalize_acceptance (normalize_acceptance v) = normalize_acceptance v"
  unfolding normalize_acceptance_def by (rule normal_idem) code_simp

section \<open>The steps of an update\<close>

lemma update_contract_effect:
  assumes "update_contract bypass req st t = Inr t'"
  shows "kt_id t' = kt_id t \<and> kt_project t' = kt_project t \<and> kt_state t' = kt_state t \<and> kt_acceptance t' = kt_acceptance t \<and>
    kt_acceptance_decision t' = kt_acceptance_decision t \<and> kt_archive_decision t' = kt_archive_decision t \<and>
    (kt_depends t' = kt_depends t \<or> clear_dependencies (pc_tasks st) t')"
  using assms unfolding update_contract_def validate_task_contract_def Let_def clear_dependencies_def
  by (auto split: if_splits)

lemma action_effect_action: "action_effect t action (req :: task_update) = Some r \<Longrightarrow> uq_action r = uq_action req"
proof -
  define keeps where "keeps x \<longleftrightarrow> (\<forall>r. x = Some r \<longrightarrow> uq_action r = uq_action req)" for x :: "task_update option"
  have rules: "keeps None" "uq_action r = uq_action req \<Longrightarrow> keeps (Some r)" "keeps x \<Longrightarrow> keeps y \<Longrightarrow> keeps (if c then x else y)" for r x y c
    by (simp_all add: keeps_def)
  have "keeps (action_effect t action req)"
    unfolding action_effect_def by (intro rules) simp_all
  then show "action_effect t action req = Some r \<Longrightarrow> uq_action r = uq_action req" by (simp add: keeps_def)
qed

lemma apply_task_action_effect:
  assumes "apply_task_action t req0 = Inr req"
  shows "uq_action req = uq_action req0 \<and> (low_trim (uq_action req) = ''unarchive'' \<longrightarrow> uq_state req = ''planned'')"
proof (cases "low_trim (uq_action req0) = []")
  case True
  with assms show ?thesis by (simp add: apply_task_action_def)
next
  case False
  with assms obtain r where r: "action_effect t (low_trim (uq_action req0)) req0 = Some r"
    and req: "uq_action req = uq_action r" "uq_state req = uq_state r"
    unfolding apply_task_action_def Let_def by (auto split: if_splits)
  have "uq_state r = ''planned''" if "low_trim (uq_action req0) = ''unarchive''"
    using r unfolding that by (simp add: action_effect_def split: if_splits) auto
  with action_effect_action [OF r] req show ?thesis by simp
qed

lemma update_pause_effect:
  assumes "update_pause now action req st t = (st', t')"
  shows "frame st st' \<and> kt_id t' = kt_id t \<and> kt_project t' = kt_project t \<and> kt_depends t' = kt_depends t \<and> kt_state t' = kt_state t \<and>
    kt_acceptance t' = kt_acceptance t \<and> kt_acceptance_decision t' = kt_acceptance_decision t"
  using assms unfolding update_pause_def Let_def by (auto simp: framing split: if_splits)

lemma change_state_effect:
  assumes "change_state now original req st t = Inr (st', t')"
  shows "frame st st' \<and> (\<exists>d s. t' = t\<lparr>kt_archive_decision := d, kt_state := s\<rparr> \<and>
    (s = kt_state t \<and> (trim_space (uq_state req) \<noteq> [] \<longrightarrow> trim_space (uq_state req) = kt_state t) \<or>
     s = normalize_task_state (trim_space (uq_state req)) \<and> (s = ''archived'' \<longrightarrow> kt_acceptance t = ''accepted'')))"
proof -
  define s where "s = normalize_task_state (trim_space (uq_state req))"
  show ?thesis
  proof (cases "trim_space (uq_state req) = [] \<or> trim_space (uq_state req) = kt_state t")
    case True
    with assms have "st' = st" "t' = t" by (auto simp: change_state_def)
    with True show ?thesis
      by (intro conjI exI [of _ "kt_archive_decision t"] exI [of _ "kt_state t"]) (auto simp: framing)
  next
    case False
    with assms have "s = ''archived'' \<longrightarrow> kt_acceptance t = ''accepted''" and t': "\<exists>d. t' = t\<lparr>kt_archive_decision := d, kt_state := s\<rparr>"
      and "frame st st'"
      unfolding change_state_def Let_def s_def [symmetric] by (auto simp: framing split: if_splits)
    then show ?thesis unfolding s_def by blast
  qed
qed

lemma change_acceptance_effect:
  assumes "change_acceptance now original req st t = Inr (st', t')"
  shows "frame st st' \<and> kt_id t' = kt_id t \<and> kt_project t' = kt_project t \<and> kt_depends t' = kt_depends t \<and> kt_state t' = kt_state t \<and>
    (kt_acceptance t' = kt_acceptance t \<and> kt_acceptance_decision t' = kt_acceptance_decision t \<or>
     kt_acceptance t' = normalize_acceptance (trim_space (uq_acceptance req)) \<and>
     (kt_acceptance t' = ''accepted'' \<longrightarrow> normalize_acceptance original = ''accepted'' \<and> kt_acceptance_decision t' = kt_acceptance_decision t) \<and>
     (normalize_acceptance original = ''accepted'' \<longrightarrow> kt_acceptance t' = ''accepted'' \<or> low_trim (uq_action req) = ''unarchive''))"
proof -
  define a where "a = normalize_acceptance (trim_space (uq_acceptance req))"
  define n where "n = normalize_acceptance original"
  define un where "un \<longleftrightarrow> low_trim (uq_action req) = ''unarchive'' \<and> original = ''accepted'' \<and> a = ''not_ready''"
  define checked where "checked \<longleftrightarrow> (if un then Inr () else validate_acceptance_transition original a (kt_state t) False) = Inr ()"
  have a: "normalize_acceptance a = a" by (simp add: a_def)
  have reach1: "n = ''accepted''" if checked "a = ''accepted''"
    using that unfolding checked_def un_def validate_acceptance_transition_def Let_def a n_def [symmetric] by (simp split: if_splits)
  have reach2: "a = ''accepted'' \<or> low_trim (uq_action req) = ''unarchive''" if checked "n = ''accepted''"
  proof (cases un)
    case True
    then show ?thesis by (simp add: un_def)
  next
    case False
    with that(1) show ?thesis
      unfolding checked_def validate_acceptance_transition_def Let_def a n_def [symmetric] that(2) by (simp split: if_splits)
  qed
  show ?thesis
  proof (cases "trim_space (uq_acceptance req) = [] \<or> trim_space (uq_acceptance req) = kt_acceptance t")
    case True
    with assms have "st' = st" "t' = t" by (auto simp: change_acceptance_def)
    then show ?thesis by (simp add: framing)
  next
    case False
    define late where "late \<longleftrightarrow> a = ''ready_for_acceptance'' \<or> a = ''under_human_review''"
    define drop where "drop \<longleftrightarrow> a \<noteq> ''accepted'' \<and> a \<noteq> ''rejected'' \<and> \<not> (low_trim (uq_action req) = ''unarchive'' \<and> original = ''accepted'')"
    from False assms have checked "frame st st'"
      and t': "t' = t\<lparr>kt_acceptance := a, kt_acceptance_decision := (if drop then [] else kt_acceptance_decision t), kt_archive_decision := []\<rparr>"
      unfolding change_acceptance_def Let_def a_def [symmetric] un_def [symmetric] checked_def late_def [symmetric] drop_def [symmetric]
      by (auto simp: framing split: if_splits)
    moreover have "a = ''accepted'' \<Longrightarrow> \<not> drop" by (simp add: drop_def)
    ultimately show ?thesis using reach1 reach2 unfolding n_def [symmetric] a_def [symmetric] by simp
  qed
qed

lemma override_step_effect:
  assumes "override_step now action os oa st t = Inr (st', t')"
  shows "gates_only st st' \<and> pc_tasks st' = pc_tasks st \<and> in_line (kt_id t) False (pc_checkpoints st) (pc_checkpoints st') \<and>
    (\<exists>a b. t' = t\<lparr>kt_summary := a, kt_next := b\<rparr>)"
proof -
  obtain i st1 where i: "control_id ''checkpoint'' (kt_id t @ ''-archive-override'') st = (i, st1)" by fastforce
  have same: "\<exists>a b. t = t\<lparr>kt_summary := a, kt_next := b\<rparr>" by (intro exI [of _ "kt_summary t"] exI [of _ "kt_next t"]) simp
  have new: "in_line (kt_id t) False cs (cs @ [c])" if "\<not> (\<exists>c \<in> set cs. pending_gate (kt_id t) ''archive_override'' c)"
    "ck_kind c = ''archive_override''" "ck_task c = kt_id t" for cs c
    using that by (intro in_line_new) (auto simp: pend_0)
  have "gates_only st u \<and> pc_tasks u = pc_tasks st \<and> in_line (kt_id t) False (pc_checkpoints st) (pc_checkpoints u)"
    if "request_archive_override now t st = Inr u" for u
    using that control_id_gates [OF i] unfolding request_archive_override_def i Let_def prod.case
    by (auto simp: new_gate_def split: if_splits intro!: gates_only_intros new)
  then show ?thesis using assms same unfolding override_step_def
    by (auto split: if_splits)
qed

section \<open>The whole update\<close>

text \<open>From the task after the phase action to the stored one.\<close>

lemma finish_update_effect:
  assumes finish: "finish_update env action os oa req st t = Inr st'"
  obtains t5 st4 where "apart st st4" "pc_tasks st4 = pc_tasks st" "pc_decisions st4 = pc_decisions st"
    "in_line (kt_id t) False (pc_checkpoints st) (pc_checkpoints st4)"
    "kt_id t5 = kt_id t" "kt_project t5 = kt_project t" "kt_depends t5 = kt_depends t"
    "st' = emit ''task-updated'' (task_event (en_now env) ''human'' ''task_updated'' (''Updated task '' @ kt_title t5 @ ''.'') t5)
       (store_task t5 (sync_gates (en_now env) t5 st4))"
    "kt_state t5 = kt_state t \<and> (trim_space (uq_state req) \<noteq> [] \<longrightarrow> trim_space (uq_state req) = kt_state t) \<or>
     kt_state t5 = normalize_task_state (trim_space (uq_state req)) \<and> (kt_state t5 = ''archived'' \<longrightarrow> kt_acceptance t = ''accepted'')"
    "kt_acceptance t5 = kt_acceptance t \<and> kt_acceptance_decision t5 = kt_acceptance_decision t \<or>
     kt_acceptance t5 = normalize_acceptance (trim_space (uq_acceptance req)) \<and>
     (kt_acceptance t5 = ''accepted'' \<longrightarrow> normalize_acceptance oa = ''accepted'' \<and> kt_acceptance_decision t5 = kt_acceptance_decision t) \<and>
     (normalize_acceptance oa = ''accepted'' \<longrightarrow> kt_acceptance t5 = ''accepted'' \<or> low_trim (uq_action req) = ''unarchive'')"
proof -
  obtain st1 t1 where 1: "update_pause (en_now env) action req st (update_fields req t) = (st1, t1)" by fastforce
  from finish obtain st2 t2 st3 t3 st4 t4 where
    2: "change_state (en_now env) os req st1 t1 = Inr (st2, t2)" and
    3: "change_acceptance (en_now env) oa req st2 t2 = Inr (st3, t3)" and
    4: "override_step (en_now env) action os oa st3 t3 = Inr (st4, t4)" and
    st': "st' = emit ''task-updated'' (task_event (en_now env) ''human'' ''task_updated'' (''Updated task '' @ kt_title t4 @ ''.'') (t4\<lparr>kt_version := kt_version t4 + 1\<rparr>))
       (store_task (t4\<lparr>kt_version := kt_version t4 + 1\<rparr>) (sync_gates (en_now env) (t4\<lparr>kt_version := kt_version t4 + 1\<rparr>) st4))"
    unfolding finish_update_def 1 Let_def by auto
  note e1 = update_pause_effect [OF 1] and e2 = change_state_effect [OF 2] and e3 = change_acceptance_effect [OF 3]
    and e4 = override_step_effect [OF 4]
  have fields: "kt_id (update_fields req t) = kt_id t" "kt_project (update_fields req t) = kt_project t"
    "kt_depends (update_fields req t) = kt_depends t" "kt_state (update_fields req t) = kt_state t"
    "kt_acceptance (update_fields req t) = kt_acceptance t" "kt_acceptance_decision (update_fields req t) = kt_acceptance_decision t"
    by (simp_all add: update_fields_def)
  have f: "frame st st3" using e1 e2 e3 by (blast intro: frame_trans)
  obtain d s where t2: "t2 = t1\<lparr>kt_archive_decision := d, kt_state := s\<rparr>" and
    s: "s = kt_state t1 \<and> (trim_space (uq_state req) \<noteq> [] \<longrightarrow> trim_space (uq_state req) = kt_state t1) \<or>
      s = normalize_task_state (trim_space (uq_state req)) \<and> (s = ''archived'' \<longrightarrow> kt_acceptance t1 = ''accepted'')"
    using e2 by blast
  obtain a b where t4: "t4 = t3\<lparr>kt_summary := a, kt_next := b\<rparr>" using e4 by blast
  have t1: "kt_id t1 = kt_id t" "kt_project t1 = kt_project t" "kt_depends t1 = kt_depends t" "kt_state t1 = kt_state t"
    "kt_acceptance t1 = kt_acceptance t" "kt_acceptance_decision t1 = kt_acceptance_decision t" using e1 fields by simp_all
  have t3: "kt_id t3 = kt_id t" "kt_project t3 = kt_project t" "kt_depends t3 = kt_depends t" "kt_state t3 = s"
    using e3 t1 by (simp_all add: t2)
  have "kt_acceptance t2 = kt_acceptance t" "kt_acceptance_decision t2 = kt_acceptance_decision t" using t1 by (simp_all add: t2)
  with e3 have acc: "kt_acceptance t3 = kt_acceptance t \<and> kt_acceptance_decision t3 = kt_acceptance_decision t \<or>
     kt_acceptance t3 = normalize_acceptance (trim_space (uq_acceptance req)) \<and>
     (kt_acceptance t3 = ''accepted'' \<longrightarrow> normalize_acceptance oa = ''accepted'' \<and> kt_acceptance_decision t3 = kt_acceptance_decision t) \<and>
     (normalize_acceptance oa = ''accepted'' \<longrightarrow> kt_acceptance t3 = ''accepted'' \<or> low_trim (uq_action req) = ''unarchive'')"
    by (simp only:)
  define t5 where "t5 = t4\<lparr>kt_version := kt_version t4 + 1\<rparr>"
  have t5: "kt_id t5 = kt_id t" "kt_project t5 = kt_project t" "kt_depends t5 = kt_depends t" "kt_state t5 = s"
    "kt_acceptance t5 = kt_acceptance t3" "kt_acceptance_decision t5 = kt_acceptance_decision t3" "kt_title t5 = kt_title t4"
    using t3 by (simp_all add: t5_def t4)
  have f4: "apart st st4" "pc_tasks st4 = pc_tasks st" "pc_decisions st4 = pc_decisions st"
    using f e4 by (auto simp: frame_def gates_only_def intro: apart_trans)
  have gates: "in_line (kt_id t) False (pc_checkpoints st) (pc_checkpoints st4)" using f e4 t3 by (simp add: frame_def)
  have st5: "st' = emit ''task-updated'' (task_event (en_now env) ''human'' ''task_updated'' (''Updated task '' @ kt_title t5 @ ''.'') t5)
       (store_task t5 (sync_gates (en_now env) t5 st4))"
    using st' by (simp only: t5_def [symmetric] t5(7))
  show thesis
    using that [OF f4 gates t5(1-3) st5] s acc by (simp only: t5(4-6) t1)
qed

lemma update_stored_effect:
  assumes "update_stored env bypass req0 t0 st = Inr (st', rid)"
  obtains t st1 t1 req where "update_contract bypass req0 st t0 = Inr t" "apply_task_action t req0 = Inr req"
    "phase_action env (low_trim (uq_action req0)) req st t = (st1, t1, Inr rid)"
    "finish_update env (low_trim (uq_action req0)) (kt_state t) (kt_acceptance t) req st1 t1 = Inr st'"
proof -
  from assms obtain t req where *: "update_contract bypass req0 st t0 = Inr t" "apply_task_action t req0 = Inr req"
    and **: "(case phase_action env (low_trim (uq_action req0)) req st t of
        (_, _, Inl e) \<Rightarrow> Inl e
      | (st1, t1, Inr rid) \<Rightarrow>
          and_then (finish_update env (low_trim (uq_action req0)) (kt_state t) (kt_acceptance t) req st1 t1) (\<lambda>st2. Inr (st2, rid))) = Inr (st', rid)"
    unfolding update_stored_def Let_def and_then_Inr_iff by blast
  from ** * show thesis by (auto split: prod.splits sum.splits intro: that)
qed

lemma update_stored_move:
  assumes update: "update_stored env bypass req0 t0 st = Inr (st', rid)" and stored: "control_task st (kt_id t0) = Some t0"
  shows "move st st'"
proof -
  obtain t st1 t1 req where c: "update_contract bypass req0 st t0 = Inr t" and a: "apply_task_action t req0 = Inr req"
    and p: "phase_action env (low_trim (uq_action req0)) req st t = (st1, t1, Inr rid)"
    and f: "finish_update env (low_trim (uq_action req0)) (kt_state t) (kt_acceptance t) req st1 t1 = Inr st'"
    by (rule update_stored_effect [OF update])
  have w: "frame st st1" "handled t t1" using phase_action_works [of st t env "low_trim (uq_action req0)" req] p by simp_all
  obtain t5 st4 where st4: "apart st1 st4" "pc_tasks st4 = pc_tasks st1" "pc_decisions st4 = pc_decisions st1"
    "in_line (kt_id t1) False (pc_checkpoints st1) (pc_checkpoints st4)"
    and t5: "kt_id t5 = kt_id t1" "kt_project t5 = kt_project t1" "kt_depends t5 = kt_depends t1"
    and st': "st' = emit ''task-updated'' (task_event (en_now env) ''human'' ''task_updated'' (''Updated task '' @ kt_title t5 @ ''.'') t5)
       (store_task t5 (sync_gates (en_now env) t5 st4))"
    and state: "kt_state t5 = kt_state t1 \<and> (trim_space (uq_state req) \<noteq> [] \<longrightarrow> trim_space (uq_state req) = kt_state t1) \<or>
     kt_state t5 = normalize_task_state (trim_space (uq_state req)) \<and> (kt_state t5 = ''archived'' \<longrightarrow> kt_acceptance t1 = ''accepted'')"
    and acc: "kt_acceptance t5 = kt_acceptance t1 \<and> kt_acceptance_decision t5 = kt_acceptance_decision t1 \<or>
     kt_acceptance t5 = normalize_acceptance (trim_space (uq_acceptance req)) \<and>
     (kt_acceptance t5 = ''accepted'' \<longrightarrow> normalize_acceptance (kt_acceptance t) = ''accepted'' \<and> kt_acceptance_decision t5 = kt_acceptance_decision t1) \<and>
     (normalize_acceptance (kt_acceptance t) = ''accepted'' \<longrightarrow> kt_acceptance t5 = ''accepted'' \<or> low_trim (uq_action req) = ''unarchive'')"
    by (rule finish_update_effect [OF f])
  note contract = update_contract_effect [OF c]
  have un: "low_trim (uq_action req) = ''unarchive'' \<Longrightarrow> uq_state req = ''planned''" using apply_task_action_effect [OF a] by simp
  have planned: "trim_space ''planned'' = ''planned''" "normalize_task_state ''planned'' = ''planned''" by code_simp+
  have g: "gentle t t1" "known_status t \<longrightarrow> known_status t1" using w(2) by (simp_all add: handled_def)
  have known: "known_status t5" if k: "known_status t"
    using state acc g(2) k by (auto simp: known_status_def)
  have lawful: "lawful [] t t5" if k: "known_status t"
  proof -
    have n: "normalize_acceptance (kt_acceptance t) = kt_acceptance t" using k by (simp add: known_status_def)
    have notarch: "kt_state t5 \<noteq> ''archived''" if "low_trim (uq_action req) = ''unarchive''"
      using state un [OF that] planned by auto
    have w': "\<not> at_work ''archived''" "\<not> unsettled ''accepted''" by (simp_all add: at_work_def unsettled_def)
    have A: "kt_acceptance t = ''accepted'' \<and> kt_acceptance_decision t5 = kt_acceptance_decision t" if "kt_acceptance t5 = ''accepted''"
      using acc that n g(1) w'(2) unfolding gentle_def by metis
    have B: "kt_acceptance t5 = ''accepted'' \<or> kt_state t = ''archived'' \<and> kt_acceptance t \<noteq> ''accepted''" if "kt_state t5 = ''archived''"
    proof (cases "kt_acceptance t = ''accepted''")
      case True
      have "kt_acceptance t1 = ''accepted''" using state that True g(1) w' unfolding gentle_def by metis
      with acc n True notarch that show ?thesis by metis
    next
      case False
      with g(1) w'(2) have "kt_acceptance t1 \<noteq> ''accepted''" unfolding gentle_def by metis
      with state that have "kt_state t1 = ''archived''" by metis
      with g(1) w'(1) False show ?thesis unfolding gentle_def by metis
    qed
    show ?thesis using A B by (simp add: lawful_def)
  qed
  have start: "kt_state t0 = kt_state t" "kt_acceptance t0 = kt_acceptance t" "kt_acceptance_decision t0 = kt_acceptance_decision t"
    using contract by simp_all
  then have "known_status t0 = known_status t" "lawful [] t0 t5 = lawful [] t t5" by (simp_all add: known_status_def lawful_def)
  with known lawful have law: "known_status t0 \<longrightarrow> known_status t5 \<and> lawful [] t0 t5" by simp
  have ids: "kt_id t5 = kt_id t0" "kt_project t5 = kt_project t0" "kt_depends t5 = kt_depends t" "kt_id t1 = kt_id t0" "kt_id t = kt_id t0" "kt_project t = kt_project t0"
    using t5 g(1) contract by (simp_all add: gentle_def same_owner_def)
  have deps: "kt_depends t5 = kt_depends t0 \<or> clear_dependencies (pc_tasks st) t5"
    using contract ids unfolding clear_dependencies_def by metis
  show ?thesis
  proof (rule settled [of st t5 t0 "[]" st4])
    show "apart st st4" using w(1) st4(1) by (blast intro: apart_trans apart_frame)
    then have "apart st (sync_gates (en_now env) t5 st4)"
      using sync_gates_effect [of st4 "en_now env" t5] by (blast intro: apart_trans apart_gates)
    then show "apart st st'" unfolding st' by (intro emit_apart) (simp add: apart_def store_task_def)
  qed (use stored ids law deps w(1) st4 in \<open>auto simp: st' same_owner_def frame_def store_task_def\<close>)
qed

lemma control_task_id: "control_task st i = Some t \<Longrightarrow> kt_id t = i \<and> t \<in> set (pc_tasks st)"
  by (auto simp: control_task_def dest: find_SomeD)

theorem update_task_move: "update_task env i req st = Inr (st', rid) \<Longrightarrow> move st st'"
  unfolding update_task_def Let_def
  using update_stored_move control_task_id by (fastforce split: if_splits option.splits)

end
