(* ===== verification/Control_Decides.thy ===== *)
theory Control_Decides
  imports Control_Updates
begin

text \<open>
  A decision on a checkpoint is a move: it resolves that gate and no other, and lets its
  task be accepted or archived only on the record of the decision.
\<close>

lemma guarded_Inr_iff: "(if c then Inl e else r) = Inr x \<longleftrightarrow> \<not> c \<and> r = Inr x"
  by simp

lemma emit_reads: "n \<le> pc_reads st \<Longrightarrow> n \<le> pc_reads (emit seed ev st)"
  by (rule order_trans [OF _ emit_simps(14)])

lemma replace_found:
  assumes "List.find P cs = Some c" and "gate_later c c'" and "ck_status c' \<noteq> ''pending''"
  shows "list_all2 gate_later cs (update_first P (\<lambda>_. c') cs) \<and>
    (\<forall>i kind. pend i kind cs = pend i kind (update_first P (\<lambda>_. c') cs) + (if pending_gate i kind c then 1 else 0))"
  using assms by (induction cs) (auto simp: list_all2_refl pending_gate_def split: if_splits)

lemma replaced_in_line:
  assumes "List.find P cs = Some c" and "gate_later c c'" and "ck_status c' \<noteq> ''pending''"
  shows "gates_later cs (update_first P (\<lambda>_. c') cs) \<and> in_line (ck_task c) False cs (update_first P (\<lambda>_. c') cs) \<and>
    (\<forall>i kind. pend i kind (update_first P (\<lambda>_. c') cs) \<le> pend i kind cs) \<and>
    (\<forall>i kind. i \<noteq> ck_task c \<longrightarrow> pend i kind (update_first P (\<lambda>_. c') cs) = pend i kind cs)"
proof -
  have "gates_later cs (update_first P (\<lambda>_. c') cs)" using replace_found [OF assms] by (blast intro: gates_laterI)
  with replace_found [OF assms] show ?thesis by (auto simp: in_line_def pending_gate_def)
qed

lemma decide_gate_effect:
  "ck_id (decide_gate action c) = ck_id c" "ck_task (decide_gate action c) = ck_task c" "ck_kind (decide_gate action c) = ck_kind c"
  "ck_status (decide_gate action c) \<noteq> ''pending''"
  by (simp_all add: decide_gate_def Let_def)

lemma decide_task_effect:
  assumes "decide_task fp kind action did t = Inr t'"
  shows "same_owner t t' \<and> kt_depends t' = kt_depends t"
  using assms unfolding decide_task_def Let_def by (auto simp: same_owner_def split: if_splits)

text \<open>What each action does to the status of the task.\<close>

lemma decide_task_status:
  assumes "decide_task fp kind action did t = Inr t'"
  shows "action = ''approve'' \<and> kind = ''archive_override'' \<and> kt_state t' = ''archived'' \<and> kt_acceptance t' = ''not_ready'' \<or>
    action = ''approve'' \<and> kind \<noteq> ''archive_override'' \<and> kt_state t' = kt_state t \<and> kt_acceptance t' = ''accepted'' \<and> kt_acceptance_decision t' = did \<or>
    action = ''reject'' \<and> kind = ''archive_override'' \<and> kt_state t' = kt_state t \<and> kt_acceptance t' = kt_acceptance t \<and>
      kt_acceptance_decision t' = kt_acceptance_decision t \<or>
    action = ''reject'' \<and> kind \<noteq> ''archive_override'' \<and> kt_state t' = ''running'' \<and> kt_acceptance t' = ''rejected'' \<or>
    action \<noteq> ''approve'' \<and> action \<noteq> ''reject'' \<and> kt_state t' = ''blocked'' \<and> kt_acceptance t' = ''not_ready''"
proof -
  define over where "over \<longleftrightarrow> kind = ''archive_override''"
  define ship where "ship \<longleftrightarrow> kind = ''dispatch''"
  have "\<not> (over \<and> ship)" by (auto simp: over_def ship_def)
  with assms show ?thesis unfolding decide_task_def Let_def over_def [symmetric] ship_def [symmetric]
    by (cases "action = ''approve''"; cases "action = ''reject''"; cases over; cases ship) auto
qed

lemma known_values: "normalize_acceptance ''accepted'' = ''accepted''" "normalize_acceptance ''rejected'' = ''rejected''"
  "normalize_task_state ''archived'' = ''archived''" "normalize_task_state ''blocked'' = ''blocked''"
  by code_simp+

lemma decide_task_lawful:
  assumes t': "decide_task fp kind action did t = Inr t'" and known: "known_status t"
    and d: "de_id d = did" "de_task d = kt_id t" "de_type d = decision_name kind action" "de_actor d = ''human''"
  shows "known_status t' \<and> lawful [d] t t'"
proof -
  have own: "kt_id t' = kt_id t" using decide_task_effect [OF t'] by (simp add: same_owner_def)
  show ?thesis using decide_task_status [OF t']
  proof (elim disjE conjE)
    assume "action = ''approve''" "kind = ''archive_override''" "kt_state t' = ''archived''" "kt_acceptance t' = ''not_ready''"
    then show ?thesis using d own by (simp add: known_status_def lawful_def waives_def known_values known_not_ready decision_name_def)
  next
    assume "action = ''approve''" "kind \<noteq> ''archive_override''" "kt_state t' = kt_state t" "kt_acceptance t' = ''accepted''" "kt_acceptance_decision t' = did"
    then show ?thesis using d own known by (simp add: known_status_def lawful_def grants_def known_values decision_name_def)
  next
    assume "kt_state t' = kt_state t" "kt_acceptance t' = kt_acceptance t" "kt_acceptance_decision t' = kt_acceptance_decision t"
    then show ?thesis using known by (simp add: known_status_def lawful_def)
  qed (simp_all add: known_status_def lawful_def known_values known_not_ready known_states)
qed

lemma settled_decision:
  assumes "decide_owner fp now c action did st3 = Inr st'" and "control_task st3 (ck_task c) = Some t"
  obtains t2 st4 where "decide_task fp (ck_kind c) action did t = Inr t2" "gates_only st3 st4" "pc_tasks st4 = pc_tasks st3"
    "pc_checkpoints st4 = pc_checkpoints st3"
    "gates_only (sync_gates now (t2\<lparr>kt_version := kt_version t2 + 1\<rparr>) st4) st'"
    "pc_tasks st' = pc_tasks (store_task (t2\<lparr>kt_version := kt_version t2 + 1\<rparr>) (sync_gates now (t2\<lparr>kt_version := kt_version t2 + 1\<rparr>) st4))"
    "pc_checkpoints st' = pc_checkpoints (sync_gates now (t2\<lparr>kt_version := kt_version t2 + 1\<rparr>) st4)"
proof -
  define st4 where "st4 = (if action = ''approve'' \<and> ck_kind c = ''archive_override'' then
      emit ''task-state-changed'' (task_event now ''human'' ''task_state_changed''
        (''Task state changed from '' @ kt_state t @ '' to archived via approve.'') t) st3 else st3)"
  from assms(1) obtain t2 where t2: "decide_task fp (ck_kind c) action did t = Inr t2" and
    st': "\<exists>a b c d. emit a b (emit c d (store_task (t2\<lparr>kt_version := kt_version t2 + 1\<rparr>)
       (sync_gates now (t2\<lparr>kt_version := kt_version t2 + 1\<rparr>) st4))) = st'"
    unfolding decide_owner_def Let_def assms(2) option.case st4_def [symmetric] and_then_Inr_iff sum.inject by blast
  show thesis
  proof (rule that [of t2 st4])
    show "gates_only st3 st4" "pc_tasks st4 = pc_tasks st3" "pc_checkpoints st4 = pc_checkpoints st3"
      by (auto simp: st4_def intro!: gates_only_intros)
    show "gates_only (sync_gates now (t2\<lparr>kt_version := kt_version t2 + 1\<rparr>) st4) st'"
      using st' by (auto simp: store_task_def intro!: gates_only_intros)
  qed (use t2 st' in \<open>auto simp: store_task_def\<close>)
qed

text \<open>A decision that succeeds: the gate, the record of the decision, and the state its task is settled in.\<close>

lemma decide_checkpoint_parts:
  assumes "decide_checkpoint fp now cid action0 st = Inr st'"
  obtains c0 c2 d st3 where
    "List.find (\<lambda>c. ck_id c = cid) (pc_checkpoints st) = Some c0" "ck_status c0 = ''pending''"
    "c2 = (decide_gate (low_trim action0) c0)\<lparr>ck_resolved_by := de_id d, ck_version := ck_version c0 + 1\<rparr>"
    "de_type d = decision_name (ck_kind c0) (low_trim action0)" "de_actor d = ''human''" "de_task d = ck_task c0" "de_checkpoint d = ck_id c0"
    "decide_owner fp now c2 (low_trim action0) (de_id d) st3 = Inr st'"
    "apart st st3" "pc_tasks st3 = pc_tasks st" "pc_decisions st3 = pc_decisions st @ [d]"
    "pc_checkpoints st3 = update_first (\<lambda>c. ck_id c = cid) (\<lambda>_. c2) (pc_checkpoints st)"
    "ck_kind c0 = ''final_acceptance'' \<and> low_trim action0 = ''approve'' \<longrightarrow> validate_final_approval st c0 = Inr ()"
proof -
  define action where "action = low_trim action0"
  from assms obtain c0 where c0: "List.find (\<lambda>c. ck_id c = cid) (pc_checkpoints st) = Some c0" "ck_status c0 = ''pending''"
    unfolding decide_checkpoint_def Let_def action_def [symmetric] guarded_Inr_iff
    by (cases "List.find (\<lambda>c. ck_id c = cid) (pc_checkpoints st)") (simp_all only: option.case guarded_Inr_iff sum.distinct not_not simp_thms)
  define name where "name = decision_name (ck_kind c0) action"
  obtain did st1 where did: "control_id ''decision'' name st = (did, st1)" by fastforce
  define d where "d = \<lparr>de_kind = activity_kind (ck_kind c0), de_id = did, de_type = name, de_actor = ''human'', de_time = now,
     de_summary = ck_summary (decide_gate action c0), de_project = checkpoint_project st (ck_task c0),
     de_workstream = checkpoint_workstream st (ck_task c0), de_task = ck_task c0, de_checkpoint = ck_id c0\<rparr>"
  define c2 where "c2 = (decide_gate action c0)\<lparr>ck_resolved_by := did, ck_version := ck_version c0 + 1\<rparr>"
  note same = control_id_gates [OF did]
  from assms have "\<exists>x a b. (if ck_kind c0 = ''final_acceptance'' \<and> action = ''approve'' then validate_final_approval st c0 else Inr ()) = Inr x \<and>
      decide_owner fp now c2 action did (emit a b (st1\<lparr>pc_decisions := pc_decisions st1 @ [d],
        pc_checkpoints := update_first (\<lambda>c. ck_id c = cid) (\<lambda>_. c2) (pc_checkpoints st1)\<rparr>)) = Inr st'"
    unfolding decide_checkpoint_def Let_def action_def [symmetric] c0(1) option.case name_def [symmetric] did prod.case
      d_def [symmetric] c2_def [symmetric] guarded_Inr_iff and_then_Inr_iff by blast
  then obtain x a b where "(if ck_kind c0 = ''final_acceptance'' \<and> action = ''approve'' then validate_final_approval st c0 else Inr ()) = Inr x"
    and owner: "decide_owner fp now c2 action did (emit a b (st1\<lparr>pc_decisions := pc_decisions st1 @ [d],
        pc_checkpoints := update_first (\<lambda>c. ck_id c = cid) (\<lambda>_. c2) (pc_checkpoints st1)\<rparr>)) = Inr st'" by blast
  from this(1) have valid: "ck_kind c0 = ''final_acceptance'' \<and> action = ''approve'' \<longrightarrow> validate_final_approval st c0 = Inr ()"
    by (intro impI) simp
  moreover have "pc_decisions st1 = pc_decisions st" using same by (simp add: gates_only_def)
  ultimately show thesis using same c0 owner valid
    by (intro that [of c0 c2 d "emit a b (st1\<lparr>pc_decisions := pc_decisions st1 @ [d],
        pc_checkpoints := update_first (\<lambda>c. ck_id c = cid) (\<lambda>_. c2) (pc_checkpoints st1)\<rparr>)"])
      (auto simp: gates_only_def apart_def action_def d_def name_def c2_def intro: emit_reads)
qed

theorem decide_checkpoint_move:
  assumes "decide_checkpoint fp now cid action0 st = Inr st'"
  shows "move st st'"
proof -
  define action where "action = low_trim action0"
  obtain c0 c2 d st3 where c0: "List.find (\<lambda>c. ck_id c = cid) (pc_checkpoints st) = Some c0" "ck_status c0 = ''pending''"
    and c2': "c2 = (decide_gate action c0)\<lparr>ck_resolved_by := de_id d, ck_version := ck_version c0 + 1\<rparr>"
    and d: "de_type d = decision_name (ck_kind c0) action" "de_actor d = ''human''" "de_task d = ck_task c0"
    and owner: "decide_owner fp now c2 action (de_id d) st3 = Inr st'" and apart3: "apart st st3"
    and st3: "pc_tasks st3 = pc_tasks st" "pc_decisions st3 = pc_decisions st @ [d]"
      "pc_checkpoints st3 = update_first (\<lambda>c. ck_id c = cid) (\<lambda>_. c2) (pc_checkpoints st)"
    using decide_checkpoint_parts [OF assms] unfolding action_def [symmetric] by metis
  have c2: "gate_later c0 c2" "ck_status c2 \<noteq> ''pending''" "ck_task c2 = ck_task c0" "ck_kind c2 = ck_kind c0"
    using c0(2) by (simp_all add: c2' decide_gate_effect gate_later_def)
  note cs = replaced_in_line [OF c0(1) c2(1,2), folded st3(3)]
  show ?thesis
  proof (cases "control_task st (ck_task c0)")
    case None
    then have "control_task st3 (ck_task c2) = None" using st3(1) c2(3) by (simp add: control_task_def)
    with owner have st': "st' = st3" unfolding decide_owner_def by (simp only: option.case sum.inject)
    from None have "kt_id t \<noteq> ck_task c0" if "t \<in> set (pc_tasks st)" for t
      using that by (auto simp: control_task_def find_None_ball)
    then have other: "\<forall>t \<in> set (pc_tasks st). pend (kt_id t) ''final_acceptance'' (pc_checkpoints st3) =
        pend (kt_id t) ''final_acceptance'' (pc_checkpoints st)"
      using cs by blast
    show ?thesis unfolding st'
      by (rule move.resolve [of st st3 "[d]"]) (use cs st3 apart3 other in simp_all)
  next
    case (Some t)
    then have t: "control_task st3 (ck_task c2) = Some t" "kt_id t = ck_task c0"
      using st3(1) c2(3) control_task_id [OF Some] by (simp_all add: control_task_def)
    obtain t2 st4 where t2: "decide_task fp (ck_kind c2) action (de_id d) t = Inr t2" and st4: "gates_only st3 st4" "pc_tasks st4 = pc_tasks st3"
      "pc_checkpoints st4 = pc_checkpoints st3" and last:
      "gates_only (sync_gates now (t2\<lparr>kt_version := kt_version t2 + 1\<rparr>) st4) st'"
      "pc_tasks st' = pc_tasks (store_task (t2\<lparr>kt_version := kt_version t2 + 1\<rparr>) (sync_gates now (t2\<lparr>kt_version := kt_version t2 + 1\<rparr>) st4))"
      "pc_checkpoints st' = pc_checkpoints (sync_gates now (t2\<lparr>kt_version := kt_version t2 + 1\<rparr>) st4)"
      by (rule settled_decision [OF owner t(1)])
    define t5 where "t5 = t2\<lparr>kt_version := kt_version t2 + 1\<rparr>"
    note last = last [folded t5_def]
    have t5: "same_owner t t5" "kt_depends t5 = kt_depends t" using decide_task_effect [OF t2] by (simp_all add: t5_def same_owner_def)
    have law: "known_status t \<longrightarrow> known_status t5 \<and> lawful [d] t t5"
      using decide_task_lawful [OF t2, of d] t(2) c2(4) d
      by (simp add: t5_def known_status_def lawful_def grants_def waives_def)
    have id5: "kt_id t5 = kt_id t" using t5(1) by (simp add: same_owner_def)
    show ?thesis
    proof (rule settled [of st t5 t "[d]" st4])
      show "apart st st4" using apart3 st4(1) by (blast intro: apart_trans apart_gates)
      then show "apart st st'" using sync_gates_effect [of st4 now t5] last(1) by (blast intro: apart_trans apart_gates)
      show "control_task st (kt_id t5) = Some t" using Some id5 t(2) by simp
      show "in_line (kt_id t5) False (pc_checkpoints st) (pc_checkpoints st4)" using cs st4(3) id5 t(2) by simp
    qed (use t5 law last st3 st4 in \<open>auto simp: gates_only_def\<close>)
  qed
qed

text \<open>The task of a decided gate, as it is stored.\<close>

lemma stored_decision:
  assumes owner: "decide_owner fp now c action did st3 = Inr st'" and t: "control_task st3 (ck_task c) = Some t"
  obtains t' where "decide_task fp (ck_kind c) action did t = Inr t'" and "pc_decisions st' = pc_decisions st3"
    and "control_task st' (ck_task c) = Some (t'\<lparr>kt_version := kt_version t' + 1\<rparr>)"
proof -
  obtain t2 st4 where t2: "decide_task fp (ck_kind c) action did t = Inr t2" and st4: "gates_only st3 st4" "pc_tasks st4 = pc_tasks st3"
    and last: "gates_only (sync_gates now (t2\<lparr>kt_version := kt_version t2 + 1\<rparr>) st4) st'"
      "pc_tasks st' = pc_tasks (store_task (t2\<lparr>kt_version := kt_version t2 + 1\<rparr>) (sync_gates now (t2\<lparr>kt_version := kt_version t2 + 1\<rparr>) st4))"
    by (rule settled_decision [OF owner t])
  define t5 where "t5 = t2\<lparr>kt_version := kt_version t2 + 1\<rparr>"
  have i: "kt_id t5 = ck_task c" using decide_task_effect [OF t2] control_task_id [OF t] by (simp add: t5_def same_owner_def)
  obtain us where us: "list_all2 gentle (pc_tasks st3) us" "pc_tasks st' = update_first (\<lambda>u. kt_id u = kt_id t5) (\<lambda>_. t5) us"
    using store_over [of t5 "pc_tasks st4" "pc_tasks (sync_gates now t5 st4)"] sync_gates_effect [of st4 now t5] last(2) st4(2)
    by (auto simp: store_task_def t5_def)
  have "\<exists>u \<in> set us. kt_id u = kt_id t5"
    using us(1) t i unfolding control_task_def by (induction rule: list_all2_induct) (auto simp: gentle_def same_owner_def split: if_splits)
  then have "List.find (\<lambda>u. kt_id u = kt_id t5) (update_first (\<lambda>u. kt_id u = kt_id t5) (\<lambda>_. t5) us) = Some t5"
    by (induction us) auto
  then have "control_task st' (ck_task c) = Some t5" using us(2) i by (simp add: control_task_def)
  moreover have "pc_decisions st' = pc_decisions st3"
    using last(1) st4(1) sync_gates_effect [of st4 now t5] by (simp add: gates_only_def t5_def)
  ultimately show thesis using that t2 by (simp add: t5_def)
qed

end
