(* ===== verification/Control_Edits.thy ===== *)
theory Control_Edits
  imports Control_Decides
begin

text \<open>
  Everything else is a sequence of moves too: new tasks, tool runs, pausing and takeover,
  what agents call, and the normal form before a state is saved.
\<close>

section \<open>Gentle edits\<close>

lemma editI:
  "apart st st' \<Longrightarrow> list_all2 gentle (pc_tasks st) (pc_tasks st') \<Longrightarrow> pc_checkpoints st' = pc_checkpoints st \<Longrightarrow>
   pc_decisions st' = pc_decisions st \<Longrightarrow> move st st'"
  by (rule move.edit [of st st' "[]"]) simp_all

lemma frame_move: "frame st st' \<Longrightarrow> move st st'"
  by (rule move.aside) (simp_all add: frame_def)

lemma emit_move: "move st (emit seed ev st)"
  by (rule frame_move) (simp add: framing)

lemma control_id_move: "control_id p s st = (i, st') \<Longrightarrow> move st st'"
  by (rule frame_move) (rule control_id_frame)

lemma gentle_list_update: "j < length ts \<Longrightarrow> gentle (ts ! j) t \<Longrightarrow> list_all2 gentle ts (ts[j := t])"
  by (auto simp: list_all2_conv_all_nth nth_list_update)

lemma put_task_move: "j < length (pc_tasks st) \<Longrightarrow> gentle (pc_tasks st ! j) t \<Longrightarrow> move st (put_task j t st)"
  by (rule editI) (simp_all add: put_task_def apart_def gentle_list_update)

lemma map_tasks_move: "(\<And>t. t \<in> set (pc_tasks st) \<Longrightarrow> gentle t (f t)) \<Longrightarrow> pc_tasks st' = map f (pc_tasks st) \<Longrightarrow> apart st st' \<Longrightarrow>
   pc_checkpoints st' = pc_checkpoints st \<Longrightarrow> pc_decisions st' = pc_decisions st \<Longrightarrow> move st st'"
  by (rule editI) (simp_all add: list_all2_map2 list_all2_same)

lemma then_move: "moves a b \<Longrightarrow> move b c \<Longrightarrow> moves a c"
  by (rule rtranclp.rtrancl_into_rtrancl)

lemma gentle_quiet:
  "gentle t (u\<lparr>kt_dispatch := a\<rparr>) = gentle t u" "gentle t (u\<lparr>kt_claimed_by := a\<rparr>) = gentle t u" "gentle t (u\<lparr>kt_version := n\<rparr>) = gentle t u"
  "gentle t (u\<lparr>kt_pause := a\<rparr>) = gentle t u" "gentle t (u\<lparr>kt_summary := a\<rparr>) = gentle t u" "gentle t (u\<lparr>kt_next := a\<rparr>) = gentle t u"
  "gentle t (u\<lparr>kt_baseline := a\<rparr>) = gentle t u" "gentle t (u\<lparr>kt_failures := n\<rparr>) = gentle t u" "gentle t (u\<lparr>kt_passed := b\<rparr>) = gentle t u"
  "gentle t (u\<lparr>kt_sessions := ss\<rparr>) = gentle t u" "gentle t (u\<lparr>kt_resume := a\<rparr>) = gentle t u" "gentle t (u\<lparr>kt_restart := b\<rparr>) = gentle t u"
  "gentle t (u\<lparr>kt_checkpoint_after := a\<rparr>) = gentle t u"
  by (simp_all add: gentle_def same_owner_def)

lemma gentle_lawful: "gentle t t' \<Longrightarrow> known_status t \<longrightarrow> known_status t' \<and> lawful [] t t'"
proof -
  assume g: "gentle t t'"
  have w: "\<not> at_work ''archived''" "\<not> unsettled ''accepted''" by (simp_all add: at_work_def unsettled_def)
  have "known_status t \<Longrightarrow> known_status t'"
    using g at_work_known unsettled_known unfolding gentle_def known_status_def by metis
  moreover have "lawful [] t t'" using g w unfolding gentle_def lawful_def by metis
  ultimately show ?thesis by blast
qed

lemma handled_gentle: "handled t t' \<Longrightarrow> gentle t t'"
  by (simp add: handled_def)

section \<open>New tasks\<close>

lemma update_first_new:
  assumes "\<forall>u \<in> set ts. kt_id u \<noteq> kt_id t"
  shows "update_first (\<lambda>u. kt_id u = kt_id t) f (ts @ [t]) = ts @ [f t]"
  using assms by (induction ts) auto

lemma fresh_task_status: "known_status (fresh_task i s rb req)" "kt_state (fresh_task i s rb req) = ''planned''"
  "kt_acceptance (fresh_task i s rb req) = ''not_ready''" "kt_id (fresh_task i s rb req) = i"
proof -
  have "normalize_task_state ''planned'' = ''planned''" by code_simp
  then show "known_status (fresh_task i s rb req)" by (simp add: fresh_task_def known_status_def known_not_ready)
qed (simp_all add: fresh_task_def)

lemma refresh_same: "kt_id (refresh_task fs t) = kt_id t" "kt_state (refresh_task fs t) = kt_state t"
  "kt_acceptance (refresh_task fs t) = kt_acceptance t" "kt_project (refresh_task fs t) = kt_project t"
  "kt_depends (refresh_task fs t) = kt_depends t" "kt_acceptance_decision (refresh_task fs t) = kt_acceptance_decision t"
  by (simp_all add: refresh_task_def Let_def resolve_skill_and_runbook_def split: prod.splits)

theorem create_task_move:
  assumes "create_task_in_state env req st = Inr (st', i)"
  shows "move st st'"
proof -
  define title where "title = trim_space (cq_title req)"
  obtain k st1 where k: "control_id ''task'' title st = (k, st1)" by fastforce
  define new where "new s rb = refresh_task (pc_artifacts st1) (fresh_task k s rb req)" for s rb
  define logged where "logged t = emit ''task-created'' (task_event (en_now env) ''human'' ''task_created'' (''Created task '' @ title @ ''.'') t)
      (st1\<lparr>pc_tasks := pc_tasks st1 @ [t], pc_active := trim_space (cq_project req)\<rparr>)" for t
  define final where "final t = (if needs_dispatch_approval t then sync_dispatch_gate (en_now env) t (logged t)
      else emit ''dispatch-auto-approved'' (task_event (en_now env) ''policy_engine'' ''dispatch_auto_approved''
        ''Task dispatched automatically because it was raised by a human.'' t) (store_task (dispatched t) (logged t)))" for t
  from assms have "\<exists>s rb. validate_task_contract st1 (fresh_task k s rb req) = Inr () \<and> (final (new s rb), k) = (st', i)"
    unfolding create_task_in_state_def Let_def title_def [symmetric] k prod.case and_then_Inr_iff new_def [symmetric]
      logged_def [symmetric] final_def [symmetric] sum.inject split_paired_Ex by auto
  then obtain s rb where valid: "validate_task_contract st1 (fresh_task i s rb req) = Inr ()" and st': "final (new s rb) = st'" and "k = i"
    by blast
  note st1 = k [unfolded \<open>k = i\<close>]
  define t where "t = refresh_task (pc_artifacts st1) (fresh_task i s rb req)"
  define st2 where "st2 = logged t"
  note st' = st' [unfolded new_def \<open>k = i\<close>, folded t_def, unfolded final_def, folded st2_def]
  have t: "kt_id t = i" "kt_state t = ''planned''" "kt_acceptance t = ''not_ready''" "known_status t"
    using fresh_task_status by (simp_all add: t_def refresh_same known_status_def)
  have deps: "clear_dependencies (pc_tasks st) t"
    using valid control_id_gates [OF st1]
    by (simp add: clear_dependencies_def t_def refresh_same fresh_task_status validate_task_contract_def Let_def split: if_splits)
  have st2: "apart st1 st2" "pc_tasks st2 = pc_tasks st @ [t]" "pc_checkpoints st2 = pc_checkpoints st" "pc_decisions st2 = pc_decisions st"
    using control_id_gates [OF st1] by (auto simp: st2_def logged_def gates_only_def apart_def intro: emit_reads)
  have res: "apart st2 st' \<and> pc_decisions st' = pc_decisions st2 \<and> in_line i False (pc_checkpoints st2) (pc_checkpoints st') \<and>
    (pc_tasks st' = update_first (\<lambda>u. kt_id u = kt_id t) (\<lambda>_. dispatched t) (pc_tasks st2) \<or> tasks_around t (pc_tasks st2) (pc_tasks st'))"
    using st' sync_dispatch_effect [of st2 "en_now env" t] t(1)
    by (auto simp: gates_only_def store_task_def dispatched_def apart_def intro: emit_reads split: if_splits)
  show ?thesis
  proof -
    have reads: "pc_clock st1 = pc_clock st" "pc_reads st1 = pc_reads st + 1" "i = control_id_text (pc_clock st (pc_reads st)) ''task'' title"
      using st1 by (auto simp: control_id_def)
    have ap: "apart st st'" "apart st1 st'" using res st2(1) reads by (auto simp: apart_def)
    have stamp: "stamped_task st st' i" using ap reads unfolding stamped_task_def apart_def
      by (intro exI [of _ "pc_reads st"] exI [of _ title]) auto
    have added: "\<exists>ts t'. list_all2 gentle (pc_tasks st) ts \<and> pc_tasks st' = ts @ [t'] \<and> gentle t t'"
      if "\<forall>u \<in> set (pc_tasks st). kt_id u \<noteq> i"
    proof -
      have upd: "update_first (\<lambda>u. kt_id u = kt_id t) (\<lambda>_. x) (pc_tasks st @ [t]) = pc_tasks st @ [x]" for x
        using that t(1) update_first_new [of "pc_tasks st" t "\<lambda>_. x"] by simp
      from res show ?thesis unfolding tasks_around_def st2(2) upd
      proof (elim conjE disjE)
        assume "list_all2 gentle (pc_tasks st @ [t]) (pc_tasks st')"
        then show ?thesis by (auto simp: list_all2_append1 list_all2_Cons1)
      qed (auto intro: gentle_dispatched gentle_asked)
    qed
    show ?thesis
    proof (cases "\<forall>u \<in> set (pc_tasks st). kt_id u \<noteq> i")
      case True
      then obtain ts t' where ts: "list_all2 gentle (pc_tasks st) ts" "pc_tasks st' = ts @ [t']" "gentle t t'" using added by blast
      have t': "kt_id t' = i" "kt_state t' \<noteq> ''archived''" "unsettled (kt_acceptance t')" "known_status t'" "clear_dependencies (pc_tasks st) t'"
        using ts(3) t deps gentle_lawful [OF ts(3)] by (auto simp: gentle_def same_owner_def clear_dependencies_def at_work_def)
      show ?thesis using ap stamp ts res st2 t' by (intro move.create [of st st' t']) auto
    next
      case False
      then show ?thesis using ap stamp t deps res st2 by (intro move.create [of st st' t]) auto
    qed
  qed
qed

theorem create_task_moves: "create_task_in_state env req st = Inr (st', i) \<Longrightarrow> moves st st'"
  by (blast intro: create_task_move)

lemma create_branches_moves: "create_branches env parent k bs st = Inr st' \<Longrightarrow> moves st st'"
proof (induction env parent k bs st rule: create_branches.induct)
  case (2 env parent k b bs st)
  then show ?case by (auto split: if_splits sum.splits prod.splits intro: rtranclp_trans create_task_moves)
qed simp

lemma create_task_branches_moves: "create_task_branches env parent bs st = Inr st' \<Longrightarrow> moves st st'"
  by (auto simp: create_task_branches_def split: if_splits intro: create_branches_moves)

lemma create_composed_task_moves: "create_composed_task env sources title goal st = Inr st' \<Longrightarrow> moves st st'"
  by (auto simp: create_composed_task_def Let_def split: if_splits intro: create_task_moves)

section \<open>Projects and workstreams\<close>

lemma create_project_moves: "create_project env req st = Inr st' \<Longrightarrow> moves st st'"
proof -
  assume *: "create_project env req st = Inr st'"
  obtain i st1 where i: "control_id ''project'' (trim_space (pq_name req)) st = (i, st1)" by fastforce
  from * have "apart st1 st' \<and> pc_tasks st' = pc_tasks st1 \<and> pc_checkpoints st' = pc_checkpoints st1 \<and> pc_decisions st' = pc_decisions st1"
    unfolding create_project_def Let_def i prod.case by (auto simp: apart_def intro: emit_reads)
  with control_id_gates [OF i] show ?thesis by (intro r_into_rtranclp move.aside) (auto simp: gates_only_def apart_def)
qed

lemma create_workstream_moves: "create_workstream env req st = Inr st' \<Longrightarrow> moves st st'"
proof -
  assume *: "create_workstream env req st = Inr st'"
  obtain i st1 where i: "control_id ''workstream'' (trim_space (wk_title req)) st = (i, st1)" by fastforce
  from * have "apart st1 st' \<and> pc_tasks st' = pc_tasks st1 \<and> pc_checkpoints st' = pc_checkpoints st1 \<and> pc_decisions st' = pc_decisions st1"
    unfolding create_workstream_def Let_def i prod.case by (auto simp: apart_def intro: emit_reads)
  with control_id_gates [OF i] show ?thesis by (intro r_into_rtranclp move.aside) (auto simp: gates_only_def apart_def)
qed

text \<open>A claim about the value of a result, whatever the error.\<close>

definition yields :: "('a \<Rightarrow> bool) \<Rightarrow> ('e, 'a) result \<Rightarrow> bool" where
  "yields P r \<longleftrightarrow> (\<forall>x. r = Inr x \<longrightarrow> P x)"

lemma yieldsD: "yields P r \<Longrightarrow> r = Inr x \<Longrightarrow> P x"
  by (simp add: yields_def)

lemma yields_cases:
  "yields P (Inl e)"
  "P x \<Longrightarrow> yields P (Inr x)"
  "\<lbrakk>c \<Longrightarrow> yields P a; \<not> c \<Longrightarrow> yields P b\<rbrakk> \<Longrightarrow> yields P (if c then a else b)"
  "(\<And>x. r = Inr x \<Longrightarrow> yields P (f x)) \<Longrightarrow> yields P (and_then r f)"
  "\<lbrakk>\<And>e. r = Inl e \<Longrightarrow> yields P (g e); \<And>x. r = Inr x \<Longrightarrow> yields P (f x)\<rbrakk> \<Longrightarrow> yields P (case r of Inl e \<Rightarrow> g e | Inr x \<Rightarrow> f x)"
  "\<lbrakk>p = None \<Longrightarrow> yields P a; \<And>y. p = Some y \<Longrightarrow> yields P (h y)\<rbrakk> \<Longrightarrow> yields P (case p of None \<Rightarrow> a | Some y \<Rightarrow> h y)"
  "(\<And>x y. q = (x, y) \<Longrightarrow> yields P (k x y)) \<Longrightarrow> yields P (case q of (x, y) \<Rightarrow> k x y)"
  by (auto simp: yields_def and_then_def split: option.split prod.split sum.splits)

text \<open>What concerns neither tasks nor gates nor decisions.\<close>

definition quiet :: "ctl_state \<Rightarrow> ctl_state \<Rightarrow> bool" where
  "quiet st st' \<longleftrightarrow> apart st st' \<and> pc_tasks st' = pc_tasks st \<and> pc_checkpoints st' = pc_checkpoints st \<and> pc_decisions st' = pc_decisions st"

lemma quiet_move: "quiet st st' \<Longrightarrow> move st st'"
  by (rule move.aside) (simp_all add: quiet_def)

lemma quiet_intros:
  "quiet st st" "quiet st st' \<Longrightarrow> quiet st (emit seed ev st')" "quiet st st' \<Longrightarrow> quiet st (st'\<lparr>pc_workstreams := ws\<rparr>)"
  "quiet st st' \<Longrightarrow> quiet st (st'\<lparr>pc_projects := ps\<rparr>)" "quiet st st' \<Longrightarrow> quiet st (st'\<lparr>pc_tools := ds\<rparr>)"
  "quiet st st' \<Longrightarrow> quiet st (st'\<lparr>pc_runs := rs\<rparr>)" "quiet st st' \<Longrightarrow> quiet st (st'\<lparr>pc_attempts := xs\<rparr>)"
  "\<lbrakk>c \<Longrightarrow> quiet st a; \<not> c \<Longrightarrow> quiet st b\<rbrakk> \<Longrightarrow> quiet st (if c then a else b)"
  by (auto simp: quiet_def apart_def intro: emit_reads)

lemma update_workstream_moves: "update_workstream env i req st = Inr st' \<Longrightarrow> moves st st'"
proof (rule r_into_rtranclp, rule quiet_move, erule yieldsD [rotated])
  show "yields (quiet st) (update_workstream env i req st)"
    unfolding update_workstream_def Let_def by (intro yields_cases quiet_intros)
qed

end
