(* ===== verification/Control_Work_Moves.thy ===== *)
theory Control_Work_Moves
  imports Control_Edits
begin

text \<open>
  Pausing and takeover, tool runs, what agents call and the save after a call are sequences
  of moves. Most of them are mild: gentle edits of tasks and new checkpoints that are no gates.
\<close>

section \<open>Mild changes\<close>

definition mild :: "ctl_state \<Rightarrow> ctl_state \<Rightarrow> bool" where
  "mild st st' \<longleftrightarrow> apart st st' \<and> list_all2 gentle (pc_tasks st) (pc_tasks st') \<and> pc_decisions st' = pc_decisions st \<and>
     (\<exists>cs. pc_checkpoints st' = pc_checkpoints st @ cs \<and> (\<forall>c \<in> set cs. \<not> gate_kind (ck_kind c)))"

lemma mild_move: "mild st st' \<Longrightarrow> move st st'"
  unfolding mild_def by (auto intro: move.edit)

lemma mild_moves: "mild st st' \<Longrightarrow> moves st st'"
  by (intro r_into_rtranclp mild_move)

lemma mild_refl [simp]: "mild st st"
  by (simp add: mild_def)

lemma mild_trans [trans]: "mild a b \<Longrightarrow> mild b c \<Longrightarrow> mild a c"
  unfolding mild_def using apart_trans [of a b c] list_all2_gentle_trans [of "pc_tasks a" "pc_tasks b" "pc_tasks c"] by auto

lemma mild_quiet: "quiet st st' \<Longrightarrow> mild st st'"
  by (simp add: quiet_def mild_def)

lemma mild_frame: "frame st st' \<Longrightarrow> mild st st'"
  by (simp add: frame_def mild_def)

lemma mild_fold: "(\<And>x s. x \<in> set xs \<Longrightarrow> mild s (f x s)) \<Longrightarrow> mild st (fold f xs st)"
proof (induction xs arbitrary: st)
  case (Cons x xs)
  then show ?case using mild_trans [of st "f x st"] by simp
qed simp

lemma mild_same: "apart st' st'' \<Longrightarrow> pc_tasks st'' = pc_tasks st' \<Longrightarrow> pc_checkpoints st'' = pc_checkpoints st' \<Longrightarrow>
   pc_decisions st'' = pc_decisions st' \<Longrightarrow> mild st st' \<Longrightarrow> mild st st''"
  unfolding mild_def using apart_trans by auto

lemma gentle_nth: "list_all2 gentle ts us \<Longrightarrow> (j < length us \<Longrightarrow> gentle (us ! j) t) \<Longrightarrow> list_all2 gentle ts (us[j := t])"
  by (cases "j < length us") (auto simp: list_all2_conv_all_nth nth_list_update intro: gentle_trans)

lemma gentle_map: "list_all2 gentle ts us \<Longrightarrow> (\<And>t. t \<in> set us \<Longrightarrow> gentle t (f t)) \<Longrightarrow> list_all2 gentle ts (map f us)"
  unfolding list_all2_conv_all_nth by (metis gentle_trans length_map nth_map nth_mem)

lemma mild_tasks: "mild st st' \<Longrightarrow> list_all2 gentle (pc_tasks st') ts \<Longrightarrow> mild st (st'\<lparr>pc_tasks := ts\<rparr>)"
  unfolding mild_def using list_all2_gentle_trans by (auto simp: apart_def)

lemma mild_put: "mild st st' \<Longrightarrow> (j < length (pc_tasks st') \<Longrightarrow> gentle (pc_tasks st' ! j) t) \<Longrightarrow> mild st (put_task j t st')"
  unfolding put_task_def by (intro mild_tasks gentle_nth) auto

lemma mild_checkpoint: "mild st st' \<Longrightarrow> \<not> gate_kind (ck_kind c) \<Longrightarrow> mild st (st'\<lparr>pc_checkpoints := pc_checkpoints st' @ [c]\<rparr>)"
  by (auto simp: mild_def apart_def)

lemma mild_intros:
  "mild st st' \<Longrightarrow> mild st (emit seed ev st')" "mild st st' \<Longrightarrow> mild st (append_control_event now p t action detail st')"
  "mild st st' \<Longrightarrow> mild st (put_run k r st')" "mild st st' \<Longrightarrow> mild st (st'\<lparr>pc_runs := rs\<rparr>)"
  "mild st st' \<Longrightarrow> mild st (st'\<lparr>pc_attempts := xs\<rparr>)" "mild st st' \<Longrightarrow> mild st (st'\<lparr>pc_projects := ps\<rparr>)"
  "mild st st' \<Longrightarrow> mild st (st'\<lparr>pc_tools := ds\<rparr>)" "mild st st' \<Longrightarrow> mild st (st'\<lparr>pc_artifacts := fs\<rparr>)"
  "\<lbrakk>c \<Longrightarrow> mild st a; \<not> c \<Longrightarrow> mild st b\<rbrakk> \<Longrightarrow> mild st (if c then a else b)"
  by (auto simp: mild_def apart_def append_control_event_def put_run_def intro: emit_reads)

lemma mild_id: "mild st st1 \<Longrightarrow> control_id p s st1 = (i, st2) \<Longrightarrow> mild st st2"
  by (rule mild_trans, assumption, rule mild_frame, rule control_id_frame)

section \<open>Pausing and takeover\<close>

lemma gentle_pause [simp]: "gentle t (pause_task reason t)"
  by (simp add: pause_task_def gentle_quiet)

lemma gentle_stop [simp]: "gentle t (stop_task t)"
  by (simp add: stop_task_def gentle_quiet)

lemma pause_mild: "mild st st' \<Longrightarrow> mild st (pause_control_state now project task reason st')"
proof -
  assume *: "mild st st'"
  have base: "mild st (st'\<lparr>pc_projects := ps, pc_tasks := map f (pc_tasks st'), pc_attempts := xs, pc_runs := rs\<rparr>)"
    if "\<And>t. gentle t (f t)" for ps f xs rs
    by (rule mild_same [of "st'\<lparr>pc_tasks := map f (pc_tasks st')\<rparr>"]) (use * that in \<open>auto simp: apart_def intro!: mild_tasks gentle_map\<close>)
  then show ?thesis unfolding pause_control_state_def Let_def by (intro mild_intros(2) base) simp
qed

lemma count_failure_gentle: "list_all2 gentle ts (fst (count_failure i r ts))"
  by (induction ts arbitrary: r) (auto simp: Let_def split_beta gentle_quiet)

lemma react_mild: "mild st st' \<Longrightarrow> mild st (react now e st')"
  using count_failure_gentle unfolding react_def Let_def
  by (auto simp: split_beta intro!: pause_mild mild_tasks mild_intros split: option.split)

lemma takeover_events_mild: "mild st (apply_takeover_events now previous st)"
  unfolding apply_takeover_events_def by (intro mild_fold mild_intros react_mild) simp_all

lemma review_projects_mild: "mild st st' \<Longrightarrow> mild st (review_projects now i done_rev ps st')"
  by (induction now i done_rev ps st' rule: review_projects.induct) (auto simp: Let_def intro: mild_intros)

lemma advance_milestone_mild: "mild st st' \<Longrightarrow> mild st (advance_milestone_review now i st')"
  by (simp add: advance_milestone_review_def review_projects_mild)

lemma resume_one_gentle: "yields (gentle t) (resume_one env req st t)"
  unfolding resume_one_def Let_def by (intro yields_cases) (auto simp: gentle_quiet and_then_def split: sum.splits if_splits)

lemma resume_tasks_gentle:
  "list_all2 gentle done_rev us \<Longrightarrow> resume_tasks env req project us ts st b = Inr (st', b') \<Longrightarrow>
   list_all2 gentle (rev done_rev @ ts) (pc_tasks st') \<and> quiet st (st'\<lparr>pc_tasks := pc_tasks st\<rparr>)"
proof (induction ts arbitrary: done_rev us b)
  case Nil
  then show ?case by (auto simp: list_all2_rev quiet_def apart_def)
next
  case (Cons t ts)
  show ?case
  proof (cases "kt_project t \<noteq> project \<or> (tq_task req \<noteq> [] \<and> kt_id t \<noteq> tq_task req) \<or> kt_pause t = []")
    case True
    with Cons.prems Cons.IH [of "t # done_rev" "t # us" b] show ?thesis by simp
  next
    case False
    with Cons.prems(2) obtain t' where t': "resume_one env req (st\<lparr>pc_tasks := rev us @ t # ts\<rparr>) t = Inr t'"
      and rest: "resume_tasks env req project (t' # us) ts st True = Inr (st', b')"
      by (auto split: sum.splits)
    from t' have "gentle t t'" by (rule yieldsD [OF resume_one_gentle])
    with rest Cons.prems(1) Cons.IH [of "t # done_rev" "t' # us" True] show ?thesis by simp
  qed
qed

lemma takeover_action_mild: "yields (mild st) (takeover_action env i p req agent st)"
proof -
  have resumed: "mild st st1" if "resume_tasks env req i [] (pc_tasks st) st False = Inr (st1, b)" for st1 b
    using resume_tasks_gentle [OF list_all2_Nil [THEN iffD2, OF refl] that] by (auto simp: quiet_def mild_def apart_def)
  have stopped: "mild st (stop_work i st1)" if "mild st st1" for st1
    unfolding stop_work_def
    by (rule mild_same [of "st1\<lparr>pc_tasks := map (\<lambda>t. if kt_project t = i then stop_task t else t) (pc_tasks st1)\<rparr>"])
      (use that in \<open>auto simp: apart_def intro!: mild_tasks gentle_map\<close>)
  show ?thesis unfolding takeover_action_def Let_def
    by (intro yields_cases mild_intros pause_mild stopped; (simp only: mild_refl)?) (auto dest: resumed)
qed

lemma control_takeover_mild: "yields (mild st) (control_takeover env i req agent st)"
  unfolding control_takeover_def
  by (intro yields_cases mild_intros) (auto dest: yieldsD [OF takeover_action_mild])

lemma update_project_contract_mild: "yields (mild st) (update_project_contract env i req st)"
proof -
  have set: "mild st (set_project i f st')" if "mild st st'" for i f st'
    using that by (auto simp: set_project_def intro: mild_intros)
  show ?thesis unfolding update_project_contract_def Let_def
    by (intro yields_cases) (auto simp: and_then_def intro!: mild_intros set pause_mild split: if_splits sum.splits option.splits)
qed

section \<open>Gates brought in line\<close>

lemma in_line_weaken: "in_line i r cs cs' \<Longrightarrow> (r' \<Longrightarrow> r) \<Longrightarrow> in_line i r' cs cs'"
  by (auto simp: in_line_def)

lemma sync_gates_move:
  assumes j: "first_index (\<lambda>u. kt_id u = kt_id t) (pc_tasks st) = Some j" and t: "pc_tasks st ! j = t"
  shows "move st (sync_gates now t st)"
proof -
  let ?st = "sync_gates now t st"
  note e = sync_gates_effect [of st now t] and len = first_index_Some [OF j]
  have ts: "list_all2 gentle (pc_tasks st) (pc_tasks ?st)"
  proof -
    have "list_all2 gentle (pc_tasks st) ((pc_tasks st)[j := asked t])"
      using len t by (intro gentle_nth) (auto intro: gentle_asked)
    with e j show ?thesis by (auto simp: tasks_around_def update_first_nth)
  qed
  have g: "gentle t (pc_tasks ?st ! j)" using ts len t by (auto simp: list_all2_conv_all_nth)
  have flag: "kt_acceptance (pc_tasks ?st ! j) = ''under_human_review'' \<Longrightarrow> kt_acceptance t = ''under_human_review''"
    using g by (auto simp: gentle_def unsettled_def)
  show ?thesis
  proof (rule move.settle [of _ _ j "[]"])
    show "in_line (kt_id (pc_tasks st ! j)) (kt_acceptance (pc_tasks ?st ! j) = ''under_human_review'') (pc_checkpoints st) (pc_checkpoints ?st)"
      using e flag t by (auto intro: in_line_weaken)
    show "\<forall>m < length (pc_tasks st). m \<noteq> j \<longrightarrow> gentle (pc_tasks st ! m) (pc_tasks ?st ! m)"
      using ts by (simp add: list_all2_conv_all_nth)
  qed (use e g len t ts gentle_lawful [OF g] in \<open>auto simp: gates_only_def gentle_def list_all2_lengthD\<close>)
qed

section \<open>Tool runs\<close>

lemma gentle_again: "gentle a b \<Longrightarrow> list_all2 gentle (ts[j := a]) (ts[j := b])"
  by (cases "j < length ts") (auto simp: list_all2_conv_all_nth nth_list_update)

lemma mild_fst_cases:
  "\<lbrakk>c \<Longrightarrow> mild st (fst a); \<not> c \<Longrightarrow> mild st (fst b)\<rbrakk> \<Longrightarrow> mild st (fst (if c then a else b))"
  "(\<And>x y. q = (x, y) \<Longrightarrow> mild st (fst (k x y))) \<Longrightarrow> mild st (fst (case q of (x, y) \<Rightarrow> k x y))"
  by (auto split: prod.split)

lemma run_failed_mild: "mild st (fst (run_failed now k j failure detail st))"
proof -
  define failed where "failed r = emit ''tool-run-failed'' (task_event now ''tool_gateway'' ''tool_run_failed'' detail (pc_tasks st ! j))
    (put_run k r st)" for r
  have failed: "mild st st2 \<and> pc_tasks st2 = pc_tasks st" if "control_id p s (failed r) = (i, st2)" for p s r i st2
    using that control_id_gates [OF that] unfolding failed_def
    by (auto intro!: mild_id [OF _ that] mild_intros simp: failed_def put_run_def)
  have "\<not> gate_kind (ck_kind ((new_gate i a ''tool_failure'' b c d e)\<lparr>ck_version := n\<rparr>))" for i a b c d e n
    by (simp add: gate_kind_def new_gate_def)
  then show ?thesis unfolding run_failed_def Let_def failed_def [symmetric]
    by (intro mild_fst_cases) (auto simp: gentle_quiet put_task_def dest!: failed intro!: mild_intros mild_tasks mild_checkpoint gentle_again
      intro: gentle_nth)
qed

lemma put_framed: "frame st st1 \<Longrightarrow> gentle (pc_tasks st ! j) t \<Longrightarrow> mild st (put_task j t st1)"
  by (intro mild_put mild_frame) (simp_all add: frame_def)

lemma synced_moves:
  assumes f: "frame st st1" and j: "first_index (\<lambda>t. kt_id t = i) (pc_tasks st) = Some j" and g: "gentle (pc_tasks st ! j) t"
  shows "moves st (sync_gates now t (put_task j t (put_run k r st1)))"
proof -
  let ?st = "put_task j t (put_run k r st1)"
  have m: "mild st ?st" using put_framed [OF f g] by (auto simp: mild_def put_task_def put_run_def apart_def)
  have ts: "pc_tasks ?st = (pc_tasks st)[j := t]" using f by (simp add: put_task_def put_run_def frame_def)
  have "kt_id t = i" using g first_index_Some [OF j] by (simp add: gentle_def same_owner_def)
  with j m have "first_index (\<lambda>u. kt_id u = kt_id t) (pc_tasks ?st) = Some j"
    by (metis first_index_map_id mild_def)
  moreover have "pc_tasks ?st ! j = t" using ts first_index_Some [OF j] by simp
  ultimately show ?thesis using sync_gates_move then_move [OF mild_moves [OF m]] by blast
qed

lemma finish_tool_run_moves: "yields (\<lambda>(st', i). moves st st') (finish_tool_run env run_id out st)"
proof -
  have failed: "moves st st''" if "run_failed now k j a b st' = (st'', i)" "mild st st'" for now k j a b st' st'' i
    using mild_trans [OF that(2) run_failed_mild [of st' now k j a b]] that(1) by (simp add: mild_moves)
  have applied: "frame st st1 \<and> gentle (pc_tasks st ! j) t1"
    if "apply_tool_result res now r st (pc_tasks st ! j) = (st1, t1, x)" for res now r st1 t1 x j
    using works_allD [OF apply_tool_result_works that] handled_gentle by blast
  have synced: "moves st (sync_gates now (t1\<lparr>kt_version := n\<rparr>) (put_task j (t1\<lparr>kt_version := n\<rparr>) (put_run k q st1)))"
    if "apply_tool_result res now r st (pc_tasks st ! j) = (st1, t1, x)" "first_index (\<lambda>t. kt_id t = i) (pc_tasks st) = Some j"
    for res now r st1 t1 x j n k q i
    using applied [OF that(1)] that(2) by (intro synced_moves) (simp_all add: gentle_quiet)
  have progressed: "moves st (put_task j t3 st3)" "moves st (put_task j (t3\<lparr>kt_version := n\<rparr>) st3)"
    if "moves st st2" "auto_progress w m now st2 (pc_tasks st2 ! j) = (st3, t3, i)" for st2 w m now j st3 t3 i n
    using that(1) auto_progress_works [OF that(2)] handled_gentle
    by (auto simp: gentle_quiet intro!: then_move [OF that(1)] mild_move put_framed)
  show ?thesis unfolding finish_tool_run_def Let_def
    by (intro yields_cases)
      (auto split: sum.split prod.split dest: applied intro: failed put_framed synced progressed)
qed

lemma start_scheduled_moves: "yields (\<lambda>(st', i). moves st st') (start_scheduled env t phase d st)"
proof -
  have started: "frame st st1 \<and> gentle (pc_tasks st ! j) t1"
    if "start_tool p i now st (pc_tasks st ! j) = (st1, t1, x)" for p i now j st1 t1 x
    using works_allD [OF start_tool_works that] handled_gentle by blast
  show ?thesis unfolding start_scheduled_def
    by (intro yields_cases) (auto simp: gentle_quiet intro!: mild_moves put_framed split: prod.split sum.split dest: started)
qed

lemma recover_runs_mild: "mild st st' \<Longrightarrow> mild st (recover_runs started now text_now ks st')"
proof (induction ks arbitrary: st')
  case (Cons k ks)
  show ?case unfolding recover_runs.simps Let_def
    by (auto simp: gentle_quiet intro!: Cons mild_intros mild_put split: option.split)
qed simp

lemma report_health_mild: "mild st (report_health env alerts overdue st)"
  unfolding report_health_def Let_def by (intro mild_intros mild_fold mild_refl)

lemma catalogue_quiet:
  "yields (quiet st) (create_tool d st)" "yields (quiet st) (update_tool d st)" "yields (quiet st) (delete_tool i st)"
  unfolding create_tool_def update_tool_def delete_tool_def Let_def by (intro yields_cases quiet_intros)+

section \<open>The save after a call\<close>

lemma migrate_quiet: "quiet st st' \<Longrightarrow> quiet st (migrate_evidence created task es st')"
proof (induction created task es st' rule: migrate_evidence.induct)
  case (2 created task label v es st')
  then show ?case by (auto simp: Let_def control_id_def quiet_def apart_def)
qed simp

lemma normalize_move: "move st (normalize_state now st)"
proof -
  have task: "normal_task t (refresh_task fs ((normalize_task gs t)\<lparr>kt_evidence := []\<rparr>))" for fs gs t
    by (simp add: normal_task_def normalize_task_def Let_def refresh_same)
  have fold: "quiet s (fold (\<lambda>t. migrate_evidence c (kt_id t) (kt_evidence t)) ts s)" for s c ts
  proof -
    have "quiet s s' \<Longrightarrow> quiet s (fold (\<lambda>t. migrate_evidence c (kt_id t) (kt_evidence t)) ts s')" for s'
      by (induction ts arbitrary: s') (auto intro: migrate_quiet)
    then show ?thesis using quiet_intros(1) by blast
  qed
  have folded: "pc_tasks (fold (\<lambda>t. migrate_evidence c (kt_id t) (kt_evidence t)) ts s) = pc_tasks s"
    "pc_checkpoints (fold (\<lambda>t. migrate_evidence c (kt_id t) (kt_evidence t)) ts s) = pc_checkpoints s"
    "pc_decisions (fold (\<lambda>t. migrate_evidence c (kt_id t) (kt_evidence t)) ts s) = pc_decisions s"
    "pc_clock (fold (\<lambda>t. migrate_evidence c (kt_id t) (kt_evidence t)) ts s) = pc_clock s"
    "pc_reads s \<le> pc_reads (fold (\<lambda>t. migrate_evidence c (kt_id t) (kt_evidence t)) ts s)" for s c ts
    using fold [of s c ts] by (simp_all add: quiet_def apart_def)
  have compacted: "pc_tasks (compact_state now s) = map (\<lambda>t. t\<lparr>kt_evidence := []\<rparr>) (pc_tasks s)"
    "pc_checkpoints (compact_state now s) = pc_checkpoints s" "pc_decisions (compact_state now s) = pc_decisions s"
    "apart s (compact_state now s)" for now s
    by (simp_all add: compact_state_def Let_def folded apart_def)
  show ?thesis unfolding normalize_state_def Let_def
    by (rule move.normalise)
      (auto simp: compacted(1-3) compacted(4) [unfolded apart_def, THEN conjunct1] list_all2_map2 list_all2_same task apart_def
        intro!: order_trans [OF eq_refl compacted(4) [unfolded apart_def, THEN conjunct2]])
qed

lemma updated_move: "move st (st\<lparr>pc_updated := u\<rparr>)"
  by (rule quiet_move) (simp add: quiet_def apart_def)

lemma commit_moves: "moves a st \<Longrightarrow> moves a (commit env before st)"
  unfolding commit_def by (intro then_move [OF _ updated_move] then_move [OF _ normalize_move] then_move [OF _ mild_move [OF takeover_events_mild]])

end
