(* ===== verification/Control_Board_Moves.thy ===== *)
theory Control_Board_Moves
  imports Control_Work_Moves
begin

text \<open>What agents, users and the server itself call on the board, as sequences of moves.\<close>

section \<open>Transactions\<close>

abbreviation carries :: "board \<Rightarrow> board \<Rightarrow> bool" where
  "carries d d' \<equiv> moves (bd_control d) (bd_control d')"

definition legal :: "(ctl_state \<Rightarrow> claims \<Rightarrow> claims \<times> (ctl_error, ctl_state \<times> 'a) result) \<Rightarrow> bool" where
  "legal f \<longleftrightarrow> (\<forall>st rows. yields (\<lambda>(st', x). moves st st') (snd (f st rows)))"

lemma legalI: "(\<And>st rows rows' st' x. f st rows = (rows', Inr (st', x)) \<Longrightarrow> moves st st') \<Longrightarrow> legal f"
  by (auto simp: legal_def yields_def prod_eq_iff)

lemma with_leases_carries: "legal f \<Longrightarrow> carries d (fst (with_leases env f d))"
proof (cases "f (bd_control d) (bd_claims d)")
  case (Pair rows r)
  assume "legal f"
  with Pair have "yields (\<lambda>(st', x). moves (bd_control d) st') r" unfolding legal_def by (metis snd_conv)
  with Pair show ?thesis by (auto simp: with_leases_def Let_def yields_def commit_moves split: sum.split)
qed

lemma with_leases_carriesD: "with_leases env f d = (d', r) \<Longrightarrow> legal f \<Longrightarrow> carries d d'"
  using with_leases_carries by (metis fst_conv)

lemma control_call_carries: "(\<And>env st. yields (\<lambda>(st', x). moves st st') (f env st)) \<Longrightarrow> carries d (fst (control_call env f d))"
  unfolding control_call_def by (rule with_leases_carries) (simp add: legal_def)

lemma control_call_carriesD: "control_call env f d = (d', r) \<Longrightarrow> (\<And>env st. yields (\<lambda>(st', x). moves st st') (f env st)) \<Longrightarrow> carries d d'"
  using control_call_carries by (metis fst_conv)

lemma carries_parts [simp]: "bd_control (d\<lparr>bd_claims := rows\<rparr>) = bd_control d" "bd_control (d\<lparr>bd_progress := ps\<rparr>) = bd_control d"
  "bd_control (d\<lparr>bd_running := ts\<rparr>) = bd_control d"
  by simp_all

lemma yields_mild: "yields (mild st) r \<Longrightarrow> yields (\<lambda>(st', x). moves st st') (and_then r (\<lambda>st'. Inr (st', y)))"
  by (auto simp: yields_def and_then_def mild_moves split: sum.splits)

section \<open>Leases\<close>

lemma timeline_carries: "carries d (record_claim_timeline env task agent action detail d)"
  unfolding record_claim_timeline_def
  by (auto intro!: control_call_carries simp: yields_def r_into_rtranclp emit_move)

lemma carries_timeline: "carries d d' \<Longrightarrow> carries d (record_claim_timeline env task agent action detail d')"
  using timeline_carries rtranclp_trans by metis

lemma apply_expired_claim_carries: "carries d (fst (apply_expired_claim env c d))"
  unfolding apply_expired_claim_def
  by (rule with_leases_carries, rule legalI)
    (auto simp: Let_def gentle_quiet intro!: mild_moves mild_put pause_mild split: option.splits if_splits)

lemma apply_expired_carries: "carries d (fst (apply_expired env cs d))"
proof (induction cs arbitrary: d)
  case (Cons c cs)
  show ?case
  proof (cases "apply_expired_claim env c d")
    case (Pair d1 r)
    with apply_expired_claim_carries [of d env c] have d1: "carries d d1" by simp
    note rest = rtranclp_trans [OF carries_timeline [OF d1] Cons.IH]
    show ?thesis using Pair d1 Cons.IH rest by (simp split: sum.split)
  qed
qed simp

lemma expire_stale_carries: "carries d (fst (expire_stale_for_user env d))"
proof (cases "expire_stale_claims_for_user (en_instant env) (en_user env) (bd_claims d)")
  case (Pair rows out)
  show ?thesis using Pair apply_expired_carries [of "d\<lparr>bd_claims := rows\<rparr>" env "map fst out"] by (simp add: expire_stale_for_user_def)
qed

lemma expire_stale_carriesD: "expire_stale_for_user env d = (d', r) \<Longrightarrow> carries d d'"
  using expire_stale_carries by (metis fst_conv)

lemma pause_risky_mild: "mild st (pause_risky env st)"
  unfolding pause_risky_def Let_def by (intro mild_fold mild_intros pause_mild mild_refl)

lemma claim_pass_mild: "mild s st \<Longrightarrow> claim_pass env clock rnd req ks st rows = (rows', Inr (st', c)) \<Longrightarrow> mild s st'"
proof (induction ks arbitrary: st rows)
  case (Cons k ks)
  have put: "mild s (put_task k ((pc_tasks st ! k)\<lparr>kt_baseline := b\<rparr>) st)"
    "mild s (put_task k ((pc_tasks st ! k)\<lparr>kt_baseline := b, kt_dispatch := d, kt_claimed_by := r, kt_version := n\<rparr>) st)" "mild s (put_task k (pc_tasks st ! k) st)"
    "mild s (put_task k ((pc_tasks st ! k)\<lparr>kt_dispatch := d, kt_claimed_by := r, kt_version := n\<rparr>) st)" for b d r n
    using Cons.prems(1) by (auto simp: gentle_quiet intro: mild_put)
  note paused = pause_mild [OF Cons.prems(1)]
  show ?case using Cons.prems unfolding claim_pass.simps Let_def
    by (auto split: if_splits sum.splits prod.splits intro: mild_intros put paused elim!: Cons.IH [rotated])
qed auto

lemma agent_claim_carries: "carries d (fst (agent_claim env clock rnd req0 d))"
proof -
  define req where "req = \<lparr>aq_runtime = trim_space (aq_runtime req0), aq_agent = trim_space (aq_agent req0)\<rparr>"
  define pass where "pass st rows = claim_pass env clock rnd req [0..<length (pc_tasks (pause_risky env st))] (pause_risky env st) rows" for st rows
  obtain d1 r1 where expire: "expire_stale_for_user env d = (d1, r1)" by fastforce
  obtain d2 r2 where call: "with_leases env pass d1 = (d2, r2)" by fastforce
  have "legal pass"
    by (rule legalI) (auto simp: pass_def intro: mild_moves claim_pass_mild [OF pause_risky_mild])
  with call have d2: "carries d1 d2" by (rule with_leases_carriesD)
  from expire have d1: "carries d d1" by (rule expire_stale_carriesD)
  then have d: "carries d d2" using d2 by (rule rtranclp_trans)
  have closing: "carries d (record_claim_timeline env a b e g (d2\<lparr>bd_progress := ps\<rparr>))" for a b e g ps
    using d by (intro carries_timeline) simp
  show ?thesis unfolding agent_claim_def Let_def req_def [symmetric] pass_def [abs_def, symmetric] expire prod.case call
    by (simp add: call d d1 closing split: sum.split option.split)
qed

lemma agent_heartbeat_carries: "carries d (fst (agent_heartbeat env lease d))"
proof -
  have f: "legal (\<lambda>st rows. case get_claim (en_user env) lease rows of Inl e \<Rightarrow> (rows, Inl (claim_error e)) | Inr c \<Rightarrow>
             case control_task st (tc_task c) of None \<Rightarrow> (rows, Inl (claim_error ErrNotFound)) | Some t \<Rightarrow>
             case require_managed_lease (Some rows) (en_instant env) (en_user env) st t lease of Inl _ \<Rightarrow> (rows, Inl (claim_error ErrNotFound)) | Inr _ \<Rightarrow>
             (case heartbeat_claim (en_instant env) (en_user env) lease rows of
                (rows1, Inl e) \<Rightarrow> (rows1, Inl (claim_error e))
              | (rows1, Inr (c1, expires, line)) \<Rightarrow> (rows1, Inr (st, c1))))"
    by (rule legalI) (auto split: sum.splits option.splits prod.splits)
  show ?thesis unfolding agent_heartbeat_def
    using expire_stale_carries [of d env]
    by (auto split: prod.split sum.split dest!: with_leases_carriesD [OF _ f] intro: rtranclp_trans intro!: carries_timeline)
qed

lemma fst_if_carries: "carries d (fst a) \<Longrightarrow> carries d (fst b) \<Longrightarrow> carries d (fst (if c then a else b))"
  by simp

lemma apply_claim_to_task_carries: "carries d (fst (apply_claim_to_task env task next_state by_whom claim d))"
  unfolding apply_claim_to_task_def
  by (rule fst_if_carries, simp, rule control_call_carries)
    (auto simp: yields_def Let_def gentle_quiet intro!: mild_moves mild_put mild_intros pause_mild split: option.splits)

text \<open>Giving back a lease.\<close>

lemma pause_call_carries: "carries d (fst (pause_call env project task reason d))"
  unfolding pause_call_def by (intro control_call_carries yields_mild control_takeover_mild)

lemma pause_call_carriesD: "pause_call env project task reason d = (d', r) \<Longrightarrow> carries d d'"
  using pause_call_carries by (metis fst_conv)

lemma refuse_paused_carries: "carries d (fst (refuse_paused env t reason answer d))"
  by (auto simp: refuse_paused_def split: prod.split sum.split dest: pause_call_carriesD)

lemma complete_unverified_carries: "carries d (fst (complete_unverified env lease task d))"
proof -
  have g: "gentle t (t\<lparr>kt_dispatch := a, kt_claimed_by := b, kt_state := ''execution_complete'', kt_acceptance := ''not_ready'', kt_version := n\<rparr>)"
    for t a b n
    by (simp add: gentle_def same_owner_def)
  show ?thesis unfolding complete_unverified_def
    by (rule with_leases_carries, rule legalI)
      (auto simp: Let_def intro!: mild_moves mild_put mild_intros g split: option.splits prod.splits sum.splits)
qed

lemma enter_validation_carries: "carries d (fst (enter_validation env lease task d))"
proof -
  have f: "legal (\<lambda>st rows. (rows, case control_task st task of None \<Rightarrow> Inl (claim_error ErrNotFound) | Some t \<Rightarrow>
             and_then (require_managed_lease (Some rows) (en_instant env) (en_user env) st t lease) (\<lambda>_.
             and_then (ensure (CtlFailure ''acceptance already running'') (task \<notin> set (bd_running d))) (\<lambda>_. Inr (st, ())))))"
    by (rule legalI) (auto simp: and_then_def split: option.splits sum.splits)
  show ?thesis unfolding enter_validation_def by (auto split: prod.split sum.split dest!: with_leases_carriesD [OF _ f])
qed

lemma begin_release_carries: "carries d (fst (begin_release env lease outcome d))"
  using complete_unverified_carries [of d env lease] enter_validation_carries [of d env lease] refuse_paused_carries [of d env]
  unfolding begin_release_def Let_def
  by (auto split: sum.split option.split prod.split) (metis fst_conv)+

lemma finish_task_mild: "mild st (finish_task env outcome failed j st)"
proof -
  have bump: "mild st (put_task j ((pc_tasks st' ! j)\<lparr>kt_version := n\<rparr>) st')" if "mild st st'" for st' n
    using that by (auto simp: gentle_quiet intro: mild_put)
  show ?thesis unfolding finish_task_def Let_def
    by (auto simp: gentle_quiet intro!: bump advance_milestone_mild mild_intros pause_mild mild_put)
qed

lemma finish_release_carries: "carries d (fst (finish_release env lease outcome failed task d))"
proof -
  have f: "legal (\<lambda>st rows. case first_index (\<lambda>t. kt_id t = task) (pc_tasks st) of
              None \<Rightarrow> (rows, Inl (claim_error ErrNotFound))
            | Some j \<Rightarrow>
            case require_managed_lease (Some rows) (en_instant env) (en_user env) st (pc_tasks st ! j) lease of
              Inl e \<Rightarrow> (rows, Inl e)
            | Inr _ \<Rightarrow>
                (case release_claim (en_instant env) (en_user env) lease (if failed then ''failed'' else outcome) rows of
                   (rows1, Inl e) \<Rightarrow> (rows1, Inl (claim_error e))
                 | (rows1, Inr _) \<Rightarrow>
                     let st1 = finish_task env outcome failed j st in (rows1, Inr (st1, kt_dispatch (pc_tasks st1 ! j)))))"
    by (rule legalI) (auto simp: Let_def intro: mild_moves finish_task_mild split: option.splits sum.splits prod.splits)
  show ?thesis unfolding finish_release_def Let_def
    by (simp only: split_beta fst_conv carries_parts) (rule with_leases_carries [OF f [unfolded Let_def split_beta]])
qed

lemma release_unmanaged_carries: "carries d (fst (release_unmanaged env lease outcome d))"
  unfolding release_unmanaged_def
  by (auto split: prod.split sum.split intro!: carries_timeline)
    (metis apply_claim_to_task_carries carries_parts(1) fst_conv)+

lemma agent_release_carries: "carries d (fst (agent_release env accept lease outcome d))"
proof -
  have "carries d (fst (agent_release env accept lease outcome d))"
    if "begin_release env lease (low_trim outcome) d = (d1, step)" for d1 step
  proof -
    have "carries d d1" using begin_release_carries [of d env lease "low_trim outcome"] that by simp
    then show ?thesis using that finish_release_carries [of d1] release_unmanaged_carries [of d1]
      unfolding agent_release_def Let_def by (auto split: release_step.split intro: rtranclp_trans)
  qed
  then show ?thesis by (metis surj_pair)
qed

lemma pause_violation_carries: "carries d (fst (pause_violation env task reason d))"
  by (auto simp: pause_violation_def split: option.split prod.split sum.split dest: pause_call_carriesD)

lemma update_call_carries: "carries d (fst (update_call env i req d))"
proof (cases "control_call env (\<lambda>env. update_task env i req) d")
  case (Pair d1 r)
  have d1: "carries d d1"
    by (rule control_call_carriesD [OF Pair]) (auto simp: yields_def intro: r_into_rtranclp update_task_move)
  show ?thesis using Pair d1 pause_violation_carries [of d1 env i]
    by (auto simp: update_call_def split: sum.split ctl_error.split prod.split intro: rtranclp_trans) (metis fst_conv rtranclp_trans)+
qed

end
