(* ===== verification/Control_Load.thy ===== *)
theory Control_Load
  imports Control_Board_Moves
begin

text \<open>
  The stored state of a user (\<open>project_control.go\<close>): the file, its write-ahead file and its
  backup, written one after the other; which of them a load takes; and what a load does to
  the state it read, with tool runs that were interrupted and dispatch gates that no longer wait.
\<close>

section \<open>Loading\<close>

definition origin_of :: "ctl_task list \<Rightarrow> string \<Rightarrow> string" where
  "origin_of ts i = (case List.find (\<lambda>t. kt_id t = i) (rev ts) of None \<Rightarrow> [] | Some t \<Rightarrow> trim_space (kt_origin t))"

definition stale_gate :: "ctl_task list \<Rightarrow> checkpoint \<Rightarrow> bool" where
  "stale_gate ts c \<longleftrightarrow> ck_kind c = ''dispatch'' \<and> ck_status c = ''pending'' \<and> origin_of ts (ck_task c) \<noteq> ''agent''"

definition stale_event :: "string \<Rightarrow> checkpoint \<Rightarrow> ctl_event" where
  "stale_event now c =
     \<lparr>ev_kind = [], ev_source = [], ev_id = [], ev_time = now, ev_actor = ''policy_engine'', ev_action = ''checkpoint_approved'',
      ev_detail = ''Dispatch approval granted automatically because the task was raised by a human.'', ev_project = [],
      ev_workstream = [], ev_task = ck_task c, ev_checkpoint = ck_id c\<rparr>"

definition stale_task :: "ctl_task list \<Rightarrow> ctl_task \<Rightarrow> bool" where
  "stale_task ts t \<longleftrightarrow> origin_of ts (kt_id t) \<noteq> ''agent'' \<and> kt_dispatch t = ''awaiting_approval''"

text \<open>Dispatch gates of tasks a human raised are approved, and such tasks made ready.\<close>

definition resolve_stale :: "string \<Rightarrow> ctl_state \<Rightarrow> ctl_state" where
  "resolve_stale now st =
     (let ts = pc_tasks st;
          st1 = fold (\<lambda>c. emit ''checkpoint-auto-approved-dispatch'' (stale_event now c)) (filter (stale_gate ts) (pc_checkpoints st)) st
      in st1\<lparr>pc_checkpoints := map (\<lambda>c. if stale_gate ts c then approve_gate c else c) (pc_checkpoints st),
             pc_tasks := map (\<lambda>t. if stale_task ts t then t\<lparr>kt_dispatch := ''ready'', kt_version := kt_version t + 1\<rparr> else t) ts\<rparr>)"

definition interrupted :: "instant \<Rightarrow> instant \<Rightarrow> ctl_state \<Rightarrow> bool" where
  "interrupted started now st \<longleftrightarrow> (\<exists>r \<in> set (pc_runs st). ur_status r = ''running'' \<and> interrupted_reason started now r \<noteq> [])"

text \<open>A state read from a file: its normal form, the runs the last process left open, the time of the change.\<close>

definition read_state :: "instant \<Rightarrow> ctl_env \<Rightarrow> ctl_state \<Rightarrow> ctl_state" where
  "read_state started env st =
     (let st1 = normalize_state (en_now env) st
      in if interrupted started (en_instant env) st1 then (recover_interrupted started env st1)\<lparr>pc_updated := en_nano env\<rparr> else st1)"

definition load_state :: "instant \<Rightarrow> ctl_env \<Rightarrow> ctl_state \<Rightarrow> ctl_state" where
  "load_state started env st = resolve_stale (en_now env) (read_state started env st)"

text \<open>The state of a user without any file.\<close>

definition default_state :: "ctl_env \<Rightarrow> (nat \<Rightarrow> string) \<Rightarrow> ctl_state" where
  "default_state env clock = normalize_state (en_now env)
     \<lparr>pc_activity = [], pc_active = [], pc_projects = [], pc_workstreams = [], pc_tasks = [], pc_tools = [], pc_attempts = [],
      pc_runs = [], pc_artifacts = [], pc_checkpoints = [], pc_decisions = [], pc_events = [], pc_memories = [],
      pc_updated = en_nano env, pc_clock = clock, pc_reads = 0\<rparr>"

section \<open>Loading moves\<close>

lemma quiet_fold: "(\<And>x s. quiet s (f x s)) \<Longrightarrow> quiet st (fold f xs st)"
proof (induction xs arbitrary: st)
  case (Cons x xs)
  have "quiet st (f x st)" "quiet (f x st) (fold f xs (f x st))" using Cons by blast+
  then show ?case by (auto simp: quiet_def intro: apart_trans)
qed (simp add: quiet_intros)

lemma stale_gates_later: "gates_later cs (map (\<lambda>c. if stale_gate ts c then approve_gate c else c) cs)"
  by (intro gates_laterI) (simp add: list_all2_map2 list_all2_same gate_later_def stale_gate_def approve_gate_def)

lemma pend_stale:
  "pend i kind (map (\<lambda>c. if stale_gate ts c then approve_gate c else c) cs) \<le> pend i kind cs \<and>
   (kind = ''final_acceptance'' \<longrightarrow> pend i kind (map (\<lambda>c. if stale_gate ts c then approve_gate c else c) cs) = pend i kind cs)"
  by (induction cs) (auto simp: stale_gate_def pending_gate_def approve_gate_def)

lemma resolve_stale_moves: "moves st (resolve_stale now st)"
proof -
  define gates where "gates = map (\<lambda>c. if stale_gate (pc_tasks st) c then approve_gate c else c) (pc_checkpoints st)"
  define st1 where "st1 = fold (\<lambda>c. emit ''checkpoint-auto-approved-dispatch'' (stale_event now c))
    (filter (stale_gate (pc_tasks st)) (pc_checkpoints st)) st"
  have q: "quiet st st1" unfolding st1_def by (intro quiet_fold quiet_intros)
  have "move st (st1\<lparr>pc_checkpoints := gates\<rparr>)"
    by (rule move.resolve [of _ _ "[]"]) (use q stale_gates_later pend_stale in \<open>auto simp: quiet_def apart_def gates_def\<close>)
  moreover have "move (st1\<lparr>pc_checkpoints := gates\<rparr>) (resolve_stale now st)"
    unfolding resolve_stale_def Let_def st1_def [symmetric] gates_def [symmetric]
    by (rule mild_move, rule mild_tasks) (use q in \<open>auto simp: quiet_def list_all2_map2 list_all2_same gentle_quiet\<close>)
  ultimately show ?thesis by (blast intro: then_move)
qed

lemma read_state_moves: "moves st (read_state started env st)"
  unfolding read_state_def Let_def recover_interrupted_def
  by (auto intro: then_move [OF _ updated_move] then_move [OF _ mild_move [OF recover_runs_mild [OF mild_refl]]] r_into_rtranclp normalize_move)

lemma load_state_moves: "moves st (load_state started env st)"
  unfolding load_state_def using read_state_moves resolve_stale_moves by (rule rtranclp_trans)

section \<open>The files\<close>

text \<open>
  Complete contents, as the file system shows them after each rename; the file of older
  versions lies beside the directory. A state is written as its JSON document, which is read
  back as the same state.
\<close>

record control_files =
  cf_main :: "ctl_state option"
  cf_wal :: "ctl_state option"
  cf_backup :: "ctl_state option"
  cf_legacy :: "ctl_state option"

text \<open>The writes of one save in order; a crash or an error stops after some of them.\<close>

definition save_writes :: "ctl_state \<Rightarrow> (control_files \<Rightarrow> control_files) list" where
  "save_writes st =
     [\<lambda>f. f\<lparr>cf_wal := Some st\<rparr>,
      \<lambda>f. if cf_main f = None then f else f\<lparr>cf_backup := cf_main f\<rparr>,
      \<lambda>f. f\<lparr>cf_main := Some st\<rparr>,
      \<lambda>f. f\<lparr>cf_wal := None\<rparr>]"

definition save_cut :: "ctl_state \<times> nat \<Rightarrow> control_files \<Rightarrow> control_files" where
  "save_cut = (\<lambda>(st, n). fold (\<lambda>w. w) (take n (save_writes st)))"

definition state_updated :: "ctl_state \<Rightarrow> instant option" where
  "state_updated st = (let v = trim_space (pc_updated st) in if v = [] then None else parse_rfc3339 v)"

definition prefer_state :: "ctl_state \<Rightarrow> ctl_state \<Rightarrow> bool" where
  "prefer_state candidate current =
     (case state_updated candidate of
        Some a \<Rightarrow> (case state_updated current of Some b \<Rightarrow> b \<le> a | None \<Rightarrow> True)
      | None \<Rightarrow> state_updated current = None)"

datatype state_source = From_main | From_wal | From_legacy

definition chosen_state :: "control_files \<Rightarrow> (state_source \<times> ctl_state) option" where
  "chosen_state f =
     (case cf_wal f of
        None \<Rightarrow> (case cf_main f of None \<Rightarrow> map_option (Pair From_legacy) (cf_legacy f) | Some m \<Rightarrow> Some (From_main, m))
      | Some w \<Rightarrow> (case cf_main f of None \<Rightarrow> Some (From_wal, w)
                   | Some m \<Rightarrow> Some (if prefer_state w m then (From_wal, w) else (From_main, m))))"

text \<open>Some task has more entries than are retained.\<close>

definition too_many :: "('a \<Rightarrow> string) \<Rightarrow> nat \<Rightarrow> 'a list \<Rightarrow> bool" where
  "too_many task n xs \<longleftrightarrow>
     (\<exists>x \<in> set xs. trim_space (task x) \<noteq> [] \<and> n < length (filter (\<lambda>y. trim_space (task y) = trim_space (task x)) xs))"

definition requires_canonical :: "ctl_state \<Rightarrow> bool" where
  "requires_canonical st \<longleftrightarrow>
     (\<exists>t \<in> set (pc_tasks st). kt_evidence t \<noteq> []) \<or> too_many ev_task (ek_retained event_entries) (pc_events st) \<or>
     too_many fa_task (ek_retained artifact_entries) (pc_artifacts st) \<or>
     too_many pa_task (ek_retained attempt_entries) (pc_attempts st) \<or> too_many ur_task (ek_retained run_entries) (pc_runs st)"

text \<open>A load stores what it changed, and removes a write-ahead file that is older than the main file.\<close>

definition load_files :: "instant \<Rightarrow> ctl_env \<Rightarrow> control_files \<Rightarrow> control_files \<times> ctl_state option" where
  "load_files started env f =
     (case chosen_state f of
        None \<Rightarrow> (f, None)
      | Some (source, st) \<Rightarrow>
          let st1 = read_state started env st in
          (if source = From_main \<and> \<not> requires_canonical st \<and> \<not> interrupted started (en_instant env) (normalize_state (en_now env) st)
           then f\<lparr>cf_wal := None\<rparr> else save_cut (st1, length (save_writes st1)) f, Some st1))"

text \<open>
  Once a save has begun, its state is chosen: from the write-ahead file until that is
  removed, and from then on from the main file.
\<close>

definition holds :: "control_files \<Rightarrow> ctl_state \<Rightarrow> bool" where
  "holds f st \<longleftrightarrow> (cf_wal f = Some st \<and> (\<forall>m. cf_main f = Some m \<longrightarrow> prefer_state st m) \<or> cf_wal f = None \<and> cf_main f = Some st)"

lemma holds_chosen: "holds f st \<Longrightarrow> map_option snd (chosen_state f) = Some st"
  by (auto simp: holds_def chosen_state_def split: option.split)

lemma prefer_later:
  "state_updated st = Some a \<Longrightarrow> state_updated st' = Some b \<Longrightarrow> a \<le> b \<Longrightarrow> prefer_state st m \<Longrightarrow> prefer_state st' m"
  by (auto simp: prefer_state_def split: option.splits)

lemma save_cut_steps:
  "save_cut (st, 0) f = f"
  "save_cut (st, Suc 0) f = f\<lparr>cf_wal := Some st\<rparr>"
  "save_cut (st, Suc (Suc 0)) f = (if cf_main f = None then f\<lparr>cf_wal := Some st\<rparr> else f\<lparr>cf_wal := Some st, cf_backup := cf_main f\<rparr>)"
  "cf_wal (save_cut (st, Suc (Suc (Suc 0))) f) = Some st \<and> cf_main (save_cut (st, Suc (Suc (Suc 0))) f) = Some st"
  "cf_wal (save_cut (st, Suc (Suc (Suc (Suc n)))) f) = None \<and> cf_main (save_cut (st, Suc (Suc (Suc (Suc n)))) f) = Some st"
  by (simp_all add: save_cut_def save_writes_def)

lemma save_cut_holds:
  assumes "state_updated st \<noteq> None" and main: "\<forall>m. cf_main f = Some m \<longrightarrow> prefer_state st m" and n: "0 < n"
  shows "holds (save_cut (st, n) f) st \<and> (\<forall>m. cf_main (save_cut (st, n) f) = Some m \<longrightarrow> prefer_state st m)"
proof -
  have self: "prefer_state st st" by (simp add: prefer_state_def split: option.split)
  consider "n = 1" | "n = 2" | "n = 3" | k where "n = Suc (Suc (Suc (Suc k)))"
    using n by (metis One_nat_def Suc_1 gr0_implies_Suc not0_implies_Suc numeral_3_eq_3)
  then show ?thesis using main self by cases (auto simp: save_cut_steps holds_def numeral_2_eq_2 numeral_3_eq_3)
qed

definition no_files :: control_files where
  "no_files = \<lparr>cf_main = None, cf_wal = None, cf_backup = None, cf_legacy = None\<rparr>"

text \<open>The last save of a history whose first write was made.\<close>

definition last_begun :: "(ctl_state \<times> nat) list \<Rightarrow> ctl_state option" where
  "last_begun hist = map_option fst (List.find (\<lambda>(st, n). 0 < n) (rev hist))"

lemma saves_cut_hold:
  assumes "\<forall>(st, n) \<in> set hist. state_updated st \<noteq> None" and "sorted (map (\<lambda>(st, n). the (state_updated st)) hist)"
  shows "case last_begun hist of
      None \<Rightarrow> fold save_cut hist no_files = no_files
    | Some st \<Rightarrow> st \<in> fst ` set hist \<and> holds (fold save_cut hist no_files) st \<and>
        (\<forall>m. cf_main (fold save_cut hist no_files) = Some m \<longrightarrow> prefer_state st m)"
  using assms
proof (induction hist rule: rev_induct)
  case (snoc x hist)
  obtain st n where x: "x = (st, n)" by fastforce
  let ?f = "fold save_cut hist no_files"
  have IH: "case last_begun hist of None \<Rightarrow> ?f = no_files
      | Some s \<Rightarrow> s \<in> fst ` set hist \<and> holds ?f s \<and> (\<forall>m. cf_main ?f = Some m \<longrightarrow> prefer_state s m)"
    using snoc by (simp add: sorted_append)
  show ?case
  proof (cases "n = 0")
    case True
    have "last_begun (hist @ [x]) = last_begun hist" using True by (simp add: last_begun_def x)
    with IH True show ?thesis by (auto simp: x save_cut_steps split: option.splits)
  next
    case False
    have "\<forall>m. cf_main ?f = Some m \<longrightarrow> prefer_state st m"
    proof (cases "last_begun hist")
      case None
      with IH show ?thesis by (simp add: no_files_def)
    next
      case (Some s)
      with IH obtain k where "(s, k) \<in> set hist" and s: "\<forall>m. cf_main ?f = Some m \<longrightarrow> prefer_state s m" by auto
      with snoc.prems obtain a b where "state_updated s = Some a" "state_updated st = Some b" "a \<le> b"
        by (force simp: x sorted_append)
      with s show ?thesis using prefer_later by blast
    qed
    with False snoc.prems(1) have "holds (save_cut (st, n) ?f) st \<and> (\<forall>m. cf_main (save_cut (st, n) ?f) = Some m \<longrightarrow> prefer_state st m)"
      by (intro save_cut_holds) (auto simp: x)
    moreover have "last_begun (hist @ [x]) = Some st" using False by (simp add: last_begun_def x)
    ultimately show ?thesis by (simp add: x)
  qed
qed (simp add: last_begun_def)

end
