(* ===== verification/Control_Machine.thy ===== *)
theory Control_Machine
  imports Control_Load
begin

text \<open>
  Project control as one machine: the calls of users, agents and the server itself on the
  board of a user, in the order in which the mutex of the store serialises them, each with
  the environment it finds. The commands of tools and of acceptance run between two calls.
\<close>

section \<open>Calls\<close>

datatype desk_call =
    Load_state instant
  | Create_project project_create
  | Create_workstream workstream
  | Update_workstream string workstream_update
  | Create_task task_create
  | Branch_task string "(string \<times> string) list"
  | Compose_task "string list" string string
  | Update_task string task_update
  | Decide_checkpoint string string
  | Control_takeover string takeover_request bool
  | Update_contract string contract_request
  | Begin_tool_run string
  | Finish_tool_run string "(string, tool_result) result"
  | Start_scheduled string string tool_def
  | Check_health alert_texts
  | Create_tool tool_def
  | Update_tool tool_def
  | Delete_tool string
  | Agent_claim "nat \<Rightarrow> instant" entropy claim_request
  | Agent_heartbeat string
  | Begin_release string string
  | Finish_release string string bool string
  | Release_unmanaged string string
  | Agent_release "string list \<Rightarrow> string \<Rightarrow> bool" string string
  | Submit_artifact artifact_request
  | Request_help help_request
  | Bind_terminal string string string
  | Register_task "live_terminal option" "(string \<times> string) option" string string

definition plain :: "(ctl_error, ctl_state) result \<Rightarrow> (ctl_error, ctl_state \<times> unit) result" where
  "plain r = and_then r (\<lambda>st. Inr (st, ()))"

text \<open>The transaction of a call that is one operation on the state.\<close>

fun desk_operation :: "desk_call \<Rightarrow> ctl_env \<Rightarrow> ctl_state \<Rightarrow> (ctl_error, ctl_state \<times> unit) result" where
  "desk_operation (Create_project req) env st = plain (create_project env req st)"
| "desk_operation (Create_workstream req) env st = plain (create_workstream env req st)"
| "desk_operation (Update_workstream i req) env st = plain (update_workstream env i req st)"
| "desk_operation (Create_task req) env st = and_then (create_task_in_state env req st) (\<lambda>(st1, i). Inr (st1, ()))"
| "desk_operation (Branch_task i bs) env st = plain (create_task_branches env i bs st)"
| "desk_operation (Compose_task is title goal) env st = plain (create_composed_task env is title goal st)"
| "desk_operation (Decide_checkpoint i action) env st = plain (decide_checkpoint (en_fingerprint env) (en_now env) i action st)"
| "desk_operation (Control_takeover i req agent) env st = plain (control_takeover env i req agent st)"
| "desk_operation (Update_contract i req) env st = plain (update_project_contract env i req st)"
| "desk_operation (Finish_tool_run i out) env st = and_then (finish_tool_run env i out st) (\<lambda>(st1, r). Inr (st1, ()))"
| "desk_operation (Start_scheduled i phase d) env st = and_then (start_scheduled env i phase d st) (\<lambda>(st1, r). Inr (st1, ()))"
| "desk_operation (Create_tool d) env st = plain (create_tool d st)"
| "desk_operation (Update_tool d) env st = plain (update_tool d st)"
| "desk_operation (Delete_tool i) env st = plain (delete_tool i st)"
| "desk_operation (Request_help req) env st = request_help env req st"
| "desk_operation (Bind_terminal task terminal project) env st = Inr (bind_task_terminal env task terminal project st, ())"
| "desk_operation (Register_task live inherited title goal) env st =
     and_then (register_task env live inherited title goal st) (\<lambda>(st1, i). Inr (st1, ()))"
| "desk_operation _ env st = Inl (CtlFailure [])"

fun desk_step :: "board \<Rightarrow> ctl_env \<times> desk_call \<Rightarrow> board" where
  "desk_step d (env, Load_state started) = d\<lparr>bd_control := load_state started env (bd_control d)\<rparr>"
| "desk_step d (env, Update_task i req) = fst (update_call env i req d)"
| "desk_step d (env, Begin_tool_run i) = fst (begin_tool_run env i d)"
| "desk_step d (env, Check_health texts) = check_health texts env d"
| "desk_step d (env, Agent_claim clock rnd req) = fst (agent_claim env clock rnd req d)"
| "desk_step d (env, Agent_heartbeat lease) = fst (agent_heartbeat env lease d)"
| "desk_step d (env, Begin_release lease outcome) = fst (begin_release env lease outcome d)"
| "desk_step d (env, Finish_release lease outcome failed task) = fst (finish_release env lease outcome failed task d)"
| "desk_step d (env, Release_unmanaged lease outcome) = fst (release_unmanaged env lease outcome d)"
| "desk_step d (env, Agent_release accept lease outcome) = fst (agent_release env accept lease outcome d)"
| "desk_step d (env, Submit_artifact req) = fst (submit_artifact env req d)"
| "desk_step d (env, c) = fst (control_call env (desk_operation c) d)"

definition desk_run :: "board \<Rightarrow> (ctl_env \<times> desk_call) list \<Rightarrow> board" where
  "desk_run d calls = foldl desk_step d calls"

definition empty_board :: "ctl_env \<Rightarrow> (nat \<Rightarrow> string) \<Rightarrow> board" where
  "empty_board env clock = \<lparr>bd_control = default_state env clock, bd_claims = [], bd_progress = [], bd_running = []\<rparr>"

section \<open>Every call is a sequence of moves\<close>

lemma begin_tool_run_carries: "carries d (fst (begin_tool_run env i d))"
  using pause_violation_carries [of d env]
  by (auto simp: begin_tool_run_def Let_def split: option.split sum.split prod.split) (metis fst_conv)+

lemma check_health_carries: "carries d (check_health texts env d)"
proof -
  define d1 where "d1 = fst (expire_stale_for_user env d)"
  have d1: "carries d d1" unfolding d1_def by (rule expire_stale_carries)
  have "carries d1 (fst (control_call env (\<lambda>env st. Inr (report_health env alerts overdue st, ())) d1))" for alerts overdue
    by (intro control_call_carries) (auto simp: yields_def intro: mild_moves report_health_mild)
  with d1 show ?thesis by (auto simp: check_health_def Let_def d1_def [symmetric] intro: rtranclp_trans)
qed

lemma save_checkpoint_moves: "yields (\<lambda>(st', x). moves st st') (save_checkpoint env req st)"
  unfolding save_checkpoint_def
  by (intro yields_cases) (auto dest!: record_artifact_works intro: r_into_rtranclp frame_move)

lemma answer_waiting_moves: "yields (\<lambda>(st', x). moves st st') (answer_waiting env req st)"
  unfolding answer_waiting_def
  by (intro yields_cases) (auto intro!: r_into_rtranclp quiet_move quiet_intros)

lemma submit_artifact_carries: "carries d (fst (submit_artifact env req d))"
proof -
  have saved: "carries d (fst (control_call env (\<lambda>env. save_checkpoint env req) d))"
    by (intro control_call_carries save_checkpoint_moves)
  obtain d1 r where call: "control_call env (\<lambda>env. answer_waiting env req) d = (d1, r)" by fastforce
  have d1: "carries d d1" by (rule control_call_carriesD [OF call]) (rule answer_waiting_moves)
  obtain d2 q where up: "update_call env (rq_task req) (bypass_request req) d1 = (d2, q)" by fastforce
  have "carries d1 d2" using update_call_carries [of d1 env "rq_task req" "bypass_request req"] up by simp
  with d1 have "carries d d2" by (rule rtranclp_trans)
  then show ?thesis using saved d1 by (simp add: submit_artifact_def call up split: sum.split)
qed

lemma raise_help_mild: "mild st (raise_help env req st)"
proof -
  define st1 where "st1 = (case control_task st (hq_task req) of
            None \<Rightarrow> st
          | Some t \<Rightarrow> if takeover_running st t
              then pause_control_state (en_nano env) (kt_project t) (kt_id t)
                (if project_scope (hq_code req) then hq_code req else ''agent_request'') st
              else st)"
  have "mild st st1" unfolding st1_def by (auto intro: pause_mild split: option.split)
  moreover have "\<not> gate_kind (ck_kind ((new_gate i a ''agent_request'' b c d e)\<lparr>ck_version := n\<rparr>))" for i a b c d e n
    by (simp add: gate_kind_def new_gate_def)
  ultimately show ?thesis unfolding raise_help_def Let_def st1_def [symmetric]
    by (auto split: prod.split intro!: mild_intros mild_checkpoint intro: mild_id)
qed

lemma bind_task_terminal_mild: "mild st (bind_task_terminal env task terminal project st)"
  by (auto simp: bind_task_terminal_def Let_def gentle_quiet intro!: mild_intros mild_put split: option.split)

lemma bind_exclusive_mild: "mild st st' \<Longrightarrow> mild st (bind_exclusive task terminal st')"
proof -
  assume *: "mild st st'"
  have "list_all2 gentle ts (update_first P (\<lambda>t. t\<lparr>kt_sessions := f t\<rparr>) (map g ts))" if "\<And>t. gentle t (g t)" for ts P f g
    using that by (induction ts) (auto simp: gentle_quiet intro: gentle_map)
  then show ?thesis unfolding bind_exclusive_def using * by (intro mild_tasks) (auto simp: gentle_quiet)
qed

lemma register_task_moves: "yields (\<lambda>(st', x). moves st st') (register_task env live inherited title goal st)"
proof -
  have created: "moves st (emit a b (bind_exclusive i l st1))" if "create_task_in_state env req st = Inr (st1, j)" for a b i l st1 j req
    by (rule then_move [OF create_task_moves [OF that]], rule mild_move) (intro mild_intros bind_exclusive_mild mild_refl)
  show ?thesis unfolding register_task_def
    by (intro yields_cases) (auto intro: created create_task_moves split: option.split)
qed

lemma desk_operation_moves: "yields (\<lambda>(st', x). moves st st') (desk_operation c env st)"
proof -
  have plain: "yields (\<lambda>(st', x). moves st st') (plain r)" if "yields (moves st) r" for r
    using that by (auto simp: plain_def yields_def and_then_def split: sum.splits)
  have dropped: "yields (\<lambda>(st', x). moves st st') (and_then r (\<lambda>(st1, i). Inr (st1, ())))" if "yields (\<lambda>(st', i). moves st st') r"
    for r :: "(ctl_error, ctl_state \<times> string) result"
    using that by (auto simp: yields_def and_then_def split: sum.splits)
  have mild: "yields (moves st) r" if "yields (mild st) r" for r using that by (auto simp: yields_def mild_moves)
  have quiet: "yields (moves st) r" if "yields (quiet st) r" for r using that by (auto simp: yields_def intro: r_into_rtranclp quiet_move)
  have made: "yields (moves st) r" if "\<And>st'. r = Inr st' \<Longrightarrow> moves st st'" for r :: "(ctl_error, ctl_state) result"
    using that by (simp add: yields_def)
  have created: "yields (\<lambda>(st', i). moves st st') (create_task_in_state env req st)" for req
    by (auto simp: yields_def intro: create_task_moves)
  have helped: "yields (\<lambda>(st', x). moves st st') (request_help env req st)" for req
    by (auto simp: yields_def request_help_def intro: mild_moves raise_help_mild)
  have bound: "yields (\<lambda>(st', x). moves st st') (Inr (bind_task_terminal env a b g st, ()))" for a b g
    by (auto simp: yields_def intro: mild_moves bind_task_terminal_mild)
  show ?thesis
    by (cases c)
      (auto intro!: created helped bound plain dropped finish_tool_run_moves start_scheduled_moves register_task_moves
        intro: mild [OF control_takeover_mild] mild [OF update_project_contract_mild] quiet [OF catalogue_quiet(1)]
          quiet [OF catalogue_quiet(2)] quiet [OF catalogue_quiet(3)]
          made create_project_moves create_workstream_moves update_workstream_moves create_task_branches_moves
          create_composed_task_moves r_into_rtranclp [of move] decide_checkpoint_move yields_cases(1))
qed

lemma desk_step_moves: "carries d (desk_step d call)"
proof -
  obtain env c where call: "call = (env, c)" by fastforce
  have op: "carries d (fst (control_call env (desk_operation c) d))" by (intro control_call_carries desk_operation_moves)
  show ?thesis unfolding call using op load_state_moves update_call_carries begin_tool_run_carries check_health_carries agent_claim_carries
      agent_heartbeat_carries begin_release_carries finish_release_carries release_unmanaged_carries agent_release_carries
      submit_artifact_carries
    by (cases c) simp_all
qed

lemma desk_run_moves: "carries d (desk_run d calls)"
proof (induction calls arbitrary: d)
  case (Cons c calls)
  then show ?case using desk_step_moves [of d c] by (auto simp: desk_run_def intro: rtranclp_trans)
qed (simp add: desk_run_def)

end
