(* ===== verification/Control_Ids.thy ===== *)
theory Control_Ids
  imports Control_Machine
begin

text \<open>
  Identifiers made from a clock whose readings all differ are new, and are no changed by
  the normal form; the search of dependencies is right about cycles.
\<close>

section \<open>Identifiers\<close>

definition stamp_of :: "(nat \<Rightarrow> string) \<Rightarrow> nat \<Rightarrow> string" where
  "stamp_of clock n = filter (\<lambda>c. c \<noteq> CHR ''.'') (clock n)"

text \<open>The readings of a clock are digits around one point, and no two are the same.\<close>

definition ticking :: "(nat \<Rightarrow> string) \<Rightarrow> bool" where
  "ticking clock \<longleftrightarrow> inj (stamp_of clock) \<and> (\<forall>n. stamp_of clock n \<noteq> [] \<and> list_all is_digit (stamp_of clock n))"

lemma control_id_shape: "\<exists>body. control_id_text s prefix seed = prefix @ ''-'' @ body @ ''-'' @ filter (\<lambda>c. c \<noteq> CHR ''.'') s"
  by (auto simp: control_id_text_def Let_def)

lemma digit_visible: "is_digit c \<Longrightarrow> 33 \<le> byte_of c \<and> byte_of c \<le> 126 \<and> c \<noteq> CHR ''-''"
proof -
  have "byte_of CHR ''-'' = 45" by code_simp
  then show "is_digit c \<Longrightarrow> ?thesis" by (auto simp: is_digit_def)
qed

lemma trim_space_ends:
  assumes "33 \<le> byte_of a \<and> byte_of a \<le> 126" and "33 \<le> byte_of b \<and> byte_of b \<le> 126"
  shows "trim_space (a # s @ [b]) = a # s @ [b]"
proof -
  have "lead_space (a # s @ [b]) = 0" using assms(1)
    by (auto simp: lead_space_def not_space_visible split: list.splits)
  moreover have "tail_space (rev (a # s @ [b])) = 0" using assms(2)
    by (auto simp: tail_space_def not_space_visible split: list.splits)
  ultimately show ?thesis by (simp add: trim_space_def trim_left_fix trim_tail_fix)
qed

lemma control_id_trim:
  assumes "ticking clock"
  shows "trim_space (control_id_text (clock n) ''task'' title) = control_id_text (clock n) ''task'' title"
proof -
  obtain body where b: "control_id_text (clock n) ''task'' title = ''task'' @ ''-'' @ body @ ''-'' @ stamp_of clock n"
    using control_id_shape [of "clock n" "''task''" title] by (auto simp: stamp_of_def)
  obtain s c where s: "stamp_of clock n = s @ [c]" using assms unfolding ticking_def by (metis append_butlast_last_id)
  moreover have "list_all is_digit (stamp_of clock n)" using assms by (simp add: ticking_def)
  ultimately have "is_digit c" by simp
  then show ?thesis using trim_space_ends [of "CHR ''t''" c "''ask-'' @ body @ ''-'' @ s"] digit_visible [of c] b s
    by (simp add: byte_of_def)
qed

lemma dash_last:
  assumes "xs @ CHR ''-'' # s = ys @ CHR ''-'' # t" and "list_all is_digit s" and "list_all is_digit t"
  shows "s = t"
proof -
  have tail: "takeWhile (\<lambda>c. c \<noteq> CHR ''-'') (rev (zs @ CHR ''-'' # u)) = rev u" if "list_all is_digit u" for zs u
  proof -
    have "\<forall>c \<in> set (rev u). c \<noteq> CHR ''-''" using that digit_visible by (auto simp: list_all_iff)
    then show ?thesis by (simp add: takeWhile_append)
  qed
  from assms(1) have "takeWhile (\<lambda>c. c \<noteq> CHR ''-'') (rev (xs @ CHR ''-'' # s)) = takeWhile (\<lambda>c. c \<noteq> CHR ''-'') (rev (ys @ CHR ''-'' # t))"
    by simp
  then show ?thesis using tail [OF assms(2)] tail [OF assms(3)] by simp
qed

lemma control_id_new:
  assumes "ticking clock" and "m \<noteq> n"
  shows "control_id_text (clock m) ''task'' a \<noteq> control_id_text (clock n) ''task'' b"
proof
  assume eq: "control_id_text (clock m) ''task'' a = control_id_text (clock n) ''task'' b"
  obtain u v where "control_id_text (clock m) ''task'' a = (''task'' @ ''-'' @ u) @ CHR ''-'' # stamp_of clock m"
    "control_id_text (clock n) ''task'' b = (''task'' @ ''-'' @ v) @ CHR ''-'' # stamp_of clock n"
    using control_id_shape [of "clock m" "''task''" a] control_id_shape [of "clock n" "''task''" b] by (auto simp: stamp_of_def)
  with eq have "stamp_of clock m = stamp_of clock n"
    using assms(1) dash_last [of "''task'' @ ''-'' @ u" "stamp_of clock m" "''task'' @ ''-'' @ v"] unfolding ticking_def by auto
  with assms show False by (simp add: ticking_def inj_eq)
qed

section \<open>Dependencies\<close>

definition found_task :: "ctl_task list \<Rightarrow> string \<Rightarrow> ctl_task option" where
  "found_task ts i = List.find (\<lambda>t. kt_id t = i) ts"

definition depends :: "ctl_task list \<Rightarrow> (string \<times> string) set" where
  "depends ts = {(i, d). \<exists>t. found_task ts i = Some t \<and> d \<in> set (kt_depends t)}"

text \<open>
  What the search checks: everything a list of dependencies leads to is a task of the
  project, lies outside the path so far and does not lead back to itself.
\<close>

theorem visit_all_iff:
  "visit_all ts project visiting ids = Inr () \<longleftrightarrow>
   (\<forall>i \<in> set ids. \<forall>j. (i, j) \<in> (depends ts)\<^sup>* \<longrightarrow>
      j \<notin> set visiting \<and> (\<exists>t. found_task ts j = Some t \<and> kt_project t = project) \<and> (j, j) \<notin> (depends ts)\<^sup>+)"
proof (induction ts project visiting ids rule: visit_all.induct)
  case (2 ts project visiting i ids)
  let ?R = "depends ts"
  define ok where "ok vs j \<longleftrightarrow> j \<notin> set vs \<and> (\<exists>t. found_task ts j = Some t \<and> kt_project t = project) \<and> (j, j) \<notin> ?R\<^sup>+" for vs j
  show ?case
  proof (cases "i \<in> set visiting \<or> (\<forall>t. found_task ts i = Some t \<longrightarrow> kt_project t \<noteq> project)")
    case True
    then show ?thesis by (auto simp: found_task_def split: option.splits)
  next
    case False
    then obtain dep where dep: "found_task ts i = Some dep" "kt_project dep = project" "i \<notin> set visiting" by blast
    have edges: "(i, d) \<in> ?R \<longleftrightarrow> d \<in> set (kt_depends dep)" for d using dep(1) by (simp add: depends_def)
    have IH1: "visit_all ts project (i # visiting) (kt_depends dep) = Inr () \<longleftrightarrow> (\<forall>d. (i, d) \<in> ?R \<longrightarrow> (\<forall>j. (d, j) \<in> ?R\<^sup>* \<longrightarrow> ok (i # visiting) j))"
      using 2(1) [of dep] dep unfolding edges ok_def by (auto simp: found_task_def)
    have IH2: "visit_all ts project visiting ids = Inr () \<longleftrightarrow> (\<forall>k \<in> set ids. \<forall>j. (k, j) \<in> ?R\<^sup>* \<longrightarrow> ok visiting j)"
      if "visit_all ts project (i # visiting) (kt_depends dep) = Inr ()"
      using 2(2) [of dep] dep that unfolding ok_def by (auto simp: found_task_def)
    have "(\<forall>d. (i, d) \<in> ?R \<longrightarrow> (\<forall>j. (d, j) \<in> ?R\<^sup>* \<longrightarrow> ok (i # visiting) j)) \<longleftrightarrow> (\<forall>j. (i, j) \<in> ?R\<^sup>* \<longrightarrow> ok visiting j)"
      (is "?A \<longleftrightarrow> ?B")
    proof
      assume A: ?A
      have "(i, i) \<notin> ?R\<^sup>+"
      proof
        assume "(i, i) \<in> ?R\<^sup>+"
        then obtain d where "(i, d) \<in> ?R" "(d, i) \<in> ?R\<^sup>*" by (meson tranclD)
        with A have "ok (i # visiting) i" by blast
        then show False by (simp add: ok_def)
      qed
      with dep have "ok visiting i" by (simp add: ok_def)
      have weaker: "ok visiting j" if "ok (i # visiting) j" for j using that by (simp add: ok_def)
      show ?B
      proof (intro allI impI)
        fix j assume "(i, j) \<in> ?R\<^sup>*"
        then show "ok visiting j"
          by (cases rule: converse_rtranclE) (use A \<open>ok visiting i\<close> weaker in blast)+
      qed
    next
      assume B: ?B
      then have no_cycle: "(i, i) \<notin> ?R\<^sup>+" unfolding ok_def by blast
      have "ok (i # visiting) j" if "(i, d) \<in> ?R" "(d, j) \<in> ?R\<^sup>*" for d j
      proof -
        have "ok visiting j" using B that by (meson converse_rtrancl_into_rtrancl)
        moreover have "j \<noteq> i" using no_cycle that by (meson rtrancl_into_trancl2)
        ultimately show ?thesis by (simp add: ok_def)
      qed
      then show ?A by blast
    qed
    with IH1 have first: "visit_all ts project (i # visiting) (kt_depends dep) = Inr () \<longleftrightarrow> (\<forall>j. (i, j) \<in> ?R\<^sup>* \<longrightarrow> ok visiting j)"
      by simp
    have "visit_all ts project visiting (i # ids) =
        (case visit_all ts project (i # visiting) (kt_depends dep) of Inl e \<Rightarrow> Inl e | Inr _ \<Rightarrow> visit_all ts project visiting ids)"
      using dep by (simp add: found_task_def)
    then have "visit_all ts project visiting (i # ids) = Inr () \<longleftrightarrow> (\<forall>k \<in> set (i # ids). \<forall>j. (k, j) \<in> ?R\<^sup>* \<longrightarrow> ok visiting j)"
      using first IH2 by (cases "visit_all ts project (i # visiting) (kt_depends dep)") auto
    then show ?thesis unfolding ok_def .
  qed
qed simp

end
