(* ===== verification/Control_Invariants.thy ===== *)
theory Control_Invariants
  imports Control_Ids
begin

text \<open>
  Invariants of the board, shown on moves: identifiers of tasks are unique, what is accepted
  or archived was decided, gates are unique and in line with the acceptance of their tasks,
  dependencies have no cycles.
\<close>

section \<open>The invariants\<close>

definition born :: "ctl_state \<Rightarrow> string \<Rightarrow> bool" where
  "born st i \<longleftrightarrow> (\<exists>n title. n < pc_reads st \<and> i = control_id_text (pc_clock st n) ''task'' title)"

definition named :: "ctl_state \<Rightarrow> bool" where
  "named st \<longleftrightarrow> ticking (pc_clock st) \<and> (\<forall>t \<in> set (pc_tasks st). born st (kt_id t)) \<and> distinct (map kt_id (pc_tasks st))"

definition backed :: "ctl_decision set \<Rightarrow> ctl_task \<Rightarrow> bool" where
  "backed D t \<longleftrightarrow> known_status t \<and> (kt_acceptance t = ''accepted'' \<longrightarrow> (\<exists>d \<in> D. grants d t)) \<and>
     (kt_state t = ''archived'' \<longrightarrow> kt_acceptance t = ''accepted'' \<or> (\<exists>d \<in> D. waives d t))"

definition decided :: "ctl_state \<Rightarrow> bool" where
  "decided st \<longleftrightarrow> (\<forall>t \<in> set (pc_tasks st). backed (set (pc_decisions st)) t)"

definition gated :: "ctl_state \<Rightarrow> bool" where
  "gated st \<longleftrightarrow>
     (\<forall>i kind. gate_kind kind \<longrightarrow> pend i kind (pc_checkpoints st) \<le> 1 \<and> (0 < pend i kind (pc_checkpoints st) \<longrightarrow> trim_space i = i)) \<and>
     (\<forall>t \<in> set (pc_tasks st). kt_acceptance t = ''under_human_review'' \<longrightarrow> 0 < pend (kt_id t) ''final_acceptance'' (pc_checkpoints st))"

definition ordered :: "ctl_state \<Rightarrow> bool" where
  "ordered st \<longleftrightarrow>
     (\<forall>t \<in> set (pc_tasks st). \<forall>d \<in> set (kt_depends t). \<exists>u \<in> set (pc_tasks st). kt_id u = d \<and> kt_project u = kt_project t) \<and>
     acyclic (depends (pc_tasks st))"

definition desk_inv :: "ctl_state \<Rightarrow> bool" where
  "desk_inv st \<longleftrightarrow> named st \<and> decided st \<and> gated st \<and> ordered st"

section \<open>Identifiers\<close>

lemma born_trim: "named st \<Longrightarrow> t \<in> set (pc_tasks st) \<Longrightarrow> trim_space (kt_id t) = kt_id t"
  unfolding named_def born_def using control_id_trim by metis

lemma born_later: "apart st st' \<Longrightarrow> born st i \<Longrightarrow> born st' i"
  unfolding born_def apart_def by (metis order_less_le_trans)

lemma stamped_new:
  assumes "named st" and "stamped_task st st' i" and "t \<in> set (pc_tasks st)"
  shows "kt_id t \<noteq> i"
  using assms control_id_new unfolding named_def born_def stamped_task_def by (metis not_le)

lemma gentle_ids: "list_all2 gentle ts us \<Longrightarrow> map kt_id us = map kt_id ts"
  by (induction rule: list_all2_induct) (auto simp: gentle_def same_owner_def)

lemma named_same: "named st \<Longrightarrow> apart st st' \<Longrightarrow> map kt_id (pc_tasks st') = map kt_id (pc_tasks st) \<Longrightarrow> named st'"
proof -
  assume n: "named st" and a: "apart st st'" and m: "map kt_id (pc_tasks st') = map kt_id (pc_tasks st)"
  from m have "kt_id ` set (pc_tasks st') = kt_id ` set (pc_tasks st)" by (metis list.set_map)
  then have "\<exists>u \<in> set (pc_tasks st). kt_id u = kt_id t" if "t \<in> set (pc_tasks st')" for t
    using that by (metis imageE imageI)
  with n a m show ?thesis unfolding named_def using born_later [OF a] by (metis apart_def)
qed

lemma settled_ids:
  assumes "length ts' = length ts" and "\<forall>m < length ts. m \<noteq> j \<longrightarrow> gentle (ts ! m) (ts' ! m)" and "same_owner (ts ! j) (ts' ! j)"
  shows "map kt_id ts' = map kt_id ts"
proof (rule nth_equalityI)
  fix m assume "m < length (map kt_id ts')"
  then show "map kt_id ts' ! m = map kt_id ts ! m"
    using assms by (cases "m = j") (auto simp: gentle_def same_owner_def)
qed (use assms in simp)

lemma normal_ids:
  assumes "named st" and "list_all2 normal_task (pc_tasks st) ts'"
  shows "map kt_id ts' = map kt_id (pc_tasks st)"
proof (rule nth_equalityI)
  fix m assume "m < length (map kt_id ts')"
  then show "map kt_id ts' ! m = map kt_id (pc_tasks st) ! m"
    using assms born_trim [OF assms(1)] by (auto simp: list_all2_conv_all_nth normal_task_def)
qed (use assms in \<open>simp add: list_all2_lengthD\<close>)

lemma named_move: "move st st' \<Longrightarrow> named st \<Longrightarrow> named st'"
proof (induction rule: move.induct)
  case (edit st st' cs)
  show ?case by (rule named_same [OF edit(6,1) gentle_ids [OF edit(2)]])
next
  case (settle st st' j ds)
  show ?case by (rule named_same [OF settle(10,1) settled_ids [OF settle(2,4,5)]])
next
  case (create st st' t)
  have new: "\<forall>u \<in> set (pc_tasks st). kt_id u \<noteq> kt_id t" using stamped_new [OF create(10) create(2)] by blast
  with create obtain ts where ts: "list_all2 gentle (pc_tasks st) ts" "pc_tasks st' = ts @ [t]" by blast
  have ids: "map kt_id (pc_tasks st') = map kt_id (pc_tasks st) @ [kt_id t]" using ts gentle_ids [OF ts(1)] by simp
  have "born st' (kt_id t)" using create(1,2) unfolding stamped_task_def born_def apart_def by metis
  moreover have "born st' (kt_id u)" if "u \<in> set ts" for u
  proof -
    have "kt_id u \<in> set (map kt_id (pc_tasks st))" using that gentle_ids [OF ts(1)] by (metis image_eqI list.set_map)
    then show ?thesis using create(1,10) born_later unfolding named_def by auto
  qed
  moreover have "distinct (map kt_id (pc_tasks st'))" using create(10) new unfolding ids named_def by auto
  ultimately show ?case using create(1,10) ts unfolding named_def by (auto simp: apart_def)
next
  case (normalise st st')
  show ?case by (rule named_same [OF normalise(5,1) normal_ids [OF normalise(5,2)]])
next
  case (aside st st')
  show ?case by (rule named_same [OF aside(5,1)]) (simp add: aside)
next
  case (resolve st st' ds)
  show ?case by (rule named_same [OF resolve(7,1)]) (simp add: resolve)
qed

section \<open>Decisions\<close>

lemma backed_gentle: "gentle t t' \<Longrightarrow> backed D t \<Longrightarrow> backed D t'"
proof -
  assume g: "gentle t t'" and b: "backed D t"
  have w: "\<not> at_work ''archived''" "\<not> unsettled ''accepted''" by (simp_all add: at_work_def unsettled_def)
  have k: "known_status t'" using gentle_lawful [OF g] b by (simp add: backed_def)
  have d: "grants d t' = grants d t" "waives d t' = waives d t" for d
    using g by (simp_all add: gentle_def same_owner_def grants_def waives_def)
  have a: "kt_acceptance t' = ''accepted'' \<Longrightarrow> kt_acceptance t = ''accepted''" using g w unfolding gentle_def by metis
  have s: "kt_state t' = ''archived'' \<Longrightarrow> kt_state t = ''archived'' \<and> kt_acceptance t' = kt_acceptance t"
    using g w unfolding gentle_def by metis
  show ?thesis using b k a s unfolding backed_def d by auto
qed

lemma backed_mono: "backed D t \<Longrightarrow> D \<subseteq> E \<Longrightarrow> backed E t"
  unfolding backed_def by blast

lemma backed_lawful:
  assumes "backed D t" and "same_owner t t'" and "known_status t'" and "lawful ds t t'"
  shows "backed (D \<union> set ds) t'"
proof -
  have "grants d t \<Longrightarrow> kt_acceptance_decision t' = kt_acceptance_decision t \<Longrightarrow> grants d t'" "waives d t \<Longrightarrow> waives d t'" for d
    using assms(2) by (auto simp: grants_def waives_def same_owner_def)
  then show ?thesis using assms(1,3,4) unfolding backed_def lawful_def by blast
qed

lemma in_all2: "list_all2 P xs ys \<Longrightarrow> y \<in> set ys \<Longrightarrow> \<exists>x \<in> set xs. P x y"
  by (induction rule: list_all2_induct) auto

lemma in_settled:
  assumes "length ts' = length ts" and "\<forall>m < length ts. m \<noteq> j \<longrightarrow> P (ts ! m) (ts' ! m)" and "y \<in> set ts'"
  shows "y = ts' ! j \<or> (\<exists>m < length ts. m \<noteq> j \<and> ts ! m \<in> set ts \<and> P (ts ! m) y \<and> y = ts' ! m)"
  using assms by (metis in_set_conv_nth nth_mem)

lemma normal_decision:
  "grants d t \<Longrightarrow> normal_task t t' \<Longrightarrow> grants (normalize_decision d) t'"
  "waives d t \<Longrightarrow> normal_task t t' \<Longrightarrow> waives (normalize_decision d) t'"
proof -
  have "trim_space ''final_acceptance_approved'' = ''final_acceptance_approved''" "trim_space ''checkpoint_approved'' = ''checkpoint_approved''"
    "trim_space ''archive_override_approved'' = ''archive_override_approved''" "trim_space ''human'' = ''human''"
    by code_simp+
  then show "grants d t \<Longrightarrow> normal_task t t' \<Longrightarrow> grants (normalize_decision d) t'"
    "waives d t \<Longrightarrow> normal_task t t' \<Longrightarrow> waives (normalize_decision d) t'"
    by (auto simp: grants_def waives_def normalize_decision_def normal_task_def)
qed

lemma backed_normal: "backed D t \<Longrightarrow> normal_task t t' \<Longrightarrow> backed (normalize_decision ` D) t'"
proof -
  assume b: "backed D t" and n: "normal_task t t'"
  have "kt_state t' = kt_state t" "kt_acceptance t' = kt_acceptance t" "known_status t'"
    using b n by (simp_all add: backed_def known_status_def normal_task_def)
  with b show ?thesis using normal_decision [OF _ n] unfolding backed_def by auto
qed

text \<open>A new task stands at the end of the others.\<close>

lemma created_at_end:
  assumes "named st" and "stamped_task st st' (kt_id t)"
    and "(\<forall>u \<in> set (pc_tasks st). kt_id u \<noteq> kt_id t) \<longrightarrow> (\<exists>ts. list_all2 gentle (pc_tasks st) ts \<and> pc_tasks st' = ts @ [t])"
  obtains ts where "list_all2 gentle (pc_tasks st) ts" "pc_tasks st' = ts @ [t]" "\<forall>u \<in> set (pc_tasks st). kt_id u \<noteq> kt_id t"
  using assms(3) stamped_new [OF assms(1,2)] by blast

lemma decided_move: "move st st' \<Longrightarrow> decided st \<Longrightarrow> named st \<Longrightarrow> decided st'"
proof (induction rule: move.induct)
  case (edit st st' cs)
  show ?case unfolding decided_def edit(5)
    using in_all2 [OF edit(2)] edit(6) backed_gentle unfolding decided_def by blast
next
  case (settle st st' j ds)
  have old: "backed (set (pc_decisions st)) t" if "t \<in> set (pc_tasks st)" for t using settle(10) that by (simp add: decided_def)
  let ?t = "pc_tasks st ! j" and ?t' = "pc_tasks st' ! j"
  have j: "backed (set (pc_decisions st')) ?t'"
    using old [of ?t] settle(3,5,6) backed_lawful [of "set (pc_decisions st)" ?t ?t' ds] unfolding settle(9) by (simp add: backed_def)
  show ?case unfolding decided_def
  proof
    fix t' assume "t' \<in> set (pc_tasks st')"
    from in_settled [OF settle(2,4) this] show "backed (set (pc_decisions st')) t'"
      using j old backed_gentle backed_mono [of "set (pc_decisions st)" t' "set (pc_decisions st')"] unfolding settle(9) by auto
  qed
next
  case (create st st' t)
  obtain ts where ts: "list_all2 gentle (pc_tasks st) ts" "pc_tasks st' = ts @ [t]"
    using created_at_end [OF create(11,2,3)] by blast
  have "backed D t" for D using create(4-6) by (auto simp: backed_def unsettled_def)
  moreover have "backed (set (pc_decisions st)) u" if "u \<in> set ts" for u
    using in_all2 [OF ts(1) that] create(10) backed_gentle by (auto simp: decided_def)
  ultimately show ?case by (auto simp: decided_def ts create(9))
next
  case (normalise st st')
  show ?case unfolding decided_def normalise(4)
    using in_all2 [OF normalise(2)] normalise(5) backed_normal unfolding decided_def set_map by blast
next
  case (resolve st st' ds)
  then show ?case unfolding decided_def using backed_mono by (metis Un_upper1 set_append)
qed (auto simp: decided_def)

section \<open>Gates\<close>

lemma pend_no_gate: "gate_kind kind \<Longrightarrow> \<forall>c \<in> set cs. \<not> gate_kind (ck_kind c) \<Longrightarrow> pend i kind cs = 0"
  by (auto simp: pend_0 pending_gate_def)

lemma gate_kind_final: "gate_kind ''final_acceptance''"
  by (simp add: gate_kind_def)

lemma pend_normal:
  assumes "\<And>j. 0 < pend j kind cs \<Longrightarrow> trim_space j = j"
  shows "pend i kind (map normalize_checkpoint cs) = pend i kind cs"
  using assms
proof (induction cs)
  case (Cons c cs)
  have "pending_gate i kind (normalize_checkpoint c) = pending_gate i kind c"
  proof (cases "ck_kind c = kind \<and> ck_status c = ''pending''")
    case True
    then have "trim_space (ck_task c) = ck_task c" using Cons.prems [of "ck_task c"] by (simp add: pending_gate_def)
    then show ?thesis by (simp add: pending_gate_def normalize_checkpoint_def)
  qed (auto simp: pending_gate_def normalize_checkpoint_def)
  moreover have "pend i kind (map normalize_checkpoint cs) = pend i kind cs"
    using Cons.prems by (intro Cons.IH) simp
  ultimately show ?case by simp
qed simp

definition gates_ok :: "checkpoint list \<Rightarrow> bool" where
  "gates_ok cs \<longleftrightarrow> (\<forall>i kind. gate_kind kind \<longrightarrow> pend i kind cs \<le> 1 \<and> (0 < pend i kind cs \<longrightarrow> trim_space i = i))"

lemma gates_ok_less: "gates_ok cs \<Longrightarrow> \<forall>i kind. gate_kind kind \<longrightarrow> pend i kind cs' \<le> pend i kind cs \<Longrightarrow> gates_ok cs'"
  unfolding gates_ok_def by (meson le_trans order_less_le_trans)

lemma gates_ok_in_line: "gates_ok cs \<Longrightarrow> in_line i r cs cs' \<Longrightarrow> trim_space i = i \<Longrightarrow> gates_ok cs'"
  unfolding gates_ok_def in_line_def by (metis le_trans max_def order_less_le_trans)

lemma gentle_review: "gentle t t' \<Longrightarrow> kt_acceptance t' = ''under_human_review'' \<Longrightarrow> kt_acceptance t = ''under_human_review'' \<and> kt_id t' = kt_id t"
  by (auto simp: gentle_def unsettled_def same_owner_def)

lemma gated_alt: "gated st \<longleftrightarrow> gates_ok (pc_checkpoints st) \<and>
   (\<forall>t \<in> set (pc_tasks st). kt_acceptance t = ''under_human_review'' \<longrightarrow> 0 < pend (kt_id t) ''final_acceptance'' (pc_checkpoints st))"
  by (simp add: gated_def gates_ok_def)

lemma gated_move: "move st st' \<Longrightarrow> gated st \<Longrightarrow> named st \<Longrightarrow> decided st \<Longrightarrow> gated st'"
proof (induction rule: move.induct)
  case (edit st st' cs)
  have same: "pend i kind (pc_checkpoints st') = pend i kind (pc_checkpoints st)" if "gate_kind kind" for i kind
    using pend_no_gate [OF that edit(4)] by (simp add: edit(3))
  show ?case unfolding gated_alt
  proof (intro conjI ballI impI)
    show "gates_ok (pc_checkpoints st')" using edit(6) same by (auto simp: gated_alt gates_ok_def)
    fix t' assume "t' \<in> set (pc_tasks st')" "kt_acceptance t' = ''under_human_review''"
    with in_all2 [OF edit(2)] gentle_review obtain t where
      "t \<in> set (pc_tasks st)" "kt_acceptance t = ''under_human_review''" "kt_id t' = kt_id t" by metis
    then show "0 < pend (kt_id t') ''final_acceptance'' (pc_checkpoints st')"
      using edit(6) same [OF gate_kind_final] by (auto simp: gated_alt)
  qed
next
  case (settle st st' j ds)
  let ?i = "kt_id (pc_tasks st ! j)"
  have i: "trim_space ?i = ?i" using born_trim [OF settle(11)] settle(3) by simp
  show ?case unfolding gated_alt
  proof (intro conjI ballI impI)
    show "gates_ok (pc_checkpoints st')" using gates_ok_in_line [OF _ settle(8) i] settle(10) by (simp add: gated_alt)
    fix t' assume t': "t' \<in> set (pc_tasks st')" and review: "kt_acceptance t' = ''under_human_review''"
    from in_settled [OF settle(2,4) t'] show "0 < pend (kt_id t') ''final_acceptance'' (pc_checkpoints st')"
    proof (elim disjE exE conjE)
      assume "t' = pc_tasks st' ! j"
      then show ?thesis using settle(5,8) review by (auto simp: in_line_def same_owner_def)
    next
      fix m assume m: "m < length (pc_tasks st)" "m \<noteq> j" "pc_tasks st ! m \<in> set (pc_tasks st)" "gentle (pc_tasks st ! m) t'"
      have "?i \<noteq> kt_id (pc_tasks st ! m)"
        using settle(3,11) m by (auto simp: named_def distinct_conv_nth)
      moreover have "0 < pend (kt_id (pc_tasks st ! m)) ''final_acceptance'' (pc_checkpoints st)"
        using settle(10) m(3) gentle_review [OF m(4) review] by (simp add: gated_alt)
      ultimately show ?thesis using settle(8) gentle_review [OF m(4) review] by (auto simp: in_line_def)
    qed
  qed
next
  case (resolve st st' ds)
  show ?case unfolding gated_alt
    using resolve(7) gates_ok_less [of "pc_checkpoints st" "pc_checkpoints st'"] resolve(2,4,5) by (auto simp: gated_alt)
next
  case (create st st' t)
  obtain ts where ts: "list_all2 gentle (pc_tasks st) ts" "pc_tasks st' = ts @ [t]" and new: "\<forall>u \<in> set (pc_tasks st). kt_id u \<noteq> kt_id t"
    using created_at_end [OF create(11,2,3)] by blast
  have i: "trim_space (kt_id t) = kt_id t"
    using born_trim [OF named_move [OF move.create [OF create(1-9)] create(11)]] ts by simp
  show ?case unfolding gated_alt
  proof (intro conjI ballI impI)
    show "gates_ok (pc_checkpoints st')" using gates_ok_in_line [OF _ create(8) i] create(10) by (simp add: gated_alt)
    fix t' assume t': "t' \<in> set (pc_tasks st')" and review: "kt_acceptance t' = ''under_human_review''"
    then have "t' \<in> set ts" using create(5) by (auto simp: ts unsettled_def)
    with in_all2 [OF ts(1)] gentle_review [OF _ review] obtain u where
      u: "u \<in> set (pc_tasks st)" "kt_acceptance u = ''under_human_review''" "kt_id t' = kt_id u" by metis
    then show "0 < pend (kt_id t') ''final_acceptance'' (pc_checkpoints st')"
      using create(8,10) new unfolding in_line_def gated_alt by metis
  qed
next
  case (normalise st st')
  have same: "pend i kind (pc_checkpoints st') = pend i kind (pc_checkpoints st)" if "gate_kind kind" for i kind
    using pend_normal [of kind "pc_checkpoints st" i] normalise(5) that by (auto simp: normalise(3) gated_def)
  show ?case unfolding gated_alt
  proof (intro conjI ballI impI)
    show "gates_ok (pc_checkpoints st')" using normalise(5) same by (auto simp: gated_alt gates_ok_def)
    fix t' assume "t' \<in> set (pc_tasks st')" "kt_acceptance t' = ''under_human_review''"
    with in_all2 [OF normalise(2)] obtain t where t: "t \<in> set (pc_tasks st)" "normal_task t t'" by metis
    then have "kt_acceptance t = ''under_human_review''" "kt_id t' = kt_id t"
      using normalise(7) born_trim [OF normalise(6) t(1)] \<open>kt_acceptance t' = _\<close>
      by (auto simp: decided_def backed_def known_status_def normal_task_def)
    then show "0 < pend (kt_id t') ''final_acceptance'' (pc_checkpoints st')"
      using normalise(5) t(1) same [OF gate_kind_final] by (auto simp: gated_alt)
  qed
qed (auto simp: gated_def)

end
