(* ===== verification/Control_Order.thy ===== *)
theory Control_Order
  imports Control_Invariants
begin

text \<open>Dependencies stay inside a project and without cycles, whatever is called.\<close>

definition owner :: "ctl_task \<Rightarrow> string \<times> string" where
  "owner t = (kt_id t, kt_project t)"

definition edges_of :: "ctl_task \<Rightarrow> string \<times> string list" where
  "edges_of t = (kt_id t, kt_depends t)"

lemma depends_edges: "depends ts = {(i, d). \<exists>ds. map_of (map edges_of ts) i = Some ds \<and> d \<in> set ds}"
proof -
  have "map_of (map edges_of ts) i = map_option kt_depends (found_task ts i)" for i
    by (induction ts) (auto simp: found_task_def edges_of_def)
  then show ?thesis by (auto simp: depends_def)
qed

lemma depends_cong: "map edges_of ts' = map edges_of ts \<Longrightarrow> depends ts' = depends ts"
  by (simp add: depends_edges)

lemma depends_append: "depends (ts @ [t]) \<subseteq> depends ts \<union> {kt_id t} \<times> set (kt_depends t)"
  by (auto simp: depends_edges map_add_def edges_of_def split: option.splits if_splits)

lemma depends_update: "j < length ts \<Longrightarrow> kt_id t = kt_id (ts ! j) \<Longrightarrow> depends (ts[j := t]) \<subseteq> depends ts \<union> {kt_id t} \<times> set (kt_depends t)"
proof -
  assume j: "j < length ts" and i: "kt_id t = kt_id (ts ! j)"
  have "map_of (map edges_of (ts[j := t])) k = map_of (map edges_of ts) k \<or> k = kt_id t \<and> map_of (map edges_of (ts[j := t])) k = Some (kt_depends t)" for k
    using j i
  proof (induction ts arbitrary: j)
    case (Cons u ts)
    then show ?case by (cases j) (auto simp: edges_of_def)
  qed simp
  note lookup = this
  show ?thesis
  proof (rule subrelI)
    fix a b assume "(a, b) \<in> depends (ts[j := t])"
    then obtain ds where m: "map_of (map edges_of (ts[j := t])) a = Some ds" "b \<in> set ds" unfolding depends_edges by blast
    from lookup [of a] show "(a, b) \<in> depends ts \<union> {kt_id t} \<times> set (kt_depends t)"
      using m unfolding depends_edges by (elim disjE) auto
  qed
qed

lemma acyclic_edges:
  assumes "acyclic R" and "finite D" and "\<forall>d \<in> D. (d, i) \<notin> R\<^sup>*"
  shows "acyclic (R \<union> {i} \<times> D)"
  using assms(2,3)
proof (induction D)
  case (insert d D)
  have returns: "(x, i) \<in> (R \<union> {i} \<times> D)\<^sup>* \<Longrightarrow> (x, i) \<in> R\<^sup>*" for x
    by (induction rule: converse_rtrancl_induct) (auto intro: converse_rtrancl_into_rtrancl)
  have "R \<union> {i} \<times> insert d D = insert (i, d) (R \<union> {i} \<times> D)" by auto
  moreover have "(d, i) \<notin> (R \<union> {i} \<times> D)\<^sup>*" using returns insert.prems by blast
  ultimately show ?case using insert by (simp add: acyclic_insert)
qed (simp add: assms(1))

lemma clear_search:
  assumes "clear_dependencies ts t" and "d \<in> set (kt_depends t)"
  shows "(d, kt_id t) \<notin> (depends ts)\<^sup>*" and "\<exists>u \<in> set ts. owner u = (d, kt_project t)"
proof -
  have *: "\<forall>j. (d, j) \<in> (depends ts)\<^sup>* \<longrightarrow> j \<notin> set [kt_id t] \<and> (\<exists>u. found_task ts j = Some u \<and> kt_project u = kt_project t)"
    using assms unfolding clear_dependencies_def visit_all_iff by blast
  then show "(d, kt_id t) \<notin> (depends ts)\<^sup>*" by auto
  from * obtain u where "found_task ts d = Some u" "kt_project u = kt_project t" by blast
  then show "\<exists>u \<in> set ts. owner u = (d, kt_project t)" by (auto simp: found_task_def owner_def dest: find_SomeD)
qed

section \<open>The invariant in these terms\<close>

definition inside :: "ctl_task list \<Rightarrow> ctl_task \<Rightarrow> bool" where
  "inside ts t \<longleftrightarrow> (\<forall>d \<in> set (kt_depends t). (d, kt_project t) \<in> set (map owner ts))"

lemma ordered_alt: "ordered st \<longleftrightarrow> (\<forall>t \<in> set (pc_tasks st). inside (pc_tasks st) t) \<and> acyclic (depends (pc_tasks st))"
proof -
  have eq: "(\<exists>u \<in> set ts. kt_id u = d \<and> kt_project u = kt_project t) \<longleftrightarrow> (d, kt_project t) \<in> set (map owner ts)" for ts t d
    by (auto simp: owner_def)
  show ?thesis unfolding ordered_def inside_def by (simp only: eq)
qed

lemma gentle_owner: "gentle t t' \<Longrightarrow> owner t' = owner t \<and> edges_of t' = edges_of t \<and> kt_depends t' = kt_depends t \<and> kt_project t' = kt_project t"
  by (simp add: gentle_def same_owner_def owner_def edges_of_def)

lemma gentle_owners: "list_all2 gentle ts us \<Longrightarrow> map owner us = map owner ts \<and> map edges_of us = map edges_of ts"
  by (induction rule: list_all2_induct) (auto dest: gentle_owner)

lemma inside_cong: "map owner ts' = map owner ts \<Longrightarrow> kt_depends t' = kt_depends t \<Longrightarrow> kt_project t' = kt_project t \<Longrightarrow> inside ts' t' = inside ts t"
  by (simp add: inside_def)

lemma inside_gentle: "list_all2 gentle ts us \<Longrightarrow> \<forall>t \<in> set ts. inside ts t \<Longrightarrow> u \<in> set us \<Longrightarrow> inside us u"
  using in_all2 [of gentle ts us u] gentle_owners [of ts us] gentle_owner inside_cong by metis

lemma settled_shape:
  assumes "length ts' = length ts" and "\<forall>m < length ts. m \<noteq> j \<longrightarrow> gentle (ts ! m) (ts' ! m)" and "same_owner (ts ! j) (ts' ! j)"
  shows "map owner ts' = map owner ts" and "map edges_of ts' = map edges_of (ts[j := ts' ! j])"
proof -
  have "owner (ts' ! m) = owner (ts ! m)" "edges_of (ts' ! m) = edges_of (ts[j := ts' ! j] ! m)" if "m < length ts" for m
    using assms(2,3) that gentle_owner [of "ts ! m" "ts' ! m"] by (cases "m = j"; auto simp: owner_def same_owner_def)+
  then show "map owner ts' = map owner ts" "map edges_of ts' = map edges_of (ts[j := ts' ! j])"
    using assms(1) by (auto intro!: nth_equalityI)
qed

lemma ordered_move: "move st st' \<Longrightarrow> ordered st \<Longrightarrow> named st \<Longrightarrow> ordered st'"
proof (induction rule: move.induct)
  case (edit st st' cs)
  then show ?case
    using inside_gentle [OF edit(2)] gentle_owners [OF edit(2)] depends_cong [of "pc_tasks st'" "pc_tasks st"] by (auto simp: ordered_alt)
next
  case (settle st st' j ds)
  let ?ts = "pc_tasks st" and ?t' = "pc_tasks st' ! j"
  note shape = settled_shape [OF settle(2,4,5)]
  have i: "kt_id ?t' = kt_id (?ts ! j)" "kt_project ?t' = kt_project (?ts ! j)" using settle(5) by (simp_all add: same_owner_def)
  have old: "\<forall>t \<in> set ?ts. inside ?ts t" "acyclic (depends ?ts)" using settle(10) by (simp_all add: ordered_alt)
  have j: "inside ?ts ?t' \<and> acyclic (depends (pc_tasks st'))"
  proof (cases "kt_depends ?t' = kt_depends (?ts ! j)")
    case True
    have "map edges_of (pc_tasks st') = map edges_of ?ts"
      unfolding shape(2) using settle(3) True i by (auto intro!: nth_equalityI simp: nth_list_update edges_of_def)
    moreover have "inside ?ts ?t' = inside ?ts (?ts ! j)" by (rule inside_cong) (simp_all add: True i)
    ultimately show ?thesis using old settle(3) depends_cong by (metis nth_mem)
  next
    case False
    with settle(7) have clear: "clear_dependencies ?ts ?t'" by blast
    have "acyclic (depends ?ts \<union> {kt_id ?t'} \<times> set (kt_depends ?t'))"
      using old(2) clear_search(1) [OF clear] by (intro acyclic_edges) auto
    moreover have "depends (pc_tasks st') \<subseteq> depends ?ts \<union> {kt_id ?t'} \<times> set (kt_depends ?t')"
      using depends_update [OF settle(3) i(1)] depends_cong [OF shape(2)] by simp
    moreover have "inside ?ts ?t'" using clear_search(2) [OF clear] by (force simp: inside_def)
    ultimately show ?thesis by (blast intro: acyclic_subset)
  qed
  have "inside (pc_tasks st') t'" if "t' \<in> set (pc_tasks st')" for t'
    using in_settled [OF settle(2,4) that]
  proof (elim disjE exE conjE)
    assume "t' = ?t'"
    then show ?thesis using j inside_cong [OF shape(1), of t' t'] by simp
  next
    fix m assume "?ts ! m \<in> set ?ts" "gentle (?ts ! m) t'"
    then show ?thesis using old(1) inside_cong [OF shape(1), of t' "?ts ! m"] gentle_owner by blast
  qed
  with j show ?case by (simp add: ordered_alt)
next
  case (create st st' t)
  obtain ts where ts: "list_all2 gentle (pc_tasks st) ts" "pc_tasks st' = ts @ [t]"
    using created_at_end [OF create(11,2,3)] by blast
  have old: "\<forall>u \<in> set (pc_tasks st). inside (pc_tasks st) u" "acyclic (depends (pc_tasks st))" using create(10) by (simp_all add: ordered_alt)
  have deps: "depends ts = depends (pc_tasks st)" using gentle_owners [OF ts(1)] depends_cong by blast
  have "acyclic (depends (pc_tasks st) \<union> {kt_id t} \<times> set (kt_depends t))"
    using old(2) clear_search(1) [OF create(7)] by (intro acyclic_edges) auto
  then have "acyclic (depends (pc_tasks st'))" using depends_append [of ts t] deps ts(2) by (metis acyclic_subset)
  moreover have "inside (ts @ [t]) u" if "inside (pc_tasks st) u" for u
    using that gentle_owners [OF ts(1)] by (auto simp: inside_def)
  moreover have "inside (pc_tasks st) t" using clear_search(2) [OF create(7)] by (force simp: inside_def)
  moreover have "inside (ts @ [t]) u" if "u \<in> set ts" for u
    using inside_gentle [OF ts(1) old(1) that] by (auto simp: inside_def)
  ultimately show ?case by (auto simp: ordered_alt ts(2))
next
  case (normalise st st')
  have ids: "map kt_id (pc_tasks st') = map kt_id (pc_tasks st)" using normal_ids [OF normalise(6,2)] .
  have "map edges_of (pc_tasks st') = map edges_of (pc_tasks st)"
  proof (rule nth_equalityI)
    fix m assume m: "m < length (map edges_of (pc_tasks st'))"
    then have "map kt_id (pc_tasks st') ! m = map kt_id (pc_tasks st) ! m" using ids by simp
    with m show "map edges_of (pc_tasks st') ! m = map edges_of (pc_tasks st) ! m"
      using normalise(2) by (auto simp: list_all2_conv_all_nth normal_task_def edges_of_def)
  qed (use normalise(2) in \<open>simp add: list_all2_lengthD\<close>)
  then have deps: "depends (pc_tasks st') = depends (pc_tasks st)" by (rule depends_cong)
  have owners: "(d, trim_space p) \<in> set (map owner (pc_tasks st'))" if "(d, p) \<in> set (map owner (pc_tasks st))" for d p
  proof -
    from that obtain u where u: "u \<in> set (pc_tasks st)" "kt_id u = d" "kt_project u = p" by (auto simp: owner_def)
    then obtain u' where u': "u' \<in> set (pc_tasks st')" "normal_task u u'"
      using normalise(2) by (metis (no_types, lifting) in_set_conv_nth list_all2_conv_all_nth)
    with u have "owner u' = (d, trim_space p)" using born_trim [OF normalise(6) u(1)] by (simp add: owner_def normal_task_def)
    with u' show ?thesis by (metis image_eqI list.set_map)
  qed
  have "inside (pc_tasks st') t'" if t': "t' \<in> set (pc_tasks st')" for t'
  proof -
    from in_all2 [OF normalise(2) t'] obtain t where t: "t \<in> set (pc_tasks st)" "normal_task t t'" by blast
    then have "inside (pc_tasks st) t" using normalise(5) by (simp add: ordered_alt)
    with owners t(2) show ?thesis by (auto simp: inside_def normal_task_def)
  qed
  with deps normalise(5) show ?case by (simp add: ordered_alt)
qed (auto simp: ordered_def)

section \<open>Whatever is called\<close>

lemma desk_inv_move: "move st st' \<Longrightarrow> desk_inv st \<Longrightarrow> desk_inv st'"
  unfolding desk_inv_def using named_move decided_move gated_move ordered_move by blast

lemma desk_inv_moves: "moves st st' \<Longrightarrow> desk_inv st \<Longrightarrow> desk_inv st'"
  by (induction rule: rtranclp_induct) (auto intro: desk_inv_move)

lemma desk_step_inv: "desk_inv (bd_control d) \<Longrightarrow> desk_inv (bd_control (desk_step d call))"
  using desk_step_moves desk_inv_moves by blast

interpretation desk: stepper desk_step "\<lambda>d. desk_inv (bd_control d)"
  by unfold_locales (rule desk_step_inv)

lemma normalize_empty: "pc_tasks st = [] \<Longrightarrow> pc_checkpoints st = [] \<Longrightarrow> pc_tasks (normalize_state now st) = [] \<and>
   pc_checkpoints (normalize_state now st) = [] \<and> pc_clock (normalize_state now st) = pc_clock st"
  by (simp add: normalize_state_def compact_state_def Let_def)

lemma empty_board_inv: "ticking clock \<Longrightarrow> desk_inv (bd_control (empty_board env clock))"
proof -
  have e: "pc_tasks (bd_control (empty_board env clock)) = []" "pc_checkpoints (bd_control (empty_board env clock)) = []"
    "pc_clock (bd_control (empty_board env clock)) = clock"
    using normalize_empty by (simp_all add: empty_board_def default_state_def)
  have "depends [] = {}" by (simp add: depends_edges)
  then show "ticking clock \<Longrightarrow> ?thesis"
    by (simp add: desk_inv_def named_def decided_def gated_def ordered_def e acyclic_def)
qed

lemma desk_run_inv: "ticking clock \<Longrightarrow> desk_inv (bd_control (desk_run (empty_board env clock) calls))"
  unfolding desk_run_def using desk.run_inv [OF empty_board_inv] .

end
