(* ===== verification/Control_Sample.thy ===== *)
theory Control_Sample
  imports Control_Order
begin

text \<open>
  A short history of a board, evaluated call by call: a project, a workstream and a task
  that an agent raised, and the approval of its dispatch. The properties are applied to it.
\<close>

section \<open>The calls\<close>

definition desk_clock :: "nat \<Rightarrow> string" where
  "desk_clock n = ''20260714101500'' @ replicate (Suc n) CHR ''1''"

definition desk_env :: ctl_env where
  "desk_env = \<lparr>en_user = ''ann'', en_now = ''2026-07-14T10:15:00Z'', en_nano = ''2026-07-14T10:15:00.5Z'', en_instant = 0, en_leases = None,
     en_workspace = (\<lambda>_ _ _. Inl (CtlFailure [])), en_terminals = None, en_fingerprint = (\<lambda>_. Inr ''f''), en_repo = Inr,
     en_root = [], en_runtime = Inr [], en_inside = (\<lambda>_ _ _. Inr ())\<rparr>"

abbreviation sample_project :: string where "sample_project \<equiv> ''project-p-202607141015001''"

abbreviation sample_stream :: string where "sample_stream \<equiv> ''workstream-w-20260714101500111''"

abbreviation sample_task :: string where "sample_task \<equiv> ''task-t-2026071410150011111''"

abbreviation sample_gate :: string where
  "sample_gate \<equiv> ''checkpoint-task-t-2026071410150011111-dispatch-202607141015001111111''"

definition first_calls :: "desk_call list" where
  "first_calls =
     [Create_project \<lparr>pq_brief = ([], [], [], []), pq_milestones = [], pq_key = [], pq_name = ''p'', pq_description = [], pq_goal = [], pq_repo = []\<rparr>,
      Create_workstream \<lparr>wk_id = [], wk_project = sample_project, wk_title = ''w'', wk_description = [], wk_priority = [],
        wk_status = [], wk_scope = [], wk_version = 0\<rparr>,
      Create_task \<lparr>cq_origin = ''agent'', cq_description = [], cq_milestone = [], cq_depends = [], cq_command = [],
        cq_project = sample_project, cq_workstream = sample_stream,
        cq_title = ''t'', cq_goal = [], cq_priority = [], cq_risk = [], cq_skill = [], cq_runbook = []\<rparr>,
      Decide_checkpoint sample_gate ''approve'']"

definition desk_history :: "nat \<Rightarrow> (ctl_env \<times> desk_call) list" where
  "desk_history n = map (Pair desk_env) (take n first_calls)"

lemma desk_clock_ticking: "ticking desk_clock"
proof -
  have s: "stamp_of desk_clock n = ''20260714101500'' @ replicate (Suc n) CHR ''1''" for n
    by (simp add: stamp_of_def desk_clock_def)
  have "length (stamp_of desk_clock n) = n + 15" for n by (simp add: s)
  then have "inj (stamp_of desk_clock)" by (metis add_right_cancel injI)
  moreover have "list_all is_digit (''20260714101500'' @ replicate (Suc n) CHR ''1'')" for n
  proof -
    have "list_all is_digit ''20260714101500''" "is_digit CHR ''1''" by code_simp+
    then show ?thesis by (auto simp: list_all_iff)
  qed
  ultimately show ?thesis by (simp add: ticking_def s)
qed

section \<open>The boards\<close>

text \<open>What a call stores, with the board and its answer evaluated once each.\<close>

definition store_call :: "ctl_env \<Rightarrow> board \<Rightarrow> (ctl_error, ctl_state \<times> unit) result \<Rightarrow> board" where
  "store_call env d r =
     (if trim_space (en_user env) = [] then d
      else case r of
        Inl e \<Rightarrow> d
      | Inr (st, x) \<Rightarrow>
          let st' = commit env (bd_control d) st
          in d\<lparr>bd_control := st', bd_claims := revoke_closed (en_instant env) (en_user env) st' (bd_claims d)\<rparr>)"

lemma control_call_eval: "fst (control_call env f d) = store_call env d (f (env\<lparr>en_leases := Some (bd_claims d)\<rparr>) (bd_control d))"
  by (simp add: control_call_def with_leases_def store_call_def Let_def split: sum.split prod.split)

text \<open>All of a board but its clock, which no call changes.\<close>

definition same_but_clock :: "board \<Rightarrow> ctl_state \<Rightarrow> bool" where
  "same_but_clock d st \<longleftrightarrow>
     (let s = bd_control d
      in pc_activity s = pc_activity st \<and> pc_active s = pc_active st \<and> pc_projects s = pc_projects st \<and>
         pc_workstreams s = pc_workstreams st \<and> pc_tasks s = pc_tasks st \<and> pc_tools s = pc_tools st \<and> pc_attempts s = pc_attempts st \<and>
         pc_runs s = pc_runs st \<and> pc_artifacts s = pc_artifacts st \<and> pc_checkpoints s = pc_checkpoints st \<and>
         pc_decisions s = pc_decisions st \<and> pc_events s = pc_events st \<and> pc_memories s = pc_memories st \<and>
         pc_updated s = pc_updated st \<and> pc_reads s = pc_reads st \<and> bd_claims d = [] \<and> bd_progress d = [] \<and> bd_running d = [])"

definition desk_of :: "ctl_state \<Rightarrow> board" where
  "desk_of st = \<lparr>bd_control = st, bd_claims = [], bd_progress = [], bd_running = []\<rparr>"

lemma moves_clock: "moves st st' \<Longrightarrow> pc_clock st' = pc_clock st"
proof (induction rule: rtranclp_induct)
  case (step y z)
  from step(2) have "pc_clock z = pc_clock y" by (cases rule: move.cases) (simp_all add: apart_def)
  with step show ?case by simp
qed simp

lemma desk_step_eval:
  assumes "same_but_clock (desk_step d c) st" and "pc_clock (bd_control d) = pc_clock st"
  shows "desk_step d c = desk_of st"
proof -
  have "pc_clock (bd_control (desk_step d c)) = pc_clock st" using moves_clock [OF desk_step_moves] assms(2) by simp
  with assms(1) show ?thesis by (simp add: same_but_clock_def Let_def desk_of_def)
qed

definition sample_event :: "string \<Rightarrow> string \<Rightarrow> string \<Rightarrow> string \<Rightarrow> ctl_event" where
  "sample_event i actor action detail =
     \<lparr>ev_kind = [], ev_source = [], ev_id = ''event-'' @ i, ev_time = en_now desk_env, ev_actor = actor, ev_action = action, ev_detail = detail,
      ev_project = sample_project, ev_workstream = [], ev_task = [], ev_checkpoint = []\<rparr>"

definition board_1 :: ctl_state where
  "board_1 =
     \<lparr>pc_activity = [], pc_active = sample_project,
      pc_projects =
        [\<lparr>po_brief = ([], [], [], []), po_milestones = [],
          po_lifecycle = \<lparr>lc_state = ''delegated'', lc_milestone = [], lc_reason = [], lc_previous = []\<rparr>,
          po_takeover = \<lparr>tk_mode = ''manual'', tk_reason = []\<rparr>, po_id = sample_project, po_key = ''p'', po_name = ''p'',
          po_description = [], po_status = ''active'', po_goal = [], po_repo = [], po_version = 1\<rparr>],
      pc_workstreams = [], pc_tasks = [], pc_tools = [], pc_attempts = [], pc_runs = [], pc_artifacts = [], pc_checkpoints = [],
      pc_decisions = [],
      pc_events = [sample_event ''project-created-2026071410150011'' ''human'' ''project_created'' ''Created project p.''],
      pc_memories = [], pc_updated = en_nano desk_env, pc_clock = desk_clock, pc_reads = 2\<rparr>"

definition board_2 :: ctl_state where
  "board_2 = board_1
     \<lparr>pc_workstreams :=
        [\<lparr>wk_id = sample_stream, wk_project = sample_project, wk_title = ''w'', wk_description = [], wk_priority = ''medium'',
          wk_status = ''planned'', wk_scope = [], wk_version = 1\<rparr>],
      pc_events := pc_events board_1 @
        [(sample_event ''workstream-created-202607141015001111'' ''human'' ''workstream_created'' ''Created workstream w.'')
           \<lparr>ev_workstream := sample_stream\<rparr>],
      pc_reads := 4\<rparr>"

definition board_task :: ctl_task where
  "board_task =
     \<lparr>kt_description = [], kt_milestone = [], kt_depends = [], kt_command = [], kt_baseline = [], kt_passed = False, kt_failures = 0,
      kt_pause = [], kt_resume = [], kt_checkpoint_after = [], kt_restart = False, kt_id = sample_task, kt_project = sample_project,
      kt_workstream = sample_stream, kt_title = ''t'', kt_goal = [], kt_state = ''planned'', kt_acceptance = ''not_ready'',
      kt_acceptance_decision = [], kt_archive_decision = [], kt_origin = ''agent'', kt_dispatch = ''awaiting_approval'',
      kt_claimed_by = [], kt_risk = ''medium'', kt_priority = ''medium'', kt_agent = ''worker'', kt_runtime = ''runtime-local'',
      kt_skill = ''code_change'', kt_runbook = ''code_change_default'', kt_phase = ''plan'', kt_runbook_state = ''not_started'', kt_auto = None,
      kt_missing = [''plan'', ''diff_summary'', ''test_result:pass'', ''review_result:pass'', ''completion_check:pass''],
      kt_summary = ''Dispatch approval requested; waiting for a human decision before an agent can claim this task.'',
      kt_next = ''Approve or reject the dispatch checkpoint in the approvals inbox.'', kt_files = [], kt_diff = [], kt_sessions = [],
      kt_evidence = [], kt_version = 2\<rparr>"

definition board_gate :: checkpoint where
  "board_gate =
     \<lparr>ck_id = sample_gate, ck_task = sample_task, ck_kind = ''dispatch'', ck_title = ''Dispatch approval required'',
      ck_reason = ''Task is ready for agent dispatch; approve to make it claimable by an agent runtime.'', ck_status = ''pending'',
      ck_requested = en_now desk_env, ck_resolved_by = [], ck_actions = [''approve'', ''reject''], ck_summary = [], ck_version = 1\<rparr>"

definition task_entry :: "string \<Rightarrow> string \<Rightarrow> string \<Rightarrow> string \<Rightarrow> string \<Rightarrow> ctl_event" where
  "task_entry i actor action detail c =
     (sample_event i actor action detail)\<lparr>ev_workstream := sample_stream, ev_task := sample_task, ev_checkpoint := c\<rparr>"

text \<open>What an operation leaves and what is stored, with its events in the order of their identifiers.\<close>

definition created :: ctl_state where
  "created = board_2
     \<lparr>pc_tasks := [board_task], pc_checkpoints := [board_gate],
      pc_events := pc_events board_2 @
        [task_entry ''task-created-20260714101500111111'' ''human'' ''task_created'' ''Created task t.'' [],
         task_entry ''checkpoint-raised-dispatch-2026071410150011111111'' ''policy_engine'' ''checkpoint_raised''
           ''Generated dispatch checkpoint for explicit dispatch approval.'' sample_gate],
      pc_reads := 8\<rparr>"

definition board_3 :: ctl_state where
  "board_3 = created
     \<lparr>pc_events := pc_events board_2 @
        [task_entry ''checkpoint-raised-dispatch-2026071410150011111111'' ''policy_engine'' ''checkpoint_raised''
           ''Generated dispatch checkpoint for explicit dispatch approval.'' sample_gate,
         task_entry ''task-created-20260714101500111111'' ''human'' ''task_created'' ''Created task t.'' []]\<rparr>"

abbreviation sample_decision :: string where
  "sample_decision \<equiv> ''decision-checkpoint-approved-20260714101500111111111''"

definition decided_board :: ctl_state where
  "decided_board = board_3
     \<lparr>pc_activity := [\<lparr>av_id = ''checkpoint_resolved:'' @ sample_gate, av_project = sample_project, av_kind = ''uncategorized''\<rparr>],
      pc_tasks := [board_task\<lparr>kt_baseline := ''f'', kt_acceptance := ''accepted'', kt_acceptance_decision := sample_decision,
        kt_dispatch := ''ready'', kt_summary := ''Dispatch approved by human operator; task is ready to be claimed.'',
        kt_next := ''An agent runtime can now claim this task via /api/agent/v1/claim.'', kt_version := 3\<rparr>],
      pc_checkpoints := [board_gate\<lparr>ck_status := ''approved'', ck_resolved_by := sample_decision, ck_actions := [],
        ck_summary := ''Accepted by human operator'', ck_version := 2\<rparr>],
      pc_decisions := [\<lparr>de_kind = ''uncategorized'', de_id = sample_decision, de_type = ''checkpoint_approved'', de_actor = ''human'',
        de_time = en_now desk_env, de_summary = ''Accepted by human operator'', de_project = sample_project,
        de_workstream = sample_stream, de_task = sample_task, de_checkpoint = sample_gate\<rparr>],
      pc_events := pc_events board_3 @
        [(task_entry ''checkpoint-resolved-202607141015001111111111'' ''human'' ''checkpoint_resolved''
           (''Resolved checkpoint '' @ sample_gate @ '' as approved.'') sample_gate)\<lparr>ev_kind := ''uncategorized'', ev_source := sample_gate\<rparr>,
         task_entry ''decision-made-2026071410150011111111111'' ''human'' ''decision_made''
           (''Recorded decision checkpoint_approved for checkpoint '' @ sample_gate @ ''.'') sample_gate,
         task_entry ''checkpoint-approved-20260714101500111111111111'' ''human'' ''checkpoint_approved'' ''Accepted by human operator'' sample_gate],
      pc_reads := 12\<rparr>"

definition board_4 :: ctl_state where
  "board_4 = decided_board
     \<lparr>pc_events := pc_events board_2 @
        [task_entry ''checkpoint-approved-20260714101500111111111111'' ''human'' ''checkpoint_approved'' ''Accepted by human operator'' sample_gate,
         task_entry ''checkpoint-raised-dispatch-2026071410150011111111'' ''policy_engine'' ''checkpoint_raised''
           ''Generated dispatch checkpoint for explicit dispatch approval.'' sample_gate,
         (task_entry ''checkpoint-resolved-202607141015001111111111'' ''human'' ''checkpoint_resolved''
           (''Resolved checkpoint '' @ sample_gate @ '' as approved.'') sample_gate)\<lparr>ev_kind := ''uncategorized'', ev_source := sample_gate\<rparr>,
         task_entry ''decision-made-2026071410150011111111111'' ''human'' ''decision_made''
           (''Recorded decision checkpoint_approved for checkpoint '' @ sample_gate @ ''.'') sample_gate,
         task_entry ''task-created-20260714101500111111'' ''human'' ''task_created'' ''Created task t.'' []]\<rparr>"

lemmas desk_evals = first_calls_def nth_Cons_0 nth_Cons_Suc One_nat_def desk_step.simps control_call_eval
  desk_operation.simps

lemma boards_clock: "pc_clock (bd_control (empty_board desk_env desk_clock)) = desk_clock" "pc_clock board_1 = desk_clock"
  "pc_clock board_2 = desk_clock" "pc_clock board_3 = desk_clock"
  using normalize_empty by (simp_all add: empty_board_def default_state_def board_1_def board_2_def board_3_def created_def)

lemma sample_1: "same_but_clock (desk_step (empty_board desk_env desk_clock) (desk_env, first_calls ! 0)) board_1"
  by (simp only: desk_evals) code_simp

lemma sample_2: "same_but_clock (desk_step (desk_of board_1) (desk_env, first_calls ! 1)) board_2"
  by (simp only: desk_evals) code_simp


text \<open>The two other calls, up to what they hand to the transaction.\<close>

definition sample_create :: task_create where
  "sample_create =
     \<lparr>cq_origin = ''agent'', cq_description = [], cq_milestone = [], cq_depends = [], cq_command = [],
      cq_project = sample_project, cq_workstream = sample_stream,
      cq_title = ''t'', cq_goal = [], cq_priority = [], cq_risk = [], cq_skill = [], cq_runbook = []\<rparr>"

definition created_task :: ctl_task where
  "created_task = board_task\<lparr>kt_dispatch := [], kt_summary := ''Task created from the Project Panel and waiting to be scheduled.'',
     kt_next := ''Open a session or connect a runtime-backed workflow to start execution.'', kt_version := 1\<rparr>"

lemma board_2_parts: "pc_tasks board_2 = []" "pc_artifacts board_2 = []" "pc_checkpoints board_2 = []" "pc_reads board_2 = 4"
  "pc_activity board_2 = []"
  by (simp_all add: board_2_def board_1_def)

lemma sample_texts: "trim_space sample_project = sample_project" "trim_space sample_stream = sample_stream" "trim_space ''t'' = ''t''"
  "project_exists board_2 sample_project" "workstream_exists board_2 sample_stream sample_project"
  "validate_selection [] [] = Inr (code_skill, code_runbook)"
  "control_id_text (desk_clock 4) ''task'' ''t'' = sample_task"
  "control_id_text (desk_clock 5) ''event'' ''task-created'' = ''event-task-created-20260714101500111111''"
  "control_id_text (desk_clock 6) ''checkpoint'' ''task-t-2026071410150011111-dispatch'' = sample_gate"
  "control_id_text (desk_clock 7) ''event'' ''checkpoint-raised-dispatch'' = ''event-checkpoint-raised-dispatch-2026071410150011111111''"
  "refresh_task [] (fresh_task sample_task code_skill code_runbook sample_create) = created_task"
  "trim_space ''agent'' = ''agent''" "trim_space [] = []"
  "trim_space ''event-task-created-20260714101500111111'' = ''event-task-created-20260714101500111111''"
  "trim_space ''event-checkpoint-raised-dispatch-2026071410150011111111'' = ''event-checkpoint-raised-dispatch-2026071410150011111111''"
  by code_simp+

lemma sample_fresh: "kt_command (fresh_task i s rb sample_create) = []" "kt_milestone (fresh_task i s rb sample_create) = []"
  "kt_depends (fresh_task i s rb sample_create) = []"
  by (simp_all add: fresh_task_def sample_create_def)

lemma emit_eval:
  assumes "ev_action ev \<noteq> ''checkpoint_resolved'' \<and> ev_action ev \<noteq> ''artifact_recorded''"
    and "control_id_text (pc_clock st (pc_reads st)) ''event'' seed = i" and "trim_space i \<noteq> []" and "length (pc_activity st) \<le> 4096"
  shows "emit seed ev st = st\<lparr>pc_events := pc_events st @ [ev\<lparr>ev_id := i\<rparr>], pc_reads := pc_reads st + 1\<rparr>"
  using assms by (simp add: emit_def append_event_def control_id_def record_activity_def trim_activity_def Let_def)

lemma created_eval:
  assumes now: "en_now env = en_now desk_env"
  shows "create_task_in_state env sample_create board_2 = Inr (created, sample_task)"
proof -
  have c: "validate_task_contract st (fresh_task i s rb sample_create) = Inr ()" for st i s rb
    by (simp add: validate_task_contract_def sample_fresh)
  have t: "needs_dispatch_approval created_task" "kt_state created_task = ''planned''" "trim_space (kt_dispatch created_task) = []"
    "kt_id created_task = sample_task"
    by (simp_all add: needs_dispatch_approval_def created_task_def board_task_def sample_texts)
  have r: "cq_project sample_create = sample_project" "cq_workstream sample_create = sample_stream" "cq_title sample_create = ''t''"
    "cq_skill sample_create = []" "cq_runbook sample_create = []"
    by (simp_all add: sample_create_def)
  have e1: "emit ''task-created'' ev (board_2\<lparr>pc_reads := 5, pc_tasks := ts, pc_active := sample_project\<rparr>) =
      board_2\<lparr>pc_reads := 6, pc_tasks := ts, pc_active := sample_project,
        pc_events := pc_events board_2 @ [ev\<lparr>ev_id := ''event-task-created-20260714101500111111''\<rparr>]\<rparr>"
    if "ev_action ev = ''task_created''" for ev ts
    using that by (subst emit_eval [where i = "''event-task-created-20260714101500111111''"])
      (auto simp: sample_texts boards_clock board_2_parts intro: ctl_state.equality)
  have e2: "emit ''checkpoint-raised-dispatch'' ev st = st\<lparr>pc_reads := 8,
        pc_events := pc_events st @ [ev\<lparr>ev_id := ''event-checkpoint-raised-dispatch-2026071410150011111111''\<rparr>]\<rparr>"
    if "ev_action ev = ''checkpoint_raised''" "pc_reads st = 7" "pc_clock st = desk_clock" "pc_activity st = []" for ev st
    using that by (subst emit_eval [where i = "''event-checkpoint-raised-dispatch-2026071410150011111111''"])
      (auto simp: sample_texts intro: ctl_state.equality)
  have a: "pc_active board_2 = sample_project" by (simp add: board_2_def board_1_def)
  show ?thesis
    by (simp add: create_task_in_state_def now r c t sample_texts board_2_parts boards_clock Let_def and_then_def ensure_def control_id_def
        sync_dispatch_gate_def e1 task_event_def e2 gate_event_def)
      (simp add: created_def created_task_def board_task_def board_gate_def new_gate_def task_entry_def sample_event_def a board_2_def board_1_def sample_texts)
qed

text \<open>No task is taken over, so there is no reaction to the new events, and no lease to revoke.\<close>

lemma reactions_manual: "(\<And>p. takeover_mode st p \<noteq> ''active'') \<Longrightarrow> apply_takeover_events now prev st = st"
proof -
  assume "\<And>p. takeover_mode st p \<noteq> ''active''"
  then have "react now e st = st" for e by (simp add: react_def split: option.split)
  then have "fold (\<lambda>e st. if ev_id e \<in> set prev then st else react now e st) es st = st" for es
    by (induction es) auto
  then show ?thesis by (simp add: apply_takeover_events_def)
qed

lemma store_manual:
  assumes "trim_space (en_user env) \<noteq> []" and "\<And>p. takeover_mode st p \<noteq> ''active''"
  shows "store_call env (desk_of s) (Inr (st, ())) = desk_of ((normalize_state (en_now env) st)\<lparr>pc_updated := en_nano env\<rparr>)"
proof -
  have "fold (\<lambda>t rows. if execution_closed st' t then revoke_task_claims now u (kt_id t) rows else rows) ts [] = []" for st' now u ts
    by (induction ts) (auto simp: revoke_task_claims_def update_where_def)
  then show ?thesis
    using assms(1) reactions_manual [OF assms(2)] by (simp add: store_call_def desk_of_def commit_def revoke_closed_def Let_def)
qed

text \<open>A board with few events and nothing else to cut.\<close>

lemma compact_small:
  assumes "pc_attempts st = []" "pc_runs st = []" "pc_artifacts st = []" "pc_memories st = []"
    and "\<forall>t \<in> set (pc_tasks st). kt_evidence t = []" and "length (pc_events st) \<le> 64"
  shows "compact_state now st = st\<lparr>pc_events := compact_entries event_entries (pc_tasks st) (pc_events st)\<rparr>"
proof -
  have evidence: "fold (\<lambda>t. migrate_evidence c (kt_id t) (kt_evidence t)) ts s = s" if "\<forall>t \<in> set ts. kt_evidence t = []" for c ts s
    using that by (induction ts) simp_all
  have none: "compact_entries k ts [] = []" "dropped_entries k ts i [] = []" "cut_artifacts safe ts i [] = ([], [])" "compact_artifacts safe ts [] = []"
    for k :: "'a entry_kind" and ts safe i
    by (simp_all add: compact_entries_def dropped_entries_def kept_entries_def closed_entries_def entries_of_def
        cut_artifacts_def compact_artifacts_def Let_def)
  have few: "dropped_entries event_entries ts i (pc_events st) = []" for ts i
  proof -
    have "length (closed_entries event_entries ts i (pc_events st)) \<le> 64"
      using assms(6) unfolding closed_entries_def entries_of_def length_sort by (meson le_trans length_filter_le)
    then show ?thesis by (simp add: dropped_entries_def event_entries_def)
  qed
  have remember: "remember_dropped prefix now add time name ts (\<lambda>_. []) ms = ms"
    for prefix add and time name :: "'b \<Rightarrow> string" and ts ms
  proof -
    have "fold (\<lambda>i ms. ms) is ms = ms" for "is" :: "string list" by (induction "is") simp_all
    then show ?thesis by (simp add: remember_dropped_def)
  qed
  have tasks: "map (\<lambda>t. t\<lparr>kt_evidence := []\<rparr>) (pc_tasks st) = pc_tasks st"
    using assms(5) by (intro map_idI) simp
  have memories: "store_memories ts (load_memories []) = []" for ts
  proof -
    have "concat (map (\<lambda>t. [] :: task_memory list) ts) = []" by simp
    then show ?thesis by (simp add: store_memories_def load_memories_def del: concat_eq_Nil_conv)
  qed
  show ?thesis
    by (simp add: compact_state_def Let_def evidence assms none few remember memories tasks)
qed

lemma sample_manual: "takeover_mode created p \<noteq> ''active''" "takeover_mode decided_board p \<noteq> ''active''" "trim_space (en_user desk_env) \<noteq> []"
proof -
  have "pc_projects created = pc_projects board_1" "pc_projects decided_board = pc_projects board_1"
    by (simp_all add: created_def decided_board_def board_3_def board_2_def)
  then show "takeover_mode created p \<noteq> ''active''" "takeover_mode decided_board p \<noteq> ''active''"
    by (simp_all add: takeover_mode_def control_project_def board_1_def split: option.split)
  show "trim_space (en_user desk_env) \<noteq> []" by code_simp
qed

text \<open>Everything on these boards is in normal form but the order of the events.\<close>

lemma normal_small:
  assumes "map normalize_project (pc_projects st) = pc_projects st" "map normalize_workstream (pc_workstreams st) = pc_workstreams st"
    and "map (normalize_task []) (pc_tasks st) = pc_tasks st" "map (refresh_task []) (pc_tasks st) = pc_tasks st"
    and "map normalize_checkpoint (pc_checkpoints st) = pc_checkpoints st" "map normalize_decision (pc_decisions st) = pc_decisions st"
    and "map normalize_event (pc_events st) = pc_events st" and "trim_activity (pc_activity st) = pc_activity st" and "pc_active st \<noteq> []"
    and small: "pc_attempts st = []" "pc_runs st = []" "pc_artifacts st = []" "pc_memories st = []"
      "\<forall>t \<in> set (pc_tasks st). kt_evidence t = []" "length (pc_events st) \<le> 64"
  shows "normalize_state now st = st\<lparr>pc_events := compact_entries event_entries (pc_tasks st) (pc_events st)\<rparr>"
  by (simp add: normalize_state_def Let_def assms compact_small)

lemma created_fields: "pc_projects created = pc_projects board_1" "pc_workstreams created = pc_workstreams board_2"
  "pc_tasks created = [board_task]" "pc_checkpoints created = [board_gate]" "pc_decisions created = []" "pc_activity created = []"
  "pc_active created = sample_project" "pc_attempts created = []" "pc_runs created = []" "pc_artifacts created = []"
  "pc_memories created = []" "length (pc_events created) = 4" "pc_updated created = en_nano desk_env"
  by (simp_all add: created_def board_2_def board_1_def)

lemma decided_fields: "pc_projects decided_board = pc_projects board_1" "pc_workstreams decided_board = pc_workstreams board_2"
  "length (pc_activity decided_board) = 1"
  "pc_active decided_board = sample_project" "pc_attempts decided_board = []" "pc_runs decided_board = []" "pc_artifacts decided_board = []"
  "pc_memories decided_board = []" "pc_updated decided_board = en_nano desk_env"
  by (simp_all add: decided_board_def board_3_def created_fields)

lemma decided_events: "length (pc_events decided_board) = 7"
  by (simp add: decided_board_def board_3_def board_2_def board_1_def)

lemma no_evidence: "kt_evidence board_task = []" "\<forall>t \<in> set (pc_tasks decided_board). kt_evidence t = []"
  by (simp_all add: decided_board_def board_task_def)

lemma sample_normal: "map normalize_project (pc_projects board_1) = pc_projects board_1"
  "map normalize_workstream (pc_workstreams board_2) = pc_workstreams board_2"
  "normalize_task [] board_task = board_task" "refresh_task [] board_task = board_task"
  "map (normalize_task []) (pc_tasks decided_board) = pc_tasks decided_board" "map (refresh_task []) (pc_tasks decided_board) = pc_tasks decided_board"
  "normalize_checkpoint board_gate = board_gate" "map normalize_checkpoint (pc_checkpoints decided_board) = pc_checkpoints decided_board"
  "map normalize_decision (pc_decisions decided_board) = pc_decisions decided_board"
  "map normalize_event (pc_events created) = pc_events created" "map normalize_event (pc_events decided_board) = pc_events decided_board"
  by code_simp+

lemma sample_order:
  "compact_entries event_entries [board_task] (pc_events created) = pc_events board_3"
  "compact_entries event_entries (pc_tasks decided_board) (pc_events decided_board) = pc_events board_4"
  by code_simp+

lemma normal_created: "(normalize_state (en_now desk_env) created)\<lparr>pc_updated := en_nano desk_env\<rparr> = board_3"
proof -
  have "normalize_state (en_now desk_env) created = created\<lparr>pc_events := compact_entries event_entries (pc_tasks created) (pc_events created)\<rparr>"
    by (rule normal_small) (simp_all only: created_fields no_evidence sample_normal list.map, simp_all add: trim_activity_def no_evidence)
  then have "normalize_state (en_now desk_env) created = board_3"
    by (simp only: created_fields sample_order) (simp add: board_3_def)
  then show ?thesis by (intro ctl_state.equality) (simp_all add: board_3_def created_fields)
qed

lemma normal_decided: "(normalize_state (en_now desk_env) decided_board)\<lparr>pc_updated := en_nano desk_env\<rparr> = board_4"
proof -
  have "normalize_state (en_now desk_env) decided_board =
      decided_board\<lparr>pc_events := compact_entries event_entries (pc_tasks decided_board) (pc_events decided_board)\<rparr>"
    by (rule normal_small)
      (simp_all only: decided_fields no_evidence sample_normal, simp_all add: trim_activity_def decided_fields decided_events no_evidence)
  then have "normalize_state (en_now desk_env) decided_board = board_4"
    by (simp only: sample_order) (simp add: board_4_def)
  then show ?thesis by (intro ctl_state.equality) (simp_all add: board_4_def decided_fields)
qed

lemma sample_3: "desk_step (desk_of board_2) (desk_env, Create_task sample_create) = desk_of board_3"
proof -
  have "create_task_in_state (desk_env\<lparr>en_leases := Some []\<rparr>) sample_create board_2 = Inr (created, sample_task)"
    by (rule created_eval) simp
  then show ?thesis
    using store_manual [OF sample_manual(3,1), of board_2] by (simp add: control_call_eval desk_of_def and_then_def normal_created)
qed

lemma decision_texts: "low_trim ''approve'' = ''approve''"
  "control_id_text (desk_clock 8) ''decision'' ''checkpoint_approved'' = sample_decision"
  "control_id_text (desk_clock 9) ''event'' ''checkpoint-resolved'' = ''event-checkpoint-resolved-202607141015001111111111''"
  "control_id_text (desk_clock 10) ''event'' ''decision-made'' = ''event-decision-made-2026071410150011111111111''"
  "control_id_text (desk_clock 11) ''event'' ''checkpoint_approved'' = ''event-checkpoint-approved-20260714101500111111111111''"
  "trim_space ''event-checkpoint-resolved-202607141015001111111111'' = ''event-checkpoint-resolved-202607141015001111111111''"
  "trim_space ''event-decision-made-2026071410150011111111111'' = ''event-decision-made-2026071410150011111111111''"
  "trim_space ''event-checkpoint-approved-20260714101500111111111111'' = ''event-checkpoint-approved-20260714101500111111111111''"
  "trim_space ''ready'' = ''ready''"
  by code_simp+

lemma decided_eval: "decide_checkpoint (\<lambda>_. Inr ''f'') (en_now desk_env) sample_gate ''approve'' board_3 = Inr decided_board"
proof -
  have a: "pc_checkpoints board_3 = [board_gate]" "pc_reads board_3 = 8" "pc_activity board_3 = []" "pc_decisions board_3 = []"
    "pc_tasks board_3 = [board_task]"
    by (simp_all add: board_3_def created_def board_2_def board_1_def)
  have g: "ck_id board_gate = sample_gate" "ck_status board_gate = ''pending''" "ck_actions board_gate = [''approve'', ''reject'']"
    "ck_kind board_gate = ''dispatch''" "ck_task board_gate = sample_task"
    by (simp_all add: board_gate_def)
  have p: "checkpoint_project board_3 sample_task = sample_project" "checkpoint_workstream board_3 sample_task = sample_stream"
    "activity_kind ''dispatch'' = ''uncategorized''"
    by code_simp+
  have e1: "emit ''checkpoint-resolved'' ev st = st\<lparr>pc_reads := 10, pc_activity := pc_activity decided_board,
      pc_events := pc_events st @ [ev\<lparr>ev_id := ''event-checkpoint-resolved-202607141015001111111111''\<rparr>]\<rparr>"
    if "ev_action ev = ''checkpoint_resolved''" "ev_source ev = sample_gate" "ev_project ev = sample_project" "ev_kind ev = ''uncategorized''"
      "pc_reads st = 9" "pc_clock st = desk_clock" "pc_activity st = []" for ev st
    using that by (simp add: emit_def append_event_def control_id_def record_activity_def trim_activity_def Let_def decision_texts decided_board_def)
  have e2: "emit ''decision-made'' ev st = st\<lparr>pc_reads := 11,
        pc_events := pc_events st @ [ev\<lparr>ev_id := ''event-decision-made-2026071410150011111111111''\<rparr>]\<rparr>"
    if "ev_action ev = ''decision_made''" "pc_reads st = 10" "pc_clock st = desk_clock" "pc_activity st = pc_activity decided_board" for ev st
    using that by (subst emit_eval [where i = "''event-decision-made-2026071410150011111111111''"])
      (auto simp: decision_texts decided_board_def intro: ctl_state.equality)
  have e3: "emit ''checkpoint_approved'' ev st = st\<lparr>pc_reads := 12,
        pc_events := pc_events st @ [ev\<lparr>ev_id := ''event-checkpoint-approved-20260714101500111111111111''\<rparr>]\<rparr>"
    if "ev_action ev = ''checkpoint_approved''" "pc_reads st = 11" "pc_clock st = desk_clock" "pc_activity st = pc_activity decided_board" for ev st
    using that by (subst emit_eval [where i = "''event-checkpoint-approved-20260714101500111111111111''"])
      (auto simp: decision_texts decided_board_def intro: ctl_state.equality)
  define t where "t = (board_task\<lparr>kt_baseline := ''f'', kt_acceptance := ''accepted'', kt_acceptance_decision := sample_decision,
        kt_dispatch := ''ready'', kt_summary := ''Dispatch approved by human operator; task is ready to be claimed.'',
        kt_next := ''An agent runtime can now claim this task via /api/agent/v1/claim.'', kt_version := 3\<rparr>)"
  have t: "decide_task (\<lambda>_. Inr ''f'') ''dispatch'' ''approve'' sample_decision board_task = Inr (t\<lparr>kt_version := 2\<rparr>)"
    by (simp add: decide_task_def t_def board_task_def and_then_def)
  have q: "sync_gates now t st = st" if "pc_checkpoints st = [c]" "ck_kind c = ''dispatch''" for now st c
    using that by (simp add: sync_gates_def sync_acceptance_gate_def sync_archive_gate_def sync_dispatch_gate_def expire_pending_def
        pending_gate_def t_def board_task_def needs_dispatch_approval_def sample_texts decision_texts)
  have o': "control_task st sample_task = Some board_task" if "pc_tasks st = [board_task]" for st
    using that by (simp add: control_task_def board_task_def)
  have v: "kt_id t = sample_task" "kt_project t = sample_project" "kt_workstream t = sample_stream" "kt_version t = 3" "kt_id board_task = sample_task"
    by (simp_all add: t_def board_task_def)
  have w: "t\<lparr>kt_version := 3\<rparr> = t" by (simp add: t_def)
  show ?thesis
    by (simp add: decide_checkpoint_def Let_def decision_texts a g and_then_def control_id_def boards_clock decision_name_def
        p decide_gate_def decide_owner_def e1 o' t w q e2 e3 store_task_def v task_event_def)
      (simp add: decided_board_def board_gate_def board_3_def created_def task_entry_def sample_event_def t_def board_task_def)
qed

lemma sample_4: "desk_step (desk_of board_3) (desk_env, Decide_checkpoint sample_gate ''approve'') = desk_of board_4"
proof -
  have "en_fingerprint desk_env = (\<lambda>_. Inr ''f'')" by (simp add: desk_env_def)
  then show ?thesis
    using store_manual [OF sample_manual(3,2), of board_3] decided_eval
    by (simp add: control_call_eval desk_of_def plain_def and_then_def normal_decided)
qed

text \<open>The board after each call.\<close>

lemma sample_history:
  "desk_run (empty_board desk_env desk_clock) (desk_history 3) = desk_of board_3"
  "desk_run (empty_board desk_env desk_clock) (desk_history 4) = desk_of board_4"
proof -
  have "desk_step (empty_board desk_env desk_clock) (desk_env, first_calls ! 0) = desk_of board_1"
    by (rule desk_step_eval [OF sample_1]) (simp add: boards_clock)
  moreover have "desk_step (desk_of board_1) (desk_env, first_calls ! 1) = desk_of board_2"
    by (rule desk_step_eval [OF sample_2]) (simp add: boards_clock desk_of_def)
  moreover note sample_3 sample_4
  ultimately show "desk_run (empty_board desk_env desk_clock) (desk_history 3) = desk_of board_3"
    "desk_run (empty_board desk_env desk_clock) (desk_history 4) = desk_of board_4"
    by (simp_all add: desk_run_def desk_history_def first_calls_def sample_create_def)
qed

end
