(* ===== verification/Control_Properties.thy ===== *)
theory Control_Properties
  imports Control_Sample
begin

text \<open>
  What holds of the board of a user, whatever users, agents and the server call, in whatever
  order. Every call is a sequence of moves; the clock of identifiers never shows the same
  twice. The theorems are applied to a short history.
\<close>

section \<open>Whatever is called\<close>




text \<open>The state and the acceptance of every task are among the values the code knows, whatever callers send.\<close>

theorem statuses_known:
  assumes "ticking clock" and "t \<in> set (pc_tasks (bd_control (desk_run (empty_board env clock) calls)))"
  shows "kt_state t \<in> set [''planned'', ''queued'', ''running'', ''waiting_review'', ''waiting_human'', ''blocked'', ''failed'', ''execution_complete'',
      ''cancelled'', ''archived''] \<and>
    kt_acceptance t \<in> set [''not_ready'', ''ready_for_acceptance'', ''under_human_review'', ''accepted'', ''rejected'']"
proof -
  have "known_status t" using desk_run_inv [OF assms(1), of env calls] assms(2) by (simp add: desk_inv_def decided_def backed_def)
  then have "kt_state t \<in> range normalize_task_state" "kt_acceptance t \<in> range normalize_acceptance"
    unfolding known_status_def by (metis rangeI)+
  then show ?thesis unfolding normalize_task_state_def normalize_acceptance_def using normal_member by fastforce
qed

theorem statuses_known_witness:
  "\<exists>t. pc_tasks (bd_control (desk_run (empty_board desk_env desk_clock) (desk_history 3))) = [t] \<and>
     kt_state t \<in> set [''planned'', ''queued'', ''running'', ''waiting_review'', ''waiting_human'', ''blocked'', ''failed'', ''execution_complete'',
      ''cancelled'', ''archived'']"
  using statuses_known [OF desk_clock_ticking, of board_task desk_env "desk_history 3"]
  by (simp add: sample_history desk_of_def board_3_def created_def)



text \<open>
  C10. On every board reached from the empty one each task depends only on tasks of its own
  project, and no task depends on itself, directly or through others.
\<close>

theorem dependencies_acyclic:
  assumes "ticking clock"
  shows "(\<forall>t \<in> set (pc_tasks (bd_control (desk_run (empty_board env clock) calls))). \<forall>i \<in> set (kt_depends t).
      \<exists>u \<in> set (pc_tasks (bd_control (desk_run (empty_board env clock) calls))). kt_id u = i \<and> kt_project u = kt_project t) \<and>
    acyclic (depends (pc_tasks (bd_control (desk_run (empty_board env clock) calls))))"
  using desk_run_inv [OF assms, of env calls] unfolding desk_inv_def ordered_def by blast

theorem dependencies_acyclic_witness: "acyclic (depends (pc_tasks (bd_control (desk_run (empty_board desk_env desk_clock) (desk_history 4)))))"
  using dependencies_acyclic [OF desk_clock_ticking, of desk_env "desk_history 4"] by blast

section \<open>What stays\<close>

lemma normalize_checkpoint_idem: "normalize_checkpoint (normalize_checkpoint c) = normalize_checkpoint c"
  by (simp add: normalize_checkpoint_def trim_space_idem)

lemma normalize_decision_idem: "normalize_decision (normalize_decision d) = normalize_decision d"
  by (simp add: normalize_decision_def trim_space_idem)

definition on_record :: "('a \<Rightarrow> 'a) \<Rightarrow> 'a \<Rightarrow> 'a list \<Rightarrow> bool" where
  "on_record norm x xs \<longleftrightarrow> x \<in> set xs \<or> norm x \<in> set xs"

lemma on_record_append: "on_record norm x xs \<Longrightarrow> on_record norm x (xs @ ys)"
  by (auto simp: on_record_def)

lemma on_record_map: "on_record norm x xs \<Longrightarrow> norm (norm x) = norm x \<Longrightarrow> on_record norm x (map norm xs)"
  by (auto simp: on_record_def image_iff) metis

lemma later_keeps: "gates_later cs cs' \<Longrightarrow> ck_status c \<noteq> ''pending'' \<Longrightarrow> on_record normalize_checkpoint c cs \<Longrightarrow> on_record normalize_checkpoint c cs'"
proof -
  assume l: "gates_later cs cs'" and s: "ck_status c \<noteq> ''pending''" and c: "on_record normalize_checkpoint c cs"
  have keeps: "x \<in> set ds" if "list_all2 gate_later cs ds" "x \<in> set cs" "ck_status x \<noteq> ''pending''" for x ds
    using that by (induction rule: list_all2_induct) (auto simp: gate_later_def)
  have "ck_status (normalize_checkpoint c) \<noteq> ''pending''" using s by (simp add: normalize_checkpoint_def)
  with l s c keeps show ?thesis unfolding gates_later_def on_record_def by fastforce
qed

lemma record_move:
  assumes "move st st'"
  shows "(ck_status c \<noteq> ''pending'' \<and> on_record normalize_checkpoint c (pc_checkpoints st) \<longrightarrow> on_record normalize_checkpoint c (pc_checkpoints st')) \<and>
    (on_record normalize_decision d (pc_decisions st) \<longrightarrow> on_record normalize_decision d (pc_decisions st'))"
  using assms
proof (cases rule: move.cases)
  case (settle j ds)
  then show ?thesis using later_keeps by (auto simp: in_line_def on_record_append)
next
  case (create t)
  then show ?thesis using later_keeps by (auto simp: in_line_def)
qed (auto simp: on_record_append on_record_map normalize_checkpoint_idem normalize_decision_idem later_keeps)



section \<open>Saving\<close>



end
