(* ===== verification/Control_Guards.thy ===== *)
theory Control_Guards
  imports Control_Sample
begin

text \<open>
  C19. The contract of a task is valid exactly when its acceptance command names an
  executable, its milestone is one of its project, and everything its dependencies lead to is
  a task of the project, is not the task itself and lies on no cycle.
\<close>

theorem task_contract_exact:
  "validate_task_contract st t = Inr () \<longleftrightarrow>
     (kt_command t = [] \<or> trim_space (hd (kt_command t)) \<noteq> []) \<and>
     (kt_milestone t = [] \<or>
       (\<exists>p. control_project st (kt_project t) = Some p \<and> kt_milestone t \<in> set (map mi_id (po_milestones p)))) \<and>
     (\<forall>i \<in> set (kt_depends t). \<forall>j. (i, j) \<in> (depends (pc_tasks st))\<^sup>* \<longrightarrow>
        j \<noteq> kt_id t \<and> (\<exists>u. found_task (pc_tasks st) j = Some u \<and> kt_project u = kt_project t) \<and> (j, j) \<notin> (depends (pc_tasks st))\<^sup>+)"
proof -
  have "visit_all (pc_tasks st) (kt_project t) [kt_id t] (kt_depends t) = Inr () \<longleftrightarrow>
      (\<forall>i \<in> set (kt_depends t). \<forall>j. (i, j) \<in> (depends (pc_tasks st))\<^sup>* \<longrightarrow>
        j \<noteq> kt_id t \<and> (\<exists>u. found_task (pc_tasks st) j = Some u \<and> kt_project u = kt_project t) \<and> (j, j) \<notin> (depends (pc_tasks st))\<^sup>+)"
    unfolding visit_all_iff by simp
  then show ?thesis unfolding validate_task_contract_def Let_def
    by (cases "control_project st (kt_project t)") (auto simp: in_set_conv_decomp)
qed

theorem task_contract_exact_witness:
  "validate_task_contract board_3 (board_task\<lparr>kt_depends := [sample_task]\<rparr>) \<noteq> Inr () \<and>
   validate_task_contract board_3 (board_task\<lparr>kt_id := ''new'', kt_depends := [sample_task]\<rparr>) = Inr ()"
proof -
  have t: "pc_tasks board_3 = [board_task]" "kt_id board_task = sample_task" "kt_depends board_task = []" "kt_command board_task = []"
    "kt_milestone board_task = []"
    by (simp_all add: board_3_def created_def board_task_def)
  have none: "depends [board_task] = {}" using t by (simp add: depends_def found_task_def)
  have "found_task [board_task] sample_task = Some board_task" using t by (simp add: found_task_def)
  then show ?thesis
    using task_contract_exact [of board_3 "board_task\<lparr>kt_depends := [sample_task]\<rparr>"]
      task_contract_exact [of board_3 "board_task\<lparr>kt_id := ''new'', kt_depends := [sample_task]\<rparr>"] t none by auto
qed

section \<open>Concurrent edits\<close>


definition sample_update :: task_update where
  "sample_update = \<lparr>uq_lease = [], uq_milestone = None, uq_depends = None, uq_command = None, uq_version = 1, uq_action = [],
     uq_title = ''new'', uq_goal = [], uq_priority = [], uq_risk = [], uq_state = [], uq_acceptance = [], uq_phase = [],
     uq_artifact_kind = [], uq_artifact_outcome = [], uq_artifact_label = [], uq_artifact_value = [], uq_failure = [],
     uq_tool = [], uq_pause = [], uq_clear_pause = False\<rparr>"


section \<open>Leases\<close>

lemma revoked_fold:
  assumes "c \<in> set (fold (\<lambda>t rows. if closed t then revoke_task_claims now u (kt_id t) rows else rows) ts rows)"
  shows "(\<exists>t \<in> set ts. closed t \<and> kt_id t = tc_task c) \<and> tc_username c = u \<longrightarrow> tc_status c \<noteq> ClActive"
proof -
  have stays: "tc_status c' \<noteq> ClActive"
    if "c' \<in> set (revoke_task_claims now u i rows)" "tc_username c' = u" "tc_task c' = j"
      "i = j \<or> (\<forall>c \<in> set rows. tc_username c = u \<and> tc_task c = j \<longrightarrow> tc_status c \<noteq> ClActive)" for c' i j and rows :: claims
  proof -
    from that(1) obtain r where r: "r \<in> set rows"
      "c' = (if tc_username r = u \<and> tc_task r = i \<and> tc_status r = ClActive then r\<lparr>tc_status := ClReleased, tc_updated := now\<rparr> else r)"
      unfolding revoke_task_claims_def update_where_def set_map by blast
    show ?thesis
    proof (cases "tc_username r = u \<and> tc_task r = i \<and> tc_status r = ClActive")
      case True
      with r show ?thesis by simp
    next
      case False
      with r have "c' = r" by simp
      with False r(1) that(2-4) show ?thesis by blast
    qed
  qed
  define none where "none rows j \<longleftrightarrow> (\<forall>c \<in> set rows. tc_username c = u \<and> tc_task c = j \<longrightarrow> tc_status c \<noteq> ClActive)" for j and rows :: claims
  define sweep where "sweep = fold (\<lambda>t rows. if closed t then revoke_task_claims now u (kt_id t) rows else rows)"
  have kept: "none rows j \<Longrightarrow> none (sweep us rows) j" for us rows j
  proof (induction us arbitrary: rows)
    case (Cons t us)
    have "none (revoke_task_claims now u (kt_id t) rows) j" using stays Cons.prems unfolding none_def by blast
    with Cons show ?case by (simp add: sweep_def)
  qed (simp add: sweep_def)
  have "\<forall>t \<in> set us. closed t \<longrightarrow> none (sweep us rows) (kt_id t)" for us rows
  proof (induction us arbitrary: rows)
    case (Cons t us)
    have "none (revoke_task_claims now u (kt_id t) rows) (kt_id t)" using stays unfolding none_def by blast
    with Cons kept show ?case by (simp add: sweep_def)
  qed simp
  then have "closed t \<Longrightarrow> t \<in> set ts \<Longrightarrow> none (sweep ts rows) (kt_id t)" for t by blast
  moreover have "c \<in> set (sweep ts rows)" using assms by (simp only: sweep_def)
  ultimately show ?thesis unfolding none_def by metis
qed

text \<open>
  C8. Closing work takes the lease away: after every successful transaction no task that is
  paused, released, cancelled or, raised by an agent, in a project not taken over, has an
  active lease of the user.
\<close>

theorem closed_tasks_hold_no_lease:
  assumes "with_leases env f d = (d', Inr x)" and "t \<in> set (pc_tasks (bd_control d'))" and "execution_closed (bd_control d') t"
    and "c \<in> set (bd_claims d')" and "tc_username c = en_user env" and "tc_task c = kt_id t"
  shows "tc_status c \<noteq> ClActive"
proof -
  from assms(1) obtain rows where "bd_claims d' = revoke_closed (en_instant env) (en_user env) (bd_control d') rows"
    unfolding with_leases_def Let_def by (auto split: if_splits prod.splits sum.splits)
  with assms(2-6) show ?thesis
    using revoked_fold [of c "execution_closed (bd_control d')" "en_instant env" "en_user env" "pc_tasks (bd_control d')" rows]
    unfolding revoke_closed_def by metis
qed

definition sample_lease :: task_claim where
  "sample_lease = \<lparr>tc_id = ''lease'', tc_username = ''ann'', tc_task = sample_task, tc_runtime = ''runtime'', tc_agent = ''agent'',
     tc_status = ClActive, tc_lease = 60, tc_created = 0, tc_updated = 0\<rparr>"

theorem closed_tasks_hold_no_lease_witness:
  "\<exists>d' c. with_leases desk_env (\<lambda>st rows. (rows, Inr (decided_board, ()))) ((desk_of board_3)\<lparr>bd_claims := [sample_lease]\<rparr>) = (d', Inr ()) \<and>
     bd_control d' = board_4 \<and> bd_claims d' = [c] \<and> tc_id c = ''lease'' \<and> tc_status c \<noteq> ClActive"
proof -
  let ?d = "(desk_of board_3)\<lparr>bd_claims := [sample_lease]\<rparr>"
  define rows where "rows = revoke_closed (en_instant desk_env) (en_user desk_env) board_4 [sample_lease]"
  define d' where "d' = ?d\<lparr>bd_control := board_4, bd_claims := rows\<rparr>"
  have "commit desk_env board_3 decided_board = board_4"
    using reactions_manual [OF sample_manual(2)] normal_decided by (simp add: commit_def)
  then have call: "with_leases desk_env (\<lambda>st rows. (rows, Inr (decided_board, ()))) ?d = (d', Inr ())"
    using sample_manual(3) by (simp add: with_leases_def d'_def rows_def desk_of_def)
  obtain t where t: "pc_tasks board_4 = [t]" "kt_id t = sample_task" "kt_project t = sample_project" "kt_origin t = ''agent''"
    by (simp add: board_4_def decided_board_def board_task_def)
  have "pc_projects board_4 = pc_projects board_1" using decided_fields by (simp add: board_4_def)
  then have "takeover_mode board_4 sample_project = ''manual''" by (simp add: takeover_mode_def control_project_def board_1_def)
  then have closed: "execution_closed board_4 t" using t by (simp add: execution_closed_def needs_dispatch_approval_def sample_texts)
  obtain c where c: "rows = [c]" "tc_id c = ''lease''" "tc_username c = en_user desk_env" "tc_task c = sample_task"
    using t closed by (simp add: rows_def revoke_closed_def revoke_task_claims_def update_where_def sample_lease_def desk_env_def)
  have "tc_status c \<noteq> ClActive"
    using closed_tasks_hold_no_lease [OF call, of t c] t closed c by (simp add: d'_def)
  with call c show ?thesis by (simp add: d'_def)
qed

section \<open>Approvals\<close>

lemma approved_task:
  assumes "decide_task fp kind ''approve'' did t = Inr t'" and "kind \<noteq> ''archive_override''"
  shows "kt_acceptance t' = ''accepted'' \<and> kt_acceptance_decision t' = did \<and> kt_state t' = kt_state t"
  using decide_task_status [OF assms(1)] assms(2) by auto

lemma approval_stored:
  assumes decide: "decide_checkpoint fp now cid ''approve'' st = Inr st'"
    and find: "List.find (\<lambda>c. ck_id c = cid) (pc_checkpoints st) = Some c" and kind: "ck_kind c \<noteq> ''archive_override''"
    and task: "control_task st (ck_task c) = Some t"
  shows "\<exists>d t'. pc_decisions st' = pc_decisions st @ [d] \<and> de_checkpoint d = ck_id c \<and> de_task d = ck_task c \<and> de_actor d = ''human'' \<and>
    control_task st' (ck_task c) = Some t' \<and> kt_acceptance t' = ''accepted'' \<and> kt_acceptance_decision t' = de_id d \<and> kt_state t' = kt_state t"
proof -
  obtain c0 c2 d st3 where *: "List.find (\<lambda>c. ck_id c = cid) (pc_checkpoints st) = Some c0"
      "c2 = (decide_gate ''approve'' c0)\<lparr>ck_resolved_by := de_id d, ck_version := ck_version c0 + 1\<rparr>"
      "de_actor d = ''human''" "de_task d = ck_task c0" "de_checkpoint d = ck_id c0"
      "decide_owner fp now c2 ''approve'' (de_id d) st3 = Inr st'" "pc_tasks st3 = pc_tasks st" "pc_decisions st3 = pc_decisions st @ [d]"
    using decide_checkpoint_parts [OF decide] unfolding decision_texts by metis
  have c: "c0 = c" "ck_task c2 = ck_task c" "ck_kind c2 = ck_kind c" using *(1,2) find by (simp_all add: decide_gate_effect)
  have "control_task st3 (ck_task c2) = Some t" using task *(7) c by (simp add: control_task_def)
  with *(6) obtain t' where t': "decide_task fp (ck_kind c2) ''approve'' (de_id d) t = Inr t'" "pc_decisions st' = pc_decisions st3"
    "control_task st' (ck_task c2) = Some (t'\<lparr>kt_version := kt_version t' + 1\<rparr>)"
    by (rule stored_decision)
  with approved_task [OF t'(1)] * c kind show ?thesis by auto
qed


definition finished_task :: ctl_task where
  "finished_task = board_task\<lparr>kt_state := ''execution_complete'', kt_acceptance := ''under_human_review''\<rparr>"

definition final_gate :: checkpoint where
  "final_gate = board_gate\<lparr>ck_kind := ''final_acceptance'', ck_actions := [''approve'', ''reject'', ''reroute'']\<rparr>"

definition finished_board :: "(string \<times> string) list \<Rightarrow> ctl_state" where
  "finished_board evidence = board_3\<lparr>pc_tasks := [finished_task], pc_checkpoints := [final_gate],
     pc_artifacts := map (\<lambda>(kind, outcome). \<lparr>fa_id = kind, fa_task = sample_task, fa_attempt = [], fa_kind = kind, fa_outcome = outcome,
       fa_label = [], fa_value = [], fa_created = []\<rparr>) evidence\<rparr>"

definition full_evidence :: "(string \<times> string) list" where
  "full_evidence = [(''plan'', ''recorded''), (''diff_summary'', ''recorded''), (''test_result'', ''pass''), (''review_result'', ''pass''),
     (''completion_check'', ''pass'')]"




end
