(* ===== verification/Control_Pausing.thy ===== *)
theory Control_Pausing
  imports Control_Sample
begin

text \<open>
  Pausing (\<open>project_takeover.go\<close>): what the passes over the tasks mark is the closure of the
  dependencies, and pausing stops exactly that.
\<close>

section \<open>The closure\<close>

text \<open>Dependencies of the tasks of a project.\<close>

definition needs :: "string \<Rightarrow> ctl_task list \<Rightarrow> (string \<times> string) set" where
  "needs project ts = {(kt_id t, i) | t i. t \<in> set ts \<and> kt_project t = project \<and> i \<in> set (kt_depends t)}"

lemma mark_pass_sound:
  "j \<in> set (mark_pass project ts A) \<Longrightarrow> set ts \<subseteq> set us \<Longrightarrow> \<exists>i \<in> set A. (j, i) \<in> (needs project us)\<^sup>*"
proof (induction project ts A rule: mark_pass.induct)
  case (2 project t ts A)
  let ?A = "if kt_project t \<noteq> project \<or> kt_id t \<in> set A then A
     else if \<exists>d \<in> set (kt_depends t). d \<in> set A then kt_id t # A else A"
  from 2 obtain i where i: "i \<in> set ?A" "(j, i) \<in> (needs project us)\<^sup>*" by (auto simp del: Let_def)
  show ?case
  proof (cases "i \<in> set A")
    case False
    with i(1) obtain d where "i = kt_id t" "kt_project t = project" "d \<in> set (kt_depends t)" "d \<in> set A"
      by (auto split: if_splits)
    moreover from this have "(i, d) \<in> needs project us" using 2(3) by (auto simp: needs_def)
    ultimately show ?thesis using i(2) by (meson rtrancl.rtrancl_into_rtrancl)
  qed (use i in blast)
qed auto

lemma mark_pass_closed:
  "mark_pass project ts A = A \<Longrightarrow> t \<in> set ts \<Longrightarrow> kt_project t = project \<Longrightarrow> i \<in> set (kt_depends t) \<Longrightarrow> i \<in> set A \<Longrightarrow> kt_id t \<in> set A"
proof (induction project ts A rule: mark_pass.induct)
  case (2 project u ts A)
  let ?A = "if kt_project u \<noteq> project \<or> kt_id u \<in> set A then A
     else if \<exists>d \<in> set (kt_depends u). d \<in> set A then kt_id u # A else A"
  obtain X where X: "mark_pass project ts ?A = X @ ?A" using mark_pass_extends by blast
  have "?A = A"
  proof (rule ccontr)
    assume "?A \<noteq> A"
    then have "?A = kt_id u # A" by (simp split: if_splits)
    with X 2(2) show False by simp
  qed
  with 2 show ?case by (auto split: if_splits)
qed simp

theorem mark_dependents_iff:
  "j \<in> set (mark_dependents project ts A) \<longleftrightarrow> (\<exists>i \<in> set A. (j, i) \<in> (needs project ts)\<^sup>*)"
proof (induction project ts A rule: mark_dependents.induct)
  case (1 project ts A)
  show ?case
  proof (cases "mark_pass project ts A = A")
    case True
    have "j \<in> set A" if "(j, i) \<in> (needs project ts)\<^sup>*" "i \<in> set A" for i j
      using that by (induction rule: converse_rtrancl_induct) (auto simp: needs_def intro: mark_pass_closed [OF True])
    with True show ?thesis by (subst mark_dependents.simps) auto
  next
    case False
    obtain X where X: "mark_pass project ts A = X @ A" using mark_pass_extends by blast
    have "(\<exists>i \<in> set (X @ A). (j, i) \<in> (needs project ts)\<^sup>*) \<longleftrightarrow> (\<exists>i \<in> set A. (j, i) \<in> (needs project ts)\<^sup>*)"
    proof
      assume "\<exists>i \<in> set (X @ A). (j, i) \<in> (needs project ts)\<^sup>*"
      then obtain i where i: "i \<in> set (mark_pass project ts A)" "(j, i) \<in> (needs project ts)\<^sup>*" unfolding X by blast
      with mark_pass_sound [OF i(1) subset_refl] show "\<exists>i \<in> set A. (j, i) \<in> (needs project ts)\<^sup>*"
        by (meson rtrancl_trans)
    qed auto
    moreover have "mark_dependents project ts A = mark_dependents project ts (X @ A)"
      using False by (subst mark_dependents.simps) (simp add: X)
    ultimately show ?thesis using 1 [OF False] by (simp add: X)
  qed
qed

section \<open>What a pause stops\<close>


definition chained :: "string \<Rightarrow> string \<Rightarrow> string list \<Rightarrow> string \<Rightarrow> ctl_task" where
  "chained i project ds dispatch = board_task\<lparr>kt_id := i, kt_project := project, kt_depends := ds, kt_dispatch := dispatch\<rparr>"

definition chain :: "ctl_task list" where
  "chain = [chained ''a'' ''p'' [''c''] ''ready'', chained ''c'' ''p'' [''b''] ''claimed'', chained ''b'' ''p'' [''a''] ''none'',
     chained ''d'' ''q'' [''a''] ''ready'', chained ''e'' ''p'' [''a''] ''done'']"

lemma chained_parts [simp]: "kt_id (chained i p ds s) = i" "kt_project (chained i p ds s) = p" "kt_depends (chained i p ds s) = ds"
  "kt_dispatch (chained i p ds s) = s" "kt_pause (chained i p ds s) = []"
  by (simp_all add: chained_def board_task_def)


end
