(* ===== verification/Control_History.thy ===== *)
theory Control_History
  imports Control_Sample
begin

text \<open>What a transaction retains of the history of each task (\<open>project_memory.go\<close>).\<close>

lemma task_of_entry_ids:
  "map kt_id ts = map kt_id us \<Longrightarrow> map_option kt_id (task_of_entry ts i) = map_option kt_id (task_of_entry us i)"
proof -
  have "map_option kt_id (List.find (\<lambda>t. kt_id t = j) us) = List.find (\<lambda>i. i = j) (map kt_id us)" for j us
    by (induction us) auto
  then have look: "map_option kt_id (List.find (\<lambda>t. kt_id t = j) (rev ts)) = List.find (\<lambda>i. i = j) (rev (map kt_id ts))" for j ts
    by (simp add: rev_map)
  assume "map kt_id ts = map kt_id us"
  then show ?thesis by (simp add: task_of_entry_def look)
qed

lemma entries_of_ids: "map kt_id ts = map kt_id us \<Longrightarrow> entries_of k ts i xs = entries_of k us i xs"
  unfolding entries_of_def using task_of_entry_ids [of ts us] by simp

lemma set_kept: "set (kept_entries k ts i xs) \<subseteq> set (entries_of k ts i xs)"
proof -
  have "set (drop n (closed_entries k ts i xs)) \<subseteq> set (entries_of k ts i xs)" for n
    using set_drop_subset [of n "closed_entries k ts i xs"] by (auto simp: closed_entries_def)
  then show ?thesis by (auto simp: kept_entries_def Let_def)
qed

text \<open>After the cut the entries of a task are those that were kept of it.\<close>

lemma entries_kept:
  "entries_of k ts i (compact_entries k ts xs) = (if i \<in> set (map kt_id ts) then kept_entries k ts i xs else [])"
proof -
  let ?own = "\<lambda>i x. map_option kt_id (task_of_entry ts (ek_task k x)) = Some i"
  have none: "filter (?own i) (filter (\<lambda>x. task_of_entry ts (ek_task k x) = None) xs) = []" by (auto simp: filter_empty_conv)
  have "filter (?own i) (kept_entries k ts j xs) = (if j = i then kept_entries k ts j xs else [])" for j
    using set_kept [of k ts j xs] by (auto simp: entries_of_def filter_id_conv filter_empty_conv)
  then have own: "filter (?own i) (concat (map (\<lambda>i. kept_entries k ts i xs) is)) = (if i \<in> set is then kept_entries k ts i xs else [])"
    if "distinct is" for "is"
    using that by (induction "is") auto
  have ids: "distinct (task_ids ts)" "set (task_ids ts) = set (map kt_id ts)" by (simp_all add: task_ids_def)
  show ?thesis unfolding compact_entries_def entries_of_def filter_append none
    using own [OF ids(1)] unfolding ids(2) by (simp only: append_Nil)
qed

lemma closed_kept: "length (closed_entries k ts i (compact_entries k ts xs)) \<le> ek_retained k"
proof -
  have "\<forall>x \<in> set (closed_entries k ts i xs). \<not> ek_open k x" by (simp add: closed_entries_def)
  then have "filter (\<lambda>x. \<not> ek_open k x) (drop n (closed_entries k ts i xs)) = drop n (closed_entries k ts i xs)" for n
    using set_drop_subset [of n "closed_entries k ts i xs"] by (intro filter_True) blast
  then have "length (filter (\<lambda>x. \<not> ek_open k x) (kept_entries k ts i xs)) \<le> ek_retained k"
    by (simp add: kept_entries_def Let_def)
  then show ?thesis by (simp add: closed_entries_def entries_kept)
qed

lemma migrate_tasks: "pc_tasks (fold (\<lambda>t. migrate_evidence c (kt_id t) (kt_evidence t)) ts st) = pc_tasks st"
proof -
  have "pc_tasks (migrate_evidence c i es st) = pc_tasks st" for i es st
    by (induction c i es st rule: migrate_evidence.induct) (auto simp: control_id_def Let_def)
  then show ?thesis by (induction ts arbitrary: st) simp_all
qed

lemma refresh_id: "kt_id (refresh_task as t) = kt_id t"
  by (simp add: refresh_task_def resolve_skill_and_runbook_def Let_def split: prod.split option.split)

text \<open>Events, closed attempts and closed runs of a state in normal form, by the tasks it shows.\<close>

lemma normal_history:
  fixes st now
  defines "st' \<equiv> normalize_state now st"
  shows "length (closed_entries event_entries (pc_tasks st') i (pc_events st')) \<le> 64 \<and>
    length (closed_entries attempt_entries (pc_tasks st') i (pc_attempts st')) \<le> 12 \<and>
    length (closed_entries run_entries (pc_tasks st') i (pc_runs st')) \<le> 12"
proof -
  have cut: "\<exists>ts. map kt_id (pc_tasks (compact_state now s)) = map kt_id ts \<and>
      (\<exists>es as rs. pc_events (compact_state now s) = compact_entries event_entries ts es \<and>
        pc_attempts (compact_state now s) = compact_entries attempt_entries ts as \<and>
        pc_runs (compact_state now s) = compact_entries run_entries ts rs)" for s
    unfolding compact_state_def Let_def by (rule exI [where x = "pc_tasks s"]) (auto simp: migrate_tasks comp_def)
  define s where "s = st\<lparr>pc_activity := trim_activity (pc_activity st), pc_projects := map normalize_project (pc_projects st),
            pc_workstreams := map normalize_workstream (pc_workstreams st),
            pc_tasks := map (normalize_task (pc_artifacts st)) (pc_tasks st),
            pc_attempts := map normalize_attempt (pc_attempts st), pc_runs := map normalize_run (pc_runs st),
            pc_artifacts := map normalize_artifact (pc_artifacts st), pc_checkpoints := map normalize_checkpoint (pc_checkpoints st),
            pc_events := map normalize_event (pc_events st), pc_decisions := map normalize_decision (pc_decisions st),
            pc_memories := map normalize_memory (pc_memories st)\<rparr>"
  obtain ts es as rs where ts: "map kt_id (pc_tasks (compact_state now s)) = map kt_id ts"
    "pc_events (compact_state now s) = compact_entries event_entries ts es"
    "pc_attempts (compact_state now s) = compact_entries attempt_entries ts as"
    "pc_runs (compact_state now s) = compact_entries run_entries ts rs"
    using cut [of s] by blast
  have "pc_tasks st' = map (refresh_task (pc_artifacts (compact_state now s))) (pc_tasks (compact_state now s))"
    and rest: "pc_events st' = pc_events (compact_state now s)" "pc_attempts st' = pc_attempts (compact_state now s)"
      "pc_runs st' = pc_runs (compact_state now s)"
    unfolding st'_def normalize_state_def Let_def s_def [symmetric] by simp_all
  then have ids: "map kt_id (pc_tasks st') = map kt_id ts" using ts(1) by (simp add: comp_def refresh_id)
  have "closed_entries k (pc_tasks st') i xs = closed_entries k ts i xs" for k :: "'a entry_kind" and xs
    by (simp add: closed_entries_def entries_of_ids [OF ids])
  note same = this
  show ?thesis unfolding rest ts same
    using closed_kept [of event_entries ts i es] closed_kept [of attempt_entries ts i as] closed_kept [of run_entries ts i rs]
    by (simp add: event_entries_def attempt_entries_def run_entries_def)
qed

text \<open>
  C21. The stored history is bounded: after every successful transaction no task has more than 64
  events, 12 closed phase attempts and 12 closed tool runs on the board, however many were
  logged.
\<close>

theorem history_bounded:
  assumes "with_leases env f d = (d', Inr x)"
  shows "length (entries_of event_entries (pc_tasks (bd_control d')) i (pc_events (bd_control d'))) \<le> 64 \<and>
    length (closed_entries attempt_entries (pc_tasks (bd_control d')) i (pc_attempts (bd_control d'))) \<le> 12 \<and>
    length (closed_entries run_entries (pc_tasks (bd_control d')) i (pc_runs (bd_control d'))) \<le> 12"
proof -
  from assms obtain st where "bd_control d' = commit env (bd_control d) st"
    unfolding with_leases_def Let_def by (auto split: if_splits prod.splits sum.splits)
  then obtain st1 where d': "bd_control d' = (normalize_state (en_now env) st1)\<lparr>pc_updated := en_nano env\<rparr>"
    by (simp add: commit_def)
  have events: "length (entries_of event_entries ts i es) = length (closed_entries event_entries ts i es)" for ts es
    by (simp add: closed_entries_def event_entries_def)
  show ?thesis using normal_history [of "en_now env" st1 i] by (simp add: d' events)
qed

theorem history_bounded_witness:
  "\<exists>d'. with_leases desk_env (\<lambda>st rows. (rows, Inr (decided_board, ()))) (desk_of board_3) = (d', Inr ()) \<and> bd_control d' = board_4 \<and>
     length (entries_of event_entries (pc_tasks board_4) sample_task (pc_events board_4)) \<le> 64"
proof -
  have commit: "commit desk_env board_3 decided_board = board_4"
    using reactions_manual [OF sample_manual(2)] normal_decided by (simp add: commit_def)
  define d' where "d' = (desk_of board_3)\<lparr>bd_control := board_4, bd_claims := revoke_closed (en_instant desk_env) (en_user desk_env) board_4 []\<rparr>"
  have "with_leases desk_env (\<lambda>st rows. (rows, Inr (decided_board, ()))) (desk_of board_3) = (d', Inr ())"
    using sample_manual(3) commit by (simp add: with_leases_def d'_def desk_of_def)
  moreover from history_bounded [OF this, of sample_task] have "length (entries_of event_entries (pc_tasks board_4) sample_task (pc_events board_4)) \<le> 64"
    by (simp add: d'_def)
  ultimately show ?thesis by (intro exI [of _ d']) (simp add: d'_def)
qed

end
