(* ===== verification/Handoff_Requests.thy ===== *)
theory Handoff_Requests
  imports Control_Agent_Work Handoff
begin

text \<open>
  What the terminal page reports (\<open>terminal_handoff.go\<close>, \<open>agent_register_task.go\<close>): a copy, a paste,
  an editor that was cancelled, a goal that was submitted to an agent, and an agent that
  registers its work. A request runs over the board of project control and the handoff
  store in turn; every step is a transaction of its own.
\<close>

section \<open>The world of a request\<close>

text \<open>
  The digest, the time and the random text of each write to the handoff store, the live terminals of the user (none
  without a terminal runtime), the signature and name of the agent running in a terminal, and
  the answer of the terminal manager when a session is bound to a task.
\<close>

record handoff_world =
  hw_sha :: "string \<Rightarrow> string"
  hw_clock :: "nat \<Rightarrow> instant"
  hw_random :: "nat \<Rightarrow> string"
  hw_lives :: "live_terminal list option"
  hw_agent :: "string \<Rightarrow> (string \<times> string) option"
  hw_bind :: "string \<Rightarrow> string \<Rightarrow> string \<Rightarrow> (ctl_error, unit) result"

text \<open>The board, the handoff store, and how many of its writes took a time and a random text.\<close>

record desk_store =
  ds_board :: board
  ds_handoff :: handoff_db
  ds_drawn :: nat

text \<open>A refusal is a status and a text.\<close>

type_synonym 'a answer = "(nat \<times> string, 'a) result"

definition refusal :: "nat \<Rightarrow> string \<Rightarrow> 'a answer" where
  "refusal status message = Inl (status, message)"

definition store_text :: "cp_error \<Rightarrow> string" where
  "store_text e = error_text (claim_error e)"

definition paste_lookback :: duration where
  "paste_lookback = 30 * minute"

definition handoff_terminal :: "handoff_world \<Rightarrow> string \<Rightarrow> live_terminal answer" where
  "handoff_terminal w i0 =
     (let i = trim_space i0 in
      if i = [] then refusal 400 ''terminalId is required''
      else case hw_lives w of
        None \<Rightarrow> refusal 503 ''terminal runtime unavailable''
      | Some ls \<Rightarrow> require (404, ''terminal not found'') (List.find (\<lambda>l. lt_id l = i) ls))"

text \<open>A write to the handoff store, and a transaction on the board.\<close>

definition store_write :: "(instant \<Rightarrow> string \<Rightarrow> handoff_db \<Rightarrow> handoff_db \<times> 'a) \<Rightarrow> handoff_world \<Rightarrow> desk_store \<Rightarrow> desk_store \<times> 'a" where
  "store_write f w s =
     (case f (hw_clock w (ds_drawn s)) (hw_random w (ds_drawn s)) (ds_handoff s) of
        (db, a) \<Rightarrow> (s\<lparr>ds_handoff := db, ds_drawn := Suc (ds_drawn s)\<rparr>, a))"

definition store_change :: "(handoff_db \<Rightarrow> handoff_db) \<Rightarrow> desk_store \<Rightarrow> desk_store" where
  "store_change f s = s\<lparr>ds_handoff := f (ds_handoff s)\<rparr>"

definition board_step :: "(board \<Rightarrow> board \<times> 'a) \<Rightarrow> desk_store \<Rightarrow> desk_store \<times> 'a" where
  "board_step f s = (case f (ds_board s) of (d, a) \<Rightarrow> (s\<lparr>ds_board := d\<rparr>, a))"

section \<open>Helpers over the state\<close>

definition goal_finished :: "ctl_task \<Rightarrow> bool" where
  "goal_finished t \<longleftrightarrow> kt_state t \<in> set [''done'', ''execution_complete'', ''cancelled'', ''archived''] \<or> trim_space (kt_archive_decision t) \<noteq> []"

text \<open>The task that a paste into a terminal or a goal submitted there belongs to, if its goal is open.\<close>

definition handoff_target_task :: "string \<Rightarrow> ctl_state \<Rightarrow> handoff_db \<Rightarrow> live_terminal \<Rightarrow> string \<Rightarrow> string" where
  "handoff_target_task username st db live signature =
     (let i = task_for_terminal st (lt_id live);
          j = (if i \<noteq> [] then i
               else case agent_execution_by_sig username (lt_id live) signature db of None \<Rightarrow> [] | Some e \<Rightarrow> ae_task e);
          k = (if j = [] then lt_task live else j)
      in case control_task st k of None \<Rightarrow> [] | Some t \<Rightarrow> if goal_finished t then [] else kt_id t)"

definition first_non_empty :: "string list \<Rightarrow> string" where
  "first_non_empty vs = (case List.find (\<lambda>v. trim_space v \<noteq> []) vs of None \<Rightarrow> [] | Some v \<Rightarrow> v)"

text \<open>The place of the source of the oldest handoff that waits unpinned, else of the source of the paste.\<close>

fun handoff_project :: "ctl_state \<Rightarrow> pending_handoff list \<Rightarrow> string \<Rightarrow> (string \<times> string) option" where
  "handoff_project st [] source =
     (case control_task st source of None \<Rightarrow> None | Some t \<Rightarrow> if kt_project t = [] then None else Some (kt_project t, kt_workstream t))"
| "handoff_project st (h # hs) source =
     (if ph_intended h \<noteq> [] \<or> ph_source_task h = [] then handoff_project st hs source
      else case control_task st (ph_source_task h) of
        None \<Rightarrow> handoff_project st hs source
      | Some t \<Rightarrow> if kt_project t = [] then handoff_project st hs source else Some (kt_project t, kt_workstream t))"

section \<open>A terminal becomes a task\<close>

text \<open>The titles and goals are UTF-8 texts of the user interface.\<close>

definition text_terminal_work :: string where
  "text_terminal_work = map byte_char [0xE7, 0xBB, 0x88, 0xE7, 0xAB, 0xAF, 0xE5, 0xB7, 0xA5, 0xE4, 0xBD, 0x9C, 0x3A, 0x20]"

definition text_review :: string where
  "text_review = map byte_char [0xE5, 0xAE, 0xA1, 0xE6, 0x9F, 0xA5, 0x3A, 0x20]"

definition text_submitted_goal :: string where
  "text_submitted_goal = map byte_char
     [0xE7, 0xBB, 0x88, 0xE7, 0xAB, 0xAF, 0xE6, 0x8F, 0x90, 0xE4, 0xBA, 0xA4, 0xE7, 0x9B, 0xAE, 0xE6, 0xA0, 0x87]"

definition text_review_of :: string where
  "text_review_of = map byte_char [0xE5, 0xAE, 0xA1, 0xE6, 0x9F, 0xA5, 0xE6, 0x9D, 0xA5, 0xE8, 0x87, 0xAA, 0x20]"

definition text_pasted :: string where
  "text_pasted = map byte_char
     [0xE7, 0xBB, 0x88, 0xE7, 0xAB, 0xAF, 0xE7, 0xB2, 0x98, 0xE8, 0xB4, 0xB4, 0xE5, 0x86, 0x85, 0xE5, 0xAE, 0xB9]"

definition text_snapshot :: string where
  "text_snapshot = map byte_char [0x20, 0xE7, 0x9A, 0x84, 0xE5, 0x86, 0x85, 0xE5, 0xAE, 0xB9, 0xE5, 0xBF, 0xAB, 0xE7, 0x85, 0xA7]"

definition terminal_card :: "string \<Rightarrow> string \<Rightarrow> string \<Rightarrow> string \<Rightarrow> ctl_task" where
  "terminal_card i terminal project ws =
     \<lparr>kt_description = [], kt_milestone = [], kt_depends = [], kt_command = [], kt_baseline = [], kt_passed = False, kt_failures = 0,
      kt_pause = [], kt_resume = [], kt_checkpoint_after = [], kt_restart = False, kt_id = i, kt_project = project, kt_workstream = ws,
      kt_title = text_terminal_work @ terminal, kt_goal = [], kt_state = ''planned'', kt_acceptance = ''not_ready'',
      kt_acceptance_decision = [], kt_archive_decision = [], kt_origin = ''agent'', kt_dispatch = [], kt_claimed_by = [], kt_risk = [],
      kt_priority = [], kt_agent = [], kt_runtime = [], kt_skill = [], kt_runbook = [], kt_phase = ''plan'', kt_runbook_state = [],
      kt_auto = None, kt_missing = [], kt_summary = [], kt_next = [], kt_files = [], kt_diff = [],
      kt_sessions = [''session-live-'' @ terminal], kt_evidence = [], kt_version = 1\<rparr>"

text \<open>The card of a terminal in the active project; the empty text when there is no place for one.\<close>

definition card_terminal :: "ctl_env \<Rightarrow> string \<Rightarrow> ctl_state \<Rightarrow> (ctl_error, ctl_state \<times> string) result" where
  "card_terminal env terminal st =
     (let existing = task_for_terminal st terminal; project = pc_active st;
          ws = (case List.find (\<lambda>w. wk_project w = project) (pc_workstreams st) of None \<Rightarrow> [] | Some w \<Rightarrow> wk_id w)
      in if existing \<noteq> [] then Inr (st, existing)
         else if project = [] \<or> ws = [] then Inr (st, [])
         else let (i, st1) = control_id ''task'' (text_terminal_work @ terminal) st; t = terminal_card i terminal project ws in
           and_then (validate_task_contract st1 t) (\<lambda>_.
           Inr (emit ''terminal-registered'' (terminal_event (en_now env) ''runtime'' ''terminal_registered''
             (''Terminal '' @ terminal @ '' registered as a task (handoff source).'') project i)
             (st1\<lparr>pc_tasks := pc_tasks st1 @ [t]\<rparr>), i)))"

definition register_terminal :: "ctl_env \<Rightarrow> handoff_world \<Rightarrow> string \<Rightarrow> board \<Rightarrow> board \<times> string" where
  "register_terminal env w terminal d =
     (if trim_space terminal = [] then (d, [])
      else case handoff_terminal w terminal of
        Inl _ \<Rightarrow> (d, [])
      | Inr _ \<Rightarrow> (case control_call env (\<lambda>env. card_terminal env terminal) d of (d1, Inl _) \<Rightarrow> (d1, []) | (d1, Inr i) \<Rightarrow> (d1, i)))"

text \<open>The goal submitted to an agent without an open task.\<close>

definition submit_place :: "ctl_state \<Rightarrow> live_terminal \<Rightarrow> pending_handoff list \<Rightarrow> string \<Rightarrow> (ctl_error, string \<times> string) result" where
  "submit_place st live pendings source =
     (let own = registration_context st (Some live) in
      if \<not> is_ok own \<or> (lt_project live = [] \<and> task_for_terminal st (lt_id live) = [])
      then (case handoff_project st pendings source of Some place \<Rightarrow> Inr place | None \<Rightarrow> own)
      else own)"

definition submit_goal ::
  "ctl_env \<Rightarrow> live_terminal \<Rightarrow> pending_handoff list \<Rightarrow> string \<Rightarrow> ctl_state \<Rightarrow> (ctl_error, ctl_state \<times> string) result" where
  "submit_goal env live pendings source st =
     and_then (submit_place st live pendings source) (\<lambda>(project, ws).
     let source_title = (case control_task st source of None \<Rightarrow> [] | Some t \<Rightarrow> if source = [] then [] else kt_title t);
         named = first_non_empty [source_title, source];
         title = (if named = [] then text_submitted_goal else text_review @ named)
     in and_then (create_task_in_state env
       \<lparr>cq_origin = ''agent'', cq_description = [], cq_milestone = [], cq_depends = [], cq_command = [], cq_project = project,
        cq_workstream = ws, cq_title = title, cq_goal = text_review_of @ first_non_empty [source_title, text_pasted] @ text_snapshot,
        cq_priority = [], cq_risk = [], cq_skill = [], cq_runbook = []\<rparr> st)
       (\<lambda>(st1, i). Inr (bind_exclusive i (lt_id live) st1, i)))"

text \<open>After a submission the terminal is bound to the task, if that exists.\<close>

definition bind_goal :: "string \<Rightarrow> string \<Rightarrow> ctl_state \<Rightarrow> ctl_state" where
  "bind_goal task terminal st = (case control_task st task of None \<Rightarrow> st | Some _ \<Rightarrow> bind_exclusive task terminal st)"

section \<open>Promotion\<close>

record promotion =
  pm_promoted :: nat
  pm_failed :: nat
  pm_errors :: "string list"

definition no_promotion :: promotion where
  "no_promotion = \<lparr>pm_promoted = 0, pm_failed = 0, pm_errors = []\<rparr>"

definition failing :: "string \<Rightarrow> promotion \<Rightarrow> promotion" where
  "failing message p = p\<lparr>pm_failed := Suc (pm_failed p), pm_errors := pm_errors p @ [message]\<rparr>"

definition handoff_ref :: "string \<Rightarrow> pending_handoff \<Rightarrow> source_ref" where
  "handoff_ref task h =
     \<lparr>sr_id = [], sr_username = [], sr_target = task, sr_source = ph_source_task h, sr_relation = ''reviews'', sr_snapshot = ph_snapshot h,
      sr_source_terminal = ph_source_terminal h, sr_target_terminal = ph_target_terminal h, sr_copy_id = ph_copy_id h, sr_created = []\<rparr>"

definition attach :: "handoff_world \<Rightarrow> string \<Rightarrow> pending_handoff \<Rightarrow> string \<Rightarrow> desk_store \<times> promotion \<Rightarrow> desk_store \<times> promotion" where
  "attach w u h task sp =
     (case store_write (\<lambda>now b. add_source_ref now b u (handoff_ref task h)) w (fst sp) of
        (s1, Inl e) \<Rightarrow> (s1, failing (store_text e) (snd sp))
      | (s1, Inr _) \<Rightarrow>
          (store_change (mark_handoff_promoted u (ph_id h) task) s1, (snd sp)\<lparr>pm_promoted := Suc (pm_promoted (snd sp))\<rparr>))"

text \<open>
  First every handoff pinned to another task, or by another draft, is tried again for its own
  task; then the ones of this submission are attached to its task.
\<close>

definition retry_own ::
  "handoff_world \<Rightarrow> string \<Rightarrow> ctl_state \<Rightarrow> string \<Rightarrow> string option \<Rightarrow> pending_handoff \<Rightarrow> desk_store \<times> promotion \<Rightarrow> desk_store \<times> promotion" where
  "retry_own w u st target draft h sp =
     (let current = (case draft of None \<Rightarrow> True | Some d \<Rightarrow> ph_draft_id h = d) in
      if ph_source_task h = [] \<or> ph_intended h = [] \<or> (ph_intended h = target \<and> current) then sp
      else case control_task st (ph_intended h) of
        None \<Rightarrow> (fst sp, failing (''intended task '' @ ph_intended h @ '' no longer exists'') (snd sp))
      | Some _ \<Rightarrow> attach w u h (ph_intended h) sp)"

definition promote_current ::
  "handoff_world \<Rightarrow> string \<Rightarrow> string \<Rightarrow> string option \<Rightarrow> pending_handoff \<Rightarrow> desk_store \<times> promotion \<Rightarrow> desk_store \<times> promotion" where
  "promote_current w u target draft h sp =
     (if ph_source_task h = [] \<or> (ph_intended h \<noteq> [] \<and> ph_intended h \<noteq> target) then sp
      else if \<not> (case draft of None \<Rightarrow> True | Some d \<Rightarrow> ph_draft_id h = d) then sp
      else attach w u h target sp)"

definition promote_pending ::
  "handoff_world \<Rightarrow> string \<Rightarrow> string \<Rightarrow> string \<Rightarrow> string option \<Rightarrow> desk_store \<Rightarrow> desk_store \<times> promotion" where
  "promote_pending w u terminal target draft s =
     (if u = [] \<or> terminal = [] \<or> target = [] then (s, failing ''missing username, terminal or task'' no_promotion)
      else let hs = list_pending_handoffs u terminal (ds_handoff s); st = bd_control (ds_board s)
        in fold (promote_current w u target draft) hs (fold (retry_own w u st target draft) hs (s, no_promotion)))"

text \<open>The handoffs of a submission are pinned to its task before they are promoted.\<close>

definition pin_and_promote ::
  "handoff_world \<Rightarrow> string \<Rightarrow> string \<Rightarrow> string \<Rightarrow> string option \<Rightarrow> desk_store \<Rightarrow> desk_store \<times> promotion" where
  "pin_and_promote w u terminal target draft s =
     promote_pending w u terminal target draft (store_change (set_pending_intended_task u terminal target draft) s)"

section \<open>The source of a paste\<close>

definition copy_ref :: "string \<Rightarrow> string \<Rightarrow> string \<Rightarrow> terminal_copy \<Rightarrow> source_ref" where
  "copy_ref target source terminal c =
     \<lparr>sr_id = [], sr_username = [], sr_target = target, sr_source = source, sr_relation = ''reviews'', sr_snapshot = co_snapshot c,
      sr_source_terminal = co_terminal c, sr_target_terminal = terminal, sr_copy_id = co_id c, sr_created = []\<rparr>"

definition copy_pending :: "string \<Rightarrow> string \<Rightarrow> string \<Rightarrow> string \<Rightarrow> terminal_copy \<Rightarrow> pending_handoff" where
  "copy_pending source terminal draft intended c =
     \<lparr>ph_id = [], ph_username = [], ph_source_task = source, ph_source_terminal = co_terminal c, ph_target_terminal = terminal,
      ph_fingerprint = co_fingerprint c, ph_snapshot = co_snapshot c, ph_copy_id = co_id c, ph_draft_id = draft,
      ph_intended = intended, ph_promoted = [], ph_created = []\<rparr>"

text \<open>The pending row is pinned before the reference is written; the empty text when the source is undetermined.\<close>

definition link_source ::
  "handoff_world \<Rightarrow> string \<Rightarrow> string \<Rightarrow> string \<Rightarrow> terminal_copy option \<Rightarrow> string \<Rightarrow> string \<Rightarrow> desk_store \<Rightarrow> desk_store \<times> (cp_error, string) result" where
  "link_source w u target terminal match source draft s =
     (case match of None \<Rightarrow> (s, Inr []) | Some c \<Rightarrow>
      if source = [] then (s, Inr [])
      else case store_write (\<lambda>now b. record_pending_handoff now b u (copy_pending source terminal draft target c)) w s of
        (s1, Inl e) \<Rightarrow> (s1, Inl e)
      | (s1, Inr h) \<Rightarrow>
          (case store_write (\<lambda>now b. add_source_ref now b u (copy_ref target source terminal c)) w s1 of
             (s2, Inl e) \<Rightarrow> (s2, Inl e)
           | (s2, Inr r) \<Rightarrow>
               (if ph_id h = [] then s2 else store_change (mark_handoff_promoted u (ph_id h) target) s2, Inr (sr_id r))))"

definition source_of_copy :: "ctl_env \<Rightarrow> handoff_world \<Rightarrow> terminal_copy \<Rightarrow> desk_store \<Rightarrow> desk_store \<times> string" where
  "source_of_copy env w c s =
     (if co_task c \<noteq> [] then (s, co_task c) else board_step (register_terminal env w (co_terminal c)) s)"

definition pasted_copy :: "handoff_world \<Rightarrow> string \<Rightarrow> string \<Rightarrow> string \<Rightarrow> desk_store \<Rightarrow> terminal_copy option" where
  "pasted_copy w u text terminal s =
     match_terminal_paste (hw_sha w) (hw_clock w (ds_drawn s)) u text paste_lookback terminal (ds_handoff s)"

end
