(* ===== verification/Handoff_Desk.thy ===== *)
theory Handoff_Desk
  imports Handoff_Requests Control_Machine
begin

text \<open>
  The requests of the terminal page over the board and the handoff store
  (\<open>terminal_handoff.go\<close>, \<open>agent_register_task.go\<close>): each handler with its guards in order,
  the status of every refusal and the answer it gives. Methods and JSON are left out.
\<close>

section \<open>Copy, paste, cancel\<close>

definition handle_copy :: "ctl_env \<Rightarrow> handoff_world \<Rightarrow> string \<Rightarrow> string \<Rightarrow> desk_store \<Rightarrow> desk_store \<times> (string \<times> string) answer" where
  "handle_copy env w terminal text s =
     (if trim_space text = [] then (s, refusal 400 ''text is required'')
      else case handoff_terminal w terminal of Inl e \<Rightarrow> (s, Inl e) | Inr live \<Rightarrow>
        let source = task_for_terminal (bd_control (ds_board s)) (lt_id live) in
        case store_write (\<lambda>now b. record_terminal_copy (hw_sha w) now b (en_user env) (lt_id live) source text) w s of
          (s1, Inl e) \<Rightarrow> (s1, refusal 400 (store_text e))
        | (s1, Inr c) \<Rightarrow> (s1, Inr (co_id c, co_task c)))"

text \<open>A paste matches nothing, adds a source to the task of the terminal, or waits for a submission.\<close>

datatype paste_answer = Unmatched | Supplemented string string string | Waiting string string

definition supplement :: "handoff_world \<Rightarrow> string \<Rightarrow> string \<Rightarrow> terminal_copy \<Rightarrow> string \<Rightarrow> string \<Rightarrow> desk_store \<Rightarrow> desk_store \<times> paste_answer answer" where
  "supplement w u target c source terminal s =
     (case store_write (\<lambda>now b. add_source_ref now b u (copy_ref target source terminal c)) w s of
        (s1, Inl e) \<Rightarrow> (s1, refusal 400 (store_text e))
      | (s1, Inr r) \<Rightarrow> (s1, Inr (Supplemented target source (sr_id r))))"

definition hold_paste :: "handoff_world \<Rightarrow> string \<Rightarrow> terminal_copy \<Rightarrow> string \<Rightarrow> string \<Rightarrow> string \<Rightarrow> desk_store \<Rightarrow> desk_store \<times> paste_answer answer" where
  "hold_paste w u c source terminal draft s =
     (case store_write (\<lambda>now b. record_pending_handoff now b u (copy_pending source terminal (trim_space draft) [] c)) w s of
        (s1, Inl e) \<Rightarrow> (s1, refusal 400 (store_text e))
      | (s1, Inr h) \<Rightarrow> (s1, Inr (Waiting source (ph_copy_id h))))"

definition handle_paste :: "ctl_env \<Rightarrow> handoff_world \<Rightarrow> string \<Rightarrow> string \<Rightarrow> string \<Rightarrow> desk_store \<Rightarrow> desk_store \<times> paste_answer answer" where
  "handle_paste env w terminal text draft s =
     (if trim_space text = [] then (s, refusal 400 ''text is required'')
      else case handoff_terminal w terminal of Inl e \<Rightarrow> (s, Inl e) | Inr live \<Rightarrow>
      case pasted_copy w (en_user env) text (lt_id live) s of None \<Rightarrow> (s, Inr Unmatched) | Some c \<Rightarrow>
      case source_of_copy env w c s of (s1, source) \<Rightarrow>
        if source = [] then (s1, refusal 409 ''source terminal no longer available; no source registered'')
        else if control_task (bd_control (ds_board s1)) source = None then (s1, refusal 409 ''source task does not exist'')
        else let target = (if draft \<noteq> [] then [] else case hw_agent w (lt_id live) of None \<Rightarrow> []
               | Some (signature, name) \<Rightarrow> handoff_target_task (en_user env) (bd_control (ds_board s1)) (ds_handoff s1) live signature)
          in if target \<noteq> [] then supplement w (en_user env) target c source (lt_id live) s1
             else hold_paste w (en_user env) c source (lt_id live) draft s1)"

definition handle_cancel :: "ctl_env \<Rightarrow> handoff_world \<Rightarrow> string \<Rightarrow> string \<Rightarrow> desk_store \<Rightarrow> desk_store \<times> unit answer" where
  "handle_cancel env w terminal draft s =
     (if trim_space draft = [] then (s, refusal 400 ''draftId is required'')
      else case handoff_terminal w terminal of
        Inl e \<Rightarrow> (s, Inl e)
      | Inr live \<Rightarrow> (store_change (cancel_handoff_draft (en_user env) (lt_id live) draft) s, Inr ()))"

section \<open>Submission\<close>

text \<open>The status, the task, what became of the handoffs, and the reference to the source with the source.\<close>

record submitted =
  sb_status :: nat
  sb_task :: string
  sb_promotion :: promotion
  sb_link :: "(string \<times> string) option"

text \<open>The source of the submitted text, if its task is on the board.\<close>

definition submitted_source :: "ctl_env \<Rightarrow> handoff_world \<Rightarrow> terminal_copy option \<Rightarrow> desk_store \<Rightarrow> desk_store \<times> string" where
  "submitted_source env w found s =
     (case found of None \<Rightarrow> (s, []) | Some c \<Rightarrow>
      case source_of_copy env w c s of (s1, source) \<Rightarrow>
        (s1, if control_task (bd_control (ds_board s1)) source = None then [] else source))"

definition of_draft :: "string \<Rightarrow> pending_handoff list \<Rightarrow> pending_handoff list" where
  "of_draft draft hs = (if draft = [] then hs else filter (\<lambda>h. ph_draft_id h = draft) hs)"

definition goal_task ::
  "ctl_env \<Rightarrow> handoff_world \<Rightarrow> live_terminal \<Rightarrow> string \<Rightarrow> string \<Rightarrow> string \<Rightarrow> desk_store \<Rightarrow> desk_store \<times> string answer" where
  "goal_task env w live signature source draft s =
     (let target = handoff_target_task (en_user env) (bd_control (ds_board s)) (ds_handoff s) live signature in
      if target \<noteq> [] then (s, Inr target)
      else case board_step (control_call env (\<lambda>env.
             submit_goal env live (of_draft draft (list_pending_handoffs (en_user env) (lt_id live) (ds_handoff s))) source)) s of
        (s1, Inl e) \<Rightarrow> (s1, refusal 400 (error_text e))
      | (s1, Inr i) \<Rightarrow> (s1, Inr i))"

definition agent_execution_of :: "string \<Rightarrow> string \<Rightarrow> string \<Rightarrow> string \<Rightarrow> agent_execution" where
  "agent_execution_of terminal signature name task =
     \<lparr>ae_id = [], ae_username = [], ae_terminal = terminal, ae_sig = signature, ae_name = name, ae_task = task, ae_created = []\<rparr>"

text \<open>The session follows the accepted goal.\<close>

definition follow_goal :: "ctl_env \<Rightarrow> handoff_world \<Rightarrow> string \<Rightarrow> string \<Rightarrow> desk_store \<Rightarrow> desk_store \<times> (ctl_error, unit) result" where
  "follow_goal env w target terminal s =
     (case board_step (control_call env (\<lambda>env st. Inr (bind_goal target terminal st, ()))) s of
        (s1, Inl e) \<Rightarrow> (s1, Inl e)
      | (s1, Inr _) \<Rightarrow>
          (case control_task (bd_control (ds_board s1)) target of
             None \<Rightarrow> (s1, Inr ())
           | Some t \<Rightarrow> (s1, hw_bind w terminal target (kt_project t))))"

text \<open>The status tells every failure, of the handoffs, of the source and of the session.\<close>

definition multi_status :: "promotion \<Rightarrow> nat" where
  "multi_status p = (if 0 < pm_failed p then 207 else 200)"

definition accept_goal ::
  "ctl_env \<Rightarrow> handoff_world \<Rightarrow> string \<Rightarrow> string \<Rightarrow> terminal_copy option \<Rightarrow> string \<Rightarrow> string \<Rightarrow> desk_store \<Rightarrow> desk_store \<times> submitted" where
  "accept_goal env w terminal target found source draft s =
     (case pin_and_promote w (en_user env) terminal target (if draft = [] then None else Some draft) s of (s1, p1) \<Rightarrow>
      case link_source w (en_user env) target terminal found source draft s1 of (s2, linked) \<Rightarrow>
      case (case linked of
          Inl e \<Rightarrow> (failing (store_text e) p1, None)
        | Inr i \<Rightarrow> (p1, if i = [] then None else Some (i, source))) of (p2, link) \<Rightarrow>
      case follow_goal env w target terminal s2 of (s3, bound) \<Rightarrow>
      let p3 = (case bound of Inl e \<Rightarrow> failing (error_text e) p2 | Inr _ \<Rightarrow> p2)
      in (s3, \<lparr>sb_status = multi_status p3, sb_task = target, sb_promotion = p3, sb_link = link\<rparr>))"

text \<open>Without an agent in the terminal nothing accepts the goal: the answer is \<open>None\<close>.\<close>

definition handle_submit ::
  "ctl_env \<Rightarrow> handoff_world \<Rightarrow> string \<Rightarrow> string \<Rightarrow> string \<Rightarrow> desk_store \<Rightarrow> desk_store \<times> submitted option answer" where
  "handle_submit env w terminal text draft s =
     (case handoff_terminal w terminal of Inl e \<Rightarrow> (s, Inl e) | Inr live \<Rightarrow>
      case hw_agent w (lt_id live) of None \<Rightarrow> (s, Inr None) | Some (signature, name) \<Rightarrow>
      let found = pasted_copy w (en_user env) text (lt_id live) s in
      case submitted_source env w found s of (s1, source) \<Rightarrow>
      case goal_task env w live signature source draft s1 of
        (s2, Inl e) \<Rightarrow> (s2, Inl e)
      | (s2, Inr target) \<Rightarrow>
          (case store_write (\<lambda>now b. upsert_agent_execution now b (en_user env) (agent_execution_of (lt_id live) signature name target)) w s2 of
             (s3, Inl e) \<Rightarrow> (s3, refusal 500 (store_text e))
           | (s3, Inr _) \<Rightarrow>
               (case accept_goal env w (lt_id live) target found source draft s3 of (s4, a) \<Rightarrow> (s4, Inr (Some a)))))"

section \<open>An agent registers its work\<close>

record registered =
  rg_status :: nat
  rg_task :: string
  rg_project :: string
  rg_terminal :: string
  rg_promotion :: promotion

definition registering_terminal :: "handoff_world \<Rightarrow> string \<Rightarrow> live_terminal option answer" where
  "registering_terminal w terminal =
     (if terminal = [] then Inr None
      else case hw_lives w of
        None \<Rightarrow> refusal 503 ''terminal runtime unavailable''
      | Some ls \<Rightarrow>
          (case List.find (\<lambda>l. lt_id l = terminal) ls of None \<Rightarrow> refusal 404 ''terminal not found'' | Some l \<Rightarrow> Inr (Some l)))"

definition register_card ::
  "ctl_env \<Rightarrow> live_terminal option \<Rightarrow> string \<Rightarrow> string \<Rightarrow> handoff_db \<Rightarrow> ctl_state \<Rightarrow> (ctl_error, ctl_state \<times> string) result" where
  "register_card env live title goal db st =
     (let pendings = (case live of None \<Rightarrow> [] | Some l \<Rightarrow> list_pending_handoffs (en_user env) (lt_id l) db)
      in register_task env live (handoff_project st pendings []) title goal st)"

text \<open>The handoffs of the terminal, its session and its agent follow the new card.\<close>

definition adopt_work ::
  "ctl_env \<Rightarrow> handoff_world \<Rightarrow> string \<Rightarrow> string \<Rightarrow> string \<Rightarrow> desk_store \<Rightarrow> desk_store \<times> promotion" where
  "adopt_work env w terminal task project s =
     (case pin_and_promote w (en_user env) terminal task None s of (s1, p1) \<Rightarrow>
      let p2 = (case hw_bind w terminal task project of Inl e \<Rightarrow> failing (error_text e) p1 | Inr _ \<Rightarrow> p1) in
      case hw_agent w terminal of None \<Rightarrow> (s1, p2) | Some (signature, name) \<Rightarrow>
        (case store_write (\<lambda>now b. upsert_agent_execution now b (en_user env) (agent_execution_of terminal signature name task)) w s1 of
           (s2, Inl e) \<Rightarrow> (s2, failing (store_text e) p2)
         | (s2, Inr _) \<Rightarrow> (s2, p2)))"

definition handle_register ::
  "ctl_env \<Rightarrow> handoff_world \<Rightarrow> string \<Rightarrow> string \<Rightarrow> string \<Rightarrow> desk_store \<Rightarrow> desk_store \<times> registered answer" where
  "handle_register env w title0 goal terminal0 s =
     (let title = trim_space title0; terminal = trim_space terminal0 in
      if title = [] then (s, refusal 400 ''title is required'')
      else case registering_terminal w terminal of Inl e \<Rightarrow> (s, Inl e) | Inr live \<Rightarrow>
      case board_step (control_call env (\<lambda>env. register_card env live title goal (ds_handoff s))) s of
        (s1, Inl e) \<Rightarrow> (s1, refusal (if trim_space (en_user env) = [] then 500 else 400) (error_text e))
      | (s1, Inr i) \<Rightarrow>
          let project = (case control_task (bd_control (ds_board s1)) i of None \<Rightarrow> [] | Some t \<Rightarrow> kt_project t) in
          case (case live of None \<Rightarrow> (s1, no_promotion) | Some l \<Rightarrow> adopt_work env w (lt_id l) i project s1) of (s2, p) \<Rightarrow>
            (s2, Inr \<lparr>rg_status = multi_status p, rg_task = i, rg_project = project, rg_terminal = terminal, rg_promotion = p\<rparr>))"

section \<open>Requests\<close>

text \<open>Every other call on the board may come between two requests.\<close>

datatype desk_request =
    Copied string string
  | Pasted string string string
  | Draft_cancelled string string
  | Goal_submitted string string string
  | Work_registered string string string
  | Link_removed string
  | Board_call desk_call

fun desk_request_step :: "desk_store \<Rightarrow> (ctl_env \<times> handoff_world) \<times> desk_request \<Rightarrow> desk_store" where
  "desk_request_step s ((env, w), Copied terminal text) = fst (handle_copy env w terminal text s)"
| "desk_request_step s ((env, w), Pasted terminal text draft) = fst (handle_paste env w terminal text draft s)"
| "desk_request_step s ((env, w), Draft_cancelled terminal draft) = fst (handle_cancel env w terminal draft s)"
| "desk_request_step s ((env, w), Goal_submitted terminal text draft) = fst (handle_submit env w terminal text draft s)"
| "desk_request_step s ((env, w), Work_registered title goal terminal) = fst (handle_register env w title goal terminal s)"
| "desk_request_step s ((env, w), Link_removed i) =
     (if i = [] \<or> CHR ''/'' \<in> set i then s else store_change (\<lambda>db. fst (delete_source_ref (en_user env) i db)) s)"
| "desk_request_step s ((env, w), Board_call c) = s\<lparr>ds_board := desk_step (ds_board s) (env, c)\<rparr>"

text \<open>What follows from an empty board without handoffs.\<close>

definition opened_desk :: "ctl_env \<Rightarrow> (nat \<Rightarrow> string) \<Rightarrow> desk_store" where
  "opened_desk env clock = \<lparr>ds_board = empty_board env clock, ds_handoff = \<lparr>ho_copies = [], ho_refs = [], ho_pending = [], ho_execs = []\<rparr>, ds_drawn = 0\<rparr>"

definition run_requests :: "desk_store \<Rightarrow> ((ctl_env \<times> handoff_world) \<times> desk_request) list \<Rightarrow> desk_store" where
  "run_requests s requests = foldl desk_request_step s requests"

end
