(* ===== verification/Handoff_Desk_Facts.thy ===== *)
theory Handoff_Desk_Facts
  imports Handoff_Desk Handoff_Facts Control_Order
begin

text \<open>
  The requests of the terminal page keep to what the board and the handoff store promise:
  each is a sequence of moves of the board and of operations of the store.
\<close>

section \<open>The board\<close>

lemma terminal_card_status:
  "kt_id (terminal_card i l p ws) = i" "kt_state (terminal_card i l p ws) = ''planned''"
  "kt_acceptance (terminal_card i l p ws) = ''not_ready''" "known_status (terminal_card i l p ws)"
proof -
  have "normalize_task_state ''planned'' = ''planned''" by code_simp
  then show "known_status (terminal_card i l p ws)" by (simp add: terminal_card_def known_status_def known_not_ready)
qed (simp_all add: terminal_card_def)

lemma card_terminal_move:
  assumes "card_terminal env terminal st = Inr (st', i)"
  shows "moves st st'"
proof (cases "st' = st")
  case False
  obtain k st1 where k: "control_id ''task'' (text_terminal_work @ terminal) st = (k, st1)" by fastforce
  define ws where "ws = (case List.find (\<lambda>w. wk_project w = pc_active st) (pc_workstreams st) of None \<Rightarrow> [] | Some w \<Rightarrow> wk_id w)"
  define t where "t = terminal_card k terminal (pc_active st) ws"
  note status = terminal_card_status [of k terminal "pc_active st" ws, folded t_def]
  define st2 where "st2 = st1\<lparr>pc_tasks := pc_tasks st1 @ [t]\<rparr>"
  from assms False have valid: "validate_task_contract st1 t = Inr ()" and st': "\<exists>a b. st' = emit a b st2"
    unfolding card_terminal_def Let_def k prod.case ws_def [symmetric] t_def [symmetric] st2_def by (auto split: if_splits)
  have parts: "apart st2 st'" "pc_tasks st' = pc_tasks st @ [t]" "pc_checkpoints st' = pc_checkpoints st" "pc_decisions st' = pc_decisions st"
    using st' control_id_gates [OF k] by (auto simp: st2_def gates_only_def apart_def intro: emit_reads)
  have reads: "pc_clock st1 = pc_clock st" "pc_reads st1 = pc_reads st + 1"
    "k = control_id_text (pc_clock st (pc_reads st)) ''task'' (text_terminal_work @ terminal)"
    using k by (auto simp: control_id_def)
  have ap: "apart st st'" using parts(1) reads by (auto simp: apart_def st2_def)
  have "stamped_task st st' (kt_id t)" using parts(1) reads unfolding stamped_task_def apart_def st2_def status
    by (intro exI [of _ "pc_reads st"] exI [of _ "text_terminal_work @ terminal"]) auto
  moreover have "clear_dependencies (pc_tasks st) t"
    using valid control_id_gates [OF k] by (simp add: clear_dependencies_def validate_task_contract_def Let_def split: if_splits)
  ultimately have "move st st'" using ap parts status
    by (intro move.create [of st st' t]) (auto simp: unsettled_def)
  then show ?thesis by blast
qed simp

lemma bind_goal_mild: "mild st (bind_goal task terminal st)"
  by (auto simp: bind_goal_def intro: bind_exclusive_mild mild_refl split: option.split)

lemma submit_goal_moves: "yields (\<lambda>(st', i). moves st st') (submit_goal env live pendings source st)"
proof -
  have bound: "moves st (bind_exclusive i l st1)" if "create_task_in_state env req st = Inr (st1, i)" for req st1 i l
    by (rule then_move [OF create_task_moves [OF that]], rule mild_move) (intro bind_exclusive_mild mild_refl)
  show ?thesis unfolding submit_goal_def Let_def by (intro yields_cases) (auto intro: bound)
qed

section \<open>The handoff store\<close>

definition ho_path :: "(string \<Rightarrow> string) \<Rightarrow> handoff_db \<Rightarrow> handoff_db \<Rightarrow> bool" where
  "ho_path sha db db' \<longleftrightarrow> (\<exists>ops. db' = foldl (ho_step sha) db ops)"

lemma ho_path_refl [simp]: "ho_path sha db db"
  unfolding ho_path_def by (rule exI [of _ "[]"]) simp

lemma ho_path_op: "db' = ho_step sha db op \<Longrightarrow> ho_path sha db db'"
  unfolding ho_path_def by (rule exI [of _ "[op]"]) simp

lemma ho_path_trans: "ho_path sha a b \<Longrightarrow> ho_path sha b c \<Longrightarrow> ho_path sha a c"
  unfolding ho_path_def by (metis foldl_append)

lemma ho_path_ops:
  "ho_path sha db (fst (record_terminal_copy sha now b u t k x db))"
  "ho_path sha db (fst (add_source_ref now b u ref db))"
  "ho_path sha db (fst (delete_source_ref u i db))"
  "ho_path sha db (fst (record_pending_handoff now b u h db))"
  "ho_path sha db (fst (upsert_agent_execution now b u e db))"
  "ho_path sha db (set_pending_intended_task u t k d db)"
  "ho_path sha db (cancel_handoff_draft u t i db)"
  "ho_path sha db (mark_handoff_promoted u i k db)"
  by (rule ho_path_op [of _ _ _ "RecordCopy now b u t k x"] ho_path_op [of _ _ _ "AddRef now b u ref"]
      ho_path_op [of _ _ _ "DeleteRef u i"] ho_path_op [of _ _ _ "RecordPending now b u h"]
      ho_path_op [of _ _ _ "UpsertExec now b u e"] ho_path_op [of _ _ _ "SetIntended u t k d"]
      ho_path_op [of _ _ _ "CancelDraft u t i"] ho_path_op [of _ _ _ "MarkPromoted u i k"], simp)+

section \<open>Steps of a request\<close>

definition desk_path :: "(string \<Rightarrow> string) \<Rightarrow> desk_store \<Rightarrow> desk_store \<Rightarrow> bool" where
  "desk_path sha s s' \<longleftrightarrow> carries (ds_board s) (ds_board s') \<and> ho_path sha (ds_handoff s) (ds_handoff s')"

lemma desk_path_refl [simp]: "desk_path sha s s"
  by (simp add: desk_path_def)

lemma desk_path_trans [trans]: "desk_path sha a b \<Longrightarrow> desk_path sha b c \<Longrightarrow> desk_path sha a c"
  unfolding desk_path_def by (blast intro: ho_path_trans rtranclp_trans)

text \<open>A request runs its steps one after the other; \<open>s\<close> is where it began.\<close>

lemma store_write_path:
  "desk_path sha s s' \<Longrightarrow> (\<And>now b db. ho_path sha db (fst (f now b db))) \<Longrightarrow> desk_path sha s (fst (store_write f w s'))"
  by (erule desk_path_trans) (auto simp: store_write_def desk_path_def split: prod.split, metis fst_conv)

lemma store_change_path: "desk_path sha s s' \<Longrightarrow> (\<And>db. ho_path sha db (f db)) \<Longrightarrow> desk_path sha s (store_change f s')"
  by (erule desk_path_trans) (simp add: store_change_def desk_path_def)

lemma board_step_path: "desk_path sha s s' \<Longrightarrow> (\<And>d. carries d (fst (f d))) \<Longrightarrow> desk_path sha s (fst (board_step f s'))"
  by (erule desk_path_trans) (auto simp: board_step_def desk_path_def split: prod.split, metis fst_conv)

lemma path_cases:
  "desk_path sha s s' \<Longrightarrow> desk_path sha s (fst (s', x))"
  "\<lbrakk>c \<Longrightarrow> desk_path sha s (fst a); \<not> c \<Longrightarrow> desk_path sha s (fst b)\<rbrakk> \<Longrightarrow> desk_path sha s (fst (if c then a else b))"
  "\<lbrakk>\<And>e. desk_path sha s (fst (g e)); \<And>x. desk_path sha s (fst (f x))\<rbrakk> \<Longrightarrow> desk_path sha s (fst (case r of Inl e \<Rightarrow> g e | Inr x \<Rightarrow> f x))"
  "\<lbrakk>desk_path sha s (fst a'); \<And>y. desk_path sha s (fst (h y))\<rbrakk> \<Longrightarrow> desk_path sha s (fst (case p of None \<Rightarrow> a' | Some y \<Rightarrow> h y))"
  "\<lbrakk>desk_path sha s (fst q); \<And>s' y. desk_path sha s s' \<Longrightarrow> desk_path sha s (fst (k s' y))\<rbrakk> \<Longrightarrow> desk_path sha s (fst (case q of (s', y) \<Rightarrow> k s' y))"
  "(\<And>x y. desk_path sha s (fst (m x y))) \<Longrightarrow> desk_path sha s (fst (case z of (x, y) \<Rightarrow> m x y))"
  by (auto split: sum.split option.split prod.split)

lemmas path_steps = path_cases(1-5) store_write_path store_change_path ho_path_ops

lemma register_terminal_carries: "carries d (fst (register_terminal env w terminal d))"
proof -
  have "carries d (fst (control_call env (\<lambda>env. card_terminal env terminal) d))"
    by (intro control_call_carries) (auto simp: yields_def intro: card_terminal_move)
  then show ?thesis by (auto simp: register_terminal_def split: sum.split prod.split)
qed

lemma source_of_copy_path: "desk_path sha s s' \<Longrightarrow> desk_path sha s (fst (source_of_copy env w c s'))"
  unfolding source_of_copy_def by (intro path_steps board_step_path register_terminal_carries)

lemma attach_path: "desk_path sha s (fst sp) \<Longrightarrow> desk_path sha s (fst (attach w u h task sp))"
  unfolding attach_def by (intro path_steps)

lemma retry_own_path: "desk_path sha s (fst sp) \<Longrightarrow> desk_path sha s (fst (retry_own w u st target draft h sp))"
  unfolding retry_own_def Let_def by (intro path_steps attach_path)

lemma promote_current_path: "desk_path sha s (fst sp) \<Longrightarrow> desk_path sha s (fst (promote_current w u target draft h sp))"
  unfolding promote_current_def by (intro path_steps attach_path)

lemma fold_path: "(\<And>h sp. desk_path sha s (fst sp) \<Longrightarrow> desk_path sha s (fst (f h sp))) \<Longrightarrow> desk_path sha s (fst sp) \<Longrightarrow> desk_path sha s (fst (fold f hs sp))"
  by (induction hs arbitrary: sp) auto

lemma pin_and_promote_path: "desk_path sha s s' \<Longrightarrow> desk_path sha s (fst (pin_and_promote w u terminal target draft s'))"
  unfolding pin_and_promote_def promote_pending_def Let_def
  by (intro path_steps fold_path retry_own_path promote_current_path) simp_all

lemma link_source_path: "desk_path sha s s' \<Longrightarrow> desk_path sha s (fst (link_source w u target terminal found source draft s'))"
  unfolding link_source_def by (intro path_steps) (auto intro: store_change_path ho_path_ops)

section \<open>Requests\<close>

lemma handle_copy_path: "desk_path (hw_sha w) s (fst (handle_copy env w terminal x s))"
  unfolding handle_copy_def Let_def by (intro path_steps desk_path_refl)

lemma handle_paste_path: "desk_path sha s (fst (handle_paste env w terminal x draft s))"
  unfolding handle_paste_def supplement_def hold_paste_def Let_def
  by (intro path_steps desk_path_refl source_of_copy_path)

lemma handle_cancel_path: "desk_path sha s (fst (handle_cancel env w terminal draft s))"
  unfolding handle_cancel_def by (intro path_steps desk_path_refl)

lemma goal_task_path: "desk_path sha s s' \<Longrightarrow> desk_path sha s (fst (goal_task env w live signature source draft s'))"
  unfolding goal_task_def Let_def by (intro path_steps board_step_path control_call_carries submit_goal_moves)

lemma follow_goal_path: "desk_path sha s s' \<Longrightarrow> desk_path sha s (fst (follow_goal env w target terminal s'))"
  unfolding follow_goal_def
  by (intro path_steps board_step_path control_call_carries) (auto simp: yields_def intro: mild_moves bind_goal_mild)

lemma accept_goal_path: "desk_path sha s s' \<Longrightarrow> desk_path sha s (fst (accept_goal env w terminal target found source draft s'))"
  unfolding accept_goal_def Let_def by (intro path_steps path_cases(6) pin_and_promote_path link_source_path follow_goal_path)

lemma handle_submit_path: "desk_path sha s (fst (handle_submit env w terminal x draft s))"
  unfolding handle_submit_def submitted_source_def Let_def
  by (intro path_steps path_cases(6) desk_path_refl source_of_copy_path goal_task_path accept_goal_path)

lemma register_card_moves: "yields (\<lambda>(st', i). moves st st') (register_card env live title goal db st)"
  by (simp add: register_card_def Let_def register_task_moves)

lemma adopt_work_path: "desk_path sha s s' \<Longrightarrow> desk_path sha s (fst (adopt_work env w terminal task project s'))"
  unfolding adopt_work_def Let_def by (intro path_steps path_cases(6) pin_and_promote_path)

lemma handle_register_path: "desk_path sha s (fst (handle_register env w title goal terminal s))"
  unfolding handle_register_def Let_def
  by (intro path_steps desk_path_refl board_step_path control_call_carries register_card_moves adopt_work_path)

lemma desk_request_path: "desk_path (hw_sha w) s (desk_request_step s ((env, w), r))"
proof (cases r)
  case (Link_removed i)
  then show ?thesis by (auto intro: store_change_path ho_path_ops)
next
  case (Board_call c)
  then show ?thesis using desk_step_moves [of "ds_board s"] by (simp add: desk_path_def)
qed (simp_all add: handle_copy_path handle_paste_path handle_cancel_path handle_submit_path handle_register_path)

section \<open>Runs of requests\<close>

text \<open>Identifiers and sources of pending handoffs carry no blanks at their ends.\<close>

definition neat :: "pending_handoff \<Rightarrow> bool" where
  "neat h \<longleftrightarrow> trim_space (ph_id h) = ph_id h \<and> trim_space (ph_source_task h) = ph_source_task h"

definition neat_inv :: "handoff_db \<Rightarrow> bool" where
  "neat_inv db \<longleftrightarrow> ho_inv db \<and> (\<forall>h \<in> set (ho_pending db). neat h)"

lemma new_random_id_trim: "visible prefix \<Longrightarrow> trim_space (new_random_id prefix b) = new_random_id prefix b"
proof -
  assume p: "visible prefix"
  have "visible ''-''" by code_simp
  with p visible_hex_encode [of b] show ?thesis unfolding new_random_id_def by (intro trim_space_visible) (auto simp: visible_def)
qed

lemma record_pending_neat:
  assumes "\<forall>h \<in> set (ho_pending db). neat h"
  shows "\<forall>h \<in> set (ho_pending (fst (record_pending_handoff now b u h0 db))). neat h"
proof -
  have "visible ''pend''" by code_simp
  then have new: "neat ((trim_pending v h0)\<lparr>ph_id := new_random_id ''pend'' b, ph_promoted := m, ph_created := t\<rparr>)" for v m t
    by (simp add: neat_def trim_pending_def new_random_id_trim)
  have sub: "set (fst (insert_ignore ks r rows)) \<subseteq> insert r (set rows)" for ks and r :: pending_handoff and rows
    by (auto simp: insert_ignore_def insert_row_Some_iff split: option.splits)
  show ?thesis using assms sub new
    by (auto simp: record_pending_handoff_def Let_def split: list.splits) blast+
qed

lemma pending_updates:
  "ho_pending (set_pending_intended_task u t k d db) = update_where (pinnable u t d) (\<lambda>h. h\<lparr>ph_intended := trim_space k\<rparr>) (ho_pending db)"
  "ho_pending (mark_handoff_promoted u i k db) =
     update_where (\<lambda>h. ph_username h = u \<and> ph_id h = trim_space i \<and> ph_promoted h = []) (\<lambda>h. h\<lparr>ph_promoted := trim_space k\<rparr>) (ho_pending db)"
  "set (ho_pending (cancel_handoff_draft u t e db)) \<subseteq> set (ho_pending db)"
  by (auto simp: set_pending_intended_task_def mark_handoff_promoted_def cancel_handoff_draft_def delete_where_def)

lemma ho_step_neat:
  assumes "\<forall>h \<in> set (ho_pending db). neat h"
  shows "\<forall>h \<in> set (ho_pending (ho_step sha db op)). neat h"
proof -
  have upd: "\<forall>h \<in> set (update_where p f (ho_pending db)). neat h" if "\<And>h. neat h \<Longrightarrow> neat (f h)" for p f
    using assms that by (auto simp: set_update_where)
  show ?thesis
  proof (cases op)
    case (RecordPending now b u h)
    show ?thesis unfolding RecordPending ho_step.simps by (rule record_pending_neat) (rule assms)
  next
    case (SetIntended u t k d)
    show ?thesis unfolding SetIntended ho_step.simps pending_updates by (rule upd) (simp add: neat_def)
  next
    case (CancelDraft u t d)
    show ?thesis unfolding CancelDraft ho_step.simps using assms pending_updates(3) by blast
  next
    case (MarkPromoted u i k)
    show ?thesis unfolding MarkPromoted ho_step.simps pending_updates by (rule upd) (simp add: neat_def)
  qed (use assms in \<open>simp_all add: pending_frames\<close>)
qed

interpretation neat_handoffs: stepper "ho_step sha" neat_inv for sha
proof unfold_locales
  fix db op assume "neat_inv db"
  then show "neat_inv (ho_step sha db op)" unfolding neat_inv_def using handoffs.inv_step ho_step_neat by blast
qed

definition desk_sound :: "desk_store \<Rightarrow> bool" where
  "desk_sound s \<longleftrightarrow> desk_inv (bd_control (ds_board s)) \<and> neat_inv (ds_handoff s)"

lemma path_sound: "desk_path sha s s' \<Longrightarrow> desk_sound s \<Longrightarrow> desk_sound s'"
  using neat_handoffs.run_inv by (auto simp: desk_path_def ho_path_def desk_sound_def intro: desk_inv_moves)

interpretation terminal_desk: stepper desk_request_step desk_sound
proof unfold_locales
  fix s and op :: "(ctl_env \<times> handoff_world) \<times> desk_request"
  assume "desk_sound s"
  then show "desk_sound (desk_request_step s op)" by (metis desk_request_path path_sound prod.collapse)
qed

lemma opened_desk_sound: "ticking clock \<Longrightarrow> desk_sound (opened_desk env clock)"
  by (simp add: desk_sound_def opened_desk_def neat_inv_def ho_inv_def empty_board_inv)

lemma run_requests_sound: "ticking clock \<Longrightarrow> desk_sound (run_requests (opened_desk env clock) requests)"
  unfolding run_requests_def by (rule terminal_desk.run_inv) (rule opened_desk_sound)

end
