(* ===== verification/Handoff_Promotion.thy ===== *)
theory Handoff_Promotion
  imports Handoff_Desk_Facts
begin

text \<open>
  What a submission does with the handoffs that waited at its terminal: each goes to the task
  it is pinned to and to no other, together with its source reference; and an answer without
  a failure leaves none behind.
\<close>

section \<open>Attaching one handoff\<close>

text \<open>A reviews reference of the user from a task to a source.\<close>

definition linked :: "string \<Rightarrow> string \<Rightarrow> string \<Rightarrow> handoff_db \<Rightarrow> bool" where
  "linked u task source db \<longleftrightarrow>
     (\<exists>r \<in> set (ho_refs db). sr_username r = u \<and> sr_target r = task \<and> sr_source r = source \<and> sr_relation r = ''reviews'')"

lemma linked_mark [simp]: "linked u k m (mark_handoff_promoted v i t db) = linked u k m db"
  by (simp add: linked_def mark_handoff_promoted_def)

lemma linked_refresh: "linked u k m db \<Longrightarrow> linked u k m (db\<lparr>ho_refs := update_where p (refreshed t ref) (ho_refs db)\<rparr>)"
proof -
  assume "linked u k m db"
  then obtain r where r: "r \<in> set (ho_refs db)" "sr_username r = u" "sr_target r = k" "sr_source r = m" "sr_relation r = ''reviews''"
    by (auto simp: linked_def)
  then have "(if p r then refreshed t ref r else r) \<in> set (update_where p (refreshed t ref) (ho_refs db))"
    by (auto simp: set_update_where)
  then show ?thesis unfolding linked_def using r by (intro bexI) auto
qed

lemma add_ref_linked: "linked u k m db \<Longrightarrow> linked u k m (fst (add_source_ref now b v ref db))"
proof -
  assume l: "linked u k m db"
  then have "linked u k m (db\<lparr>ho_refs := ho_refs db @ [x]\<rparr>)" for x by (auto simp: linked_def)
  then show ?thesis using l linked_refresh
    by (simp add: add_source_ref_def Let_def insert_row_def split: option.split)
qed

lemma add_ref_links:
  assumes "add_source_ref now b u ref db = (db', Inr r)" and "sr_relation ref = ''reviews''"
  shows "linked u (trim_space (sr_target ref)) (trim_space (sr_source ref)) db'"
proof -
  have pair: "sr_username x = u \<and> sr_target x = trim_space (sr_target ref) \<and> sr_source x = trim_space (sr_source ref) \<and> sr_relation x = ''reviews''"
    if "same_pair (prepared_ref u ref) x" for x
  proof -
    have "trim_space ''reviews'' = ''reviews''" by code_simp
    then show ?thesis using that assms(2) by (simp add: same_pair_def prepared_ref_def)
  qed
  have "\<exists>x \<in> set (ho_refs db'). same_pair (prepared_ref u ref) x"
  proof (cases "List.find (same_pair (prepared_ref u ref)) (ho_refs db)")
    case None
    with assms(1) show ?thesis
      by (auto simp: add_source_ref_def Let_def insert_row_Some_iff same_pair_def split: if_splits option.splits)
  next
    case (Some old)
    then have old: "old \<in> set (ho_refs db)" "same_pair (prepared_ref u ref) old" by (auto dest: find_SomeD)
    then have "same_pair (prepared_ref u ref) (refreshed t q old)" for t q by (simp add: same_pair_def)
    with assms(1) Some old show ?thesis
      by (force simp: add_source_ref_def Let_def set_update_where split: if_splits)
  qed
  then show ?thesis using pair unfolding linked_def by blast
qed

text \<open>A row of the table later: as it was, or promoted to the task it is pinned to, with the reference there.\<close>

definition promoted_row :: "string \<Rightarrow> handoff_db \<Rightarrow> pending_handoff \<Rightarrow> pending_handoff \<Rightarrow> bool" where
  "promoted_row u db h h' \<longleftrightarrow> h' = h \<or>
     (ph_promoted h = [] \<and> h' = h\<lparr>ph_promoted := trim_space (ph_intended h)\<rparr> \<and> linked u (trim_space (ph_intended h)) (ph_source_task h) db)"

definition owners_kept :: "string \<Rightarrow> pending_handoff list \<Rightarrow> handoff_db \<Rightarrow> bool" where
  "owners_kept u rows db \<longleftrightarrow> list_all2 (promoted_row u db) rows (ho_pending db)"

lemma attach_cases:
  assumes "attach w u h task sp = (s', p')"
  obtains (failed) "ho_pending (ds_handoff s') = ho_pending (ds_handoff (fst sp))" "pm_failed p' = Suc (pm_failed (snd sp))"
      "\<And>k m. linked u k m (ds_handoff (fst sp)) \<Longrightarrow> linked u k m (ds_handoff s')"
  | (attached) "ho_pending (ds_handoff s') = update_where (\<lambda>g. ph_username g = u \<and> ph_id g = trim_space (ph_id h) \<and> ph_promoted g = [])
        (\<lambda>g. g\<lparr>ph_promoted := trim_space task\<rparr>) (ho_pending (ds_handoff (fst sp)))" "pm_failed p' = pm_failed (snd sp)"
      "linked u (trim_space task) (trim_space (ph_source_task h)) (ds_handoff s')"
      "\<And>k m. linked u k m (ds_handoff (fst sp)) \<Longrightarrow> linked u k m (ds_handoff s')"
proof -
  let ?db = "ds_handoff (fst sp)"
  obtain db1 r where add: "add_source_ref (hw_clock w (ds_drawn (fst sp))) (hw_random w (ds_drawn (fst sp))) u (handoff_ref task h) ?db = (db1, r)"
    by fastforce
  have p: "ho_pending db1 = ho_pending ?db" using pending_frames(2) add by (metis fst_conv)
  have l: "linked u k m ?db \<Longrightarrow> linked u k m db1" for k m using add_ref_linked add by (metis fst_conv)
  show thesis
  proof (cases r)
    case (Inl e)
    then show thesis using assms add p l by (intro failed) (auto simp: attach_def store_write_def failing_def)
  next
    case (Inr x)
    have "linked u (trim_space task) (trim_space (ph_source_task h)) db1"
      using add_ref_links [OF add [unfolded Inr]] by (simp add: handoff_ref_def)
    then show thesis using assms add p l Inr
      by (intro attached) (auto simp: attach_def store_write_def store_change_def pending_updates)
  qed
qed

lemma distinct_ids: "ho_inv db \<Longrightarrow> distinct (map ph_id (ho_pending db))"
proof -
  assume "ho_inv db"
  then have "unique_key (\<lambda>h. Some [ph_id h]) (ho_pending db)"
    unfolding ho_inv_def by (elim conjE) (erule unique_keysD, simp add: pending_keys_def)
  moreover have "List.map_filter (\<lambda>h. Some [ph_id h]) hs = map (\<lambda>h. [ph_id h]) hs" for hs :: "pending_handoff list"
    by (induction hs) (simp_all add: List.map_filter_simps)
  ultimately show ?thesis by (simp add: unique_key_def distinct_map inj_on_def)
qed

lemma promoted_row_mono:
  "promoted_row u db h h' \<Longrightarrow> (\<And>k m. linked u k m db \<Longrightarrow> linked u k m db') \<Longrightarrow> promoted_row u db' h h'"
  by (auto simp: promoted_row_def)

lemma promoted_row_id: "promoted_row u db h h' \<Longrightarrow> ph_id h' = ph_id h \<and> ph_username h' = ph_username h"
  by (auto simp: promoted_row_def)

lemma attach_owner:
  assumes kept: "owners_kept u rows (ds_handoff (fst sp))" and at: "attach w u h task sp = (s', p')"
    and rows: "distinct (map ph_id rows)" "h \<in> set rows" "neat h" and own: "trim_space task = trim_space (ph_intended h)"
  shows "owners_kept u rows (ds_handoff s')"
  using at
proof (cases rule: attach_cases)
  case failed
  then show ?thesis using kept unfolding owners_kept_def by (auto elim!: list_all2_mono intro: promoted_row_mono)
next
  case attached
  let ?p = "\<lambda>g. ph_username g = u \<and> ph_id g = trim_space (ph_id h) \<and> ph_promoted g = []"
  have row: "promoted_row u (ds_handoff s') a (if ?p a' then a'\<lparr>ph_promoted := trim_space task\<rparr> else a')"
    if a: "a \<in> set rows" and pr: "promoted_row u (ds_handoff (fst sp)) a a'" for a a'
  proof (cases "?p a'")
    case True
    then have "ph_id a = ph_id h" using promoted_row_id [OF pr] rows(3) by (simp add: neat_def)
    then have "a = h" using rows a by (auto simp: distinct_map dest: inj_onD)
    moreover have "a' = a" using pr True by (auto simp: promoted_row_def)
    ultimately show ?thesis using True own attached(3) rows(3) by (simp add: promoted_row_def neat_def)
  next
    case False
    then show ?thesis using promoted_row_mono [OF pr attached(4)] by (simp only: if_False)
  qed
  have "list_all2 (\<lambda>a a'. promoted_row u (ds_handoff s') a (if ?p a' then a'\<lparr>ph_promoted := trim_space task\<rparr> else a'))
      rows (ho_pending (ds_handoff (fst sp)))"
    using kept unfolding owners_kept_def by (rule list.rel_mono_strong) (use row in blast)
  then show ?thesis unfolding owners_kept_def attached(1) update_where_def by (simp only: list_all2_map2)
qed

section \<open>Passes over the waiting handoffs\<close>

text \<open>The rows of the user with the identifier are promoted.\<close>

definition settled_row :: "string \<Rightarrow> string \<Rightarrow> handoff_db \<Rightarrow> bool" where
  "settled_row u i db \<longleftrightarrow> (\<forall>g \<in> set (ho_pending db). ph_username g = u \<and> ph_id g = i \<longrightarrow> ph_promoted g \<noteq> [])"

text \<open>
  A pass handles one handoff at a time: it never takes a failure back, never undoes a
  promotion, and keeps the owners of rows it may touch.
\<close>

locale handoff_pass =
  fixes f :: "pending_handoff \<Rightarrow> desk_store \<times> promotion \<Rightarrow> desk_store \<times> promotion"
    and u :: string and rows :: "pending_handoff list" and may :: "pending_handoff \<Rightarrow> bool" and must :: "pending_handoff \<Rightarrow> bool"
  assumes failed_mono: "pm_failed (snd sp) \<le> pm_failed (snd (f h sp))"
    and settled_mono: "settled_row u i (ds_handoff (fst sp)) \<Longrightarrow> settled_row u i (ds_handoff (fst (f h sp)))"
    and owner: "may h \<Longrightarrow> owners_kept u rows (ds_handoff (fst sp)) \<Longrightarrow> owners_kept u rows (ds_handoff (fst (f h sp)))"
    and settles: "neat h \<Longrightarrow> must h \<Longrightarrow> pm_failed (snd (f h sp)) = pm_failed (snd sp) \<Longrightarrow> settled_row u (ph_id h) (ds_handoff (fst (f h sp)))"
begin

lemma pass_failed: "pm_failed (snd sp) \<le> pm_failed (snd (fold f hs sp))"
proof (induction hs arbitrary: sp)
  case (Cons h hs)
  show ?case using order_trans [OF failed_mono Cons.IH] by simp
qed simp

lemma pass_settled: "settled_row u i (ds_handoff (fst sp)) \<Longrightarrow> settled_row u i (ds_handoff (fst (fold f hs sp)))"
proof (induction hs arbitrary: sp)
  case (Cons h hs)
  show ?case using Cons.IH [OF settled_mono [OF Cons.prems]] by simp
qed simp

lemma pass_owner: "\<forall>h \<in> set hs. may h \<Longrightarrow> owners_kept u rows (ds_handoff (fst sp)) \<Longrightarrow> owners_kept u rows (ds_handoff (fst (fold f hs sp)))"
proof (induction hs arbitrary: sp)
  case (Cons h hs)
  then show ?case using Cons.IH [OF _ owner [of h sp]] by simp
qed simp

lemma pass_settles:
  "pm_failed (snd (fold f hs sp)) = pm_failed (snd sp) \<Longrightarrow> h \<in> set hs \<Longrightarrow> neat h \<Longrightarrow> must h \<Longrightarrow>
   settled_row u (ph_id h) (ds_handoff (fst (fold f hs sp)))"
proof (induction hs arbitrary: sp)
  case (Cons g hs)
  have le: "pm_failed (snd sp) \<le> pm_failed (snd (f g sp))" "pm_failed (snd (f g sp)) \<le> pm_failed (snd (fold f hs (f g sp)))"
    using failed_mono pass_failed by blast+
  with Cons.prems(1) have eq: "pm_failed (snd (f g sp)) = pm_failed (snd sp)" "pm_failed (snd (fold f hs (f g sp))) = pm_failed (snd (f g sp))"
    by auto
  show ?case
  proof (cases "h = g")
    case True
    then show ?thesis using settles [OF _ _ eq(1)] Cons.prems pass_settled by simp
  next
    case False
    then show ?thesis using Cons.IH [OF eq(2)] Cons.prems by simp
  qed
qed simp

end

lemma settled_update:
  assumes "rows' = update_where (\<lambda>g. ph_username g = u \<and> ph_id g = j \<and> ph_promoted g = []) (\<lambda>g. g\<lparr>ph_promoted := k\<rparr>) rows"
  shows "\<forall>g \<in> set rows. ph_username g = u \<and> ph_id g = i \<longrightarrow> ph_promoted g \<noteq> [] \<Longrightarrow>
      \<forall>g \<in> set rows'. ph_username g = u \<and> ph_id g = i \<longrightarrow> ph_promoted g \<noteq> []"
    and "k \<noteq> [] \<Longrightarrow> \<forall>g \<in> set rows'. ph_username g = u \<and> ph_id g = j \<longrightarrow> ph_promoted g \<noteq> []"
proof -
  have row: "\<exists>a \<in> set rows. g = (if ph_username a = u \<and> ph_id a = j \<and> ph_promoted a = [] then a\<lparr>ph_promoted := k\<rparr> else a)"
    if "g \<in> set rows'" for g using that unfolding assms update_where_def by (simp only: list.set_map image_iff)
  then have later: "\<exists>a \<in> set rows. ph_username g = ph_username a \<and> ph_id g = ph_id a \<and> (ph_promoted a \<noteq> [] \<longrightarrow> ph_promoted g \<noteq> []) \<and>
      (ph_username a = u \<and> ph_id a = j \<and> k \<noteq> [] \<longrightarrow> ph_promoted g \<noteq> [])" if "g \<in> set rows'" for g
    using row [OF that] by (elim bexE) (rule bexI, simp_all split: if_split)
  from later show "\<forall>g \<in> set rows. ph_username g = u \<and> ph_id g = i \<longrightarrow> ph_promoted g \<noteq> [] \<Longrightarrow>
      \<forall>g \<in> set rows'. ph_username g = u \<and> ph_id g = i \<longrightarrow> ph_promoted g \<noteq> []" by metis
  from later show "k \<noteq> [] \<Longrightarrow> \<forall>g \<in> set rows'. ph_username g = u \<and> ph_id g = j \<longrightarrow> ph_promoted g \<noteq> []" by metis
qed

lemma attach_pass:
  "pm_failed (snd sp) \<le> pm_failed (snd (attach w u h task sp))"
  "settled_row u i (ds_handoff (fst sp)) \<Longrightarrow> settled_row u i (ds_handoff (fst (attach w u h task sp)))"
  "neat h \<Longrightarrow> trim_space task \<noteq> [] \<Longrightarrow> pm_failed (snd (attach w u h task sp)) = pm_failed (snd sp) \<Longrightarrow>
    settled_row u (ph_id h) (ds_handoff (fst (attach w u h task sp)))"
proof -
  obtain s' p' where at: "attach w u h task sp = (s', p')" by fastforce
  from at have "pm_failed (snd sp) \<le> pm_failed p' \<and>
      (settled_row u i (ds_handoff (fst sp)) \<longrightarrow> settled_row u i (ds_handoff s')) \<and>
      (neat h \<longrightarrow> trim_space task \<noteq> [] \<longrightarrow> pm_failed p' = pm_failed (snd sp) \<longrightarrow> settled_row u (ph_id h) (ds_handoff s'))"
  proof (cases rule: attach_cases)
    case failed
    then show ?thesis by (simp add: settled_row_def)
  next
    case attached
    show ?thesis unfolding settled_row_def neat_def using settled_update [OF attached(1)] attached(2) by (metis order_refl)
  qed
  then show "pm_failed (snd sp) \<le> pm_failed (snd (attach w u h task sp))"
    "settled_row u i (ds_handoff (fst sp)) \<Longrightarrow> settled_row u i (ds_handoff (fst (attach w u h task sp)))"
    "neat h \<Longrightarrow> trim_space task \<noteq> [] \<Longrightarrow> pm_failed (snd (attach w u h task sp)) = pm_failed (snd sp) \<Longrightarrow>
      settled_row u (ph_id h) (ds_handoff (fst (attach w u h task sp)))"
    by (simp_all add: at)
qed

definition draft_matches :: "string option \<Rightarrow> pending_handoff \<Rightarrow> bool" where
  "draft_matches draft h \<longleftrightarrow> (case draft of None \<Rightarrow> True | Some d \<Rightarrow> ph_draft_id h = d)"

text \<open>The two passes of a submission.\<close>

definition held_elsewhere :: "string \<Rightarrow> string option \<Rightarrow> pending_handoff \<Rightarrow> bool" where
  "held_elsewhere target draft h \<longleftrightarrow>
     ph_source_task h \<noteq> [] \<and> ph_intended h \<noteq> [] \<and> \<not> (ph_intended h = target \<and> draft_matches draft h)"

definition held_here :: "string \<Rightarrow> string option \<Rightarrow> pending_handoff \<Rightarrow> bool" where
  "held_here target draft h \<longleftrightarrow> ph_source_task h \<noteq> [] \<and> (ph_intended h = [] \<or> ph_intended h = target) \<and> draft_matches draft h"

definition among :: "pending_handoff list \<Rightarrow> pending_handoff \<Rightarrow> bool" where
  "among rows h \<longleftrightarrow> distinct (map ph_id rows) \<and> h \<in> set rows \<and> neat h"

lemma attach_keeps:
  "owners_kept u rows (ds_handoff (fst sp)) \<Longrightarrow> among rows h \<Longrightarrow> trim_space task = trim_space (ph_intended h) \<Longrightarrow>
   owners_kept u rows (ds_handoff (fst (attach w u h task sp)))"
  unfolding among_def by (metis attach_owner prod.collapse)

interpretation retry: handoff_pass "retry_own w u st target draft" u rows "among rows"
    "\<lambda>h. held_elsewhere target draft h \<and> (\<forall>t \<in> set (pc_tasks st). trim_space (kt_id t) = kt_id t)"
  for w u st target draft rows
proof (unfold_locales, goal_cases)
  case (4 h sp)
  have "ph_intended h \<noteq> [] \<and> trim_space (ph_intended h) = ph_intended h" if "control_task st (ph_intended h) = Some t" for t
    using find_SomeD [OF that [unfolded control_task_def]] 4 by (metis held_elsewhere_def)
  then show ?case using 4 attach_pass(3) [OF 4(1), of "ph_intended h" w u sp]
    by (auto simp: retry_own_def held_elsewhere_def draft_matches_def failing_def split: option.splits if_splits)
qed (auto simp: retry_own_def Let_def failing_def attach_pass(1,2) attach_keeps split: option.split)

interpretation current: handoff_pass "promote_current w u target draft" u rows
    "\<lambda>h. among rows h \<and> (held_here target draft h \<longrightarrow> trim_space target = trim_space (ph_intended h))"
    "\<lambda>h. held_here target draft h \<and> trim_space target \<noteq> []"
  for w u target draft rows
proof (unfold_locales, goal_cases)
  case (4 h sp)
  then show ?case using attach_pass(3) [OF 4(1), of target w u sp]
    by (auto simp: promote_current_def held_here_def draft_matches_def split: option.splits)
qed (auto simp: promote_current_def attach_pass(1,2) held_here_def draft_matches_def attach_keeps split: option.splits)

section \<open>A submission and its handoffs\<close>

abbreviation pinned_db :: "string \<Rightarrow> string \<Rightarrow> string \<Rightarrow> string option \<Rightarrow> desk_store \<Rightarrow> handoff_db" where
  "pinned_db u terminal target draft s \<equiv> set_pending_intended_task u terminal target draft (ds_handoff s)"

lemma listed_pending:
  "h \<in> set (list_pending_handoffs u terminal db) \<longleftrightarrow>
     h \<in> set (ho_pending db) \<and> ph_username h = u \<and> ph_target_terminal h = trim_space terminal \<and> ph_promoted h = []"
  by (auto simp: list_pending_handoffs_def)

lemma pinned_among:
  assumes "desk_sound s" and "h \<in> set (list_pending_handoffs u terminal (pinned_db u terminal target draft s))"
  shows "among (ho_pending (pinned_db u terminal target draft s)) h"
proof -
  have "neat_inv (pinned_db u terminal target draft s)"
    using neat_handoffs.inv_step [of "ds_handoff s" "\<lambda>x. x" "SetIntended u terminal target draft"] assms(1) by (simp add: desk_sound_def)
  then show ?thesis using assms(2) distinct_ids unfolding among_def neat_inv_def listed_pending by blast
qed

lemma pinned_held_here:
  assumes "h \<in> set (list_pending_handoffs u terminal (pinned_db u terminal target draft s))" and "held_here target draft h"
  shows "trim_space target = trim_space (ph_intended h)"
proof (cases "ph_intended h = []")
  case True
  obtain g where g: "g \<in> set (ho_pending (ds_handoff s))"
    "h = (if pinnable u terminal draft g then g\<lparr>ph_intended := trim_space target\<rparr> else g)"
    using assms(1) unfolding listed_pending pending_updates update_where_def by (auto simp only: list.set_map image_iff)
  have "pinnable u terminal draft g"
    using g assms True by (auto simp: listed_pending pinnable_def held_here_def draft_matches_def split: if_splits)
  then show ?thesis using g True by simp
qed (use assms in \<open>simp add: held_here_def\<close>)

text \<open>The two passes, from the pinned rows to the answer.\<close>

lemma pin_and_promote_passes:
  assumes "pin_and_promote w u terminal target draft s = (s', p)" and "u \<noteq> []" and "terminal \<noteq> []" and "target \<noteq> []"
  shows "(s', p) = fold (promote_current w u target draft) (list_pending_handoffs u terminal (pinned_db u terminal target draft s))
     (fold (retry_own w u (bd_control (ds_board s)) target draft) (list_pending_handoffs u terminal (pinned_db u terminal target draft s))
       (store_change (set_pending_intended_task u terminal target draft) s, no_promotion))"
  using assms by (simp add: pin_and_promote_def promote_pending_def Let_def store_change_def)

lemma pin_and_promote_owners:
  assumes sound: "desk_sound s" and run: "pin_and_promote w u terminal target draft s = (s', p)"
  shows "owners_kept u (ho_pending (pinned_db u terminal target draft s)) (ds_handoff s')"
proof -
  let ?db = "pinned_db u terminal target draft s" and ?s1 = "store_change (set_pending_intended_task u terminal target draft) s"
  have start: "owners_kept u (ho_pending ?db) (ds_handoff ?s1)"
    by (simp add: owners_kept_def store_change_def promoted_row_def list_all2_refl)
  show ?thesis
  proof (cases "u = [] \<or> terminal = [] \<or> target = []")
    case True
    with run have "s' = ?s1" by (auto simp: pin_and_promote_def promote_pending_def)
    with start show ?thesis by simp
  next
    case False
    let ?hs = "list_pending_handoffs u terminal ?db"
    note passes = pin_and_promote_passes [OF run]
    have "owners_kept u (ho_pending ?db) (ds_handoff (fst (fold (promote_current w u target draft) ?hs
        (fold (retry_own w u (bd_control (ds_board s)) target draft) ?hs (?s1, no_promotion)))))"
      by (intro current.pass_owner retry.pass_owner ballI conjI impI) (auto intro: pinned_among [OF sound] pinned_held_here simp: start)
    then show ?thesis using passes False by (metis fst_conv)
  qed
qed

lemma owners_kept_waiting:
  assumes "owners_kept u rows db" and "h \<in> set (ho_pending db)" and "ph_promoted h = []"
  shows "h \<in> set rows"
proof -
  obtain g where g: "g \<in> set rows" "promoted_row u db g h"
    using assms(1,2) unfolding owners_kept_def by (metis in_set_conv_nth list_all2_conv_all_nth)
  then have "h = g" using assms(3) by (auto simp: promoted_row_def)
  with g show ?thesis by simp
qed

lemma pin_and_promote_settles:
  assumes sound: "desk_sound s" and run: "pin_and_promote w u terminal target draft s = (s', p)" and clean: "pm_failed p = 0"
    and texts: "u \<noteq> []" "terminal \<noteq> []" "target \<noteq> []" "trim_space target = target"
    and h: "h \<in> set (list_pending_handoffs u terminal (ds_handoff s'))"
  shows "ph_source_task h = [] \<or> (\<not> draft_matches draft h \<and> ph_intended h = [])"
proof (rule ccontr)
  assume neg: "\<not> ?thesis"
  let ?db = "pinned_db u terminal target draft s"
  let ?hs = "list_pending_handoffs u terminal ?db"
  let ?mid = "fold (retry_own w u (bd_control (ds_board s)) target draft) ?hs (store_change (set_pending_intended_task u terminal target draft) s, no_promotion)"
  note passes = pin_and_promote_passes [OF run texts(1-3)]
  have failed: "pm_failed (snd (fold (promote_current w u target draft) ?hs ?mid)) = pm_failed (snd ?mid)" "pm_failed (snd ?mid) = 0"
    using current.pass_failed [of ?mid w u target draft ?hs] clean passes [symmetric] by simp_all
  have hs: "h \<in> set ?hs" using h owners_kept_waiting [OF pin_and_promote_owners [OF sound run]] by (simp add: listed_pending)
  have neat: "neat h" using pinned_among [OF sound hs] by (simp add: among_def)
  have ids: "\<forall>t \<in> set (pc_tasks (bd_control (ds_board s))). trim_space (kt_id t) = kt_id t"
    using sound born_trim unfolding desk_sound_def desk_inv_def by blast
  have "settled_row u (ph_id h) (ds_handoff (fst (fold (promote_current w u target draft) ?hs ?mid)))"
  proof (cases "held_elsewhere target draft h")
    case True
    then show ?thesis using ids failed hs neat by (intro current.pass_settled retry.pass_settles) (simp_all add: no_promotion_def)
  next
    case False
    with neg have "held_here target draft h" by (auto simp: held_elsewhere_def held_here_def)
    then show ?thesis using texts failed hs neat by (intro current.pass_settles) simp_all
  qed
  then show False using h passes [symmetric] by (auto simp: settled_row_def listed_pending)
qed

end
