(* ===== verification/Handoff_Submission.thy ===== *)
theory Handoff_Submission
  imports Handoff_Promotion
begin

text \<open>
  A submission as a whole: the task it is for, the source of its text, and what its status
  says about the handoffs of the terminal.
\<close>

section \<open>The task of a goal\<close>

lemma created_id:
  assumes "create_task_in_state env req st = Inr (st', i)"
  shows "\<exists>n title. i = control_id_text (pc_clock st n) ''task'' title"
proof -
  define title where "title = trim_space (cq_title req)"
  obtain k st1 where k: "control_id ''task'' title st = (k, st1)" by fastforce
  then have "k = control_id_text (pc_clock st (pc_reads st)) ''task'' title" by (auto simp: control_id_def)
  moreover have "i = k" using assms
    unfolding create_task_in_state_def Let_def title_def [symmetric] k prod.case by (auto split: if_splits)
  ultimately show ?thesis by blast
qed

lemma control_id_solid: "named st \<Longrightarrow> i = control_id_text (pc_clock st n) ''task'' title \<Longrightarrow> i \<noteq> [] \<and> trim_space i = i"
  using control_id_shape [of "pc_clock st n" "''task''" title] control_id_trim by (auto simp: named_def)

lemma goal_task_id:
  assumes sound: "desk_sound s" and task: "goal_task env w live signature source draft s = (s', Inr i)"
  shows "i \<noteq> [] \<and> trim_space i = i"
proof -
  let ?st = "bd_control (ds_board s)"
  have named: "named ?st" using sound by (simp add: desk_sound_def desk_inv_def)
  define k where "k = handoff_target_task (en_user env) ?st (ds_handoff s) live signature"
  show ?thesis
  proof (cases "k = []")
    case False
    then obtain t j where "control_task ?st j = Some t" "k = kt_id t"
      unfolding k_def handoff_target_task_def Let_def by (auto split: option.splits if_splits)
    moreover have "i = k" using task False by (auto simp: goal_task_def k_def)
    ultimately show ?thesis using False born_trim [OF named] by (auto simp: control_task_def dest: find_SomeD)
  next
    case True
    define f where "f = (\<lambda>env. submit_goal env live (of_draft draft (list_pending_handoffs (en_user env) (lt_id live) (ds_handoff s))) source)"
    from task True obtain d where "control_call env f (ds_board s) = (d, Inr i)"
      by (auto simp: goal_task_def k_def [symmetric] f_def board_step_def refusal_def split: prod.splits sum.splits)
    then obtain st env' where "f env' ?st = Inr (st, i)"
      by (auto simp: control_call_def with_leases_def Let_def split: if_splits sum.splits)
    then obtain req st1 where "create_task_in_state env' req ?st = Inr (st1, i)"
      unfolding f_def submit_goal_def Let_def by auto
    then show ?thesis using created_id control_id_solid [OF named] by blast
  qed
qed

section \<open>The source of the submitted text\<close>

lemma recorded_pending:
  assumes "neat_inv db" and "record_pending_handoff now b u h0 db = (db', Inr p)"
  shows "ho_pending db' = ho_pending db \<or> (\<exists>h. ho_pending db' = ho_pending db @ [h] \<and> ph_id p = ph_id h \<and> ph_id h \<noteq> [])"
proof -
  define h where "h = (trim_pending (trim_space u) h0)\<lparr>ph_id := new_random_id ''pend'' b, ph_promoted := [], ph_created := format_time now\<rparr>"
  obtain rows c where r: "insert_ignore pending_keys h (ho_pending db) = (rows, c)" by fastforce
  let ?p = "active_pending (trim_space u) (ph_target_terminal h) (ph_copy_id h) (ph_draft_id h)"
  let ?found = "order_by_desc ph_created (filter ?p rows)"
  from assms(2) have db': "ho_pending db' = rows" and found: "?found \<noteq> []" "ph_id p = ph_id (hd ?found)"
    unfolding record_pending_handoff_def Let_def h_def [symmetric] r
    by (auto simp: h_def split: if_splits list.splits)
  show ?thesis
  proof (cases "rows = ho_pending db")
    case False
    then have ins: "insert_row pending_keys h (ho_pending db) = Some rows" using insert_ignore_cases [OF r] by blast
    then have rows: "rows = ho_pending db @ [h]" by (simp add: insert_row_Some_iff)
    have "unique_keys pending_keys rows" using insert_row_unique [OF _ ins] assms(1) by (simp add: neat_inv_def ho_inv_def)
    then have key: "unique_key (\<lambda>h. if ph_promoted h = [] then Some [ph_username h, ph_target_terminal h, ph_draft_id h, ph_copy_id h] else None) rows"
      by (rule unique_keysD) (simp add: pending_keys_def)
    have "hd ?found \<in> set rows" "?p (hd ?found)" using hd_in_set [OF found(1)] by (auto simp: order_by_desc_def)
    moreover have "h \<in> set rows" "ph_promoted h = []" "ph_username h = trim_space u" by (simp_all add: rows h_def trim_pending_def)
    ultimately have "hd ?found = h" using unique_key_eq [OF key, of "hd ?found" h] by (simp add: active_pending_def)
    then show ?thesis using db' rows found(2) by (auto simp: h_def new_random_id_def)
  qed (use db' in simp)
qed

lemma link_source_waiting:
  assumes sound: "desk_sound s" and link: "link_source w u target terminal found source draft s = (s', Inr i)"
    and texts: "trim_space u = u" "trim_space target = target" "target \<noteq> []"
    and h: "h \<in> set (list_pending_handoffs u k (ds_handoff s'))"
  shows "h \<in> set (list_pending_handoffs u k (ds_handoff s))"
proof (cases "found = None \<or> source = []")
  case True
  then have "s' = s" using link by (auto simp: link_source_def split: option.splits if_splits)
  with h show ?thesis by simp
next
  case False
  then obtain c where c: "found = Some c" "source \<noteq> []" by auto
  let ?db = "ds_handoff s"
  obtain db1 r where rec: "record_pending_handoff (hw_clock w (ds_drawn s)) (hw_random w (ds_drawn s)) u (copy_pending source terminal draft target c) ?db = (db1, r)"
    by fastforce
  with link c obtain p where p: "r = Inr p"
    unfolding link_source_def store_write_def by (auto split: sum.splits)
  obtain db2 q where ref: "add_source_ref (hw_clock w (Suc (ds_drawn s))) (hw_random w (Suc (ds_drawn s))) u (copy_ref target source terminal c) db1 = (db2, q)"
    by fastforce
  have db2: "ho_pending db2 = ho_pending db1" using pending_frames(2) ref by (metis fst_conv)
  from link c rec p ref have s': "ds_handoff s' = (if ph_id p = [] then db2 else mark_handoff_promoted u (ph_id p) target db2)"
    unfolding link_source_def store_write_def store_change_def by (auto split: sum.splits)
  have inv: "neat_inv ?db" using sound by (simp add: desk_sound_def)
  have "neat_inv db1" using neat_handoffs.inv_step [OF inv, of "\<lambda>x. x" "RecordPending (hw_clock w (ds_drawn s)) (hw_random w (ds_drawn s)) u (copy_pending source terminal draft target c)"] rec
    by simp
  then have neat: "\<forall>g \<in> set (ho_pending db1). neat g" by (simp add: neat_inv_def)
  have free: "ph_username h = u \<and> ph_target_terminal h = trim_space k \<and> ph_promoted h = []"
    and later: "h \<in> set (ho_pending (ds_handoff s'))" using h by (simp_all add: listed_pending)
  have rows: "h \<in> set (ho_pending db1) \<and> (ph_id p \<noteq> [] \<longrightarrow> ph_id h \<noteq> trim_space (ph_id p))"
  proof (cases "ph_id p = []")
    case True
    with later show ?thesis by (simp add: s' db2)
  next
    case False
    with later obtain a where a: "a \<in> set (ho_pending db1)"
      "h = (if ph_username a = u \<and> ph_id a = trim_space (ph_id p) \<and> ph_promoted a = [] then a\<lparr>ph_promoted := trim_space target\<rparr> else a)"
      unfolding s' if_not_P [OF False] pending_updates update_where_def db2 by (auto simp only: list.set_map image_iff)
    show ?thesis
    proof (cases "ph_username a = u \<and> ph_id a = trim_space (ph_id p) \<and> ph_promoted a = []")
      case True
      then have "ph_promoted h = target" using a(2) texts by simp
      then show ?thesis using free texts by simp
    next
      case False
      then have "h = a" using a(2) by (simp only: if_False)
      with False a(1) free show ?thesis by blast
    qed
  qed
  from recorded_pending [OF inv rec [unfolded p]] show ?thesis
  proof (elim disjE exE conjE)
    fix g assume g: "ho_pending db1 = ho_pending ?db @ [g]" "ph_id p = ph_id g" "ph_id g \<noteq> []"
    then have "trim_space (ph_id g) = ph_id g" using neat by (simp add: neat_def)
    then have "h \<noteq> g" using rows g by auto
    then show ?thesis using rows g(1) free by (simp add: listed_pending)
  qed (use rows free in \<open>simp add: listed_pending\<close>)
qed

section \<open>An answer without failures\<close>

lemma follow_goal_store: "follow_goal env w target terminal s = (s', r) \<Longrightarrow> ds_handoff s' = ds_handoff s"
  by (auto simp: follow_goal_def board_step_def split: prod.splits sum.splits option.splits)

lemma multi_status_clean: "multi_status p = 200 \<longleftrightarrow> pm_failed p = 0"
  by (simp add: multi_status_def)

lemma accept_goal_clean:
  assumes sound: "desk_sound s" and acc: "accept_goal env w terminal target found source draft s = (s', a)" and ok: "sb_status a = 200"
    and texts: "trim_space (en_user env) = en_user env" "en_user env \<noteq> []" "terminal \<noteq> []" "target \<noteq> []" "trim_space target = target"
    and h: "h \<in> set (list_pending_handoffs (en_user env) terminal (ds_handoff s'))"
  shows "ph_source_task h = [] \<or> draft \<noteq> [] \<and> ph_draft_id h \<noteq> draft \<and> ph_intended h = []"
proof -
  let ?u = "en_user env" and ?d = "if draft = [] then None else Some draft"
  obtain s1 p1 where pin: "pin_and_promote w ?u terminal target ?d s = (s1, p1)" by fastforce
  obtain s2 linked where link: "link_source w ?u target terminal found source draft s1 = (s2, linked)" by fastforce
  obtain s3 bound where follow: "follow_goal env w target terminal s2 = (s3, bound)" by fastforce
  from acc ok have ok': "is_ok linked" "pm_failed p1 = 0" "s' = s3"
    unfolding accept_goal_def Let_def pin link follow prod.case
    by (auto simp: multi_status_clean failing_def split: prod.splits sum.splits)
  then obtain i where i: "linked = Inr i" by (auto elim: is_okE)
  have "desk_sound s1" using path_sound [OF pin_and_promote_path [OF desk_path_refl] sound] pin by (metis fst_conv)
  moreover have "h \<in> set (list_pending_handoffs ?u terminal (ds_handoff s2))"
    using h ok'(3) follow_goal_store [OF follow] by simp
  ultimately have "h \<in> set (list_pending_handoffs ?u terminal (ds_handoff s1))"
    using link_source_waiting [OF _ link [unfolded i] texts(1,5,4)] by blast
  from pin_and_promote_settles [OF sound pin ok'(2) texts(2-5) this] show ?thesis
    by (auto simp: draft_matches_def split: if_splits)
qed

lemma submitted_source_path: "desk_path sha s s' \<Longrightarrow> desk_path sha s (fst (submitted_source env w found s'))"
  unfolding submitted_source_def by (intro path_steps source_of_copy_path)

text \<open>The steps of a submission up to the moment the goal is accepted.\<close>

lemma handle_submit_accepts:
  assumes "handle_submit env w terminal x draft s = (s', Inr (Some a))" and "desk_sound s"
  obtains target found source s3 where "trim_space terminal \<noteq> []" "trim_space (en_user env) \<noteq> []"
    "desk_sound s3" "target \<noteq> []" "trim_space target = target"
    "accept_goal env w (trim_space terminal) target found source draft s3 = (s', a)"
proof -
  obtain live where live: "handoff_terminal w terminal = Inr live"
    using assms(1) by (cases "handoff_terminal w terminal") (auto simp: handle_submit_def)
  obtain signature name where agent: "hw_agent w (lt_id live) = Some (signature, name)"
    using assms(1) live by (cases "hw_agent w (lt_id live)") (auto simp: handle_submit_def)
  define found where "found = pasted_copy w (en_user env) x (lt_id live) s"
  obtain s1 source where src: "submitted_source env w found s = (s1, source)" by fastforce
  obtain s2 r where goal: "goal_task env w live signature source draft s1 = (s2, r)" by fastforce
  then obtain target where target: "r = Inr target"
    using assms(1) live agent src by (cases r) (auto simp: handle_submit_def found_def Let_def)
  obtain s3 q where up: "store_write (\<lambda>now b. upsert_agent_execution now b (en_user env) (agent_execution_of (lt_id live) signature name target)) w s2 = (s3, q)"
    by fastforce
  then obtain e where e: "q = Inr e"
    using assms(1) live agent src goal target by (cases q) (auto simp: handle_submit_def found_def Let_def refusal_def)
  have acc: "accept_goal env w (lt_id live) target found source draft s3 = (s', a)"
    using assms(1) live agent src goal target up e by (auto simp: handle_submit_def found_def Let_def split: prod.splits)
  have sound1: "desk_sound s1" using path_sound [OF submitted_source_path [OF desk_path_refl] assms(2)] src by (metis fst_conv)
  have "desk_sound s2" using path_sound [OF goal_task_path [OF desk_path_refl] sound1] goal by (metis fst_conv)
  then have "desk_sound (fst (store_write (\<lambda>now b. upsert_agent_execution now b (en_user env) (agent_execution_of (lt_id live) signature name target)) w s2))"
    by (rule path_sound [rotated]) (intro store_write_path desk_path_refl ho_path_ops)
  then have "desk_sound s3" by (simp add: up)
  moreover have "trim_space (en_user env) \<noteq> []" using up e
    by (auto simp: store_write_def upsert_agent_execution_def Let_def split: prod.splits if_splits)
  moreover have "lt_id live = trim_space terminal \<and> lt_id live \<noteq> []" using live
    by (auto simp: handoff_terminal_def Let_def refusal_def dest: find_SomeD split: if_splits option.splits)
  moreover have "target \<noteq> [] \<and> trim_space target = target" by (rule goal_task_id [OF sound1 goal [unfolded target]])
  ultimately show thesis by (intro that [of s3 target found source]) (use acc in auto)
qed

section \<open>The answer to a paste\<close>

lemma source_of_copy_store: "source_of_copy env w c s = (s', source) \<Longrightarrow> ds_handoff s' = ds_handoff s"
  by (auto simp: source_of_copy_def board_step_def split: if_splits prod.splits)

lemma supplement_answer:
  assumes "supplement w u target c source terminal s = (s', r)"
  shows "ds_board s' = ds_board s \<and> ho_pending (ds_handoff s') = ho_pending (ds_handoff s) \<and>
     (case r of Inl e \<Rightarrow> ho_refs (ds_handoff s') = ho_refs (ds_handoff s) | Inr a \<Rightarrow> \<exists>i. a = Supplemented target source i)"
proof -
  obtain db q where add: "add_source_ref (hw_clock w (ds_drawn s)) (hw_random w (ds_drawn s)) u (copy_ref target source terminal c) (ds_handoff s) = (db, q)"
    by fastforce
  have "ho_pending db = ho_pending (ds_handoff s)" using pending_frames(2) add by (metis fst_conv)
  moreover have "ho_refs db = ho_refs (ds_handoff s)" if "q = Inl e" for e
    using add that by (auto simp: add_source_ref_def Let_def split: if_splits option.splits)
  ultimately show ?thesis using assms add
    by (cases q) (auto simp: supplement_def store_write_def refusal_def)
qed

lemma hold_paste_answer:
  assumes "hold_paste w u c source terminal draft s = (s', r)"
  shows "ds_board s' = ds_board s \<and> ho_refs (ds_handoff s') = ho_refs (ds_handoff s) \<and>
     (case r of Inl e \<Rightarrow> True | Inr a \<Rightarrow> a = Waiting source (trim_space (co_id c)))"
proof -
  obtain db q where rec: "record_pending_handoff (hw_clock w (ds_drawn s)) (hw_random w (ds_drawn s)) u
      (copy_pending source terminal (trim_space draft) [] c) (ds_handoff s) = (db, q)"
    by fastforce
  have "ho_refs db = ho_refs (ds_handoff s)"
    using rec by (auto simp: record_pending_handoff_def Let_def split: if_splits list.splits)
  moreover have "ph_copy_id h = trim_space (co_id c)" if "q = Inr h" for h
  proof -
    have active: "ph_copy_id g = k" if "order_by_desc ph_created (filter (active_pending v t k d) rows) = g # gs" for v t k d rows g gs
    proof -
      have "g \<in> set (order_by_desc ph_created (filter (active_pending v t k d) rows))" by (simp add: that)
      then show ?thesis by (auto simp: order_by_desc_def active_pending_def)
    qed
    show ?thesis using rec that
      by (auto simp: record_pending_handoff_def Let_def trim_pending_def copy_pending_def split: if_splits list.splits dest!: active)
  qed
  ultimately show ?thesis using assms rec
    by (cases q) (auto simp: hold_paste_def store_write_def refusal_def)
qed

lemma target_on_board:
  assumes "handoff_target_task u st db live signature = k" and "k \<noteq> []"
  shows "\<exists>t. control_task st k = Some t \<and> \<not> goal_finished t"
proof -
  obtain j t where j: "control_task st j = Some t" "\<not> goal_finished t" "k = kt_id t"
    using assms unfolding handoff_target_task_def Let_def by (auto split: option.splits if_splits)
  then have "kt_id t = j" by (auto simp: control_task_def dest: find_SomeD)
  with j show ?thesis by auto
qed

lemma pasted_copy_from:
  assumes "pasted_copy w u x terminal s = Some c"
  shows "c \<in> set (ho_copies (ds_handoff s)) \<and> co_username c = u \<and> co_terminal c \<noteq> trim_space terminal \<and>
     co_fingerprint c = fingerprint_text (hw_sha w) x"
proof -
  define found where "found = order_by co_created (filter (paste_candidate u (fingerprint_text (hw_sha w) x)
      (format_time (hw_clock w (ds_drawn s) - paste_lookback)) (trim_space terminal)) (ho_copies (ds_handoff s)))"
  have "found \<noteq> [] \<and> c = last found" using assms
    unfolding pasted_copy_def match_terminal_paste_def Let_def found_def [symmetric] by (auto split: if_splits)
  then have "c \<in> set found" using last_in_set by blast
  then show ?thesis unfolding found_def by (simp add: paste_candidate_def)
qed

lemma matched_paste:
  assumes nonblank: "trim_space x \<noteq> []" and live: "handoff_terminal w terminal = Inr live"
    and match: "pasted_copy w (en_user env) x (lt_id live) s = Some c"
    and run: "handle_paste env w terminal x draft s = (s', r)"
  shows "case r of
     Inl e \<Rightarrow> ho_refs (ds_handoff s') = ho_refs (ds_handoff s)
   | Inr Unmatched \<Rightarrow> False
   | Inr (Waiting source copy) \<Rightarrow> ho_refs (ds_handoff s') = ho_refs (ds_handoff s) \<and>
       control_task (bd_control (ds_board s')) source \<noteq> None \<and> copy = trim_space (co_id c)
   | Inr (Supplemented target source i) \<Rightarrow> draft = [] \<and> ho_pending (ds_handoff s') = ho_pending (ds_handoff s) \<and>
       control_task (bd_control (ds_board s')) source \<noteq> None \<and>
       (\<exists>t. control_task (bd_control (ds_board s')) target = Some t \<and> \<not> goal_finished t)"
proof -
  obtain s1 source where src: "source_of_copy env w c s = (s1, source)" by fastforce
  note same = source_of_copy_store [OF src]
  show ?thesis
  proof (cases "source = [] \<or> control_task (bd_control (ds_board s1)) source = None")
    case True
    then show ?thesis using run nonblank live match src same by (auto simp: handle_paste_def refusal_def split: if_splits)
  next
    case ok: False
    define target where "target = (if draft \<noteq> [] then [] else case hw_agent w (lt_id live) of None \<Rightarrow> []
           | Some (signature, name) \<Rightarrow> handoff_target_task (en_user env) (bd_control (ds_board s1)) (ds_handoff s1) live signature)"
    have some: "source \<noteq> []" "(control_task (bd_control (ds_board s1)) source = None) = False" using ok by auto
    have run': "(s', r) = (if target \<noteq> [] then supplement w (en_user env) target c source (lt_id live) s1
         else hold_paste w (en_user env) c source (lt_id live) draft s1)"
      unfolding run [symmetric] handle_paste_def Let_def live match src prod.case sum.case option.case target_def [symmetric]
      by (simp only: nonblank some if_False)
    show ?thesis
    proof (cases "target = []")
      case True
      with run' have "hold_paste w (en_user env) c source (lt_id live) draft s1 = (s', r)" by simp
      from hold_paste_answer [OF this] show ?thesis using same ok by (cases r) auto
    next
      case t: False
      then have "draft = []" "\<exists>t. control_task (bd_control (ds_board s1)) target = Some t \<and> \<not> goal_finished t"
        using target_on_board unfolding target_def by (auto split: if_splits option.splits)
      moreover from t run' have "supplement w (en_user env) target c source (lt_id live) s1 = (s', r)" by simp
      from supplement_answer [OF this] have "ds_board s' = ds_board s1 \<and> ho_pending (ds_handoff s') = ho_pending (ds_handoff s1) \<and>
        (case r of Inl e \<Rightarrow> ho_refs (ds_handoff s') = ho_refs (ds_handoff s1) | Inr a \<Rightarrow> \<exists>i. a = Supplemented target source i)" .
      ultimately show ?thesis using same ok by (cases r) auto
    qed
  qed
qed

end
