(* ===== verification/Handoff_Desk_Properties.thy ===== *)
theory Handoff_Desk_Properties
  imports Handoff_Submission Control_Sample Handoff_Properties
begin

text \<open>
  What the requests of the terminal page guarantee: they keep to the board and the store, a
  paste invents no source, a promotion changes no owner, and a clean answer hides nothing.
\<close>

section \<open>A sample\<close>

text \<open>An agent in a terminal that belongs to the task of the sample board, and two handoffs that wait there.\<close>

definition hand_world :: handoff_world where
  "hand_world = \<lparr>hw_sha = demo_sha, hw_clock = int, hw_random = (\<lambda>n. replicate (Suc n) CHR ''x''),
     hw_lives = Some [\<lparr>lt_id = ''T'', lt_task = sample_task, lt_project = sample_project\<rparr>],
     hw_agent = (\<lambda>_. Some (''42:9'', ''codex'')), hw_bind = (\<lambda>_ _ _. Inr ())\<rparr>"

definition hand_pending :: "string \<Rightarrow> string \<Rightarrow> pending_handoff" where
  "hand_pending copy draft =
     \<lparr>ph_id = [], ph_username = [], ph_source_task = ''task-s'', ph_source_terminal = ''S'', ph_target_terminal = ''T'', ph_fingerprint = ''f'',
      ph_snapshot = ''x'', ph_copy_id = copy, ph_draft_id = draft, ph_intended = [], ph_promoted = [], ph_created = []\<rparr>"

definition hand_ops :: "ho_op list" where
  "hand_ops = [RecordPending 5 ''p'' ''ann'' (hand_pending ''c1'' ''d''), RecordPending 6 ''q'' ''ann'' (hand_pending ''c2'' ''e'')]"

definition hand_store :: "board \<Rightarrow> desk_store" where
  "hand_store b = \<lparr>ds_board = b, ds_handoff = ho_run demo_sha hand_ops, ds_drawn = 0\<rparr>"

lemma hand_store_handoff: "ds_handoff (hand_store b) = ho_run demo_sha hand_ops"
  by (simp add: hand_store_def)

lemma hand_store_sound: "desk_sound (hand_store (desk_of board_3))"
proof -
  have "neat_inv (ho_run demo_sha hand_ops)"
    unfolding ho_run_def by (rule neat_handoffs.run_inv) (simp add: neat_inv_def ho_inv_def empty_handoffs_def)
  then show ?thesis using desk_run_inv [OF desk_clock_ticking, of desk_env "desk_history 3"]
    by (simp add: desk_sound_def hand_store_def sample_history)
qed

lemma hand_pins:
  "pm_failed (snd (pin_and_promote hand_world ''ann'' ''T'' sample_task (Some ''d'') (hand_store b))) = 0"
  "map (\<lambda>h. (ph_draft_id h, ph_promoted h)) (ho_pending (ds_handoff (fst (pin_and_promote hand_world ''ann'' ''T'' sample_task (Some ''d'') (hand_store b)))))
     = [(''d'', sample_task), (''e'', [])]"
  by code_simp+

definition hand_live :: live_terminal where
  "hand_live = \<lparr>lt_id = ''T'', lt_task = sample_task, lt_project = sample_project\<rparr>"

definition hand_accepted :: "board \<Rightarrow> desk_store" where
  "hand_accepted b = fst (store_write (\<lambda>now bytes. upsert_agent_execution now bytes ''ann'' (agent_execution_of ''T'' ''42:9'' ''codex'' sample_task)) hand_world (hand_store b))"

lemma hand_steps:
  "handoff_terminal hand_world ''T'' = Inr hand_live" "hw_agent hand_world ''T'' = Some (''42:9'', ''codex'')" "lt_id hand_live = ''T''"
  "pasted_copy hand_world ''ann'' ''goal'' ''T'' (hand_store b) = None"
  "is_ok (snd (store_write (\<lambda>now bytes. upsert_agent_execution now bytes ''ann'' (agent_execution_of ''T'' ''42:9'' ''codex'' sample_task)) hand_world (hand_store b)))"
  "pm_failed (snd (pin_and_promote hand_world ''ann'' ''T'' sample_task (Some ''d'') (hand_accepted b))) = 0"
  "map ph_draft_id (list_pending_handoffs ''ann'' ''T'' (ds_handoff (fst (pin_and_promote hand_world ''ann'' ''T'' sample_task (Some ''d'') (hand_accepted b))))) = [''e'']"
  by code_simp+

lemma hand_target: "handoff_target_task ''ann'' board_3 (ho_run demo_sha hand_ops) hand_live ''42:9'' = sample_task"
proof -
  have "pc_tasks board_3 = [board_task]" by (simp add: board_3_def created_def)
  moreover have "agent_execution_by_sig ''ann'' ''T'' ''42:9'' (ho_run demo_sha hand_ops) = None" by code_simp
  moreover have "goal_finished board_task = False" "kt_sessions board_task = []" "kt_id board_task = sample_task"
    by (simp_all add: goal_finished_def board_task_def)
  ultimately show ?thesis
    by (simp add: handoff_target_task_def task_for_terminal_def hand_live_def control_task_def Let_def)
qed

lemma follow_goal_bound:
  assumes "trim_space (en_user env) \<noteq> []" and "hw_bind w = (\<lambda>_ _ _. Inr ())"
  shows "\<exists>s'. follow_goal env w target terminal s = (s', Inr ())"
  using assms by (auto simp: follow_goal_def board_step_def control_call_def with_leases_def Let_def split: option.split)

lemma hand_bind: "hw_bind hand_world = (\<lambda>_ _ _. Inr ())"
  by (simp add: hand_world_def)

lemma hand_submission:
  "\<exists>s' a. handle_submit desk_env hand_world ''T'' ''goal'' ''d'' (hand_store (desk_of board_3)) = (s', Inr (Some a)) \<and> sb_status a = 200 \<and>
     map ph_draft_id (list_pending_handoffs ''ann'' ''T'' (ds_handoff s')) = [''e'']"
proof -
  let ?s = "hand_store (desk_of board_3)"
  have u: "en_user desk_env = ''ann''" by (simp add: desk_env_def)
  obtain s4 p where pin: "pin_and_promote hand_world ''ann'' ''T'' sample_task (Some ''d'') (hand_accepted (desk_of board_3)) = (s4, p)" by fastforce
  obtain s5 where follow: "follow_goal desk_env hand_world sample_task ''T'' s4 = (s5, Inr ())"
    using follow_goal_bound [OF sample_manual(3) hand_bind, of sample_task "''T''" s4] by auto
  obtain e where up: "store_write (\<lambda>now bytes. upsert_agent_execution now bytes ''ann'' (agent_execution_of ''T'' ''42:9'' ''codex'' sample_task)) hand_world ?s
      = (hand_accepted (desk_of board_3), Inr e)"
    using hand_steps(5) [of "desk_of board_3"] unfolding hand_accepted_def by (metis is_okE prod.collapse)
  have goal: "goal_task desk_env hand_world hand_live ''42:9'' [] ''d'' ?s = (?s, Inr sample_task)"
    using hand_target by (simp add: goal_task_def u hand_store_def desk_of_def)
  have p: "pm_failed p = 0" using hand_steps(6) [of "desk_of board_3"] by (simp add: pin)
  have link: "link_source hand_world ''ann'' sample_task ''T'' None [] ''d'' s4 = (s4, Inr [])" by (simp add: link_source_def)
  have acc: "accept_goal desk_env hand_world ''T'' sample_task None [] ''d'' (hand_accepted (desk_of board_3)) =
      (s5, \<lparr>sb_status = 200, sb_task = sample_task, sb_promotion = p, sb_link = None\<rparr>)"
    using p by (simp add: accept_goal_def u pin link follow multi_status_def)
  have "handle_submit desk_env hand_world ''T'' ''goal'' ''d'' ?s = (s5, Inr (Some \<lparr>sb_status = 200, sb_task = sample_task, sb_promotion = p, sb_link = None\<rparr>))"
    by (simp add: handle_submit_def hand_steps(1-4) u submitted_source_def goal up acc Let_def)
  moreover have "map ph_draft_id (list_pending_handoffs ''ann'' ''T'' (ds_handoff s5)) = [''e'']"
    using hand_steps(7) [of "desk_of board_3"] follow_goal_store [OF follow] by (simp add: pin)
  ultimately show ?thesis by simp
qed

section \<open>Requests and their steps\<close>



section \<open>Pastes\<close>


section \<open>Promotion\<close>

text \<open>
  C28. A promotion changes no owner: whatever handoffs wait at the terminal, each row is afterwards
  as it was when the submission pinned its own, or it is promoted to the very task it is pinned
  to, and the user's reviews reference from that task to the source of the handoff is stored.
\<close>

theorem promotion_keeps_owners:
  assumes "desk_sound s" and "pin_and_promote w u terminal target draft s = (s', p)"
  shows "list_all2 (\<lambda>h h'. h' = h \<or>
      (ph_promoted h = [] \<and> h' = h\<lparr>ph_promoted := trim_space (ph_intended h)\<rparr> \<and>
        (\<exists>r \<in> set (ho_refs (ds_handoff s')). sr_username r = u \<and> sr_target r = trim_space (ph_intended h) \<and>
           sr_source r = ph_source_task h \<and> sr_relation r = ''reviews'')))
    (ho_pending (set_pending_intended_task u terminal target draft (ds_handoff s))) (ho_pending (ds_handoff s'))"
  using pin_and_promote_owners [OF assms] unfolding owners_kept_def promoted_row_def linked_def .

theorem promotion_keeps_owners_witness:
  "\<exists>h h' r. ho_pending (set_pending_intended_task ''ann'' ''T'' sample_task (Some ''d'') (ho_run demo_sha hand_ops)) ! 0 = h \<and>
     ho_pending (ds_handoff (fst (pin_and_promote hand_world ''ann'' ''T'' sample_task (Some ''d'') (hand_store (desk_of board_3))))) ! 0 = h' \<and>
     ph_promoted h' = sample_task \<and> ph_promoted h = [] \<and>
     r \<in> set (ho_refs (ds_handoff (fst (pin_and_promote hand_world ''ann'' ''T'' sample_task (Some ''d'') (hand_store (desk_of board_3)))))) \<and>
     sr_source r = ph_source_task h"
proof -
  obtain s' p where pin: "pin_and_promote hand_world ''ann'' ''T'' sample_task (Some ''d'') (hand_store (desk_of board_3)) = (s', p)" by fastforce
  let ?hs = "ho_pending (set_pending_intended_task ''ann'' ''T'' sample_task (Some ''d'') (ho_run demo_sha hand_ops))"
  have two: "length ?hs = 2" "ph_promoted (?hs ! 0) = []" by code_simp+
  have rows: "map (\<lambda>h. (ph_draft_id h, ph_promoted h)) (ho_pending (ds_handoff s')) = [(''d'', sample_task), (''e'', [])]"
    using hand_pins(2) [of "desk_of board_3"] by (simp add: pin)
  then have new: "ph_promoted (ho_pending (ds_handoff s') ! 0) = sample_task" by (auto simp: map_eq_Cons_conv)
  from promotion_keeps_owners [OF hand_store_sound pin] two new show ?thesis
    by (auto simp: pin hand_store_handoff list_all2_conv_all_nth dest!: spec [of _ 0])
qed

text \<open>
  C29. A submission that is answered with status 200 leaves no handoff behind: what still waits
  at the terminal has no source task, or belongs to another draft and to no task yet.
\<close>

theorem clean_submission_settles:
  assumes "desk_sound s" and "trim_space (en_user env) = en_user env"
    and "handle_submit env w terminal x draft s = (s', Inr (Some a))" and "sb_status a = 200"
  shows "\<forall>h \<in> set (list_pending_handoffs (en_user env) terminal (ds_handoff s')).
     ph_source_task h = [] \<or> draft \<noteq> [] \<and> ph_draft_id h \<noteq> draft \<and> ph_intended h = []"
  using assms(3,1)
proof (cases rule: handle_submit_accepts)
  case (1 target found source s3)
  have "list_pending_handoffs (en_user env) terminal db = list_pending_handoffs (en_user env) (trim_space terminal) db" for db
    by (simp add: list_pending_handoffs_def)
  then show ?thesis using accept_goal_clean [OF 1(3,6) assms(4,2)] 1 assms(2) by auto
qed

theorem clean_submission_settles_witness:
  "\<exists>s' a h. handle_submit desk_env hand_world ''T'' ''goal'' ''d'' (hand_store (desk_of board_3)) = (s', Inr (Some a)) \<and> sb_status a = 200 \<and>
     list_pending_handoffs ''ann'' ''T'' (ds_handoff s') = [h] \<and> (ph_source_task h = [] \<or> ph_draft_id h \<noteq> ''d'' \<and> ph_intended h = [])"
proof -
  have u: "en_user desk_env = ''ann''" by (simp add: desk_env_def)
  have user: "trim_space (en_user desk_env) = en_user desk_env" unfolding u by code_simp
  obtain s' a where run: "handle_submit desk_env hand_world ''T'' ''goal'' ''d'' (hand_store (desk_of board_3)) = (s', Inr (Some a))"
    "sb_status a = 200" and left: "map ph_draft_id (list_pending_handoffs ''ann'' ''T'' (ds_handoff s')) = [''e'']"
    using hand_submission by (elim exE conjE) (rule that)
  from left obtain h where h: "list_pending_handoffs ''ann'' ''T'' (ds_handoff s') = [h]" by (cases "list_pending_handoffs ''ann'' ''T'' (ds_handoff s')") auto
  with clean_submission_settles [OF hand_store_sound user run] run show ?thesis by (auto simp: u)
qed

end
