(* ===== verification/Spec2Isabelle.thy ===== *)
theory Spec2Isabelle
  imports Gateway_Calls Gateway_Bulk Claim_Properties Progress_Properties Handoff_Properties
    Osc_Properties Auth_Properties Session_Properties Telegram_Properties Agent_Process
    Control_Properties Control_Guards Control_Pausing Control_History
    Handoff_Desk_Properties
begin

text \<open>
  A verification library for RoamBench, a server that lets one or more users run terminals
  and coding agents from a browser and decide what the agents may do.

  \<^bold>\<open>The program and its parts.\<close> The HTTP server (\<open>src/internal/server\<close>) is the hub. It signs
  users in (\<open>src/internal/auth\<close>), keeps their terminal sessions (\<open>src/internal/terminal\<close>),
  keeps for each user a state of projects, workstreams, tasks, checkpoints and decisions
  (project control, \<open>src/internal/server/project_*.go\<close>), and stores in an SQLite database what
  agents and humans exchange (\<open>src/internal/controlplane\<close>): interactions that wait for an
  answer, leases of tasks, progress feeds and handoffs between terminals. Notifications of
  programs in a terminal go out to Telegram and replies come back as typing
  (\<open>src/internal/telegram\<close>).

  \<^bold>\<open>Common ground.\<close> \<open>Prelude\<close> holds results as sums (\<open>Inl\<close> an error), named fact collections
  and lemmas on lists and maps. \<open>Go_Text\<close>, \<open>Go_Time\<close>, \<open>Go_Path\<close> and \<open>Go_Parse_Time\<close> define the
  functions of the Go library the code calls on texts (bytes), instants and their texts,
  paths. \<open>Expiring\<close> is the interface of maps whose entries lapse, \<open>Sql_Table\<close> the
  statements on a table: conditional updates, inserts under unique keys, ordered selects.

  \<^bold>\<open>The interaction gateway\<close> (\<open>repository.go\<close>, \<open>projection.go\<close>, \<open>risk.go\<close>). \<open>Cp_Types\<close> has the rows,
  \<open>Interactions\<close> the operations: create, respond, cancel, expire, end of a session, the two
  listings and the task projections. A transaction is a function from the database to a
  result; an error keeps the database. Randomness, hashes and the JSON normal form are
  parameters; an operation consumes the head of a stream of random identifiers.
  \<open>Interaction_Invariant\<close> gives the invariant of the tables, \<open>Interaction_History\<close> what stays
  true over runs, and \<open>Gateway_Properties\<close>, \<open>Gateway_Calls\<close>, \<open>Gateway_Progress\<close> and
  \<open>Gateway_Bulk\<close> the properties of single calls and of runs.

  \<^bold>\<open>Leases, progress, handoffs\<close> (\<open>claims.go\<close>, \<open>progress.go\<close>, \<open>handoff.go\<close>). \<open>Task_Claims\<close> with
  \<open>Claim_Facts\<close> and \<open>Claim_Properties\<close>; \<open>Task_Progress\<close> with its refinement of a map of events in
  \<open>Progress_Properties\<close>; \<open>Handoff\<close> with \<open>Handoff_Facts\<close> and \<open>Handoff_Properties\<close>. Each has a type
  of operations, a step and a run, an invariant of every reachable table, and the effect of
  each operation on exactly the rows it names.

  \<^bold>\<open>Terminals.\<close> \<open>Osc\<close> is the byte scanner of \<open>osc.go\<close> and the read loop that feeds it, a
  function of the chunks read; \<open>Osc_Properties\<close> proves it independent of chunking.
  \<open>Session_Store\<close>, \<open>Session_Manager\<close>, \<open>Session_Status\<close> model \<open>manager.go\<close> and \<open>status.go\<close>: the session
  table, its files with the write-ahead file, and what users call; \<open>Session_Properties\<close> has
  crash recovery, isolation and limits. \<open>Agent_Process\<close> is the walk of \<open>agent_process.go\<close> over a
  process table.

  \<^bold>\<open>Sign-in\<close> (\<open>session.go\<close>, \<open>auth.go\<close>, \<open>middleware.go\<close>, the login handlers). \<open>Auth\<close> has the two
  expiring maps and the handlers; \<open>Auth_Properties\<close> refines them to a service that keeps the
  full history. \<^bold>\<open>Telegram.\<close> \<open>Telegram\<close> and \<open>Telegram_Properties\<close>.

  \<^bold>\<open>Project control.\<close> \<open>Control_Types\<close> has one record per stored struct, normal forms of
  texts, identifiers stamped by a clock and the event log. \<open>Control_Rules\<close> has the rules that
  read no store (transitions, runbooks, evidence), \<open>Control_Contract\<close> dependencies, milestones,
  leases and life cycle, \<open>Control_Phases\<close> and \<open>Control_Tools\<close> the runbook engine,
  \<open>Control_Checkpoints\<close> the gates a human decides, \<open>Control_Store\<close> the requests of the user,
  \<open>Control_Takeover\<close> handing a project to agents and pausing it, \<open>Control_Memory\<close> the normal form
  and the cut of the history before a state is saved, \<open>Control_Tool_Runs\<close> the tool runs, scheduled
  tools and health checks, \<open>Control_Agents\<close> and \<open>Control_Agent_Work\<close> what agent runtimes call: claims,
  heartbeats, releases with their validation, evidence, requests for a human, registration of
  terminals. \<open>Control_Load\<close> has the state files: the writes of a save, which file a load takes, and
  what a load does to the state. A call is a function of an environment (user, time, lease
  table, directories, terminals, fingerprints of files) and the board (state of project
  control, tables of leases and progress, running acceptances); an error leaves the stored
  state.

  \<^bold>\<open>The board as a machine.\<close> \<open>Control_Moves\<close> is an abstract specification: six kinds of moves of
  tasks, checkpoints and decisions. \<open>Control_Gate_Facts\<close>, \<open>Control_Frames\<close>, \<open>Control_Settle\<close>,
  \<open>Control_Updates\<close>, \<open>Control_Decides\<close>, \<open>Control_Edits\<close>, \<open>Control_Work_Moves\<close> and
  \<open>Control_Board_Moves\<close> show operation by operation that the code makes such moves only, and
  \<open>Control_Machine\<close> that every sequence of calls of users, agents and the server does.
  \<open>Control_Ids\<close>, \<open>Control_Invariants\<close> and \<open>Control_Order\<close> show the invariants on moves, so that they
  hold on every board reached from the empty one, when the clock that stamps identifiers
  never shows the same twice (the code takes the time in nanoseconds): unique identifiers,
  acceptance by recorded human decisions, unique gates, dependencies without cycles.
  \<open>Control_Properties\<close> states them, with the permanence of records and the durability of saves;
  \<open>Control_Guards\<close> the exact effect of approvals, the check of contracts, lost updates and
  leases; \<open>Control_Pausing\<close> and \<open>Control_History\<close> what a pause stops and what a save retains.
  \<open>Control_Sample\<close> evaluates a short history of a board to which these theorems are applied.

  \<^bold>\<open>Requests of the terminal page\<close> (\<open>terminal_handoff.go\<close>, \<open>agent_register_task.go\<close>) run over the
  board and the handoff store in turn. \<open>Handoff_Requests\<close> has their steps (a terminal becomes a
  task, a submitted goal becomes one, waiting handoffs are promoted), \<open>Handoff_Desk\<close> the
  handlers with their guards, refusals and answers, and the run of requests with other board
  calls between them. \<open>Handoff_Desk_Facts\<close> shows that they make moves of the board and operations
  of the store only, \<open>Handoff_Promotion\<close> (the interface of a pass over the waiting handoffs) and
  \<open>Handoff_Submission\<close> what a submission does; \<open>Handoff_Desk_Properties\<close> states it. Live terminals,
  the signature of an agent, times and random texts are given with each request.

  \<^bold>\<open>Bounds and termination.\<close> No definition needs fuel: the recursions are structural or end
  by a measure (the search of dependencies by the tasks not on its path, the marking of
  dependents by the tasks not yet marked, the process walk by the processes not yet seen).
  Times of the gateway, the claims and sign-in are instants with nanoseconds, ordered as
  numbers, and their stored texts are defined where the code compares texts. Lengths and
  counters are unbounded integers where the code's 64-bit ones cannot be reached by data of
  real size, and wrap explicitly in the text functions that parse numbers.

  \<^bold>\<open>Not modelled.\<close> Everything whose content is a system call or a protocol of another
  program: the SQLite driver and its schema, files and their locking below the level of
  complete writes, tmux and pseudo terminals, process listing, HTTP and JSON encoding, the
  Telegram client, the browser application. Of project control: the HTTP handlers and the
  documents they build for the browser, the projection between
  gateway interactions and checkpoints (with a gateway, checkpoints and decisions are kept in
  its tables and the state files hold the rest; the model keeps them in the state), the shared project memory, running the commands of
  tools and of acceptance (the outcome is an argument of the call that follows) and stopping
  them. Of the program: configuration and process start, the file browser, the agent and
  worker binaries, the import of legacy documents.
\<close>

end
